(* ===== verification/Prelude.thy ===== *)
theory Prelude
  imports Main "HOL-Library.AList" "HOL-Library.Char_ord" "HOL-Library.List_Lexorder"
begin

text \<open>
  Shared vocabulary of the development: Python exceptions as values, the
  exception monad on sums, insertion-ordered dictionaries as association lists,
  and the string methods of Python's standard library that the sources call.

  A Python \<open>str\<close> is a \<^typ>\<open>string\<close> whose characters are the code points
  0 to 255; everything the suite itself writes or compares lies in that range.
\<close>

named_theorems err_simps
named_theorems str_simps

section \<open>Exceptions\<close>

text \<open>
  The exception classes the sources raise or catch, each with its bases in
  method resolution order. \<open>str(error)\<close> is the message.
\<close>

datatype exn_class = ExceptionBase | ValueError | ValidationError | CatalogueError
  | JSONDecodeError | KeyError | TypeError | OverflowError | AssertionError | RuntimeError
  | IndexError | OSError | FileNotFoundError | FileExistsError | SubprocessError | ContractFailure | DiagnosticFailure
  | PrerequisiteError | UnsupportedCapability | SystemExit

datatype exn = Exn (exn_class: exn_class) (exn_msg: string)

fun mro :: "exn_class \<Rightarrow> exn_class list" where
  "mro ValidationError = [ValidationError, ValueError, ExceptionBase]"
| "mro CatalogueError = [CatalogueError, ValueError, ExceptionBase]"
| "mro JSONDecodeError = [JSONDecodeError, ValueError, ExceptionBase]"
| "mro FileNotFoundError = [FileNotFoundError, OSError, ExceptionBase]"
| "mro FileExistsError = [FileExistsError, OSError, ExceptionBase]"
| "mro DiagnosticFailure = [DiagnosticFailure, ContractFailure, ExceptionBase]"
| "mro ExceptionBase = [ExceptionBase]"
| "mro SystemExit = [SystemExit]"
| "mro c = [c, ExceptionBase]"

definition instance_of :: "exn \<Rightarrow> exn_class \<Rightarrow> bool" where
  "instance_of e c = (c \<in> set (mro (exn_class e)))"

definition instance_of_any :: "exn \<Rightarrow> exn_class list \<Rightarrow> bool" where
  "instance_of_any e cs = (\<exists>c\<in>set cs. instance_of e c)"

section \<open>The exception monad\<close>

type_synonym 'a result = "exn + 'a"

definition raise :: "exn_class \<Rightarrow> string \<Rightarrow> 'a result" where
  "raise c m = Inl (Exn c m)"

definition bindE :: "'a result \<Rightarrow> ('a \<Rightarrow> 'b result) \<Rightarrow> 'b result" where
  "bindE m f = (case m of Inl e \<Rightarrow> Inl e | Inr x \<Rightarrow> f x)"

definition guardE :: "bool \<Rightarrow> exn_class \<Rightarrow> string \<Rightarrow> unit result" where
  "guardE ok c m = (if ok then Inr () else raise c m)"

fun mapE :: "('a \<Rightarrow> 'b result) \<Rightarrow> 'a list \<Rightarrow> 'b list result" where
  "mapE f [] = Inr []"
| "mapE f (x # xs) = bindE (f x) (\<lambda>y. bindE (mapE f xs) (\<lambda>ys. Inr (y # ys)))"

definition forE :: "'a list \<Rightarrow> ('a \<Rightarrow> unit result) \<Rightarrow> unit result" where
  "forE xs f = bindE (mapE f xs) (\<lambda>_. Inr ())"

fun foldE :: "('s \<Rightarrow> 'a \<Rightarrow> 's result) \<Rightarrow> 's \<Rightarrow> 'a list \<Rightarrow> 's result" where
  "foldE f s [] = Inr s"
| "foldE f s (x # xs) = bindE (f s x) (\<lambda>s'. foldE f s' xs)"

text \<open>\<open>enumerate\<close>: the elements with their indices.\<close>

definition enumerate_list :: "'a list \<Rightarrow> (nat \<times> 'a) list" where
  "enumerate_list xs = zip [0..<length xs] xs"

lemma bindE_simps [simp]:
  "bindE (Inl e) f = Inl e"
  "bindE (Inr x) f = f x"
  by (simp_all add: bindE_def)

lemma raise_neq [simp]: "raise c m \<noteq> Inr x" "Inr x \<noteq> raise c m"
  by (simp_all add: raise_def)

lemma bindE_raise [simp]: "bindE (raise c m) f = raise c m"
  by (simp add: raise_def)

lemma bindE_Inr_iff [err_simps]: "bindE m f = Inr y \<longleftrightarrow> (\<exists>x. m = Inr x \<and> f x = Inr y)"
  by (cases m) auto

lemma bindE_Inl_iff: "bindE m f = Inl e \<longleftrightarrow> m = Inl e \<or> (\<exists>x. m = Inr x \<and> f x = Inl e)"
  by (cases m) auto

lemma bindE_assoc: "bindE (bindE m f) g = bindE m (\<lambda>x. bindE (f x) g)"
  by (cases m) auto

lemma bindE_return [simp]: "bindE m Inr = m"
  by (cases m) auto

lemma guardE_Inr [err_simps]: "guardE ok c m = Inr u \<longleftrightarrow> ok"
  by (simp add: guardE_def)

lemma guardE_Inl: "guardE ok c m = Inl e \<longleftrightarrow> \<not> ok \<and> e = Exn c m"
  by (auto simp: guardE_def raise_def)

lemma bindE_cong [fundef_cong]:
  "m = m' \<Longrightarrow> (\<And>x. m' = Inr x \<Longrightarrow> f x = g x) \<Longrightarrow> bindE m f = bindE m' g"
  by (cases m') auto

lemma mapE_cong [fundef_cong]:
  "xs = ys \<Longrightarrow> (\<And>x. x \<in> set ys \<Longrightarrow> f x = g x) \<Longrightarrow> mapE f xs = mapE g ys"
proof (induction ys arbitrary: xs)
  case (Cons y ys)
  then have "mapE f ys = mapE g ys" by (metis list.set_intros(2))
  with Cons.prems show ?case by simp
qed simp

lemma forE_cong [fundef_cong]:
  "xs = ys \<Longrightarrow> (\<And>x. x \<in> set ys \<Longrightarrow> f x = g x) \<Longrightarrow> forE xs f = forE ys g"
  unfolding forE_def by (metis mapE_cong)

lemma mapE_Inr_iff: "mapE f xs = Inr ys \<longleftrightarrow> list_all2 (\<lambda>x y. f x = Inr y) xs ys"
proof (induction xs arbitrary: ys)
  case Nil
  show ?case by auto
next
  case (Cons x xs)
  then show ?case by (auto simp: err_simps list_all2_Cons1)
qed

lemma mapE_length: "mapE f xs = Inr ys \<Longrightarrow> length ys = length xs"
  by (metis list_all2_lengthD mapE_Inr_iff)

lemma mapE_Inr_ex: "(\<exists>ys. mapE f xs = Inr ys) \<longleftrightarrow> (\<forall>x\<in>set xs. \<exists>y. f x = Inr y)"
  by (induction xs) (auto simp: err_simps)

lemma mapE_in: "mapE f xs = Inr ys \<Longrightarrow> y \<in> set ys \<Longrightarrow> \<exists>x\<in>set xs. f x = Inr y"
  by (induction xs arbitrary: ys) (auto simp: err_simps)

lemma mapE_Inl: "mapE f xs = Inl e \<Longrightarrow> \<exists>x\<in>set xs. f x = Inl e"
  by (induction xs) (auto simp: bindE_Inl_iff)

lemma forE_Inr [err_simps]: "forE xs f = Inr u \<longleftrightarrow> (\<forall>x\<in>set xs. f x = Inr ())"
proof -
  have "forE xs f = Inr u \<longleftrightarrow> (\<exists>ys. mapE f xs = Inr ys)"
    by (auto simp: forE_def err_simps)
  then show ?thesis by (simp add: mapE_Inr_ex)
qed

lemma forE_Inl: "forE xs f = Inl e \<Longrightarrow> \<exists>x\<in>set xs. f x = Inl e"
  by (auto simp: forE_def bindE_Inl_iff dest: mapE_Inl)

lemma foldE_append: "foldE f s (xs @ ys) = bindE (foldE f s xs) (\<lambda>s'. foldE f s' ys)"
  by (induction xs arbitrary: s) (auto simp: bindE_assoc)

lemma enumerate_list_length [simp]: "length (enumerate_list xs) = length xs"
  by (simp add: enumerate_list_def)

lemma map_snd_enumerate_list [simp]: "map snd (enumerate_list xs) = xs"
  by (simp add: enumerate_list_def)

lemma snd_set_enumerate_list: "snd ` set (enumerate_list xs) = set xs"
  by (metis list.set_map map_snd_enumerate_list)

lemma enumerate_list_Nil [simp]: "enumerate_list [] = []"
  by (simp add: enumerate_list_def)

lemma in_enumerate_list: "(i, x) \<in> set (enumerate_list xs) \<Longrightarrow> x \<in> set xs"
  using snd_set_enumerate_list by force

end
