(* ===== verification/Py_Value.thy ===== *)
theory Py_Value
  imports Complex_Main Py_Str
begin

text \<open>
  The Python values that cross the suite's input boundaries, dictionaries as
  insertion-ordered association lists, and Python's equality on them.
\<close>

section \<open>Values\<close>

datatype pyfloat = Fin rat | PosInf | NegInf | NaN

datatype pkey = KStr string | KOther nat

text \<open>
  \<open>POther\<close> stands for the objects no validator accepts (bytes, sets, class instances).
\<close>

datatype pyval = PNone | PBool bool | PInt int | PFloat pyfloat | PStr string
  | PList "pyval list" | PTuple "pyval list" | PDict "(pkey \<times> pyval) list" | POther nat

type_synonym dict = "(string \<times> pyval) list"

lemma size_snd_mem [termination_simp]:
  "(k, x) \<in> set kvs \<Longrightarrow> size x < Suc (size_list (\<lambda>p. Suc (size (snd p))) kvs)"
  by (induction kvs) auto

lemma size_zip_mem [termination_simp]:
  "(x, y) \<in> set (zip xs ys) \<Longrightarrow> size x < Suc (size_list size xs)"
  by (drule set_zip_leftD) (simp add: le_imp_less_Suc less_imp_le size_list_estimation')

text \<open>A \<open>dict[str, object]\<close> as a value.\<close>

definition PObj :: "dict \<Rightarrow> pyval" where
  "PObj d = PDict (map (\<lambda>(k, v). (KStr k, v)) d)"

text \<open>
  A Python dictionary has distinct keys: the shape of every value the interpreter
  can build.
\<close>

fun wf_val :: "pyval \<Rightarrow> bool" where
  "wf_val (PList xs) = (\<forall>x\<in>set xs. wf_val x)"
| "wf_val (PTuple xs) = (\<forall>x\<in>set xs. wf_val x)"
| "wf_val (PDict kvs) = (distinct (map fst kvs) \<and> (\<forall>(k, x)\<in>set kvs. wf_val x))"
| "wf_val _ = True"

section \<open>Dictionary operations\<close>

text \<open>
  \<open>key in d\<close>, \<open>d.get(key)\<close>, \<open>d[key]\<close>, \<open>d[key] = value\<close> and \<open>d.setdefault\<close>.
\<close>

definition has_key :: "('k \<times> 'v) list \<Rightarrow> 'k \<Rightarrow> bool" where
  "has_key d k = (map_of d k \<noteq> None)"

definition get_default :: "('k \<times> 'v) list \<Rightarrow> 'k \<Rightarrow> 'v \<Rightarrow> 'v" where
  "get_default d k x = (case map_of d k of None \<Rightarrow> x | Some v \<Rightarrow> v)"

definition item :: "(string \<times> 'v) list \<Rightarrow> string \<Rightarrow> 'v result" where
  "item d k = (case map_of d k of None \<Rightarrow> raise KeyError (repr_str k) | Some v \<Rightarrow> Inr v)"

definition setdefault :: "('k \<times> 'v) list \<Rightarrow> 'k \<Rightarrow> 'v \<Rightarrow> ('k \<times> 'v) list" where
  "setdefault d k x = (if has_key d k then d else AList.update k x d)"

text \<open>A dictionary display \<open>{k: m, ...}\<close>: the entries are evaluated in order.\<close>

definition dict_display :: "(string \<times> pyval result) list \<Rightarrow> dict result" where
  "dict_display fs = mapE (\<lambda>(k, m). bindE m (\<lambda>v. Inr (k, v))) fs"

text \<open>\<open>if key in data: result[key] = m\<close>.\<close>

definition set_if :: "bool \<Rightarrow> string \<Rightarrow> pyval result \<Rightarrow> dict \<Rightarrow> dict result" where
  "set_if c k m d = (if c then bindE m (\<lambda>v. Inr (AList.update k v d)) else Inr d)"

lemma has_key_iff: "has_key d k \<longleftrightarrow> k \<in> fst ` set d"
  by (auto simp: has_key_def map_of_eq_None_iff)

lemma has_key_update [simp]: "has_key (AList.update k v d) k' \<longleftrightarrow> k' = k \<or> has_key d k'"
  by (simp add: has_key_def update_conv')

lemma item_Inr [err_simps]: "item d k = Inr v \<longleftrightarrow> map_of d k = Some v"
  by (auto simp: item_def split: option.splits)

section \<open>Python equality\<close>

text \<open>
  \<open>==\<close> on values of equal types: dictionaries compare as finite maps, everything
  else componentwise.
\<close>

fun pyeq :: "pyval \<Rightarrow> pyval \<Rightarrow> bool" where
  "pyeq (PDict a) v = (case v of PDict b \<Rightarrow>
     fst ` set a = fst ` set b \<and>
      (\<forall>(k, x)\<in>set a. case map_of b k of None \<Rightarrow> False | Some y \<Rightarrow> pyeq x y)
     | _ \<Rightarrow> False)"
| "pyeq (PList xs) v = (case v of PList ys \<Rightarrow>
     length xs = length ys \<and> (\<forall>(x, y)\<in>set (zip xs ys). pyeq x y) | _ \<Rightarrow> False)"
| "pyeq (PTuple xs) v = (case v of PTuple ys \<Rightarrow>
     length xs = length ys \<and> (\<forall>(x, y)\<in>set (zip xs ys). pyeq x y) | _ \<Rightarrow> False)"
| "pyeq (PFloat f) v = (f \<noteq> NaN \<and> v = PFloat f)"
| "pyeq PNone v = (v = PNone)"
| "pyeq (PBool b) v = (v = PBool b)"
| "pyeq (PInt i) v = (v = PInt i)"
| "pyeq (PStr s) v = (v = PStr s)"
| "pyeq (POther n) v = (v = POther n)"

lemma pyeq_list:
  "pyeq (PList xs) (PList ys) \<longleftrightarrow> list_all2 pyeq xs ys"
  by (auto simp: list_all2_iff)

lemma map_of_mem_distinct: "distinct (map fst d) \<Longrightarrow> (k, v) \<in> set d \<Longrightarrow> map_of d k = Some v"
  by simp

text \<open>Equality is reflexive on well-formed values without NaN.\<close>

fun no_nan :: "pyval \<Rightarrow> bool" where
  "no_nan (PFloat NaN) = False"
| "no_nan (PList xs) = (\<forall>x\<in>set xs. no_nan x)"
| "no_nan (PTuple xs) = (\<forall>x\<in>set xs. no_nan x)"
| "no_nan (PDict kvs) = (\<forall>(k, x)\<in>set kvs. no_nan x)"
| "no_nan _ = True"

lemma zip_same_mem: "(x, y) \<in> set (zip xs xs) \<Longrightarrow> x = y \<and> x \<in> set xs"
  by (induction xs) auto

lemma pyeq_refl: "wf_val v \<Longrightarrow> no_nan v \<Longrightarrow> pyeq v v"
proof (induction v)
  case (PFloat f)
  then show ?case by (cases f) auto
next
  case (PDict kvs)
  then show ?case by (fastforce dest: map_of_mem_distinct)
qed (auto dest!: zip_same_mem)

section \<open>Objects with string keys\<close>

lemma wf_PObj: "wf_val (PObj d) \<longleftrightarrow> distinct (map fst d) \<and> (\<forall>(k, x)\<in>set d. wf_val x)"
proof -
  have "map fst (map (\<lambda>(k, v). (KStr k, v)) d) = map KStr (map fst d)" by auto
  then have "distinct (map fst (map (\<lambda>(k, v). (KStr k, v)) d)) \<longleftrightarrow> distinct (map fst d)"
    by (simp only: distinct_map) (auto simp: inj_on_def)
  then show ?thesis by (auto simp: PObj_def)
qed

lemma map_of_KStr: "map_of (map (\<lambda>(k, v). (KStr k, v)) d) (KStr k) = map_of d k"
  by (induction d) auto

lemma pyeq_PObj:
  "pyeq (PObj a) (PObj b) \<longleftrightarrow>
     fst ` set a = fst ` set b \<and>
     (\<forall>(k, x)\<in>set a. case map_of b k of None \<Rightarrow> False | Some y \<Rightarrow> pyeq x y)"
proof -
  have "fst ` set (map (\<lambda>(k, v). (KStr k, v)) d) = KStr ` fst ` set d" for d :: dict
    by force
  then show ?thesis
    by (auto simp: PObj_def map_of_KStr inj_image_eq_iff inj_on_def split: prod.splits)
qed

end
