(* ===== verification/Json_Validation.thy ===== *)
theory Json_Validation
  imports Py_Value
begin

text \<open>
  \<open>json_validation.py\<close>: the explicit validators through which every external value
  enters the suite. Each is a function of the value and of its path (used in messages)
  into the exception monad. The locale \<open>validator\<close> is the contract the parsers built on
  them share: what is accepted has the announced type and equals the input.
\<close>

section \<open>Paths\<close>

definition sub :: "string \<Rightarrow> string \<Rightarrow> string" where
  "sub path key = path @ ''.'' @ key"

definition idx :: "string \<Rightarrow> nat \<Rightarrow> string" where
  "idx path i = path @ ''['' @ show_nat i @ '']''"

abbreviation liftE :: "('a \<Rightarrow> 'b) \<Rightarrow> 'a result \<Rightarrow> 'b result" where
  "liftE f m \<equiv> bindE m (\<lambda>x. Inr (f x))"

section \<open>The validators\<close>

definition string_key :: "string \<Rightarrow> pkey \<times> pyval \<Rightarrow> (string \<times> pyval) result" where
  "string_key path kv = (case kv of (KStr k, x) \<Rightarrow> Inr (k, x)
     | (KOther _, _) \<Rightarrow> raise ValidationError (path @ '': expected string object keys''))"

definition object_map :: "pyval \<Rightarrow> string \<Rightarrow> dict result" where
  "object_map v path = (case v of PDict kvs \<Rightarrow> mapE (string_key path) kvs
     | _ \<Rightarrow> raise ValidationError (path @ '': expected an object''))"

definition array :: "pyval \<Rightarrow> string \<Rightarrow> pyval list result" where
  "array v path = (case v of PList xs \<Rightarrow> Inr xs
     | _ \<Rightarrow> raise ValidationError (path @ '': expected an array''))"

definition string :: "pyval \<Rightarrow> string \<Rightarrow> bool \<Rightarrow> string result" where
  "string v path nonempty =
     (let failed = raise ValidationError
        (path @ '': expected a '' @ (if nonempty then ''nonempty '' else [])
          @ ''string without NUL characters'')
      in case v of PStr s \<Rightarrow> if CHR 0x00 \<in> set s \<or> nonempty \<and> s = [] then failed else Inr s
         | _ \<Rightarrow> failed)"

definition boolean :: "pyval \<Rightarrow> string \<Rightarrow> bool result" where
  "boolean v path = (case v of PBool b \<Rightarrow> Inr b
     | _ \<Rightarrow> raise ValidationError (path @ '': expected a boolean''))"

definition integer :: "pyval \<Rightarrow> string \<Rightarrow> int option \<Rightarrow> int result" where
  "integer v path minimum =
     (let failed = raise ValidationError (path @ '': expected an integer'' @
        (case minimum of None \<Rightarrow> [] | Some m \<Rightarrow> '' >= '' @ show_int m))
      in case v of PInt i \<Rightarrow> (case minimum of None \<Rightarrow> Inr i
           | Some m \<Rightarrow> if i < m then failed else Inr i)
         | _ \<Rightarrow> failed)"

definition strings :: "pyval \<Rightarrow> string \<Rightarrow> bool \<Rightarrow> string list result" where
  "strings v path nonempty = bindE (array v path)
     (\<lambda>xs. mapE (\<lambda>(i, x). string x (idx path i) nonempty) (enumerate_list xs))"

definition string_map :: "pyval \<Rightarrow> string \<Rightarrow> bool \<Rightarrow> (string \<times> string) list result" where
  "string_map v path nonempty = bindE (object_map v path)
     (mapE (\<lambda>(k, x). bindE (string x (sub path k) nonempty) (\<lambda>s. Inr (k, s))))"

definition required :: "dict \<Rightarrow> string \<Rightarrow> string \<Rightarrow> pyval result" where
  "required data key path = (case map_of data key of
     None \<Rightarrow> raise ValidationError (sub path key @ '': required field is missing'')
   | Some v \<Rightarrow> Inr v)"

definition schema_one :: "dict \<Rightarrow> string \<Rightarrow> unit result" where
  "schema_one data path = bindE (required data ''schema'' path)
     (\<lambda>v. bindE (integer v (sub path ''schema'') None)
       (\<lambda>i. guardE (i = 1) ValidationError (sub path ''schema'' @ '': expected supported schema 1'')))"

section \<open>Characterisations\<close>

lemma string_key_Inr: "string_key p kv = Inr (k, x) \<longleftrightarrow> kv = (KStr k, x)"
  by (cases kv) (auto simp: string_key_def split: pkey.splits)

lemma mapE_string_key:
  "mapE (string_key p) kvs = Inr d \<longleftrightarrow> kvs = map (\<lambda>(k, v). (KStr k, v)) d"
proof (induction kvs arbitrary: d)
  case (Cons kv kvs)
  show ?case
    by (cases d) (auto simp: err_simps string_key_Inr Cons)
qed auto

lemma object_map_Inr [err_simps]: "object_map v p = Inr d \<longleftrightarrow> v = PObj d"
  by (cases v) (auto simp: object_map_def PObj_def mapE_string_key)

lemma array_Inr [err_simps]: "array v p = Inr xs \<longleftrightarrow> v = PList xs"
  by (cases v) (auto simp: array_def)

lemma string_Inr [err_simps]:
  "string v p ne = Inr s \<longleftrightarrow> v = PStr s \<and> CHR 0x00 \<notin> set s \<and> (ne \<longrightarrow> s \<noteq> [])"
  by (cases v) (auto simp: string_def Let_def split: if_splits)

lemma boolean_Inr [err_simps]: "boolean v p = Inr b \<longleftrightarrow> v = PBool b"
  by (cases v) (auto simp: boolean_def)

lemma integer_Inr [err_simps]:
  "integer v p m = Inr i \<longleftrightarrow> v = PInt i \<and> (\<forall>b. m = Some b \<longrightarrow> b \<le> i)"
  by (cases v) (auto simp: integer_def Let_def split: option.splits if_splits)

lemma required_Inr [err_simps]: "required d k p = Inr v \<longleftrightarrow> map_of d k = Some v"
  by (auto simp: required_def split: option.splits)

lemma strings_Inr:
  "strings v p ne = Inr ss \<longleftrightarrow>
     v = PList (map PStr ss) \<and> (\<forall>s\<in>set ss. CHR 0x00 \<notin> set s \<and> (ne \<longrightarrow> s \<noteq> []))"
proof -
  have "list_all2 (\<lambda>(i, x) s. x = PStr s \<and> Q s) (zip [n..<n + length xs] xs) ss
      \<longleftrightarrow> xs = map PStr ss \<and> (\<forall>s\<in>set ss. Q s)" for n xs ss and Q :: "string \<Rightarrow> bool"
  proof (induction xs arbitrary: n ss)
    case (Cons x xs)
    show ?case
      using Cons [of "Suc n"] by (cases ss) (auto simp: upt_rec list_all2_Cons1)
  qed auto
  from this [where n = 0] show ?thesis
    by (auto simp: strings_def err_simps mapE_Inr_iff enumerate_list_def case_prod_beta')
qed

lemma string_map_Inr:
  "string_map v p ne = Inr m \<longleftrightarrow>
     v = PObj (map (\<lambda>(k, s). (k, PStr s)) m) \<and>
     (\<forall>(k, s)\<in>set m. CHR 0x00 \<notin> set s \<and> (ne \<longrightarrow> s \<noteq> []))"
proof -
  define Q where "Q s \<longleftrightarrow> CHR 0x00 \<notin> set s \<and> (ne \<longrightarrow> s \<noteq> [])" for s :: string
  have all: "list_all2 (\<lambda>(k, x) (k', s). k = k' \<and> x = PStr s \<and> Q s) d m
      \<longleftrightarrow> d = map (\<lambda>(k, s). (k, PStr s)) m \<and> (\<forall>(k, s)\<in>set m. Q s)" for d m
  proof (induction d arbitrary: m)
    case (Cons kx d)
    show ?case using Cons by (cases m) (auto simp: list_all2_Cons1)
  qed auto
  have step: "(\<lambda>kx ks. (case kx of (k, x) \<Rightarrow> bindE (string x (sub p k) ne) (\<lambda>s. Inr (k, s))) = Inr ks)
      = (\<lambda>(k, x) (k', s). k = k' \<and> x = PStr s \<and> Q s)"
    by (auto simp: fun_eq_iff err_simps Q_def)
  show ?thesis
    unfolding string_map_def bindE_Inr_iff object_map_Inr mapE_Inr_iff step all
    by (auto simp: Q_def)
qed

lemma schema_one_Inr [err_simps]: "schema_one d p = Inr u \<longleftrightarrow> map_of d ''schema'' = Some (PInt 1)"
  by (auto simp: schema_one_def err_simps)

lemma object_map_PObj [simp]: "object_map (PObj d) p = Inr d"
  by (simp add: object_map_Inr)

text \<open>A \<open>dict[str, str]\<close> and a \<open>list[str]\<close> as values.\<close>

definition pstr_map :: "(string \<times> string) list \<Rightarrow> pyval" where
  "pstr_map m = PObj (map (\<lambda>(k, s). (k, PStr s)) m)"

definition pstr_list :: "string list \<Rightarrow> pyval" where
  "pstr_list ss = PList (map PStr ss)"

lemma object_map_pstr_map [simp]:
  "object_map (pstr_map m) p = Inr (map (\<lambda>(k, s). (k, PStr s)) m)"
  by (simp add: pstr_map_def)

text \<open>Every rejection of a validator is a \<^const>\<open>ValidationError\<close>.\<close>

definition validation_error :: "'a result \<Rightarrow> bool" where
  "validation_error m = (\<forall>e. m = Inl e \<longrightarrow> exn_class e = ValidationError)"

named_theorems rejects

lemma validation_error_Inr [rejects]: "validation_error (Inr x)"
  by (simp add: validation_error_def)

lemma validation_error_raise [rejects]: "validation_error (raise ValidationError m)"
  by (simp add: validation_error_def raise_def)

lemma validation_error_bind [rejects]:
  "validation_error m \<Longrightarrow> (\<And>x. m = Inr x \<Longrightarrow> validation_error (f x)) \<Longrightarrow> validation_error (bindE m f)"
  by (cases m) (auto simp: validation_error_def)

lemma validation_error_guard [rejects]: "validation_error (guardE ok ValidationError m)"
  by (simp add: validation_error_def guardE_def raise_def)

lemma validation_error_mapE [rejects]:
  "(\<And>x. x \<in> set xs \<Longrightarrow> validation_error (f x)) \<Longrightarrow> validation_error (mapE f xs)"
  by (auto simp: validation_error_def dest!: mapE_Inl)

lemma validation_error_forE [rejects]:
  "(\<And>x. x \<in> set xs \<Longrightarrow> validation_error (f x)) \<Longrightarrow> validation_error (forE xs f)"
  by (auto simp: validation_error_def dest!: forE_Inl)

lemma validation_error_prims [rejects]:
  "validation_error (object_map v p)" "validation_error (array v p)"
  "validation_error (string v p ne)" "validation_error (boolean v p)"
  "validation_error (integer v p m)" "validation_error (required d k p)"
  by (auto simp: validation_error_def object_map_def array_def string_def boolean_def integer_def
      required_def raise_def Let_def string_key_def dest!: mapE_Inl split: pyval.splits
      option.splits if_splits pkey.splits prod.splits)

lemma validation_error_compound [rejects]:
  "validation_error (strings v p ne)" "validation_error (string_map v p ne)"
  "validation_error (schema_one d p)"
  unfolding strings_def string_map_def schema_one_def
  by (auto intro!: rejects split: prod.splits)

section \<open>Normalising to JSON\<close>

lemma size_PObj: "(k, x) \<in> set d \<Longrightarrow> size x < size (PObj d)"
  by (induction d) (auto simp: PObj_def)

lemma size_mem_list: "(x :: pyval) \<in> set xs \<Longrightarrow> size x < Suc (size_list size xs)"
  by (simp add: le_imp_less_Suc less_imp_le size_list_estimation')

function json_value :: "pyval \<Rightarrow> string \<Rightarrow> pyval result" where
  "json_value PNone path = Inr PNone"
| "json_value (PBool b) path = Inr (PBool b)"
| "json_value (PStr s) path = Inr (PStr s)"
| "json_value (PInt i) path = Inr (PInt i)"
| "json_value (PFloat f) path = (case f of Fin r \<Rightarrow> Inr (PFloat f)
     | _ \<Rightarrow> raise ValidationError (path @ '': non-finite numbers are not JSON values''))"
| "json_value (PList xs) path =
     liftE PList (mapE (\<lambda>(i, x). json_value x (idx path i)) (enumerate_list xs))"
| "json_value (PTuple xs) path =
     liftE PList (mapE (\<lambda>(i, x). json_value x (idx path i)) (enumerate_list xs))"
| "json_value (PDict kvs) path = bindE (object_map (PDict kvs) path)
     (\<lambda>d. liftE PObj (mapE (\<lambda>(k, x). bindE (json_value x (sub path k)) (\<lambda>y. Inr (k, y))) d))"
| "json_value (POther n) path = raise ValidationError (path @ '': expected an object'')"
  by pat_completeness auto
termination
  by (relation "measure (\<lambda>(v, _). size v)")
    (auto simp: object_map_Inr size_mem_list dest!: in_enumerate_list intro: size_PObj)

text \<open>\<open>_unique_object\<close>, the hook that rejects repeated keys of a parsed object.\<close>

definition unique_step :: "dict \<Rightarrow> string \<times> pyval \<Rightarrow> dict result" where
  "unique_step result kv = (case kv of (key, v) \<Rightarrow>
     if has_key result key then raise ValidationError (''duplicate JSON key: '' @ key)
     else Inr (AList.update key v result))"

definition unique_object :: "(string \<times> pyval) list \<Rightarrow> dict result" where
  "unique_object pairs = foldE unique_step [] pairs"

text \<open>
  \<open>decode_json\<close> over a JSON reader \<open>loads\<close> that takes the object hook, as
  \<open>json.loads\<close> does; \<open>load_json\<close> over the contents of the files.
\<close>

type_synonym json_loads = "((string \<times> pyval) list \<Rightarrow> dict result) \<Rightarrow> string \<Rightarrow> pyval result"

definition decode_json :: "json_loads \<Rightarrow> string \<Rightarrow> string \<Rightarrow> pyval result" where
  "decode_json loads txt path =
     (case bindE (loads unique_object txt) (\<lambda>raw. json_value raw path) of
        Inr v \<Rightarrow> Inr v
      | Inl e \<Rightarrow> if instance_of_any e [JSONDecodeError, ValidationError]
          then raise ValidationError (path @ '': '' @ exn_msg e) else Inl e)"

definition load_json :: "json_loads \<Rightarrow> (string \<Rightarrow> string result) \<Rightarrow> string \<Rightarrow> pyval result" where
  "load_json loads read_text path = bindE (read_text path) (\<lambda>txt. decode_json loads txt path)"

section \<open>Facts about normalisation\<close>

text \<open>The JSON values, and the Python values that \<^const>\<open>json_value\<close> accepts.\<close>

fun is_json :: "pyval \<Rightarrow> bool" where
  "is_json (PFloat f) = (\<exists>r. f = Fin r)"
| "is_json (PList xs) = (\<forall>x\<in>set xs. is_json x)"
| "is_json (PTuple xs) = False"
| "is_json (PDict kvs) = (\<forall>(k, x)\<in>set kvs. (\<exists>s. k = KStr s) \<and> is_json x)"
| "is_json (POther n) = False"
| "is_json v = True"

lemma is_json_PObj [simp]: "is_json (PObj d) \<longleftrightarrow> (\<forall>(k, x)\<in>set d. is_json x)"
  by (auto simp: PObj_def)

lemma is_json_dict: "is_json (PDict kvs) \<Longrightarrow> \<exists>d. PDict kvs = PObj d"
proof -
  assume "is_json (PDict kvs)"
  then have "kvs = map (\<lambda>(k, v). (KStr k, v)) (map (\<lambda>(k, v). (case k of KStr s \<Rightarrow> s, v)) kvs)"
    by (induction kvs) auto
  then show ?thesis unfolding PObj_def by blast
qed

lemma mapE_pairs_Inr:
  "mapE (\<lambda>(k, x). bindE (f k x) (\<lambda>y. Inr (k, y))) d = Inr d' \<longleftrightarrow>
     list_all2 (\<lambda>(k, x) (k', y). k = k' \<and> f k x = Inr y) d d'"
proof -
  have "(\<lambda>kx ky. (case kx of (k, x) \<Rightarrow> bindE (f k x) (\<lambda>y. Inr (k, y))) = Inr ky)
      = (\<lambda>(k, x) (k', y). k = k' \<and> f k x = Inr y)"
    by (auto simp: fun_eq_iff err_simps)
  then show ?thesis by (simp only: mapE_Inr_iff)
qed

lemma mapE_enum_Inr:
  "mapE (\<lambda>(i, x). f i x) (enumerate_list xs) = Inr ys \<longleftrightarrow>
     length xs = length ys \<and> (\<forall>i<length xs. f i (xs ! i) = Inr (ys ! i))"
  by (auto simp: mapE_Inr_iff enumerate_list_def list_all2_conv_all_nth)

lemma PObj_distinct [simp]:
  "POther n \<noteq> PObj d" "PNone \<noteq> PObj d" "PStr s \<noteq> PObj d" "PList xs \<noteq> PObj d"
  "PObj d \<noteq> POther n" "PObj d \<noteq> PNone" "PObj d \<noteq> PStr s" "PObj d \<noteq> PList xs"
  by (simp_all add: PObj_def)

lemma PObj_inject [simp]: "PObj d = PObj d' \<longleftrightarrow> d = d'"
  by (auto simp: PObj_def dest!: map_injective intro!: injI split: prod.splits)

lemma json_value_PObj:
  "json_value (PObj d) p =
     liftE PObj (mapE (\<lambda>(k, x). bindE (json_value x (sub p k)) (\<lambda>y. Inr (k, y))) d)"
proof -
  have "object_map (PObj d) p = Inr d" by (simp add: object_map_Inr)
  then show ?thesis
    using json_value.simps(8) [of "map (\<lambda>(k, v). (KStr k, v)) d" p]
    unfolding PObj_def by (simp only: bindE_simps)
qed

lemma list_all2_pairs_mem:
  assumes "list_all2 (\<lambda>(k, x) (k', y). k = k' \<and> R k x y) d d'" and "(k, y) \<in> set d'"
  obtains x where "(k, x) \<in> set d" and "R k x y"
proof -
  from assms have "\<exists>x. (k, x) \<in> set d \<and> R k x y"
    by (induction rule: list_all2_induct) auto
  with that show thesis by blast
qed

lemma json_value_is_json: "json_value v p = Inr w \<Longrightarrow> is_json w"
proof (induction v p arbitrary: w rule: json_value.induct)
  case (5 f path)
  then show ?case by (cases f) auto
next
  case (6 xs path)
  from "6.prems" obtain ys where w: "w = PList ys" and len: "length xs = length ys"
    and el: "\<And>i. i < length xs \<Longrightarrow> json_value (xs ! i) (idx path i) = Inr (ys ! i)"
    by (auto simp: err_simps mapE_enum_Inr)
  have "is_json (ys ! i)" if "i < length ys" for i
  proof -
    have "(i, xs ! i) \<in> set (enumerate_list xs)"
      using that len by (force simp: enumerate_list_def in_set_zip)
    from "6.IH" [OF this refl el] that len show ?thesis by simp
  qed
  with w show ?case by (auto simp: in_set_conv_nth)
next
  case (7 xs path)
  from "7.prems" obtain ys where w: "w = PList ys" and len: "length xs = length ys"
    and el: "\<And>i. i < length xs \<Longrightarrow> json_value (xs ! i) (idx path i) = Inr (ys ! i)"
    by (auto simp: err_simps mapE_enum_Inr)
  have "is_json (ys ! i)" if "i < length ys" for i
  proof -
    have "(i, xs ! i) \<in> set (enumerate_list xs)"
      using that len by (force simp: enumerate_list_def in_set_zip)
    from "7.IH" [OF this refl el] that len show ?thesis by simp
  qed
  with w show ?case by (auto simp: in_set_conv_nth)
next
  case (8 kvs path)
  from "8.prems" obtain d d' where d: "PDict kvs = PObj d" and w: "w = PObj d'"
    and all: "list_all2 (\<lambda>(k, x) (k', y). k = k' \<and> json_value x (sub path k) = Inr y) d d'"
    by (auto simp: err_simps mapE_pairs_Inr)
  have "is_json y" if ky: "(k, y) \<in> set d'" for k y
  proof -
    from all ky obtain x where "(k, x) \<in> set d" and "json_value x (sub path k) = Inr y"
      by (rule list_all2_pairs_mem)
    with d show ?thesis using "8.IH" [of d "(k, x)" k x y] by (simp add: object_map_Inr)
  qed
  with w show ?case by auto
next
  case (9 n path)
  then show ?case by (auto simp: err_simps)
qed auto

lemma json_value_id: "is_json v \<Longrightarrow> json_value v p = Inr v"
proof (induction v arbitrary: p)
  case (PList xs)
  then have "mapE (\<lambda>(i, x). json_value x (idx p i)) (enumerate_list xs) = Inr xs"
    by (simp add: mapE_enum_Inr)
  then show ?case by simp
next
  case (PDict kvs)
  then obtain d where d: "PDict kvs = PObj d" using is_json_dict by blast
  have all: "json_value x q = Inr x" if "(k, x) \<in> set d" for k x q
  proof -
    from d that have "(KStr k, x) \<in> set kvs" by (force simp: PObj_def)
    moreover from this PDict.prems have "is_json x" by auto
    ultimately show ?thesis using PDict.IH by force
  qed
  then have "mapE (\<lambda>(k, x). bindE (json_value x (sub p k)) (\<lambda>y. Inr (k, y))) d = Inr d"
    unfolding mapE_pairs_Inr by (auto simp: list_all2_same)
  then show ?case unfolding d json_value_PObj by (simp only: bindE_simps)
qed auto

lemma validation_error_json_value [rejects]: "validation_error (json_value v p)"
proof (induction v p rule: json_value.induct)
  case (5 f path)
  show ?case by (cases f) (auto intro: rejects)
next
  case (6 xs path)
  then show ?case by (auto intro!: rejects split: prod.splits)
next
  case (7 xs path)
  then show ?case by (auto intro!: rejects split: prod.splits)
next
  case (8 kvs path)
  then show ?case by (auto intro!: rejects split: prod.splits)
next
  case (9 n path)
  then show ?case by (auto intro!: rejects split: prod.splits)
qed (simp_all add: rejects)

text \<open>The hook accepts exactly the objects without repeated keys, unchanged.\<close>

lemma foldE_unique_step:
  "foldE unique_step acc pairs = Inr d \<longleftrightarrow>
     d = acc @ pairs \<and> distinct (map fst pairs) \<and> fst ` set acc \<inter> fst ` set pairs = {}"
proof (induction pairs arbitrary: acc)
  case (Cons kv pairs)
  have upd: "k \<notin> fst ` set acc \<Longrightarrow> AList.update k v acc = acc @ [(k, v)]" for k and v :: pyval
    by (induction acc) auto
  obtain k v where kv: "kv = (k, v)" by (cases kv)
  show ?case
  proof (cases "has_key acc k")
    case True
    then show ?thesis by (auto simp: kv unique_step_def has_key_iff)
  next
    case False
    then have "unique_step acc kv = Inr (acc @ [(k, v)])"
      by (simp add: kv unique_step_def has_key_iff upd)
    with Cons False show ?thesis by (auto simp: kv has_key_iff)
  qed
qed auto

lemma unique_object_Inr: "unique_object pairs = Inr d \<longleftrightarrow> d = pairs \<and> distinct (map fst pairs)"
  by (auto simp: unique_object_def foldE_unique_step)

lemma decode_json_is_json: "decode_json loads txt p = Inr v \<Longrightarrow> is_json v"
  by (auto simp: decode_json_def err_simps split: sum.splits if_splits dest: json_value_is_json)

section \<open>Properties\<close>

text \<open>The object hook of the JSON reader accepts exactly the objects without a repeated key, returns
  them unchanged, and otherwise raises a ValidationError.\<close>

theorem unique_object_exact:
  "(unique_object pairs = Inr d \<longleftrightarrow> d = pairs \<and> distinct (map fst pairs)) \<and>
   validation_error (unique_object pairs)"
proof -
  have "validation_error (foldE unique_step acc xs)" for acc xs
  proof (induction xs arbitrary: acc)
    case (Cons x xs)
    have "validation_error (unique_step acc x)"
      by (simp add: unique_step_def rejects split: prod.splits)
    with Cons show ?case by (auto intro!: rejects)
  qed (simp add: rejects)
  then show ?thesis by (simp add: unique_object_Inr unique_object_def [symmetric])
      (simp add: unique_object_def)
qed

text \<open>Normalising a value gives a JSON value, on which normalising again, at any path, changes nothing;
  a value that cannot be normalised is rejected by a ValidationError.\<close>

theorem json_value_normalises:
  "(case json_value v p of Inr w \<Rightarrow> is_json w \<and> json_value w q = Inr w
    | Inl e \<Rightarrow> exn_class e = ValidationError)"
  using json_value_is_json [of v p] json_value_id [of _ q] validation_error_json_value [of v p]
  by (auto simp: validation_error_def split: sum.splits)

end
