(* ===== verification/Typed_Json.thy ===== *)
theory Typed_Json
  imports Json_Validation
begin

text \<open>
  \<open>typed_json.py\<close>: checked decoding against the suite's vocabulary of type annotations.
  \<open>validate\<close> is the source's recursive checker; \<open>has_type\<close> is the declarative typing
  judgement it implements, and the two are proved equivalent.
\<close>

section \<open>Annotations\<close>

text \<open>
  The annotation forms the source dispatches on. \<open>ATyped\<close> is a TypedDict class with its
  qualified name and its fields, each with the flag "required"; \<open>AOther\<close> is any form
  the checker does not support.
\<close>

datatype annot = AJson | AStr | ABool | AInt | AFloat | ANone
  | ALit "pyval list"
  | AList annot
  | ADict annot annot
  | AUnion "annot list"
  | ATyped string "(string \<times> bool \<times> annot) list"
  | AOther string

fun literal_repr :: "pyval \<Rightarrow> string" where
  "literal_repr (PStr s) = repr_str s"
| "literal_repr (PInt i) = show_int i"
| "literal_repr (PBool b) = (if b then ''True'' else ''False'')"
| "literal_repr _ = ''None''"

fun annot_repr :: "annot \<Rightarrow> string" where
  "annot_repr AJson = ''JSONValue''"
| "annot_repr AStr = ''str''"
| "annot_repr ABool = ''bool''"
| "annot_repr AInt = ''int''"
| "annot_repr AFloat = ''float''"
| "annot_repr ANone = ''None''"
| "annot_repr (ALit cs) = ''typing.Literal['' @ join '', '' (map literal_repr cs) @ '']''"
| "annot_repr (AList a) = ''list['' @ annot_repr a @ '']''"
| "annot_repr (ADict k a) = ''dict['' @ annot_repr k @ '', '' @ annot_repr a @ '']''"
| "annot_repr (AUnion as) = join '' | '' (map annot_repr as)"
| "annot_repr (ATyped nm fs) = nm"
| "annot_repr (AOther nm) = nm"

definition is_validation_failure :: "unit result \<Rightarrow> bool" where
  "is_validation_failure m = (case m of Inl e \<Rightarrow> instance_of e ValidationError | Inr _ \<Rightarrow> False)"

definition required_keys :: "(string \<times> bool \<times> annot) list \<Rightarrow> string list" where
  "required_keys fields = map fst (filter (\<lambda>(k, req, a). req) fields)"

lemma size_field_mem [termination_simp]:
  "(k, r, a) \<in> set fs \<Longrightarrow> size a < Suc (size_list (\<lambda>p. Suc (Suc (size (snd (snd p))))) fs)"
  by (induction fs) auto

section \<open>The checker\<close>

text \<open>
  \<open>_validate\<close>. The set of required keys is visited in the order of the class; Python's
  frozenset order only selects which missing field the message names.
\<close>

fun validate :: "annot \<Rightarrow> pyval \<Rightarrow> string \<Rightarrow> unit result" where
  "validate AJson v path = liftE (\<lambda>_. ()) (json_value v path)"
| "validate (ATyped nm fields) v path = bindE (object_map v path) (\<lambda>data.
     bindE (forE (required_keys fields) (\<lambda>key. liftE (\<lambda>_. ()) (required data key path))) (\<lambda>_.
     bindE (forE fields (\<lambda>(key, req, a).
       case map_of data key of None \<Rightarrow> Inr () | Some x \<Rightarrow> validate a x (sub path key))) (\<lambda>_.
     if ''schema'' \<in> fst ` set fields \<and> has_key data ''schema'' then schema_one data path
     else Inr ())))"
| "validate AStr v path = (case v of PStr s \<Rightarrow> Inr ()
     | _ \<Rightarrow> raise ValidationError (path @ '': expected a string''))"
| "validate ABool v path = liftE (\<lambda>_. ()) (boolean v path)"
| "validate AInt v path = liftE (\<lambda>_. ()) (integer v path None)"
| "validate AFloat v path = (case v of PInt i \<Rightarrow> Inr () | PFloat f \<Rightarrow> Inr ()
     | _ \<Rightarrow> raise ValidationError (path @ '': expected a number''))"
| "validate ANone v path = guardE (v = PNone) ValidationError (path @ '': expected null'')"
| "validate (ALit cs) v path = guardE (v \<in> set cs) ValidationError
     (path @ '': expected one of '' @ repr_tuple (map literal_repr cs))"
| "validate (AList a) v path = bindE (array v path) (\<lambda>xs.
     forE (enumerate_list xs) (\<lambda>(index, x). validate a x (idx path index)))"
| "validate (ADict ka a) v path = bindE (object_map v path) (\<lambda>d.
     forE d (\<lambda>(key, x). bindE (validate ka (PStr key) (path @ '' key''))
       (\<lambda>_. validate a x (sub path key))))"
| "validate (AUnion as) v path =
     (case dropWhile is_validation_failure (map (\<lambda>a. validate a v path) as) of
        [] \<Rightarrow> raise ValidationError (path @ '': value does not match '' @ annot_repr (AUnion as))
      | m # _ \<Rightarrow> m)"
| "validate (AOther nm) v path =
     raise ValidationError (path @ '': unsupported field type '' @ nm)"

definition parse_typed :: "pyval \<Rightarrow> annot \<Rightarrow> string \<Rightarrow> pyval result" where
  "parse_typed v schema path = bindE (json_value v path) (\<lambda>normalized.
     bindE (validate schema normalized path) (\<lambda>_. Inr normalized))"

section \<open>The typing judgement\<close>

text \<open>The values the annotation \<open>JSONValue\<close> stands for; tuples count as arrays.\<close>

fun json_like :: "pyval \<Rightarrow> bool" where
  "json_like (PFloat f) = (\<exists>r. f = Fin r)"
| "json_like (PList xs) = (\<forall>x\<in>set xs. json_like x)"
| "json_like (PTuple xs) = (\<forall>x\<in>set xs. json_like x)"
| "json_like (PDict kvs) = (\<forall>(k, x)\<in>set kvs. (\<exists>s. k = KStr s) \<and> json_like x)"
| "json_like (POther n) = False"
| "json_like v = True"

inductive has_type :: "pyval \<Rightarrow> annot \<Rightarrow> bool" where
  json: "json_like v \<Longrightarrow> has_type v AJson"
| str: "has_type (PStr s) AStr"
| bool: "has_type (PBool b) ABool"
| int: "has_type (PInt i) AInt"
| float_int: "has_type (PInt i) AFloat"
| float: "has_type (PFloat f) AFloat"
| none: "has_type PNone ANone"
| lit: "v \<in> set cs \<Longrightarrow> has_type v (ALit cs)"
| list: "(\<And>x. x \<in> set xs \<Longrightarrow> has_type x a) \<Longrightarrow> has_type (PList xs) (AList a)"
| dict: "(\<And>k x. (k, x) \<in> set d \<Longrightarrow> has_type (PStr k) ka) \<Longrightarrow>
     (\<And>k x. (k, x) \<in> set d \<Longrightarrow> has_type x a) \<Longrightarrow> has_type (PObj d) (ADict ka a)"
| union: "a \<in> set as \<Longrightarrow> has_type v a \<Longrightarrow> has_type v (AUnion as)"
| typed: "(\<And>k a. (k, True, a) \<in> set fs \<Longrightarrow> has_key d k) \<Longrightarrow>
     (\<And>k r a x. (k, r, a) \<in> set fs \<Longrightarrow> map_of d k = Some x \<Longrightarrow> has_type x a) \<Longrightarrow>
     (''schema'' \<in> fst ` set fs \<Longrightarrow> has_key d ''schema'' \<Longrightarrow> map_of d ''schema'' = Some (PInt 1)) \<Longrightarrow>
     has_type (PObj d) (ATyped nm fs)"

inductive_simps has_type_simps [simp]:
  "has_type v AJson" "has_type v AStr" "has_type v ABool" "has_type v AInt" "has_type v AFloat"
  "has_type v ANone" "has_type v (ALit cs)" "has_type v (AOther nm)" "has_type v (AUnion as)"

inductive_simps has_type_list: "has_type v (AList a)"
inductive_simps has_type_dict: "has_type v (ADict ka a)"
inductive_simps has_type_typed: "has_type v (ATyped nm fs)"

lemma has_type_typed_iff:
  "has_type v (ATyped nm fs) \<longleftrightarrow> (\<exists>d. v = PObj d \<and>
     (\<forall>k a. (k, True, a) \<in> set fs \<longrightarrow> has_key d k) \<and>
     (\<forall>(k, r, a)\<in>set fs. \<forall>x. map_of d k = Some x \<longrightarrow> has_type x a) \<and>
     (''schema'' \<in> fst ` set fs \<and> has_key d ''schema'' \<longrightarrow> map_of d ''schema'' = Some (PInt 1)))"
  unfolding has_type_typed by (intro iff_exI conj_cong refl) auto

section \<open>The checker decides the judgement\<close>

lemma json_like_PObj: "json_like (PObj d) \<longleftrightarrow> (\<forall>(k, x)\<in>set d. json_like x)"
  by (auto simp: PObj_def)

lemma json_like_dict: "json_like (PDict kvs) \<Longrightarrow> \<exists>d. PDict kvs = PObj d"
proof -
  assume "json_like (PDict kvs)"
  then have "kvs = map (\<lambda>(k, v). (KStr k, v)) (map (\<lambda>(k, v). (case k of KStr s \<Rightarrow> s, v)) kvs)"
    by (induction kvs) auto
  then show ?thesis unfolding PObj_def by blast
qed

lemma mapE_enum_ex:
  "(\<exists>ys. mapE (\<lambda>(i, x). f i x) (enumerate_list xs) = Inr ys) \<longleftrightarrow>
     (\<forall>(i, x)\<in>set (enumerate_list xs). \<exists>y. f i x = Inr y)"
  unfolding mapE_Inr_ex by auto

lemma enumerate_list_ball:
  assumes "\<And>i x. x \<in> set xs \<Longrightarrow> Q i x = P x"
  shows "(\<forall>(i, x)\<in>set (enumerate_list xs). Q i x) \<longleftrightarrow> (\<forall>x\<in>set xs. P x)"
proof -
  have "Q i x = P x" if "(i, x) \<in> set (enumerate_list xs)" for i x
    by (rule assms [OF in_enumerate_list [OF that]])
  then have "(\<forall>(i, x)\<in>set (enumerate_list xs). Q i x) \<longleftrightarrow> (\<forall>(i, x)\<in>set (enumerate_list xs). P x)"
    by auto
  also have "\<dots> \<longleftrightarrow> (\<forall>x\<in>set xs. P x)"
    by (auto simp flip: snd_set_enumerate_list [of xs])
  finally show ?thesis .
qed

lemma json_value_accepts: "(\<exists>w. json_value v p = Inr w) \<longleftrightarrow> json_like v"
proof (induction v arbitrary: p)
  case (PFloat f)
  show ?case by (cases f) auto
next
  case (PList xs)
  have "(\<exists>w. json_value (PList xs) p = Inr w) \<longleftrightarrow>
      (\<forall>(i, x)\<in>set (enumerate_list xs). \<exists>y. json_value x (idx p i) = Inr y)"
    by (simp add: bindE_Inr_iff mapE_enum_ex flip: ex_simps)
  also have "\<dots> \<longleftrightarrow> (\<forall>x\<in>set xs. json_like x)"
    by (rule enumerate_list_ball) (rule PList.IH)
  finally show ?case by simp
next
  case (PTuple xs)
  have "(\<exists>w. json_value (PTuple xs) p = Inr w) \<longleftrightarrow>
      (\<forall>(i, x)\<in>set (enumerate_list xs). \<exists>y. json_value x (idx p i) = Inr y)"
    by (simp add: bindE_Inr_iff mapE_enum_ex flip: ex_simps)
  also have "\<dots> \<longleftrightarrow> (\<forall>x\<in>set xs. json_like x)"
    by (rule enumerate_list_ball) (rule PTuple.IH)
  finally show ?case by simp
next
  case (PDict kvs)
  show ?case
  proof (cases "\<exists>d. PDict kvs = PObj d")
    case True
    then obtain d where d: "PDict kvs = PObj d" by blast
    have IH: "(\<exists>w. json_value x q = Inr w) \<longleftrightarrow> json_like x" if "(k, x) \<in> set d" for k x q
    proof -
      from d that have "(KStr k, x) \<in> set kvs" by (force simp: PObj_def)
      with PDict.IH show ?thesis by force
    qed
    have "(\<exists>w. json_value (PObj d) p = Inr w) \<longleftrightarrow>
        (\<forall>(k, x)\<in>set d. \<exists>y. json_value x (sub p k) = Inr y)"
      by (simp add: json_value_PObj bindE_Inr_iff mapE_Inr_ex case_prod_beta flip: ex_simps)
    with IH show ?thesis unfolding d json_like_PObj by fastforce
  next
    case False
    then have "object_map (PDict kvs) p \<noteq> Inr d" for d by (simp add: object_map_Inr)
    then have "\<nexists>w. json_value (PDict kvs) p = Inr w" by (auto simp: bindE_Inr_iff)
    with False show ?thesis using json_like_dict by blast
  qed
qed (auto simp: err_simps)

lemma validation_error_failure: "validation_error m \<Longrightarrow> is_validation_failure m \<longleftrightarrow> m \<noteq> Inr ()"
  by (auto simp: validation_error_def is_validation_failure_def instance_of_def split: sum.splits)

lemma validation_error_union:
  assumes "\<And>m. m \<in> set ms \<Longrightarrow> validation_error m"
  shows "validation_error (case dropWhile is_validation_failure ms of
      [] \<Rightarrow> raise ValidationError t | m # _ \<Rightarrow> m)"
proof (cases "dropWhile is_validation_failure ms")
  case (Cons m ms')
  then have "m \<in> set ms" by (metis list.set_intros(1) set_dropWhileD)
  with Cons assms show ?thesis by simp
next
  case Nil
  then show ?thesis by (simp only: list.case validation_error_raise)
qed

lemma validation_error_validate [rejects]: "validation_error (validate a v p)"
proof (induction a v p rule: validate.induct)
  case (2 nm fields v path)
  then show ?case by (auto intro!: rejects split: prod.splits option.splits)
next
  case (3 v path)
  show ?case by (cases v) (auto intro: rejects)
next
  case (6 v path)
  show ?case by (cases v) (auto intro: rejects)
next
  case (9 a v path)
  then show ?case by (auto intro!: rejects)
next
  case (10 ka a v path)
  then show ?case by (auto intro!: rejects)
next
  case (11 as v path)
  then show ?case by (simp only: validate.simps) (rule validation_error_union, auto)
qed (simp_all add: rejects)

lemma dropWhile_union:
  "\<forall>m\<in>set ms. validation_error m \<Longrightarrow>
     (case dropWhile is_validation_failure ms of [] \<Rightarrow> raise ValidationError t | m # _ \<Rightarrow> m) = Inr ()
       \<longleftrightarrow> Inr () \<in> set ms"
  by (induction ms) (auto simp: validation_error_failure)

lemma forE_required:
  "forE (required_keys fs) (\<lambda>key. liftE (\<lambda>_. ()) (required d key p)) = Inr ()
     \<longleftrightarrow> (\<forall>k a. (k, True, a) \<in> set fs \<longrightarrow> has_key d k)"
  by (fastforce simp: required_keys_def err_simps has_key_def)

lemma validate_typed_Inr:
  "validate (ATyped nm fs) v p = Inr u \<longleftrightarrow> (\<exists>d. v = PObj d \<and>
     (\<forall>k a. (k, True, a) \<in> set fs \<longrightarrow> has_key d k) \<and>
     (\<forall>(k, r, a)\<in>set fs. \<forall>x. map_of d k = Some x \<longrightarrow> validate a x (sub p k) = Inr ()) \<and>
     (''schema'' \<in> fst ` set fs \<and> has_key d ''schema'' \<longrightarrow> map_of d ''schema'' = Some (PInt 1)))"
proof -
  have fld: "forE fs (\<lambda>(key, req, a). case map_of d key of None \<Rightarrow> Inr ()
        | Some x \<Rightarrow> validate a x (sub p key)) = Inr ()
      \<longleftrightarrow> (\<forall>(k, r, a)\<in>set fs. \<forall>x. map_of d k = Some x \<longrightarrow> validate a x (sub p k) = Inr ())" for d
    by (auto simp: err_simps split: option.splits)
  have sch: "(if ''schema'' \<in> fst ` set fs \<and> has_key d ''schema'' then schema_one d p else Inr ()) = Inr ()
      \<longleftrightarrow> (''schema'' \<in> fst ` set fs \<and> has_key d ''schema'' \<longrightarrow> map_of d ''schema'' = Some (PInt 1))" for d
    by (auto simp: err_simps)
  have u: "u = ()" by simp
  have ex: "(\<exists>x. m = Inr x \<and> P) \<longleftrightarrow> m = Inr () \<and> P" for m :: "unit result" and P by auto
  show ?thesis
    unfolding validate.simps bindE_Inr_iff object_map_Inr u ex forE_required fld sch by (rule refl)
qed

lemma validate_iff: "validate a v p = Inr () \<longleftrightarrow> has_type v a"
proof (induction a v p rule: validate.induct)
  case (1 v path)
  show ?case by (simp add: err_simps json_value_accepts)
next
  case (2 nm fields v path)
  have IH: "validate a x (sub path k) = Inr () \<longleftrightarrow> has_type x a"
    if v: "v = PObj d" and req: "\<forall>k a. (k, True, a) \<in> set fields \<longrightarrow> has_key d k"
      and mem: "(k, r, a) \<in> set fields" and x: "map_of d k = Some x" for d k r a x
  proof -
    have om: "object_map v path = Inr d" using v by (simp add: object_map_Inr)
    have rq: "forE (required_keys fields) (\<lambda>key. liftE (\<lambda>_. ()) (required d key path)) = Inr ()"
      using req by (simp only: forE_required)
    show ?thesis by (rule "2.IH" [OF om rq mem refl refl x])
  qed
  have fields: "(\<forall>(k, r, a)\<in>set fields. \<forall>x. map_of d k = Some x \<longrightarrow> validate a x (sub path k) = Inr ())
      \<longleftrightarrow> (\<forall>(k, r, a)\<in>set fields. \<forall>x. map_of d k = Some x \<longrightarrow> has_type x a)"
    if "v = PObj d" and "\<forall>k a. (k, True, a) \<in> set fields \<longrightarrow> has_key d k" for d
    using IH [OF that] by auto
  show ?case
    unfolding validate_typed_Inr has_type_typed_iff
    by (intro iff_exI conj_cong refl) (erule fields)
next
  case (3 v path)
  show ?case by (cases v) auto
next
  case (6 v path)
  show ?case by (cases v) auto
next
  case (9 a v path)
  show ?case
  proof (cases "\<exists>xs. v = PList xs")
    case True
    then obtain xs where xs: "v = PList xs" by blast
    have "validate (AList a) v path = Inr () \<longleftrightarrow>
        (\<forall>(i, x)\<in>set (enumerate_list xs). validate a x (idx path i) = Inr ())"
      by (auto simp: xs array_def err_simps)
    also have "\<dots> \<longleftrightarrow> (\<forall>(i, x)\<in>set (enumerate_list xs). has_type x a)"
      using 9 [of xs] by (fastforce simp: xs array_def)
    also have "\<dots> \<longleftrightarrow> (\<forall>x\<in>set xs. has_type x a)"
      by (rule enumerate_list_ball) simp
    finally show ?thesis by (auto simp: has_type_list xs)
  next
    case False
    then show ?thesis by (auto simp: has_type_list bindE_Inr_iff array_Inr)
  qed
next
  case (10 ka a v path)
  show ?case
  proof (cases "\<exists>d. v = PObj d")
    case True
    then obtain d where d: "object_map v path = Inr d" and v: "v = PObj d"
      by (auto simp: object_map_Inr)
    have "validate (ADict ka a) v path = Inr () \<longleftrightarrow>
        (\<forall>(k, x)\<in>set d. validate ka (PStr k) (path @ '' key'') = Inr () \<and>
           validate a x (sub path k) = Inr ())"
      by (auto simp: d err_simps)
    also have "\<dots> \<longleftrightarrow> (\<forall>(k, x)\<in>set d. has_type (PStr k) ka \<and> has_type x a)"
      using 10 [OF d] by fastforce
    finally show ?thesis by (force simp: has_type_dict v)
  next
    case False
    then show ?thesis by (auto simp: has_type_dict bindE_Inr_iff object_map_Inr)
  qed
next
  case (11 as v path)
  have "validate (AUnion as) v path = Inr () \<longleftrightarrow> Inr () \<in> set (map (\<lambda>a. validate a v path) as)"
    by (simp only: validate.simps) (rule dropWhile_union, auto intro: rejects)
  also have "\<dots> \<longleftrightarrow> (\<exists>a\<in>set as. has_type v a)" using 11 by force
  finally show ?case by (simp only: has_type_simps) blast
qed (auto simp: err_simps)

section \<open>Decoding\<close>

lemma parse_typed_Inr [err_simps]:
  "parse_typed v a p = Inr w \<longleftrightarrow> json_value v p = Inr w \<and> has_type w a"
proof -
  have "(\<exists>u. validate a w p = Inr u) \<longleftrightarrow> has_type w a"
    by (metis (full_types) old.unit.exhaust validate_iff)
  then show ?thesis
    by (auto simp: parse_typed_def bindE_Inr_iff)
qed

lemma validation_error_parse_typed [rejects]: "validation_error (parse_typed v a p)"
  unfolding parse_typed_def by (auto intro!: rejects)

lemma parse_typed_json: "is_json v \<Longrightarrow> parse_typed v a p = Inr w \<longleftrightarrow> w = v \<and> has_type v a"
  by (auto simp: parse_typed_Inr json_value_id)

text \<open>A field that a class requires is present with its type after a successful decode.\<close>

lemma has_type_required:
  assumes "has_type (PObj d) (ATyped nm fs)" and "(k, True, a) \<in> set fs"
  obtains x where "map_of d k = Some x" and "has_type x a"
  using assms unfolding has_type_typed_iff by (fastforce simp: has_key_def)

lemma has_type_optional:
  assumes "has_type (PObj d) (ATyped nm fs)" and "(k, r, a) \<in> set fs" and "map_of d k = Some x"
  shows "has_type x a"
  using assms unfolding has_type_typed_iff by fastforce

section \<open>Properties\<close>

text \<open>C1: the recursive checker accepts a value exactly when the typing judgement holds of it, and every
  rejection is a ValidationError.\<close>

theorem validate_decides_typing:
  "(validate a v p = Inr () \<longleftrightarrow> has_type v a) \<and> validation_error (validate a v p)"
  by (simp add: validate_iff rejects)

text \<open>C2: \<open>parse_typed\<close> is total up to ValidationErrors; it returns the JSON normal form of the value,
  exactly when that form has the type, and parsing the result again returns it.\<close>

theorem parse_typed_exact:
  "(parse_typed v a p = Inr w \<longleftrightarrow> json_value v p = Inr w \<and> has_type w a) \<and>
   (parse_typed v a p = Inr w \<longrightarrow> parse_typed w a q = Inr w) \<and> validation_error (parse_typed v a p)"
  using json_value_is_json [of v p w] json_value_id [of w q] by (auto simp: parse_typed_Inr rejects)

text \<open>A report-like class with a literal, a union and an optional list.\<close>

definition sample_class :: annot where
  "sample_class = ATyped ''Sample'' [(''schema'', True, AInt), (''kind'', True, ALit [PStr ''a'', PStr ''b'']),
     (''note'', False, AUnion [AStr, ANone]), (''values'', False, AList AFloat)]"

theorem parse_typed_exact_witness:
  "parse_typed (PObj [(''schema'', PInt 1), (''kind'', PStr ''b''), (''note'', PNone), (''values'', PTuple [PInt 2])])
     sample_class ''x'' =
   Inr (PObj [(''schema'', PInt 1), (''kind'', PStr ''b''), (''note'', PNone), (''values'', PList [PInt 2])]) \<and>
   parse_typed (PObj [(''schema'', PInt 1), (''kind'', PStr ''b''), (''note'', PNone), (''values'', PList [PInt 2])])
     sample_class ''y'' =
   Inr (PObj [(''schema'', PInt 1), (''kind'', PStr ''b''), (''note'', PNone), (''values'', PList [PInt 2])])"
proof -
  let ?v = "PObj [(''schema'', PInt 1), (''kind'', PStr ''b''), (''note'', PNone), (''values'', PTuple [PInt 2])]"
  let ?w = "PObj [(''schema'', PInt 1), (''kind'', PStr ''b''), (''note'', PNone), (''values'', PList [PInt 2])]"
  have "parse_typed ?v sample_class ''x'' = Inr ?w" by code_simp
  with parse_typed_exact [of ?v sample_class "''x''" ?w "''y''"] show ?thesis by blast
qed

end
