(* ===== verification/Typed_Access.thy ===== *)
theory Typed_Access
  imports Typed_Json
begin

text \<open>
  Access to checked values. A TypedDict is a dictionary at run time: subscripting one
  raises KeyError or TypeError unless its type says otherwise. \<open>gives\<close> is the triple of
  the parsers: a computation either returns a value with the stated property or raises a
  ValidationError, so that a parser that \<open>gives\<close> anything never fails in an access.
\<close>

section \<open>Accessors\<close>

text \<open>\<open>v[key]\<close>, \<open>key in v\<close> and \<open>v.get(key, default)\<close>.\<close>

definition getitem :: "pyval \<Rightarrow> string \<Rightarrow> pyval result" where
  "getitem v key = (case v of
     PDict kvs \<Rightarrow> (case map_of kvs (KStr key) of
        Some x \<Rightarrow> Inr x | None \<Rightarrow> raise KeyError (repr_str key))
   | _ \<Rightarrow> raise TypeError ''object is not subscriptable'')"

definition has :: "pyval \<Rightarrow> string \<Rightarrow> bool" where
  "has v key = (case v of PDict kvs \<Rightarrow> has_key kvs (KStr key) | _ \<Rightarrow> False)"

definition get_or :: "pyval \<Rightarrow> string \<Rightarrow> pyval \<Rightarrow> pyval" where
  "get_or v key x = (case getitem v key of Inr y \<Rightarrow> y | Inl _ \<Rightarrow> x)"

text \<open>The items, the keys, the elements and the text of a value already known to be of
  that kind; \<open>setitem\<close> is \<open>v[key] = x\<close> on a dictionary.\<close>

definition entries_of :: "pyval \<Rightarrow> dict" where
  "entries_of v = (case object_map v '''' of Inr d \<Rightarrow> d | Inl _ \<Rightarrow> [])"

definition keys_of :: "pyval \<Rightarrow> string set" where
  "keys_of v = fst ` set (entries_of v)"

fun elements_of :: "pyval \<Rightarrow> pyval list" where
  "elements_of (PList xs) = xs"
| "elements_of _ = []"

fun text_of :: "pyval \<Rightarrow> string" where
  "text_of (PStr s) = s"
| "text_of _ = []"

definition texts_of :: "pyval \<Rightarrow> string list" where
  "texts_of v = map text_of (elements_of v)"

definition setitem :: "pyval \<Rightarrow> string \<Rightarrow> pyval \<Rightarrow> pyval" where
  "setitem v key x = PObj (AList.update key x (entries_of v))"

lemma getitem_PObj [simp]: "getitem (PObj d) k = (case map_of d k of
    Some x \<Rightarrow> Inr x | None \<Rightarrow> raise KeyError (repr_str k))"
  by (simp add: getitem_def PObj_def map_of_KStr)

lemma has_PObj [simp]: "has (PObj d) k \<longleftrightarrow> has_key d k"
  by (simp add: has_def PObj_def has_key_def map_of_KStr)

lemma entries_of_PObj [simp]: "entries_of (PObj d) = d"
  by (simp add: entries_of_def)

lemma texts_of_PList [simp]: "texts_of (PList xs) = map text_of xs"
  by (simp add: texts_of_def)

section \<open>Computations that only reject\<close>

definition gives :: "'a result \<Rightarrow> ('a \<Rightarrow> bool) \<Rightarrow> bool" where
  "gives m P = (case m of Inl e \<Rightarrow> exn_class e = ValidationError | Inr x \<Rightarrow> P x)"

lemma gives_iff: "gives m P \<longleftrightarrow> validation_error m \<and> (\<forall>x. m = Inr x \<longrightarrow> P x)"
  by (auto simp: gives_def validation_error_def split: sum.splits)

lemma givesD: "gives m P \<Longrightarrow> m = Inr x \<Longrightarrow> P x"
  by (simp add: gives_def)

lemma gives_rejects: "gives m P \<Longrightarrow> validation_error m"
  by (simp add: gives_iff)

lemma gives_bind: "gives m Q \<Longrightarrow> (\<And>x. m = Inr x \<Longrightarrow> Q x \<Longrightarrow> gives (f x) P) \<Longrightarrow> gives (bindE m f) P"
  by (cases m) (auto simp: gives_def)

lemma gives_weaken: "gives m Q \<Longrightarrow> (\<And>x. Q x \<Longrightarrow> P x) \<Longrightarrow> gives m P"
  by (auto simp: gives_def split: sum.splits)

lemma gives_Inr [simp]: "gives (Inr x) P \<longleftrightarrow> P x"
  by (simp add: gives_def)

lemma gives_raise [simp]: "gives (raise ValidationError m) P"
  by (simp add: gives_def raise_def)

lemma gives_conj: "gives m P \<Longrightarrow> gives m Q \<Longrightarrow> gives m (\<lambda>x. P x \<and> Q x)"
  by (auto simp: gives_def split: sum.splits)

lemma gives_if:
  "(c \<Longrightarrow> gives m P) \<Longrightarrow> (\<not> c \<Longrightarrow> gives m' P) \<Longrightarrow> gives (if c then m else m') P"
  by simp

lemma gives_any: "validation_error m \<Longrightarrow> gives m (\<lambda>_. True)"
  by (simp add: gives_iff)

lemma gives_guard: "gives (guardE ok ValidationError m) (\<lambda>_. ok)"
  by (simp add: guardE_def)

lemma gives_mapE:
  "(\<And>x. x \<in> set xs \<Longrightarrow> gives (f x) P) \<Longrightarrow> gives (mapE f xs) (\<lambda>ys. \<forall>y\<in>set ys. P y)"
  by (fastforce simp: gives_iff intro: rejects dest: mapE_in)

lemma gives_forE:
  "(\<And>x. x \<in> set xs \<Longrightarrow> gives (f x) (\<lambda>_. P x)) \<Longrightarrow> gives (forE xs f) (\<lambda>_. \<forall>x\<in>set xs. P x)"
  by (auto simp: gives_iff forE_Inr intro: rejects)

lemma gives_foldE:
  assumes "I s" and "\<And>s x. x \<in> set xs \<Longrightarrow> I s \<Longrightarrow> gives (f s x) I"
  shows "gives (foldE f s xs) I"
  using assms
proof (induction xs arbitrary: s)
  case (Cons x xs)
  show ?case unfolding foldE.simps
    by (rule gives_bind [where Q = I]) (auto intro!: Cons)
qed simp

section \<open>Access at a type\<close>

lemma gives_object_map: "gives (object_map v p) (\<lambda>d. v = PObj d)"
  by (simp add: gives_iff object_map_Inr rejects)

lemma gives_array: "gives (array v p) (\<lambda>xs. v = PList xs)"
  by (simp add: gives_iff array_Inr rejects)

lemma gives_string: "gives (string v p ne) (\<lambda>s. v = PStr s \<and> CHR 0x00 \<notin> set s \<and> (ne \<longrightarrow> s \<noteq> []))"
  by (simp add: gives_iff string_Inr rejects)

lemma gives_integer: "gives (integer v p m) (\<lambda>i. v = PInt i \<and> (\<forall>n. m = Some n \<longrightarrow> n \<le> i))"
  by (auto simp: gives_iff integer_Inr rejects)

lemma gives_required: "gives (required d k p) (\<lambda>x. map_of d k = Some x)"
  by (simp add: gives_iff required_Inr rejects)

lemma gives_parse_typed: "gives (parse_typed v a p) (\<lambda>r. has_type r a)"
  by (simp add: gives_iff parse_typed_Inr rejects)

lemma gives_getitem:
  assumes "has_type v (ATyped nm fs)" and "map_of fs k = Some (True, a)"
  shows "gives (getitem v k) (\<lambda>x. has_type x a)"
proof -
  from assms(2) have mem: "(k, True, a) \<in> set fs" by (rule map_of_SomeD)
  from assms(1) obtain d where v: "v = PObj d" by (auto simp: has_type_typed_iff)
  with assms(1) mem obtain x where x: "map_of d k = Some x"
    by (fastforce simp: has_type_typed_iff has_key_def)
  with v assms(1) mem have "has_type x a" by (fastforce simp: has_type_typed_iff)
  with v x show ?thesis by simp
qed

lemma gives_getitem_has:
  assumes "has_type v (ATyped nm fs)" and "map_of fs k = Some (r, a)" and "has v k"
  shows "gives (getitem v k) (\<lambda>x. has_type x a)"
proof -
  from assms(2) have mem: "(k, r, a) \<in> set fs" by (rule map_of_SomeD)
  from assms(1) obtain d where v: "v = PObj d" by (auto simp: has_type_typed_iff)
  with assms(3) obtain x where x: "map_of d k = Some x" by (auto simp: has_key_def)
  with v assms(1) mem have "has_type x a" by (fastforce simp: has_type_typed_iff)
  with v x show ?thesis by simp
qed

lemma has_type_elements: "has_type v (AList a) \<Longrightarrow> x \<in> set (elements_of v) \<Longrightarrow> has_type x a"
  by (auto simp: has_type_list)

lemma has_type_text: "has_type v AStr \<Longrightarrow> v = PStr (text_of v)"
  by auto

lemma has_type_entries:
  "has_type v (ADict AStr a) \<Longrightarrow> (k, x) \<in> set (entries_of v) \<Longrightarrow> has_type x a"
  by (auto simp: has_type_dict)

lemma has_type_PList_elements: "has_type v (AList a) \<Longrightarrow> v = PList (elements_of v)"
  by (auto simp: has_type_list)

lemma has_type_setitem:
  assumes "has_type v (ATyped nm fs)" and "\<And>r b. (k, r, b) \<in> set fs \<Longrightarrow> has_type x b" and "k \<noteq> ''schema''"
  shows "has_type (setitem v k x) (ATyped nm fs)"
proof -
  from assms(1) obtain d where v: "v = PObj d" by (auto simp: has_type_typed_iff)
  have upd: "map_of (AList.update k x d) j = (if j = k then Some x else map_of d j)" for j
    by (simp add: update_conv')
  have "has_type y b" if "(j, r, b) \<in> set fs" and "map_of (AList.update k x d) j = Some y" for j r b y
    using that assms(1,2) unfolding v has_type_typed_iff upd by (fastforce split: if_splits)
  then show ?thesis
    using assms(1,3) unfolding setitem_def v entries_of_PObj has_type_typed_iff PObj_inject
    by (auto simp: has_key_def upd)
qed

lemma getitem_setitem: "v = PObj d \<Longrightarrow> getitem (setitem v k x) j = (if j = k then Inr x else getitem v j)"
  by (simp add: setitem_def update_conv')

end
