(* ===== verification/Fixture_Fields.thy ===== *)
theory Fixture_Fields
  imports Typed_Access
begin

text \<open>
  The contract of the hand-written fixture parsers of \<open>fixture_manifest.py\<close>, as the
  locale \<open>fixture_parser\<close>: an accepted document inhabits the declared TypedDict, equals
  the input (nothing is dropped or changed) and a rejection is a ValidationError. The
  field accessors and the frame the parsers share are here, with the rules by which a
  parser of a class inherits the contract from the parsers of its fields.
\<close>

section \<open>Field accessors and the frame of a parser\<close>

definition text_field :: "dict \<Rightarrow> string \<Rightarrow> string \<Rightarrow> pyval result" where
  "text_field data key path =
     bindE (required data key path) (\<lambda>v. liftE PStr (string v (sub path key) False))"

definition size_field :: "dict \<Rightarrow> string \<Rightarrow> string \<Rightarrow> pyval result" where
  "size_field data key path =
     bindE (required data key path) (\<lambda>v. liftE PInt (integer v (sub path key) (Some 0)))"

definition flag_field :: "dict \<Rightarrow> string \<Rightarrow> string \<Rightarrow> pyval result" where
  "flag_field data key path =
     bindE (required data key path) (\<lambda>v. liftE PBool (boolean v (sub path key)))"

definition known_fixture :: "dict \<Rightarrow> dict \<Rightarrow> string \<Rightarrow> unit result" where
  "known_fixture data res path = forE (filter (\<lambda>k. k \<notin> fst ` set res) (map fst data))
     (\<lambda>key. raise ValidationError (sub path key @ '': unknown fixture field''))"

text \<open>
  Every parser of a class is \<open>data = object_map(value, path)\<close>, the construction of
  \<open>result\<close>, \<open>_known(data, result, path)\<close> and \<open>return result\<close>.
\<close>

definition object_parser :: "(dict \<Rightarrow> string \<Rightarrow> dict result) \<Rightarrow> pyval \<Rightarrow> string \<Rightarrow> pyval result" where
  "object_parser body v path = bindE (object_map v path) (\<lambda>data.
     bindE (body data path) (\<lambda>res.
     bindE (known_fixture data res path) (\<lambda>_. Inr (PObj res))))"

text \<open>\<open>parse(required(data, key, path), f"{path}.{key}")\<close> and, where the key was
  tested, \<open>parse(data[key], f"{path}.{key}")\<close>.\<close>

definition required_with :: "(pyval \<Rightarrow> string \<Rightarrow> pyval result) \<Rightarrow> dict \<Rightarrow> string \<Rightarrow> string \<Rightarrow> pyval result" where
  "required_with parse data key path = bindE (required data key path) (\<lambda>v. parse v (sub path key))"

definition item_with :: "(pyval \<Rightarrow> string \<Rightarrow> pyval result) \<Rightarrow> dict \<Rightarrow> string \<Rightarrow> string \<Rightarrow> pyval result" where
  "item_with parse data key path = bindE (item data key) (\<lambda>v. parse v (sub path key))"

text \<open>The list and dictionary comprehensions over a parser of the elements.\<close>

definition list_parser :: "(pyval \<Rightarrow> string \<Rightarrow> pyval result) \<Rightarrow> pyval \<Rightarrow> string \<Rightarrow> pyval result" where
  "list_parser parse v path = bindE (array v path) (\<lambda>xs.
     liftE PList (mapE (\<lambda>(i, x). parse x (idx path i)) (enumerate_list xs)))"

definition map_parser :: "(pyval \<Rightarrow> string \<Rightarrow> pyval result) \<Rightarrow> pyval \<Rightarrow> string \<Rightarrow> pyval result" where
  "map_parser parse v path = bindE (object_map v path) (\<lambda>d.
     liftE PObj (mapE (\<lambda>(k, x). bindE (parse x (sub path k)) (\<lambda>y. Inr (k, y))) d))"

definition text_map :: "bool \<Rightarrow> pyval \<Rightarrow> string \<Rightarrow> pyval result" where
  "text_map nonempty v path = liftE pstr_map (string_map v path nonempty)"

definition text_list :: "bool \<Rightarrow> pyval \<Rightarrow> string \<Rightarrow> pyval result" where
  "text_list nonempty v path = liftE pstr_list (strings v path nonempty)"

definition text_value :: "bool \<Rightarrow> pyval \<Rightarrow> string \<Rightarrow> pyval result" where
  "text_value nonempty v path = liftE PStr (string v path nonempty)"

section \<open>The contract\<close>

locale fixture_parser =
  fixes parse :: "pyval \<Rightarrow> string \<Rightarrow> pyval result" and schema :: annot
  assumes typed: "parse v p = Inr r \<Longrightarrow> has_type r schema"
    and lossless: "wf_val v \<Longrightarrow> parse v p = Inr r \<Longrightarrow> pyeq r v"
    and only_rejects: "validation_error (parse v p)"
begin

lemma list_typed:
  assumes "list_parser parse v p = Inr r"
  shows "has_type r (AList schema)"
proof -
  from assms obtain xs ys where r: "r = PList ys" and len: "length xs = length ys"
    and el: "\<And>i. i < length xs \<Longrightarrow> parse (xs ! i) (idx p i) = Inr (ys ! i)"
    by (auto simp: list_parser_def bindE_Inr_iff mapE_enum_Inr)
  then have "has_type y schema" if "y \<in> set ys" for y
    using that by (metis in_set_conv_nth typed)
  with r show ?thesis by (auto simp: has_type_list)
qed

lemma list_lossless:
  assumes wf: "wf_val v" and "list_parser parse v p = Inr r"
  shows "pyeq r v"
proof -
  from assms(2) obtain xs ys where v: "v = PList xs" and r: "r = PList ys" and len: "length xs = length ys"
    and el: "\<And>i. i < length xs \<Longrightarrow> parse (xs ! i) (idx p i) = Inr (ys ! i)"
    by (auto simp: list_parser_def bindE_Inr_iff mapE_enum_Inr array_Inr)
  from wf v have "wf_val (xs ! i)" if "i < length xs" for i
    using that by simp
  with el len have "list_all2 pyeq ys xs"
    by (auto simp: list_all2_conv_all_nth intro: lossless)
  with v r show ?thesis by (simp only: pyeq_list)
qed

lemma list_rejects: "validation_error (list_parser parse v p)"
  unfolding list_parser_def by (auto intro!: rejects only_rejects split: prod.splits)

lemma map_pairs:
  assumes "map_parser parse v p = Inr r"
  obtains d d' where "v = PObj d" and "r = PObj d'"
    and "list_all2 (\<lambda>(k, x) (k', y). k = k' \<and> parse x (sub p k) = Inr y) d d'"
  using assms by (auto simp: map_parser_def bindE_Inr_iff mapE_pairs_Inr object_map_Inr)

lemma map_typed:
  assumes "map_parser parse v p = Inr r"
  shows "has_type r (ADict AStr schema)"
proof -
  from assms obtain d d' where r: "r = PObj d'"
    and all: "list_all2 (\<lambda>(k, x) (k', y). k = k' \<and> parse x (sub p k) = Inr y) d d'"
    by (rule map_pairs)
  have "has_type y schema" if "(k, y) \<in> set d'" for k y
    using list_all2_pairs_mem [OF all that] typed by metis
  then show ?thesis unfolding has_type_dict r by auto
qed

lemma map_lossless:
  assumes wf: "wf_val v" and "map_parser parse v p = Inr r"
  shows "pyeq r v"
proof -
  from assms(2) obtain d d' where v: "v = PObj d" and r: "r = PObj d'"
    and all: "list_all2 (\<lambda>(k, x) (k', y). k = k' \<and> parse x (sub p k) = Inr y) d d'"
    by (rule map_pairs)
  from all have keys: "map fst d' = map fst d"
    by (induction rule: list_all2_induct) auto
  from wf v have dist: "distinct (map fst d)" and wfx: "\<And>k x. (k, x) \<in> set d \<Longrightarrow> wf_val x"
    by (auto simp: wf_PObj)
  have "\<exists>x. map_of d k = Some x \<and> pyeq y x" if ky: "(k, y) \<in> set d'" for k y
  proof -
    obtain x where "(k, x) \<in> set d" and "parse x (sub p k) = Inr y"
      using all ky by (rule list_all2_pairs_mem)
    with dist wfx lossless show ?thesis by (metis map_of_mem_distinct)
  qed
  moreover have "fst ` set d' = fst ` set d" using keys by (metis set_map)
  ultimately show ?thesis unfolding v r pyeq_PObj by fastforce
qed

lemma map_rejects: "validation_error (map_parser parse v p)"
  unfolding map_parser_def by (auto intro!: rejects only_rejects split: prod.splits)

lemma list_contract: "fixture_parser (list_parser parse) (AList schema)"
  by unfold_locales (auto intro: list_typed list_lossless list_rejects)

lemma map_contract: "fixture_parser (map_parser parse) (ADict AStr schema)"
  by unfold_locales (auto intro: map_typed map_lossless map_rejects)

end

interpretation text_value: fixture_parser "text_value ne" AStr
  by unfold_locales (auto simp: text_value_def err_simps intro!: rejects)

lemma mapE_liftE_snd:
  "liftE (map (\<lambda>(k, s). (k, g s))) (mapE (\<lambda>(k, x). bindE (f k x) (\<lambda>s. Inr (k, s))) d)
     = mapE (\<lambda>(k, x). bindE (liftE g (f k x)) (\<lambda>y. Inr (k, y))) d"
proof (induction d)
  case (Cons kx d)
  obtain k x where kx: "kx = (k, x)" by (cases kx)
  let ?m = "mapE (\<lambda>(k, x). bindE (f k x) (\<lambda>s. Inr (k, s))) d"
  show ?case
  proof (cases "f k x")
    case (Inr s)
    with Cons.IH kx show ?thesis by (cases ?m) (simp_all, (drule sym, simp)+)
  qed (simp add: kx)
qed simp

lemma text_map_as_map: "text_map ne v p = map_parser (text_value ne) v p"
proof -
  have "liftE pstr_map (mapE (\<lambda>(k, x). bindE (string x (sub p k) ne) (\<lambda>s. Inr (k, s))) d)
      = liftE PObj (mapE (\<lambda>(k, x). bindE (text_value ne x (sub p k)) (\<lambda>y. Inr (k, y))) d)" for d
    unfolding text_value_def mapE_liftE_snd [symmetric] by (simp add: bindE_assoc pstr_map_def)
  then show ?thesis
    by (simp add: text_map_def map_parser_def string_map_def bindE_assoc)
qed

lemma text_list_contract: "fixture_parser (text_list ne) (AList AStr)"
proof
  fix v p r
  assume "text_list ne v p = Inr r"
  then show "has_type r (AList AStr)"
    by (auto simp: text_list_def err_simps strings_Inr pstr_list_def has_type_list)
next
  fix v p r
  assume "wf_val v" and "text_list ne v p = Inr r"
  then have "r = v" and "no_nan v"
    by (auto simp: text_list_def err_simps strings_Inr pstr_list_def)
  with \<open>wf_val v\<close> show "pyeq r v" by (simp add: pyeq_refl)
next
  fix v p
  show "validation_error (text_list ne v p)"
    unfolding text_list_def by (auto intro!: rejects)
qed

interpretation text_map: fixture_parser "text_map ne" "ADict AStr AStr"
  unfolding text_map_as_map [abs_def] by (rule text_value.map_contract)

interpretation text_list: fixture_parser "text_list ne" "AList AStr"
  by (rule text_list_contract)

section \<open>Objects built field by field\<close>

text \<open>
  \<open>result[key] = m\<close>. \<open>entry_ok\<close> says that an entry of the result is the input's value
  at that key, at the type the class declares; a body that \<open>builds\<close> a result puts only
  such entries into it, and at least the given keys.
\<close>

definition set_field :: "string \<Rightarrow> pyval result \<Rightarrow> dict \<Rightarrow> dict result" where
  "set_field key m res = bindE m (\<lambda>v. Inr (AList.update key v res))"

definition entry_ok :: "(string \<times> bool \<times> annot) list \<Rightarrow> dict \<Rightarrow> string \<Rightarrow> pyval \<Rightarrow> bool" where
  "entry_ok fs data k w \<longleftrightarrow> (\<exists>x r a. map_of data k = Some x \<and> (wf_val x \<longrightarrow> pyeq w x) \<and>
     map_of fs k = Some (r, a) \<and> has_type w a)"

definition field_ok :: "(string \<times> bool \<times> annot) list \<Rightarrow> dict \<Rightarrow> string \<Rightarrow> pyval result \<Rightarrow> bool" where
  "field_ok fs data k m \<longleftrightarrow> (\<forall>w. m = Inr w \<longrightarrow> entry_ok fs data k w)"

definition entries_ok :: "(string \<times> bool \<times> annot) list \<Rightarrow> dict \<Rightarrow> dict \<Rightarrow> bool" where
  "entries_ok fs data res \<longleftrightarrow> distinct (map fst res) \<and> (\<forall>(k, w)\<in>set res. entry_ok fs data k w)"

definition builds :: "(string \<times> bool \<times> annot) list \<Rightarrow> dict \<Rightarrow> string list \<Rightarrow> dict result \<Rightarrow> bool" where
  "builds fs data ks m \<longleftrightarrow>
     (\<forall>res. m = Inr res \<longrightarrow> entries_ok fs data res \<and> set ks \<subseteq> fst ` set res)"

named_theorems field_rules

lemma field_ok_with [field_rules]:
  assumes "fixture_parser parse a" and "map_of fs k = Some (r, a)"
  shows "field_ok fs data k (required_with parse data k p)"
    and "field_ok fs data k (item_with parse data k p)"
  using assms(2) fixture_parser.typed [OF assms(1)] fixture_parser.lossless [OF assms(1)]
  by (auto simp: field_ok_def entry_ok_def required_with_def item_with_def err_simps)

lemma field_ok_prims [field_rules]:
  "map_of fs k = Some (r, AStr) \<Longrightarrow> field_ok fs data k (text_field data k p)"
  "map_of fs k = Some (r, AInt) \<Longrightarrow> field_ok fs data k (size_field data k p)"
  "map_of fs k = Some (r, ABool) \<Longrightarrow> field_ok fs data k (flag_field data k p)"
  by (auto simp: field_ok_def entry_ok_def text_field_def size_field_def flag_field_def err_simps)

lemma field_ok_bound:
  "field_ok fs data k m \<Longrightarrow> m = Inr w \<Longrightarrow> field_ok fs data k (Inr w)"
  by simp

lemma field_ok_entry: "field_ok fs data k m \<Longrightarrow> m = Inr w \<Longrightarrow> entry_ok fs data k w"
  by (simp add: field_ok_def)

lemma field_ok_Inr: "field_ok fs data k (Inr w) \<longleftrightarrow> entry_ok fs data k w"
  by (simp add: field_ok_def)

lemma in_update: "(k', x) \<in> set (AList.update k w d) \<Longrightarrow> k' = k \<and> x = w \<or> (k', x) \<in> set d"
  by (induction d) (auto split: if_splits)

lemma entries_ok_update:
  "entries_ok fs data res \<Longrightarrow> entry_ok fs data k w \<Longrightarrow> entries_ok fs data (AList.update k w res)"
  using in_update [of _ _ k w res] by (fastforce simp: entries_ok_def distinct_update)

lemma keys_update: "fst ` set (AList.update k w res) = insert k (fst ` set res)"
  by (simp add: dom_update)

lemma dict_display_Inr:
  "dict_display ms = Inr res \<Longrightarrow> map fst res = map fst ms \<and>
     (\<forall>(k, w)\<in>set res. \<exists>m. (k, m) \<in> set ms \<and> m = Inr w)"
  by (induction ms arbitrary: res) (fastforce simp: dict_display_def err_simps)+

lemma builds_display:
  assumes "distinct (map fst ms)" and "\<And>k m. (k, m) \<in> set ms \<Longrightarrow> field_ok fs data k m"
  shows "builds fs data (map fst ms) (dict_display ms)"
proof -
  have "entries_ok fs data res \<and> set (map fst ms) \<subseteq> fst ` set res"
    if res: "dict_display ms = Inr res" for res
  proof -
    from dict_display_Inr [OF res] have keys: "map fst res = map fst ms"
      and all: "\<And>k w. (k, w) \<in> set res \<Longrightarrow> (k, Inr w) \<in> set ms" by auto
    have "entry_ok fs data k w" if "(k, w) \<in> set res" for k w
      using assms(2) [OF all [OF that]] by (simp add: field_ok_Inr)
    then have "entries_ok fs data res" using keys assms(1) by (simp add: entries_ok_def split_beta')
    moreover have "set (map fst ms) = fst ` set res" using keys by (metis list.set_map)
    ultimately show ?thesis by simp
  qed
  then show ?thesis by (simp add: builds_def)
qed

lemma builds_bind:
  assumes "builds fs data ks m"
    and "\<And>d. entries_ok fs data d \<Longrightarrow> set ks \<subseteq> fst ` set d \<Longrightarrow> builds fs data ks' (f d)"
  shows "builds fs data ks' (bindE m f)"
  unfolding builds_def
proof (intro allI impI)
  fix res
  assume "bindE m f = Inr res"
  then obtain d where d: "m = Inr d" and fd: "f d = Inr res" by (auto simp: err_simps)
  from d assms(1) have "builds fs data ks' (f d)" by (intro assms(2)) (auto simp: builds_def)
  with fd show "entries_ok fs data res \<and> set ks' \<subseteq> fst ` set res" by (simp add: builds_def)
qed

lemma builds_skip: "(\<And>x. m = Inr x \<Longrightarrow> builds fs data ks (f x)) \<Longrightarrow> builds fs data ks (bindE m f)"
  by (auto simp: builds_def err_simps)

lemma builds_return: "entries_ok fs data d \<Longrightarrow> set ks \<subseteq> fst ` set d \<Longrightarrow> builds fs data ks (Inr d)"
  by (simp add: builds_def)

lemma builds_set_field:
  "entries_ok fs data d \<Longrightarrow> set ks \<subseteq> fst ` set d \<Longrightarrow> field_ok fs data k m \<Longrightarrow>
     builds fs data ks (set_field k m d)"
  by (auto simp: builds_def set_field_def err_simps keys_update intro: entries_ok_update
      dest: field_ok_entry)

lemma builds_if:
  "(c \<Longrightarrow> builds fs data ks m) \<Longrightarrow> (\<not> c \<Longrightarrow> builds fs data ks m') \<Longrightarrow>
     builds fs data ks (if c then m else m')"
  by simp

lemma set_if_set_field: "set_if c k m d = (if c then set_field k m d else Inr d)"
  by (simp add: set_if_def set_field_def)

lemma builds_set_if:
  "entries_ok fs data d \<Longrightarrow> set ks \<subseteq> fst ` set d \<Longrightarrow> field_ok fs data k m \<Longrightarrow>
     builds fs data ks (set_if c k m d)"
  by (simp add: set_if_set_field builds_set_field builds_return)

lemma known_fixture_Inr: "known_fixture data res p = Inr u \<longleftrightarrow> fst ` set data \<subseteq> fst ` set res"
  by (auto simp: known_fixture_def err_simps)

lemma distinct_map_of: "distinct (map fst fs) \<Longrightarrow> (k, y) \<in> set fs \<Longrightarrow> map_of fs k = Some y"
  by simp

text \<open>A body that builds its class's fields is a parser of the class.\<close>

lemma object_parser_builds:
  assumes dist: "distinct (map fst fs)"
    and one: "\<And>data p res. ''schema'' \<in> fst ` set fs \<Longrightarrow> body data p = Inr res \<Longrightarrow>
      map_of data ''schema'' = Some (PInt 1)"
    and built: "\<And>data p. builds fs data (required_keys fs) (body data p)"
    and rej: "\<And>data p. validation_error (body data p)"
  shows "fixture_parser (object_parser body) (ATyped nm fs)"
proof
  fix v p r
  assume "object_parser body v p = Inr r"
  then obtain data res where r: "r = PObj res" and b: "body data p = Inr res"
    by (auto simp: object_parser_def err_simps)
  with built have ok: "entries_ok fs data res" and req: "set (required_keys fs) \<subseteq> fst ` set res"
    by (auto simp: builds_def)
  have ty: "has_type x a" if "(k, q, a) \<in> set fs" and "map_of res k = Some x" for k q a x
    using ok map_of_SomeD [OF that(2)] distinct_map_of [OF dist that(1)]
    by (auto simp: entries_ok_def entry_ok_def)
  have "has_key res k" if "(k, True, a) \<in> set fs" for k a
    using that req by (force simp: required_keys_def has_key_iff)
  moreover have "map_of res ''schema'' = Some (PInt 1)"
    if "''schema'' \<in> fst ` set fs" and "has_key res ''schema''"
  proof -
    from that(2) obtain w where w: "map_of res ''schema'' = Some w" by (auto simp: has_key_def)
    with ok map_of_SomeD [OF w] one [OF that(1) b] have "pyeq w (PInt 1)"
      by (force simp: entries_ok_def entry_ok_def)
    with w show ?thesis by (cases w) (auto split: pyval.splits)
  qed
  ultimately show "has_type r (ATyped nm fs)"
    unfolding has_type_typed_iff r using ty by auto
next
  fix v p r
  assume wf: "wf_val v" and "object_parser body v p = Inr r"
  then obtain data res where v: "v = PObj data" and r: "r = PObj res" and b: "body data p = Inr res"
    and known: "fst ` set data \<subseteq> fst ` set res"
    by (auto simp: object_parser_def err_simps object_map_Inr known_fixture_Inr)
  from b built have ok: "entries_ok fs data res" by (auto simp: builds_def)
  have "wf_val x" if "map_of data k = Some x" for k x
    using wf map_of_SomeD [OF that] unfolding v wf_PObj by auto
  with ok have entry: "\<exists>x. map_of data k = Some x \<and> pyeq w x" if "(k, w) \<in> set res" for k w
    using that unfolding entries_ok_def entry_ok_def by fastforce
  have "fst ` set res \<subseteq> fst ` set data"
  proof
    fix k assume "k \<in> fst ` set res"
    then obtain w where "(k, w) \<in> set res" by force
    then show "k \<in> fst ` set data" using entry map_of_SomeD by force
  qed
  with known entry show "pyeq r v" unfolding v r pyeq_PObj by fastforce
next
  fix v p
  show "validation_error (object_parser body v p)"
    unfolding object_parser_def known_fixture_def by (auto intro!: rejects rej)
qed

section \<open>Rejections\<close>

lemma validation_error_fields [rejects]:
  "validation_error (text_field data k p)" "validation_error (size_field data k p)"
  "validation_error (flag_field data k p)"
  unfolding text_field_def size_field_def flag_field_def by (auto intro!: rejects)

lemma validation_error_with [rejects]:
  "fixture_parser parse a \<Longrightarrow> validation_error (required_with parse data k p)"
  unfolding required_with_def by (intro rejects) (rule fixture_parser.only_rejects)

lemma validation_error_item: "has_key d k \<Longrightarrow> validation_error (item d k)"
  by (auto simp: has_key_def item_def validation_error_Inr)

lemma validation_error_item_with:
  "fixture_parser parse a \<Longrightarrow> has_key data k \<Longrightarrow> validation_error (item_with parse data k p)"
  unfolding item_with_def
  by (intro rejects validation_error_item) (assumption, rule fixture_parser.only_rejects)

lemma validation_error_set_field [rejects]:
  "validation_error m \<Longrightarrow> validation_error (set_field k m d)"
  unfolding set_field_def by (auto intro!: rejects)

lemma validation_error_set_if [rejects]:
  "(c \<Longrightarrow> validation_error m) \<Longrightarrow> validation_error (set_if c k m d)"
  by (simp add: set_if_set_field rejects)

lemma validation_error_display:
  "(\<And>k m. (k, m) \<in> set ms \<Longrightarrow> validation_error m) \<Longrightarrow> validation_error (dict_display ms)"
  unfolding dict_display_def by (auto intro!: rejects)

text \<open>Both halves of a field's and of a body's contract, in the form the parsers use.\<close>

definition field_spec :: "(string \<times> bool \<times> annot) list \<Rightarrow> dict \<Rightarrow> string \<Rightarrow> pyval result \<Rightarrow> bool" where
  "field_spec fs data k m \<longleftrightarrow> field_ok fs data k m \<and> validation_error m"

definition body_spec :: "(string \<times> bool \<times> annot) list \<Rightarrow> dict \<Rightarrow> dict result \<Rightarrow> bool" where
  "body_spec fs data m \<longleftrightarrow> builds fs data (required_keys fs) m \<and> validation_error m"

definition partial_ok :: "(string \<times> bool \<times> annot) list \<Rightarrow> dict \<Rightarrow> dict \<Rightarrow> bool" where
  "partial_ok fs data d \<longleftrightarrow> entries_ok fs data d \<and> set (required_keys fs) \<subseteq> fst ` set d"

definition field_type :: "(string \<times> bool \<times> annot) list \<Rightarrow> string \<Rightarrow> annot option" where
  "field_type fs k = map_option snd (map_of fs k)"

named_theorems fixture_simps

lemma field_type_simps [fixture_simps]:
  "field_type [] k = None"
  "field_type ((k', r, a) # fs) k = (if k = k' then Some a else field_type fs k)"
  by (simp_all add: field_type_def)

lemma field_type_Some: "field_type fs k = Some a \<Longrightarrow> \<exists>r. map_of fs k = Some (r, a)"
  by (auto simp: field_type_def)

lemma field_spec_prims [fixture_simps]:
  "field_type fs k = Some AStr \<Longrightarrow> field_spec fs data k (text_field data k p)"
  "field_type fs k = Some AInt \<Longrightarrow> field_spec fs data k (size_field data k p)"
  "field_type fs k = Some ABool \<Longrightarrow> field_spec fs data k (flag_field data k p)"
  by (auto simp: field_spec_def rejects dest!: field_type_Some intro: field_rules)

lemma field_spec_with:
  assumes "fixture_parser parse a"
  shows "field_type fs k = Some a \<Longrightarrow> field_spec fs data k (required_with parse data k p)"
    and "has_key data k \<Longrightarrow> field_type fs k = Some a \<Longrightarrow>
      field_spec fs data k (item_with parse data k p)"
  using assms by (auto simp: field_spec_def dest!: field_type_Some
      intro: field_rules rejects validation_error_item_with)

lemma field_spec_list:
  assumes "fixture_parser parse a"
  shows "field_type fs k = Some (AList a) \<Longrightarrow> field_spec fs data k (required_with (list_parser parse) data k p)"
  using field_spec_with(1) [OF fixture_parser.list_contract [OF assms]] .

lemma field_spec_map:
  assumes "fixture_parser parse a"
  shows "field_type fs k = Some (ADict AStr a) \<Longrightarrow>
    field_spec fs data k (required_with (map_parser parse) data k p)"
  using field_spec_with(1) [OF fixture_parser.map_contract [OF assms]] .

lemmas text_field_simps [fixture_simps] =
  field_spec_with [OF text_value.fixture_parser_axioms]
  field_spec_with [OF text_map.fixture_parser_axioms]
  field_spec_with [OF text_list.fixture_parser_axioms]
  field_spec_map [OF text_map.fixture_parser_axioms]
  field_spec_map [OF text_map.map_contract]
  field_spec_map [OF text_list.map_contract]

lemma body_bound:
  "field_spec fs data k m \<Longrightarrow> (\<And>w. field_spec fs data k (Inr w) \<Longrightarrow> body_spec fs data (f w)) \<Longrightarrow>
     body_spec fs data (bindE m f)"
  by (cases m) (auto simp: field_spec_def body_spec_def builds_def validation_error_def)

lemma field_spec_same:
  "map_of data k = Some (PInt i) \<Longrightarrow> field_type fs k = Some AInt \<Longrightarrow> field_spec fs data k (Inr (PInt i))"
  by (auto simp: field_spec_def field_ok_def entry_ok_def rejects dest!: field_type_Some)

lemma field_spec_bound: "field_spec fs data k m \<Longrightarrow> m = Inr w \<Longrightarrow> field_spec fs data k (Inr w)"
  by simp

lemma body_display:
  assumes "list_all (\<lambda>(k, m). field_spec fs data k m) ms" and "distinct (map fst ms)"
    and "set (required_keys fs) \<subseteq> set (map fst ms)"
  shows "body_spec fs data (dict_display ms)"
proof -
  from assms(1) have "builds fs data (map fst ms) (dict_display ms)"
    by (intro builds_display [OF assms(2)]) (auto simp: list_all_iff field_spec_def)
  moreover have "validation_error (dict_display ms)"
    using assms(1) by (intro validation_error_display) (auto simp: list_all_iff field_spec_def)
  ultimately show ?thesis
    using assms(3) unfolding body_spec_def builds_def by (meson order.trans)
qed

lemma body_bind:
  assumes "body_spec fs data m" and "\<And>d. partial_ok fs data d \<Longrightarrow> body_spec fs data (f d)"
  shows "body_spec fs data (bindE m f)"
proof (cases m)
  case (Inr d)
  with assms(1) have "partial_ok fs data d" by (simp add: body_spec_def partial_ok_def builds_def)
  with assms(2) Inr show ?thesis by simp
qed (use assms(1) in \<open>simp add: body_spec_def builds_def validation_error_def\<close>)

lemma body_skip:
  "validation_error m \<Longrightarrow> (\<And>x. m = Inr x \<Longrightarrow> body_spec fs data (f x)) \<Longrightarrow>
     body_spec fs data (bindE m f)"
  by (auto simp: body_spec_def intro!: rejects builds_skip)

lemma body_return: "partial_ok fs data d \<Longrightarrow> body_spec fs data (Inr d)"
  by (simp add: body_spec_def partial_ok_def builds_return rejects)

lemma body_set_field:
  "partial_ok fs data d \<Longrightarrow> field_spec fs data k m \<Longrightarrow> body_spec fs data (set_field k m d)"
  by (simp add: body_spec_def partial_ok_def field_spec_def builds_set_field rejects)

lemma body_set_if:
  "partial_ok fs data d \<Longrightarrow> (c \<Longrightarrow> field_spec fs data k m) \<Longrightarrow> body_spec fs data (set_if c k m d)"
  by (simp add: set_if_set_field body_set_field body_return)

lemma body_if:
  "(c \<Longrightarrow> body_spec fs data m) \<Longrightarrow> (\<not> c \<Longrightarrow> body_spec fs data m') \<Longrightarrow>
     body_spec fs data (if c then m else m')"
  by simp

lemma object_parser_contract:
  assumes "distinct (map fst fs)" and "''schema'' \<notin> fst ` set fs"
    and "\<And>data p. body_spec fs data (body data p)"
  shows "fixture_parser (object_parser body) (ATyped nm fs)"
  using assms by (intro object_parser_builds) (auto simp: body_spec_def)

lemma display_contract:
  assumes "distinct (map fst fs)" and "''schema'' \<notin> fst ` set fs"
    and "\<And>data p. list_all (\<lambda>(k, m). field_spec fs data k m) (ms data p)"
    and "\<And>data p. distinct (map fst (ms data p))"
    and "\<And>data p. set (required_keys fs) \<subseteq> set (map fst (ms data p))"
  shows "fixture_parser (object_parser (\<lambda>data p. dict_display (ms data p))) (ATyped nm fs)"
  using assms by (intro object_parser_contract body_display) auto

text \<open>The entries of a body that builds its class are keyed by the class's fields.\<close>

lemma built_keys: "body_spec fs data m \<Longrightarrow> m = Inr res \<Longrightarrow> fst ` set res \<subseteq> fst ` set fs"
proof
  fix k assume "body_spec fs data m" and "m = Inr res" and "k \<in> fst ` set res"
  then obtain r a where "map_of fs k = Some (r, a)"
    by (fastforce simp: body_spec_def builds_def entries_ok_def entry_ok_def)
  then show "k \<in> fst ` set fs" by (force dest: map_of_SomeD)
qed

end
