(* ===== verification/Py_Path.thy ===== *)
theory Py_Path
  imports Py_Str
begin

text \<open>
  \<open>pathlib.PurePosixPath\<close>: a root and the parts between the separators. Resolving a path
  against the file system is a parameter of the functions that do it.
\<close>

datatype path = Path (root: string) (parts: "string list")

text \<open>Exactly two leading separators are kept, any other number counts as one; empty parts and
  \<open>.\<close> are dropped.\<close>

definition path_root :: "string \<Rightarrow> string" where
  "path_root s = (if startswith s ''//'' \<and> \<not> startswith s ''///'' then ''//''
     else if startswith s ''/'' then ''/'' else '''')"

definition path_of :: "string \<Rightarrow> path" where
  "path_of s = Path (path_root s) (filter (\<lambda>p. p \<noteq> '''' \<and> p \<noteq> ''.'') (split_on (CHR ''/'') s))"

definition path_str :: "path \<Rightarrow> string" where
  "path_str p = (if root p = '''' \<and> parts p = [] then ''.'' else root p @ join ''/'' (parts p))"

definition path_name :: "path \<Rightarrow> string" where
  "path_name p = (if parts p = [] then '''' else last (parts p))"

text \<open>The last dot of the name, unless it is the first or the last character.\<close>

definition path_suffix :: "path \<Rightarrow> string" where
  "path_suffix p = (let n = path_name p; tail = takeWhile (\<lambda>c. c \<noteq> CHR ''.'') (rev n) in
     if CHR ''.'' \<in> set n \<and> tail \<noteq> [] \<and> length tail + 1 < length n then CHR ''.'' # rev tail else '''')"

definition path_parent :: "path \<Rightarrow> path" where
  "path_parent p = Path (root p) (butlast (parts p))"

text \<open>\<open>p / q\<close>.\<close>

definition path_join :: "path \<Rightarrow> path \<Rightarrow> path" where
  "path_join p q = (if root q \<noteq> '''' then q else Path (root p) (parts p @ parts q))"

definition is_absolute :: "path \<Rightarrow> bool" where
  "is_absolute p = (root p \<noteq> '''')"

definition is_relative_to :: "path \<Rightarrow> path \<Rightarrow> bool" where
  "is_relative_to p q = (root p = root q \<and> take (length (parts q)) (parts p) = parts q)"

definition relative_to :: "path \<Rightarrow> path \<Rightarrow> path option" where
  "relative_to p q = (if is_relative_to p q then Some (Path '''' (drop (length (parts q)) (parts p))) else None)"

lemma is_relative_to_iff: "is_relative_to p q \<longleftrightarrow> (\<exists>xs. p = Path (root q) (parts q @ xs))"
  by (cases p; cases q) (auto simp: is_relative_to_def, metis append_take_drop_id)

lemma relative_to_join:
  "relative_to p q = Some r \<Longrightarrow> path_join q r = p"
  by (cases p; cases q) (auto simp: relative_to_def path_join_def is_relative_to_iff split: if_splits)

lemma is_relative_to_join: "root q = '''' \<Longrightarrow> is_relative_to (path_join p q) p"
  by (simp add: is_relative_to_def path_join_def)

lemma is_relative_to_refl [simp]: "is_relative_to p p"
  by (simp add: is_relative_to_def)

lemma is_relative_to_trans: "is_relative_to p q \<Longrightarrow> is_relative_to q r \<Longrightarrow> is_relative_to p r"
  by (auto simp: is_relative_to_iff)

text \<open>A path built from parts that no separator interrupts reads back as itself.\<close>

definition plain_part :: "string \<Rightarrow> bool" where
  "plain_part s = (s \<noteq> '''' \<and> s \<noteq> ''.'' \<and> CHR ''/'' \<notin> set s)"

lemma parts_path_of: "\<forall>x\<in>set (parts (path_of s)). plain_part x"
  unfolding path_of_def plain_part_def by (auto dest: split_on_no_sep)

text \<open>\<open>Path(s).name == s\<close> holds of a single plain component only.\<close>

lemma path_name_same: "path_name (path_of s) = s \<Longrightarrow> s \<noteq> [] \<Longrightarrow> plain_part s"
  by (metis last_in_set parts_path_of path_name_def)


text \<open>A normalised path prints and parses back as itself.\<close>

definition normal_path :: "path \<Rightarrow> bool" where
  "normal_path p \<longleftrightarrow> root p \<in> {'''', ''/'', ''//''} \<and> (\<forall>x\<in>set (parts p). plain_part x)"

lemma normal_path_of: "normal_path (path_of s)"
proof -
  have "root (path_of s) \<in> {'''', ''/'', ''//''}" by (simp add: path_of_def path_root_def)
  with parts_path_of [of s] show ?thesis unfolding normal_path_def by blast
qed

lemma normal_path_join: "normal_path p \<Longrightarrow> normal_path q \<Longrightarrow> normal_path (path_join p q)"
  by (auto simp: normal_path_def path_join_def)

lemma split_parts:
  assumes "\<forall>x\<in>set ps. plain_part x"
  shows "filter (\<lambda>p. p \<noteq> '''' \<and> p \<noteq> ''.'') (split_on (CHR ''/'') (join ''/'' ps)) = ps"
proof (cases "ps = []")
  case False
  then have "split_on (CHR ''/'') (join ''/'' ps) = ps"
    using assms by (intro split_on_join) (auto simp: plain_part_def)
  then show ?thesis using assms by (auto simp: filter_id_conv plain_part_def)
qed simp

lemma join_start: "\<forall>x\<in>set ps. plain_part x \<Longrightarrow> ps \<noteq> [] \<Longrightarrow> \<exists>c cs. join ''/'' ps = c # cs \<and> c \<noteq> CHR ''/''"
proof (induction "''/''" ps rule: join.induct)
  case (3 w v ws)
  then show ?case by (cases w) (auto simp: plain_part_def)
next
  case (2 w)
  then show ?case by (cases w) (auto simp: plain_part_def)
qed simp

lemma path_of_str:
  assumes "normal_path p"
  shows "path_of (path_str p) = p"
proof (cases p)
  case (Path r ps)
  from assms have r: "r \<in> {'''', ''/'', ''//''}" and ps: "\<forall>x\<in>set ps. plain_part x"
    by (auto simp: normal_path_def Path)
  show ?thesis
  proof (cases "ps = []")
    case True
    with r show ?thesis by (auto simp: Path path_str_def path_of_def path_root_def startswith_def)
  next
    case False
    from join_start [OF ps False] obtain c cs where "join ''/'' ps = c # cs" "c \<noteq> CHR ''/''" by blast
    with r split_parts [OF ps] False show ?thesis
      by (auto simp: Path path_str_def path_of_def path_root_def startswith_def)
  qed
qed

end
