(* ===== verification/Catalogue_Schema.thy ===== *)
theory Catalogue_Schema
  imports Fixture_Fields Py_Path
begin

text \<open>
  \<open>catalogue_schema.py\<close> and the surface classes of \<open>catalogue.py\<close>: the static inputs of
  coverage and of the scenario catalogue. Every parser is proved to return a value of its
  class, to check the identities the class cannot express, and to fail only by a
  ValidationError.
\<close>

section \<open>The classes\<close>

abbreviation literals :: "string list \<Rightarrow> annot" where
  "literals ss \<equiv> ALit (map PStr ss)"

definition surface_kind :: annot where
  "surface_kind = literals [''cli-command'', ''cli-option'', ''library-function'', ''library-signal'']"

definition source_class :: annot where
  "source_class = ATyped ''Source'' [(''path'', True, AStr), (''anchor'', True, AStr)]"

definition surface_required_fields :: "(string \<times> bool \<times> annot) list" where
  "surface_required_fields = [(''id'', True, AStr), (''kind'', True, surface_kind),
     (''name'', True, AStr), (''sources'', True, AList source_class)]"

definition surface_class :: annot where
  "surface_class = ATyped ''Surface'' (surface_required_fields @ [
     (''aliases'', False, AList AStr), (''documented_with'', False, AList AStr),
     (''command'', False, AStr), (''owner'', False, AStr), (''deprecated'', False, ABool),
     (''replacement'', False, AStr)])"

definition reference_class :: annot where
  "reference_class = ATyped ''Reference'' [(''commit'', True, AStr), (''sources'', True, ADict AStr AStr)]"

definition catalogue_class :: annot where
  "catalogue_class = ATyped ''Catalogue'' [(''schema'', True, AInt), (''reference'', True, reference_class),
     (''limitations'', True, AList AStr), (''surfaces'', True, AList surface_class)]"

definition interface_type :: annot where
  "interface_type = literals [''cli'', ''library'']"

definition profile_type :: annot where
  "profile_type = literals [''user'', ''system'', ''any'']"

definition identified_fields :: "(string \<times> bool \<times> annot) list" where
  "identified_fields = [(''id'', True, AStr)]"

definition behavior_metadata_fields :: "(string \<times> bool \<times> annot) list" where
  "behavior_metadata_fields = identified_fields @ [(''description'', False, AStr),
     (''preconditions'', False, AUnion [AStr, AList AStr]),
     (''expected'', False, AUnion [AStr, AList AStr]), (''references'', False, AList AStr),
     (''handler'', False, AStr), (''execution_environment'', False, AStr),
     (''notes'', False, AList AStr)]"

definition behavior_class :: annot where
  "behavior_class = ATyped ''Behavior'' (behavior_metadata_fields @ [(''gap'', False, AStr),
     (''scenario'', False, AStr), (''profile'', False, profile_type),
     (''drivers'', False, AList interface_type), (''required_capabilities'', False, AList AStr)])"

definition executable_behavior_class :: annot where
  "executable_behavior_class = ATyped ''ExecutableBehavior'' (behavior_metadata_fields @ [
     (''scenario'', True, AStr), (''profile'', True, profile_type),
     (''drivers'', True, AList interface_type), (''required_capabilities'', True, AList AStr)])"

definition gap_behavior_class :: annot where
  "gap_behavior_class = ATyped ''GapBehavior'' (behavior_metadata_fields @ [(''gap'', True, AStr),
     (''profile'', False, profile_type), (''drivers'', False, AList interface_type),
     (''required_capabilities'', False, AList AStr)])"

definition surface_assertion_class :: annot where
  "surface_assertion_class = ATyped ''SurfaceAssertion'' (identified_fields @ [(''rationale'', True, AStr)])"

definition mapping_required_fields :: "(string \<times> bool \<times> annot) list" where
  "mapping_required_fields = [(''behavior_id'', True, AStr), (''driver'', True, interface_type),
     (''profile'', True, profile_type), (''requirements'', True, AList AStr), (''rationale'', True, AStr)]"

definition coverage_mapping_class :: annot where
  "coverage_mapping_class = ATyped ''CoverageMapping'' (mapping_required_fields @ [
     (''surface_assertions'', False, AList surface_assertion_class),
     (''equivalent_options'', False, AList surface_assertion_class), (''notes'', False, AList AStr)])"

definition client_class :: annot where
  "client_class = ATyped ''Client'' [(''source'', True, AStr), (''entry'', True, AStr)]"

definition inventory_fields :: "(string \<times> bool \<times> annot) list" where
  "inventory_fields = [(''schema'', True, AInt), (''behaviors'', True, AList behavior_class)]"

definition inventory_class :: annot where
  "inventory_class = ATyped ''Inventory'' inventory_fields"

definition scenario_group_class :: annot where
  "scenario_group_class = ATyped ''ScenarioGroup'' (inventory_fields @ [
     (''mappings'', True, AList coverage_mapping_class), (''client'', False, client_class),
     (''notes'', False, AList AStr)])"

definition mapping_document_class :: annot where
  "mapping_document_class = ATyped ''MappingDocument'' [(''schema'', True, AInt),
     (''cases'', True, AList coverage_mapping_class)]"

definition requirement_class :: annot where
  "requirement_class = ATyped ''Requirement'' (identified_fields @ [(''interface'', True, interface_type),
     (''profile'', True, profile_type), (''category'', True, AStr), (''description'', True, AStr),
     (''sources'', True, AList source_class), (''surfaces'', True, AList AStr),
     (''required_capabilities'', True, AList AStr)])"

definition requirements_document_class :: annot where
  "requirements_document_class = ATyped ''RequirementsDocument'' [(''schema'', True, AInt),
     (''scope'', True, interface_type), (''limitations'', True, AList AStr),
     (''requirements'', True, AList requirement_class), (''includes'', False, AList AStr)]"

section \<open>The parsers\<close>

text \<open>\<open>indexed\<close>: the items by their identifiers, which must be nonempty and unique.\<close>

definition index_step :: "string \<Rightarrow> dict \<Rightarrow> pyval \<Rightarrow> dict result" where
  "index_step label result x =
     bindE (getitem x ''id'') (\<lambda>i.
     bindE (string i (label @ ''.id'') True) (\<lambda>identifier.
     if has_key result identifier
     then raise ValidationError (''invalid or duplicate '' @ label @ '' ID: '' @ identifier)
     else Inr (AList.update identifier x result)))"

definition indexed :: "pyval list \<Rightarrow> string \<Rightarrow> dict result" where
  "indexed items label = foldE (index_step label) [] items"

definition surface_default :: "string \<Rightarrow> nat \<times> pyval \<Rightarrow> pyval result" where
  "surface_default path ix = (case ix of (index, x) \<Rightarrow>
     bindE (object_map x (idx (sub path ''surfaces'') index)) (\<lambda>raw.
     Inr (PObj (setdefault raw ''sources'' (PList [])))))"

definition command_names :: "pyval list \<Rightarrow> string list result" where
  "command_names surfaces = liftE concat (mapE (\<lambda>surface.
     bindE (getitem surface ''kind'') (\<lambda>kind.
     if kind = PStr ''cli-command'' then liftE (\<lambda>n. [text_of n]) (getitem surface ''name'')
     else Inr [])) surfaces)"

definition check_surface :: "string \<Rightarrow> string list \<Rightarrow> nat \<times> pyval \<Rightarrow> unit result" where
  "check_surface path commands ix = (case ix of (index, surface) \<Rightarrow>
     bindE (getitem surface ''name'') (\<lambda>name.
     bindE (string name (sub (idx (sub path ''surfaces'') index) ''name'') True) (\<lambda>_.
     if has surface ''command'' then
       bindE (getitem surface ''command'') (\<lambda>command.
       guardE (text_of command \<in> set commands \<union> {''global''}) ValidationError
         (sub (idx (sub path ''surfaces'') index) ''command'' @ '': unknown command '' @ text_of command))
     else Inr ())))"

definition parse_catalogue :: "pyval \<Rightarrow> string \<Rightarrow> pyval result" where
  "parse_catalogue v path =
     bindE (object_map v path) (\<lambda>data.
     bindE (required data ''surfaces'' path) (\<lambda>raw.
     bindE (array raw (sub path ''surfaces'')) (\<lambda>raws.
     bindE (mapE (surface_default path) (enumerate_list raws)) (\<lambda>surfaces.
     bindE (parse_typed (PObj (AList.update ''surfaces'' (PList surfaces) data)) catalogue_class path) (\<lambda>result.
     bindE (getitem result ''surfaces'') (\<lambda>checked.
     bindE (indexed (elements_of checked) ''surface'') (\<lambda>_.
     bindE (command_names (elements_of checked)) (\<lambda>commands.
     bindE (forE (enumerate_list (elements_of checked)) (check_surface path commands)) (\<lambda>_.
     Inr result)))))))))"

definition executable_behavior :: "pyval \<Rightarrow> string \<Rightarrow> pyval result" where
  "executable_behavior v path =
     bindE (object_map v path) (\<lambda>data.
     bindE (parse_typed (PObj (setdefault data ''required_capabilities'' (PList [])))
       executable_behavior_class path) (\<lambda>result.
     bindE (getitem result ''scenario'') (\<lambda>scenario.
     bindE (string scenario (sub path ''scenario'') True) (\<lambda>_.
     bindE (getitem result ''drivers'') (\<lambda>drivers.
     bindE (guardE (elements_of drivers \<noteq> [] \<and> distinct (elements_of drivers)) ValidationError
       (sub path ''drivers'' @ '': expected nonempty unique drivers'')) (\<lambda>_.
     Inr result))))))"

definition valid_handler :: "string \<Rightarrow> bool" where
  "valid_handler handler = (case partition_on (CHR '':'') handler of (modul, separator, func) \<Rightarrow>
     separator \<noteq> [] \<and> isidentifier modul \<and> isidentifier func)"

text \<open>The executable-only and the gap-only requirements of a behavior.\<close>

definition behavior_shape :: "dict \<Rightarrow> string \<Rightarrow> dict result" where
  "behavior_shape data path = (if has_key data ''scenario'' then
       let data = setdefault data ''required_capabilities'' (PList []) in
       bindE (executable_behavior (PObj data) path) (\<lambda>_. Inr data)
     else
       bindE (parse_typed (PObj data) gap_behavior_class path) (\<lambda>_.
       bindE (required data ''gap'' path) (\<lambda>gap.
       bindE (string gap (sub path ''gap'') True) (\<lambda>_. Inr data))))"

definition check_handler :: "pyval \<Rightarrow> string \<Rightarrow> string \<Rightarrow> unit result" where
  "check_handler result identifier path = (if has result ''handler'' then
       bindE (getitem result ''handler'') (\<lambda>handler.
       guardE (valid_handler (text_of handler)) ValidationError (sub path ''handler'' @
         '': handler must name a root module and function: '' @ identifier))
     else Inr ())"

definition parse_behavior :: "pyval \<Rightarrow> string \<Rightarrow> pyval result" where
  "parse_behavior v path =
     bindE (object_map v path) (\<lambda>data.
     bindE (behavior_shape data path) (\<lambda>data.
     bindE (parse_typed (PObj data) behavior_class path) (\<lambda>result.
     bindE (getitem result ''id'') (\<lambda>i.
     bindE (string i (sub path ''id'') True) (\<lambda>identifier.
     bindE (check_handler result identifier path) (\<lambda>_.
     Inr result))))))"

definition parse_gap :: "pyval \<Rightarrow> string \<Rightarrow> pyval result" where
  "parse_gap v path =
     bindE (parse_behavior v path) (\<lambda>behavior.
     bindE (parse_typed behavior gap_behavior_class path) (\<lambda>result.
     bindE (getitem result ''gap'') (\<lambda>gap.
     bindE (string gap (sub path ''gap'') True) (\<lambda>_. Inr result))))"

text \<open>\<open>_behaviors\<close> replaces the array in the document by the parsed one.\<close>

definition parse_behaviors :: "dict \<Rightarrow> string \<Rightarrow> dict result" where
  "parse_behaviors data path =
     bindE (required_with (list_parser parse_behavior) data ''behaviors'' path) (\<lambda>behaviors.
     Inr (AList.update ''behaviors'' behaviors data))"

definition parse_inventory :: "pyval \<Rightarrow> string \<Rightarrow> pyval result" where
  "parse_inventory v path =
     bindE (object_map v path) (\<lambda>data.
     bindE (parse_behaviors data path) (\<lambda>data.
     bindE (parse_typed (PObj data) inventory_class path) (\<lambda>result.
     bindE (getitem result ''behaviors'') (\<lambda>behaviors.
     bindE (indexed (elements_of behaviors) ''behavior'') (\<lambda>_. Inr result)))))"

text \<open>\<open>re.fullmatch(r"blackbox_[a-z0-9_]+_main", entry)\<close> and the check of a client's source.\<close>

definition client_entry :: "string \<Rightarrow> bool" where
  "client_entry entry = (startswith entry ''blackbox_'' \<and> endswith entry ''_main'' \<and>
     15 \<le> length entry \<and>
     list_all (\<lambda>c. is_lower c \<or> isdigit c \<or> c = CHR ''_'') (drop 9 (take (length entry - 5) entry)))"

definition client_source :: "string \<Rightarrow> bool" where
  "client_source source = (path_name (path_of source) = source \<and> endswith source ''.c'')"

definition check_client :: "pyval \<Rightarrow> string \<Rightarrow> unit result" where
  "check_client result path = (if has result ''client'' then
       bindE (getitem result ''client'') (\<lambda>client.
       bindE (getitem client ''entry'') (\<lambda>entry.
       bindE (getitem client ''source'') (\<lambda>source.
       bindE (guardE (client_entry (text_of entry)) ValidationError
         (sub path ''client.entry'' @ '': invalid client entry point: '' @ text_of entry)) (\<lambda>_.
       guardE (client_source (text_of source)) ValidationError
         (sub path ''client.source'' @ '': invalid client source: '' @ text_of source)))))
     else Inr ())"

definition parse_scenario_group :: "pyval \<Rightarrow> string \<Rightarrow> pyval result" where
  "parse_scenario_group v path =
     bindE (object_map v path) (\<lambda>data.
     bindE (parse_behaviors data path) (\<lambda>data.
     bindE (parse_typed (PObj data) scenario_group_class path) (\<lambda>result.
     bindE (getitem result ''behaviors'') (\<lambda>behaviors.
     bindE (indexed (elements_of behaviors) ''behavior'') (\<lambda>_.
     bindE (check_client result path) (\<lambda>_.
     Inr result))))))"

definition parse_mappings :: "pyval \<Rightarrow> string \<Rightarrow> pyval result" where
  "parse_mappings v path = parse_typed v mapping_document_class path"

definition parse_requirements :: "pyval \<Rightarrow> string \<Rightarrow> pyval result" where
  "parse_requirements v path =
     bindE (parse_typed v requirements_document_class path) (\<lambda>result.
     bindE (getitem result ''requirements'') (\<lambda>requirements.
     bindE (indexed (elements_of requirements) ''requirement'') (\<lambda>_. Inr result)))"

text \<open>
  \<open>load_requirements\<close> follows the includes of the index document. \<open>read\<close> is
  \<open>load_json\<close> on the files present, \<open>resolve\<close> is \<open>Path.resolve\<close>.
\<close>

definition include_shard :: "(path \<Rightarrow> pyval result) \<Rightarrow> (path \<Rightarrow> path) \<Rightarrow> path
    \<Rightarrow> pyval \<times> path set \<Rightarrow> string \<Rightarrow> (pyval \<times> path set) result" where
  "include_shard read resolve path st include = (case st of (result, seen) \<Rightarrow>
     let directory = resolve (path_parent path); relative = path_of include;
         shard = resolve (path_join directory relative) in
     bindE (guardE (\<not> (is_absolute relative \<or> path_suffix relative \<noteq> ''.json'' \<or>
         \<not> is_relative_to shard directory \<or> shard = resolve path)) ValidationError
       (path_str path @ '': invalid requirement include path: '' @ include)) (\<lambda>_.
     bindE (guardE (shard \<notin> seen) ValidationError
       (path_str path @ '': duplicate requirement include: '' @ include)) (\<lambda>_.
     bindE (bindE (read shard) (\<lambda>v. parse_requirements v (path_str shard))) (\<lambda>document.
     bindE (guardE (\<not> has document ''includes'') ValidationError
       (path_str shard @ '': recursive requirement includes are not supported'')) (\<lambda>_.
     bindE (getitem document ''scope'') (\<lambda>scope.
     bindE (getitem result ''scope'') (\<lambda>expected.
     bindE (getitem document ''requirements'') (\<lambda>requirements.
     bindE (mapE (\<lambda>x. getitem x ''interface'') (elements_of requirements)) (\<lambda>interfaces.
     bindE (guardE (\<not> (scope \<noteq> expected \<or> (\<exists>i\<in>set interfaces. i \<noteq> expected))) ValidationError
       (path_str shard @ '': requirement shard has incorrect interface scope'')) (\<lambda>_.
     bindE (getitem result ''requirements'') (\<lambda>known.
     bindE (getitem document ''limitations'') (\<lambda>limits.
     bindE (getitem result ''limitations'') (\<lambda>known_limits.
     Inr (setitem (setitem result ''requirements'' (PList (elements_of known @ elements_of requirements)))
         ''limitations'' (PList (elements_of known_limits @ elements_of limits)),
       insert shard seen))))))))))))))"

definition load_requirements :: "(path \<Rightarrow> pyval result) \<Rightarrow> (path \<Rightarrow> path) \<Rightarrow> path \<Rightarrow> pyval result" where
  "load_requirements read resolve path =
     bindE (bindE (read path) (\<lambda>v. parse_requirements v (path_str path))) (\<lambda>result.
     bindE (foldE (include_shard read resolve path) (result, {})
       (texts_of (get_or result ''includes'' (PList [])))) (\<lambda>(result, _).
     bindE (getitem result ''requirements'') (\<lambda>requirements.
     bindE (indexed (elements_of requirements) ''requirement'') (\<lambda>_. Inr result))))"

section \<open>Typed access to the classes\<close>

lemma gives_field:
  "has_type v c \<Longrightarrow> c = ATyped nm fs \<Longrightarrow> map_of fs k = Some (True, a) \<Longrightarrow>
     gives (getitem v k) (\<lambda>x. has_type x a)"
  by (auto intro: gives_getitem)

lemma gives_field_has:
  "has_type v c \<Longrightarrow> c = ATyped nm fs \<Longrightarrow> map_of fs k = Some (r, a) \<Longrightarrow> has v k \<Longrightarrow>
     gives (getitem v k) (\<lambda>x. has_type x a)"
  by (auto intro: gives_getitem_has)

lemmas class_fields = surface_required_fields_def identified_fields_def behavior_metadata_fields_def
  mapping_required_fields_def inventory_fields_def

named_theorems gives_fields

lemma surface_fields [gives_fields]:
  assumes "has_type v surface_class"
  shows "gives (getitem v ''id'') (\<lambda>x. has_type x AStr)"
    and "gives (getitem v ''kind'') (\<lambda>x. has_type x surface_kind)"
    and "gives (getitem v ''name'') (\<lambda>x. has_type x AStr)"
    and "has v ''command'' \<Longrightarrow> gives (getitem v ''command'') (\<lambda>x. has_type x AStr)"
  by (rule gives_field [OF assms surface_class_def] gives_field_has [OF assms surface_class_def, where r = False];
      (simp add: class_fields; fail))+

lemma catalogue_fields [gives_fields]:
  "has_type v catalogue_class \<Longrightarrow> gives (getitem v ''surfaces'') (\<lambda>x. has_type x (AList surface_class))"
  by (rule gives_field [OF _ catalogue_class_def]) simp_all

lemma executable_fields [gives_fields]:
  assumes "has_type v executable_behavior_class"
  shows "gives (getitem v ''scenario'') (\<lambda>x. has_type x AStr)"
    and "gives (getitem v ''drivers'') (\<lambda>x. has_type x (AList interface_type))"
  by (rule gives_field [OF assms executable_behavior_class_def] gives_field_has [OF assms executable_behavior_class_def, where r = False];
      (simp add: class_fields; fail))+

lemma behavior_fields [gives_fields]:
  assumes "has_type v behavior_class"
  shows "gives (getitem v ''id'') (\<lambda>x. has_type x AStr)"
    and "has v ''handler'' \<Longrightarrow> gives (getitem v ''handler'') (\<lambda>x. has_type x AStr)"
  by (rule gives_field [OF assms behavior_class_def] gives_field_has [OF assms behavior_class_def, where r = False];
      (simp add: class_fields; fail))+

lemma gap_fields [gives_fields]:
  "has_type v gap_behavior_class \<Longrightarrow> gives (getitem v ''gap'') (\<lambda>x. has_type x AStr)"
  by (rule gives_field [OF _ gap_behavior_class_def]) (simp_all add: class_fields)

lemma inventory_class_fields [gives_fields]:
  "has_type v inventory_class \<Longrightarrow> gives (getitem v ''behaviors'') (\<lambda>x. has_type x (AList behavior_class))"
  by (rule gives_field [OF _ inventory_class_def]) (simp_all add: class_fields)

lemma scenario_group_fields [gives_fields]:
  assumes "has_type v scenario_group_class"
  shows "gives (getitem v ''behaviors'') (\<lambda>x. has_type x (AList behavior_class))"
    and "has v ''client'' \<Longrightarrow> gives (getitem v ''client'') (\<lambda>x. has_type x client_class)"
  by (rule gives_field [OF assms scenario_group_class_def] gives_field_has [OF assms scenario_group_class_def, where r = False];
      (simp add: class_fields; fail))+

lemma client_fields [gives_fields]:
  assumes "has_type v client_class"
  shows "gives (getitem v ''source'') (\<lambda>x. has_type x AStr)"
    and "gives (getitem v ''entry'') (\<lambda>x. has_type x AStr)"
  by (rule gives_field [OF assms client_class_def] gives_field_has [OF assms client_class_def, where r = False];
      (simp add: class_fields; fail))+

lemma requirements_fields [gives_fields]:
  assumes "has_type v requirements_document_class"
  shows "gives (getitem v ''scope'') (\<lambda>x. has_type x interface_type)"
    and "gives (getitem v ''requirements'') (\<lambda>x. has_type x (AList requirement_class))"
    and "gives (getitem v ''limitations'') (\<lambda>x. has_type x (AList AStr))"
  by (rule gives_field [OF assms requirements_document_class_def] gives_field_has [OF assms requirements_document_class_def, where r = False];
      (simp add: class_fields; fail))+

lemma requirement_fields [gives_fields]:
  assumes "has_type v requirement_class"
  shows "gives (getitem v ''id'') (\<lambda>x. has_type x AStr)"
    and "gives (getitem v ''interface'') (\<lambda>x. has_type x interface_type)"
  by (rule gives_field [OF assms requirement_class_def] gives_field_has [OF assms requirement_class_def, where r = False];
      (simp add: class_fields; fail))+

section \<open>Identities\<close>

text \<open>What \<open>indexed\<close> guarantees of a list: every item has a nonempty identifier of its own.\<close>

definition identified :: "pyval list \<Rightarrow> bool" where
  "identified items \<longleftrightarrow> (\<exists>ids. length ids = length items \<and> distinct ids \<and>
     (\<forall>i<length items. getitem (items ! i) ''id'' = Inr (PStr (ids ! i)) \<and> ids ! i \<noteq> []))"

lemma index_step_Inr:
  "index_step label result x = Inr d \<longleftrightarrow> (\<exists>s. getitem x ''id'' = Inr (PStr s) \<and> s \<noteq> [] \<and>
     CHR 0x00 \<notin> set s \<and> \<not> has_key result s \<and> d = result @ [(s, x)])"
proof -
  have upd: "\<not> has_key result s \<Longrightarrow> AList.update s x result = result @ [(s, x)]" for s
    unfolding has_key_iff by (induction result) auto
  show ?thesis
    by (auto simp: index_step_def err_simps upd split: if_splits)
qed

lemma foldE_index_step:
  "foldE (index_step label) acc xs = Inr d \<longleftrightarrow> (\<exists>ids. length ids = length xs \<and>
     d = acc @ zip ids xs \<and> distinct ids \<and> set ids \<inter> fst ` set acc = {} \<and>
     (\<forall>i<length xs. getitem (xs ! i) ''id'' = Inr (PStr (ids ! i)) \<and> ids ! i \<noteq> [] \<and> CHR 0x00 \<notin> set (ids ! i)))"
    (is "?L acc xs d \<longleftrightarrow> (\<exists>ids. ?R acc xs d ids)")
proof (induction xs arbitrary: acc)
  case (Cons x xs)
  have "?L acc (x # xs) d \<longleftrightarrow> (\<exists>s. getitem x ''id'' = Inr (PStr s) \<and> s \<noteq> [] \<and> CHR 0x00 \<notin> set s \<and>
      s \<notin> fst ` set acc \<and> (\<exists>ids. ?R (acc @ [(s, x)]) xs d ids))"
    by (simp add: err_simps index_step_Inr has_key_iff Cons.IH flip: ex_simps) blast
  also have "\<dots> \<longleftrightarrow> (\<exists>ids. ?R acc (x # xs) d ids)"
  proof
    assume "\<exists>s. getitem x ''id'' = Inr (PStr s) \<and> s \<noteq> [] \<and> CHR 0x00 \<notin> set s \<and>
      s \<notin> fst ` set acc \<and> (\<exists>ids. ?R (acc @ [(s, x)]) xs d ids)"
    then obtain s ids where "getitem x ''id'' = Inr (PStr s)" "s \<noteq> []" "CHR 0x00 \<notin> set s"
      "s \<notin> fst ` set acc" "?R (acc @ [(s, x)]) xs d ids" by blast
    then have "?R acc (x # xs) d (s # ids)" by (auto simp: nth_Cons less_Suc_eq_0_disj)
    then show "\<exists>ids. ?R acc (x # xs) d ids" by blast
  next
    assume "\<exists>ids. ?R acc (x # xs) d ids"
    then obtain ids where R: "?R acc (x # xs) d ids" by blast
    then obtain s ids' where ids: "ids = s # ids'" by (cases ids) auto
    have tail: "\<forall>i<length xs. getitem (xs ! i) ''id'' = Inr (PStr (ids' ! i)) \<and> ids' ! i \<noteq> [] \<and> CHR 0x00 \<notin> set (ids' ! i)"
      using R unfolding ids by (auto dest!: spec [where x = "Suc _"])
    have hd: "getitem x ''id'' = Inr (PStr s) \<and> s \<noteq> [] \<and> CHR 0x00 \<notin> set s"
      using R unfolding ids by (auto dest!: spec [where x = 0])
    from R ids tail have "?R (acc @ [(s, x)]) xs d ids'" by auto
    with hd R ids show "\<exists>s. getitem x ''id'' = Inr (PStr s) \<and> s \<noteq> [] \<and> CHR 0x00 \<notin> set s \<and>
      s \<notin> fst ` set acc \<and> (\<exists>ids. ?R (acc @ [(s, x)]) xs d ids)" by auto
  qed
  finally show ?case .
qed auto

lemma indexed_Inr: "indexed xs label = Inr d \<Longrightarrow> identified xs \<and> map snd d = xs \<and> distinct (map fst d)"
  by (auto simp: indexed_def foldE_index_step identified_def)

lemma gives_indexed:
  assumes "\<And>x. x \<in> set xs \<Longrightarrow> gives (getitem x ''id'') Q"
  shows "gives (indexed xs label) (\<lambda>d. identified xs \<and> map snd d = xs \<and> distinct (map fst d))"
proof -
  have "validation_error (index_step label s x)" if "x \<in> set xs" for s x
    unfolding index_step_def using gives_rejects [OF assms [OF that]] by (auto intro!: rejects)
  then have "gives (foldE (index_step label) [] xs) (\<lambda>_. True)"
    by (intro gives_foldE gives_any) auto
  then show ?thesis
    using indexed_Inr [of xs label] by (auto simp: gives_iff indexed_def)
qed

section \<open>What the parsers accept\<close>

definition named :: "pyval \<Rightarrow> string \<Rightarrow> string \<Rightarrow> bool" where
  "named v key s \<longleftrightarrow> getitem v key = Inr (PStr s)"

definition executable_ok :: "pyval \<Rightarrow> bool" where
  "executable_ok r \<longleftrightarrow> has_type r executable_behavior_class \<and>
     (\<exists>s. named r ''scenario'' s \<and> s \<noteq> []) \<and>
     (\<exists>ds. getitem r ''drivers'' = Inr (PList ds) \<and> ds \<noteq> [] \<and> distinct ds)"

definition gap_ok :: "pyval \<Rightarrow> bool" where
  "gap_ok r \<longleftrightarrow> has_type r gap_behavior_class \<and> (\<exists>s. named r ''gap'' s \<and> s \<noteq> [])"

definition behavior_ok :: "pyval \<Rightarrow> bool" where
  "behavior_ok r \<longleftrightarrow> has_type r behavior_class \<and> (if has r ''scenario'' then executable_ok r else gap_ok r) \<and>
     (\<exists>s. named r ''id'' s \<and> s \<noteq> []) \<and> (\<forall>h. named r ''handler'' h \<longrightarrow> valid_handler h)"

definition catalogue_ok :: "pyval \<Rightarrow> bool" where
  "catalogue_ok r \<longleftrightarrow> has_type r catalogue_class \<and> (\<exists>ss. getitem r ''surfaces'' = Inr (PList ss) \<and>
     identified ss \<and> (\<forall>s\<in>set ss. \<forall>c. named s ''command'' c \<longrightarrow> c = ''global'' \<or>
        (\<exists>s'\<in>set ss. named s' ''kind'' ''cli-command'' \<and> named s' ''name'' c)))"

lemma executable_behavior_gives: "gives (executable_behavior v p) executable_ok"
  unfolding executable_behavior_def
  by (rule gives_bind gives_object_map gives_parse_typed gives_string gives_guard gives_fields
      | assumption)+ (auto simp: executable_ok_def named_def has_type_list)

text \<open>Two checks of one value return the same normalised value.\<close>

lemma parse_typed_same:
  "parse_typed v a p = Inr r \<Longrightarrow> parse_typed v b p = Inr r' \<Longrightarrow> r = r'"
  by (auto simp: parse_typed_Inr)

lemma executable_behavior_value:
  assumes "executable_behavior (PObj (setdefault d ''required_capabilities'' (PList []))) p = Inr r"
  shows "json_value (PObj (setdefault d ''required_capabilities'' (PList []))) p = Inr r"
proof -
  have "setdefault (setdefault d k x) k x = setdefault d k x" for k and x :: pyval
    by (simp add: setdefault_def)
  with assms show ?thesis by (auto simp: executable_behavior_def err_simps)
qed

lemma gap_required:
  assumes "json_value (PObj d) p = Inr r" and "map_of d k = Some (PStr s)"
  shows "named r k s"
proof -
  from assms(1) obtain d' where r: "r = PObj d'"
    and all: "list_all2 (\<lambda>(k, x) (k', y). k = k' \<and> json_value x (sub p k) = Inr y) d d'"
    by (auto simp: json_value_PObj err_simps mapE_pairs_Inr)
  from all assms(2) have "map_of d' k = Some (PStr s)"
    by (induction rule: list_all2_induct) (auto split: if_splits)
  with r show ?thesis by (simp add: named_def)
qed

lemma has_json_value:
  assumes "json_value (PObj d) p = Inr r"
  shows "has r k \<longleftrightarrow> has_key d k"
proof -
  from assms obtain d' where r: "r = PObj d'"
    and all: "list_all2 (\<lambda>(k, x) (k', y). k = k' \<and> json_value x (sub p k) = Inr y) d d'"
    by (auto simp: json_value_PObj err_simps mapE_pairs_Inr)
  from all have "map fst d' = map fst d" by (induction rule: list_all2_induct) auto
  with r show ?thesis unfolding has_PObj has_key_iff by (metis has_PObj has_key_iff list.set_map)
qed

lemma behavior_shape_gives:
  "gives (behavior_shape data p) (\<lambda>d. \<forall>r. json_value (PObj d) p = Inr r \<longrightarrow>
     (if has r ''scenario'' then executable_ok r else gap_ok r))"
proof (cases "has_key data ''scenario''")
  case True
  let ?d = "setdefault data ''required_capabilities'' (PList [])"
  have key: "has_key ?d ''scenario''" using True by (auto simp: setdefault_def)
  have "gives (bindE (executable_behavior (PObj ?d) p) (\<lambda>_. Inr ?d)) (\<lambda>d. \<forall>r.
      json_value (PObj d) p = Inr r \<longrightarrow> (if has r ''scenario'' then executable_ok r else gap_ok r))"
  proof (rule gives_bind [OF executable_behavior_gives])
    fix x assume x: "executable_behavior (PObj ?d) p = Inr x" and ok: "executable_ok x"
    from executable_behavior_value [OF x] ok key show "gives (Inr ?d) (\<lambda>d. \<forall>r.
      json_value (PObj d) p = Inr r \<longrightarrow> (if has r ''scenario'' then executable_ok r else gap_ok r))"
      by (auto simp: has_json_value)
  qed
  with True show ?thesis by (simp add: behavior_shape_def Let_def)
next
  case False
  have "gap_ok r" if "has_type x gap_behavior_class" and "parse_typed (PObj data) gap_behavior_class p = Inr x"
    and "map_of data ''gap'' = Some (PStr s)" and "s \<noteq> []" and "json_value (PObj data) p = Inr r" for x s r
    using that gap_required [OF that(5,3)] by (auto simp: gap_ok_def parse_typed_Inr)
  with False show ?thesis unfolding behavior_shape_def
    by (simp, intro gives_bind [OF gives_parse_typed] gives_bind [OF gives_required] gives_bind [OF gives_string])
      (auto simp: has_json_value)
qed

lemma check_handler_gives:
  assumes "has_type r behavior_class"
  shows "gives (check_handler r i p) (\<lambda>_. \<forall>h. named r ''handler'' h \<longrightarrow> valid_handler h)"
proof (cases "has r ''handler''")
  case True
  with behavior_fields(2) [OF assms] show ?thesis
    by (auto intro!: gives_bind simp: check_handler_def guardE_def named_def)
next
  case False
  then show ?thesis
    by (auto simp: check_handler_def named_def getitem_def has_def has_key_def split: pyval.splits)
qed

lemma parse_behavior_gives: "gives (parse_behavior v p) behavior_ok"
  unfolding parse_behavior_def
  by (intro gives_bind [OF gives_object_map] gives_bind [OF behavior_shape_gives]
      gives_bind [OF gives_parse_typed] gives_bind [OF behavior_fields(1)] gives_bind [OF gives_string]
      gives_bind [OF check_handler_gives]) (auto simp: behavior_ok_def parse_typed_Inr named_def)

lemma parse_gap_gives: "gives (parse_gap v p) gap_ok"
  unfolding parse_gap_def
  by (rule gives_bind parse_behavior_gives gives_parse_typed gives_string gives_fields | assumption)+
    (auto simp: gap_ok_def named_def)

section \<open>Inventories, groups and catalogues\<close>

text \<open>What normalisation does to the entries of an object.\<close>

lemma json_value_field:
  assumes "json_value (PObj d) p = Inr r" and "map_of d k = Some x" and "is_json x"
  shows "getitem r k = Inr x"
proof -
  from assms(1) obtain d' where r: "r = PObj d'"
    and all: "list_all2 (\<lambda>(k, x) (k', y). k = k' \<and> json_value x (sub p k) = Inr y) d d'"
    by (auto simp: json_value_PObj err_simps mapE_pairs_Inr)
  from all assms(2) have "map_of d' k = Some x"
    by (induction rule: list_all2_induct) (auto simp: json_value_id [OF assms(3)] split: if_splits)
  with r show ?thesis by simp
qed

lemma parse_behavior_json: "parse_behavior v p = Inr r \<Longrightarrow> is_json r"
  by (auto simp: parse_behavior_def err_simps parse_typed_Inr dest: json_value_is_json)

definition inventory_ok :: "annot \<Rightarrow> pyval \<Rightarrow> bool" where
  "inventory_ok c r \<longleftrightarrow> has_type r c \<and> (\<exists>bs. getitem r ''behaviors'' = Inr (PList bs) \<and>
     identified bs \<and> (\<forall>b\<in>set bs. behavior_ok b))"

lemma list_parser_gives:
  assumes "\<And>x q. gives (parse x q) P" and "\<And>x q r. parse x q = Inr r \<Longrightarrow> is_json r"
  shows "gives (list_parser parse v p) (\<lambda>r. \<exists>xs. r = PList xs \<and> (\<forall>x\<in>set xs. P x) \<and> is_json r)"
proof -
  have "gives (parse x q) (\<lambda>r. P r \<and> is_json r)" for x q
    using assms by (auto simp: gives_iff)
  then have "gives (mapE (\<lambda>(i, x). parse x (idx p i)) (enumerate_list xs)) (\<lambda>ys. \<forall>y\<in>set ys. P y \<and> is_json y)" for xs
    by (intro gives_mapE) auto
  then show ?thesis unfolding list_parser_def
    by (intro gives_bind [OF gives_array] gives_bind [where Q = "\<lambda>ys. \<forall>y\<in>set ys. P y \<and> is_json y"]) auto
qed

lemma parse_behaviors_gives:
  "gives (parse_behaviors data p) (\<lambda>d. \<exists>bs. map_of d ''behaviors'' = Some (PList bs) \<and>
     (\<forall>b\<in>set bs. behavior_ok b) \<and> is_json (PList bs))"
  unfolding parse_behaviors_def required_with_def
  by (rule gives_bind, rule gives_bind [OF gives_required],
      rule list_parser_gives [OF parse_behavior_gives parse_behavior_json]) (auto simp: update_conv')

lemma behaviors_gives:
  assumes "parse_behaviors data p = Inr d" and "parse_typed (PObj d) c q = Inr r"
    and "c = ATyped nm (inventory_fields @ fs)"
  shows "gives (getitem r ''behaviors'') (\<lambda>v. \<exists>bs. v = PList bs \<and> (\<forall>b\<in>set bs. behavior_ok b))"
proof -
  from givesD [OF parse_behaviors_gives assms(1)] obtain bs
    where "map_of d ''behaviors'' = Some (PList bs)" and "\<forall>b\<in>set bs. behavior_ok b" and "is_json (PList bs)"
    by blast
  with assms(2) json_value_field [of d q r] show ?thesis by (simp add: parse_typed_Inr)
qed

lemma behavior_id: "behavior_ok b \<Longrightarrow> gives (getitem b ''id'') (\<lambda>x. has_type x AStr)"
  unfolding behavior_ok_def by (blast intro: behavior_fields)

lemma parse_inventory_gives: "gives (parse_inventory v p) (inventory_ok inventory_class)"
  unfolding parse_inventory_def
proof (intro gives_bind [OF gives_object_map] gives_bind [OF parse_behaviors_gives] gives_bind [OF gives_parse_typed])
  fix data d r
  assume d: "parse_behaviors data p = Inr d" and r: "parse_typed (PObj d) inventory_class p = Inr r"
    and ty: "has_type r inventory_class"
  have "inventory_class = ATyped ''Inventory'' (inventory_fields @ [])" by (simp add: inventory_class_def)
  note bs = behaviors_gives [OF d r this]
  from ty show "gives (bindE (getitem r ''behaviors'') (\<lambda>behaviors.
      bindE (indexed (elements_of behaviors) ''behavior'') (\<lambda>_. Inr r))) (inventory_ok inventory_class)"
    by (intro gives_bind [OF bs])
      (auto simp: inventory_ok_def intro!: gives_bind [OF gives_indexed [OF behavior_id]])
qed

text \<open>A client of a group: an entry point of the suite's form in a C source beside the suite.\<close>

definition client_ok :: "pyval \<Rightarrow> bool" where
  "client_ok r \<longleftrightarrow> (\<forall>c. getitem r ''client'' = Inr c \<longrightarrow> (\<exists>e s. named c ''entry'' e \<and>
     named c ''source'' s \<and> client_entry e \<and> plain_part s \<and> endswith s ''.c''))"

lemma client_source_plain: "client_source s \<Longrightarrow> plain_part s \<and> endswith s ''.c''"
  by (cases "s = []") (auto simp: client_source_def endswith_def dest: path_name_same)

lemma check_client_gives:
  assumes "has_type r scenario_group_class"
  shows "gives (check_client r p) (\<lambda>_. client_ok r)"
proof (cases "has r ''client''")
  case True
  have "gives (bindE (getitem c ''entry'') (\<lambda>entry. bindE (getitem c ''source'') (\<lambda>source.
      bindE (guardE (client_entry (text_of entry)) ValidationError (m entry)) (\<lambda>_.
      guardE (client_source (text_of source)) ValidationError (m' source)))))
      (\<lambda>_. \<exists>e s. named c ''entry'' e \<and> named c ''source'' s \<and> client_entry e \<and> plain_part s \<and> endswith s ''.c'')"
    if "has_type c client_class" for c m m'
    using client_source_plain
    by (intro gives_bind [OF client_fields(2) [OF that]] gives_bind [OF client_fields(1) [OF that]]
        gives_bind [OF gives_guard]) (auto simp: guardE_def named_def)
  note entry = this
  show ?thesis unfolding check_client_def if_P [OF True]
    by (rule gives_bind [OF scenario_group_fields(2) [OF assms True]], rule gives_weaken [OF entry])
      (auto simp: client_ok_def)
next
  case False
  then show ?thesis
    by (auto simp: check_client_def client_ok_def getitem_def has_def has_key_def split: pyval.splits)
qed

lemma parse_scenario_group_gives:
  "gives (parse_scenario_group v p) (\<lambda>r. inventory_ok scenario_group_class r \<and> client_ok r)"
  unfolding parse_scenario_group_def
proof (intro gives_bind [OF gives_object_map] gives_bind [OF parse_behaviors_gives] gives_bind [OF gives_parse_typed])
  fix data d r
  assume d: "parse_behaviors data p = Inr d" and r: "parse_typed (PObj d) scenario_group_class p = Inr r"
    and ty: "has_type r scenario_group_class"
  note bs = behaviors_gives [OF d r scenario_group_class_def]
  show "gives (bindE (getitem r ''behaviors'') (\<lambda>behaviors.
      bindE (indexed (elements_of behaviors) ''behavior'') (\<lambda>_. bindE (check_client r p) (\<lambda>_. Inr r))))
      (\<lambda>r. inventory_ok scenario_group_class r \<and> client_ok r)"
    using ty by (intro gives_bind [OF bs])
      (auto simp: inventory_ok_def intro!: gives_bind [OF gives_indexed [OF behavior_id]]
        gives_bind [OF check_client_gives [OF ty]])
qed

lemma surface_default_gives:
  "gives (surface_default p ix) (\<lambda>r. True)"
  unfolding surface_default_def by (intro gives_any) (auto intro!: rejects split: prod.splits)

lemma command_names_gives:
  assumes "\<And>s. s \<in> set ss \<Longrightarrow> has_type s surface_class"
  shows "gives (command_names ss) (\<lambda>cs. \<forall>c\<in>set cs. \<exists>s\<in>set ss. named s ''kind'' ''cli-command'' \<and> named s ''name'' c)"
proof -
  have step: "gives (bindE (getitem s ''kind'') (\<lambda>kind. if kind = PStr ''cli-command''
      then liftE (\<lambda>n. [text_of n]) (getitem s ''name'') else Inr []))
      (\<lambda>cs. \<forall>c\<in>set cs. \<exists>s\<in>set ss. named s ''kind'' ''cli-command'' \<and> named s ''name'' c)" if "s \<in> set ss" for s
    by (rule gives_bind [OF surface_fields(2) [OF assms [OF that]]], rule gives_if,
        rule gives_bind [OF surface_fields(3) [OF assms [OF that]]])
      (use that in \<open>force simp: named_def\<close>, simp)
  show ?thesis unfolding command_names_def
    by (rule gives_bind [OF gives_mapE [OF step]]) (assumption, simp)
qed

lemma check_surface_gives:
  assumes "has_type s surface_class"
  shows "gives (check_surface p cs (i, s)) (\<lambda>_. \<forall>c. named s ''command'' c \<longrightarrow> c = ''global'' \<or> c \<in> set cs)"
proof (cases "has s ''command''")
  case True
  then show ?thesis
    unfolding check_surface_def
    by (simp, intro gives_bind [OF surface_fields(3) [OF assms]] gives_bind [OF gives_string]
        gives_bind [OF surface_fields(4) [OF assms True]]) (auto simp: guardE_def named_def)
next
  case False
  then have "\<not> named s ''command'' c" for c
    by (auto simp: named_def getitem_def has_def has_key_def split: pyval.splits)
  with False show ?thesis unfolding check_surface_def
    by (simp, intro gives_bind [OF surface_fields(3) [OF assms]] gives_bind [OF gives_string]) auto
qed

lemma parse_catalogue_gives: "gives (parse_catalogue v p) catalogue_ok"
  unfolding parse_catalogue_def
proof (intro gives_bind [OF gives_object_map] gives_bind [OF gives_required] gives_bind [OF gives_array]
    gives_bind [OF gives_any [OF gives_rejects [OF gives_mapE [OF surface_default_gives]]]]
    gives_bind [OF gives_parse_typed] gives_bind [OF catalogue_fields])
  fix r c
  assume ty: "has_type r catalogue_class" and c: "getitem r ''surfaces'' = Inr c" "has_type c (AList surface_class)"
  then obtain ss where ss: "c = PList ss" "\<And>s. s \<in> set ss \<Longrightarrow> has_type s surface_class"
    by (auto simp: has_type_list)
  have chk: "gives (forE (enumerate_list ss) (check_surface p cs))
      (\<lambda>_. \<forall>ix\<in>set (enumerate_list ss). \<forall>c. named (snd ix) ''command'' c \<longrightarrow> c = ''global'' \<or> c \<in> set cs)" for cs
  proof (rule gives_forE)
    fix ix assume "ix \<in> set (enumerate_list ss)"
    then have "snd ix \<in> set ss" using in_enumerate_list [of "fst ix" "snd ix" ss] by simp
    then have "has_type (snd ix) surface_class" by (rule ss(2))
    then show "gives (check_surface p cs ix)
      (\<lambda>_. \<forall>c. named (snd ix) ''command'' c \<longrightarrow> c = ''global'' \<or> c \<in> set cs)"
      by (cases ix) (simp add: check_surface_gives)
  qed
  have ids: "gives (indexed ss ''surface'') (\<lambda>d. identified ss)"
    by (rule gives_weaken [OF gives_indexed]) (auto intro: surface_fields(1) [OF ss(2)] simp del: has_type_simps)
  have "catalogue_ok r" if "identified ss"
    and "\<forall>c\<in>set cs. \<exists>s\<in>set ss. named s ''kind'' ''cli-command'' \<and> named s ''name'' c"
    and "\<forall>ix\<in>set (enumerate_list ss). \<forall>c. named (snd ix) ''command'' c \<longrightarrow> c = ''global'' \<or> c \<in> set cs" for cs
  proof -
    from that(3) have "\<forall>s\<in>set ss. \<forall>c. named s ''command'' c \<longrightarrow> c = ''global'' \<or> c \<in> set cs"
      by (simp flip: snd_set_enumerate_list [of ss])
    with that(1,2) ty c ss(1) show ?thesis unfolding catalogue_ok_def by blast
  qed
  note accept = this
  show "gives (bindE (indexed (elements_of c) ''surface'') (\<lambda>_. bindE (command_names (elements_of c)) (\<lambda>cs.
      bindE (forE (enumerate_list (elements_of c)) (check_surface p cs)) (\<lambda>_. Inr r)))) catalogue_ok"
    unfolding ss(1) elements_of.simps
    by (rule gives_bind [OF ids], rule gives_bind [OF command_names_gives [OF ss(2)]], assumption,
        rule gives_bind [OF chk]) (simp only: gives_Inr, rule accept)
qed

section \<open>Requirements and their shards\<close>

definition requirements_ok :: "pyval \<Rightarrow> bool" where
  "requirements_ok r \<longleftrightarrow> has_type r requirements_document_class \<and>
     (\<exists>rs. getitem r ''requirements'' = Inr (PList rs) \<and> identified rs)"

lemma requirements_indexed:
  assumes "has_type r requirements_document_class"
  shows "gives (bindE (getitem r ''requirements'') (\<lambda>requirements.
     bindE (indexed (elements_of requirements) ''requirement'') (\<lambda>_. Inr r))) requirements_ok"
proof (rule gives_bind [OF requirements_fields(2) [OF assms]])
  fix x assume x: "getitem r ''requirements'' = Inr x" and "has_type x (AList requirement_class)"
  then obtain rs where rs: "x = PList rs" "\<And>s. s \<in> set rs \<Longrightarrow> has_type s requirement_class"
    by (auto simp: has_type_list)
  show "gives (bindE (indexed (elements_of x) ''requirement'') (\<lambda>_. Inr r)) requirements_ok"
    by (rule gives_bind [OF gives_indexed], rule requirement_fields(1) [OF rs(2)])
      (use assms x rs(1) in \<open>auto simp: requirements_ok_def\<close>)
qed

lemma parse_requirements_gives: "gives (parse_requirements v p) requirements_ok"
  unfolding parse_requirements_def
  by (rule gives_bind [OF gives_parse_typed]) (rule requirements_indexed)

lemma parse_requirements_typed:
  "parse_requirements v p = Inr r \<Longrightarrow> has_type r requirements_document_class"
  using givesD [OF parse_requirements_gives] by (auto simp: requirements_ok_def)

lemma requirements_setitem:
  assumes "has_type r requirements_document_class"
  shows "\<forall>x\<in>set xs. has_type x requirement_class \<Longrightarrow>
      has_type (setitem r ''requirements'' (PList xs)) requirements_document_class"
    and "\<forall>x\<in>set xs. has_type x AStr \<Longrightarrow>
      has_type (setitem r ''limitations'' (PList xs)) requirements_document_class"
  using assms unfolding requirements_document_class_def
  by (auto intro!: has_type_setitem simp: has_type_list)

lemma include_shard_typed:
  assumes "include_shard read resolve path (r, seen) i = Inr (r', seen')"
    and "has_type r requirements_document_class"
  shows "has_type r' requirements_document_class"
proof -
  obtain document reqs known limits known_limits where
    doc: "has_type document requirements_document_class"
    and "getitem document ''requirements'' = Inr reqs" "getitem r ''requirements'' = Inr known"
    and "getitem document ''limitations'' = Inr limits" "getitem r ''limitations'' = Inr known_limits"
    and r': "r' = setitem (setitem r ''requirements'' (PList (elements_of known @ elements_of reqs)))
      ''limitations'' (PList (elements_of known_limits @ elements_of limits))"
    using assms(1) unfolding include_shard_def Let_def bindE_Inr_iff prod.case
    by (elim exE conjE, intro that) (assumption | rule parse_requirements_typed | simp)+
  then have "has_type reqs (AList requirement_class)" "has_type known (AList requirement_class)"
    "has_type limits (AList AStr)" "has_type known_limits (AList AStr)"
    using givesD [OF requirements_fields(2)] givesD [OF requirements_fields(3)] assms(2) doc by blast+
  then show ?thesis unfolding r'
    by (intro requirements_setitem assms(2)) (auto dest: has_type_elements simp del: has_type_simps)
qed

lemma load_requirements_ok:
  assumes "load_requirements read resolve path = Inr r"
  shows "requirements_ok r"
proof -
  obtain r0 st where "has_type r0 requirements_document_class"
    and fold: "foldE (include_shard read resolve path) (r0, {}) (texts_of (get_or r0 ''includes'' (PList []))) = Inr st"
    and final: "bindE (getitem (fst st) ''requirements'') (\<lambda>requirements.
      bindE (indexed (elements_of requirements) ''requirement'') (\<lambda>_. Inr (fst st))) = Inr r"
    using assms unfolding load_requirements_def bindE_Inr_iff case_prod_beta
    by (elim exE conjE, intro that) (assumption | rule parse_requirements_typed | simp add: bindE_Inr_iff)+
  have typed: "has_type (fst st') requirements_document_class"
    if "foldE (include_shard read resolve path) st is = Inr st'" and "has_type (fst st) requirements_document_class"
    for st st' "is"
    using that
  proof (induction "is" arbitrary: st)
    case (Cons i "is")
    then show ?case
      by (cases st) (auto simp: bindE_Inr_iff dest!: include_shard_typed)
  qed simp
  from typed [OF fold] \<open>has_type r0 requirements_document_class\<close>
  have "has_type (fst st) requirements_document_class" by simp
  from givesD [OF requirements_indexed [OF this] final] show ?thesis .
qed

lemma include_shard_cong:
  assumes "\<And>q. is_relative_to q (resolve (path_parent path)) \<Longrightarrow> read q = read' q"
  shows "include_shard read resolve path st i = include_shard read' resolve path st i"
proof -
  obtain r seen where st: "st = (r, seen)" by (cases st)
  let ?q = "resolve (path_join (resolve (path_parent path)) (path_of i))"
  show ?thesis
  proof (cases "is_relative_to ?q (resolve (path_parent path))")
    case True
    with assms show ?thesis by (simp add: st include_shard_def Let_def)
  next
    case False
    then show ?thesis by (simp add: st include_shard_def Let_def guardE_def)
  qed
qed

section \<open>Properties\<close>

text \<open>C28: the surface catalogue's parser either rejects by a ValidationError or returns a catalogue whose
  surfaces have unique nonempty identifiers and whose options belong to a listed command or to \<open>global\<close>;
  no dictionary access in it can fail.\<close>

theorem catalogue_boundary:
  "(case parse_catalogue v p of Inr r \<Rightarrow> catalogue_ok r | Inl e \<Rightarrow> exn_class e = ValidationError)"
  using parse_catalogue_gives [of v p] by (simp add: gives_def split: sum.splits)

text \<open>C29: the parser of a scenario group either rejects by a ValidationError or returns a group whose
  behaviors are uniquely identified and each either executable (a scenario, unique drivers) or an explained
  gap, with a well-formed handler; and its client, if any, is a plain C file with an entry point of the
  suite's form.\<close>

theorem scenario_group_boundary:
  "(case parse_scenario_group v p of Inr r \<Rightarrow> inventory_ok scenario_group_class r \<and> client_ok r
    | Inl e \<Rightarrow> exn_class e = ValidationError)"
  using parse_scenario_group_gives [of v p] by (simp add: gives_def split: sum.splits)

text \<open>C30: requirement documents joined from an index and its shards keep the class of the document, and
  their requirements have identifiers that are unique across all shards.\<close>

theorem requirements_joined:
  assumes "load_requirements read resolve path = Inr r"
  shows "requirements_ok r"
  using assms by (rule load_requirements_ok)

definition sample_requirement :: "string \<Rightarrow> pyval" where
  "sample_requirement i = PObj [(''id'', PStr i), (''interface'', PStr ''cli''), (''profile'', PStr ''any''),
     (''category'', PStr ''c''), (''description'', PStr ''d''), (''sources'', PList []),
     (''surfaces'', PList []), (''required_capabilities'', PList [])]"

definition sample_requirements :: "string \<Rightarrow> (string \<times> pyval) list \<Rightarrow> pyval" where
  "sample_requirements i more = PObj ([(''schema'', PInt 1), (''scope'', PStr ''cli''),
     (''limitations'', PList [PStr ''l'']), (''requirements'', PList [sample_requirement i])] @ more)"

definition sample_index :: path where
  "sample_index = Path ''/'' [''s'', ''cli.json'']"

definition sample_read :: "path \<Rightarrow> pyval result" where
  "sample_read q = (if q = sample_index
       then Inr (sample_requirements ''one'' [(''includes'', PList [PStr ''cli/two.json''])])
     else if q = Path ''/'' [''s'', ''cli'', ''two.json''] then Inr (sample_requirements ''two'' [])
     else raise FileNotFoundError (path_str q))"

theorem requirements_joined_witness:
  "\<exists>r. load_requirements sample_read id sample_index = Inr r \<and> requirements_ok r"
proof -
  let ?r = "PObj [(''schema'', PInt 1), (''scope'', PStr ''cli''), (''limitations'', PList [PStr ''l'', PStr ''l'']),
    (''requirements'', PList [sample_requirement ''one'', sample_requirement ''two'']),
    (''includes'', PList [PStr ''cli/two.json''])]"
  have "load_requirements sample_read id sample_index = Inr ?r" by code_simp
  with requirements_joined [OF this] show ?thesis by blast
qed

text \<open>C31: loading requirements is confined to the index document and the files below its resolved directory:
  two file systems that agree there give the same result, whatever includes the documents name.\<close>

theorem requirements_confined:
  assumes "read path = read' path"
    and "\<And>q. is_relative_to q (resolve (path_parent path)) \<Longrightarrow> read q = read' q"
  shows "load_requirements read resolve path = load_requirements read' resolve path"
proof -
  have "foldE (include_shard read resolve path) st xs = foldE (include_shard read' resolve path) st xs" for st xs
    by (induction xs arbitrary: st)
      (simp_all add: include_shard_cong [of resolve path read read', OF assms(2)])
  then show ?thesis by (simp add: load_requirements_def assms(1))
qed

theorem requirements_confined_witness:
  "load_requirements sample_read id sample_index =
   load_requirements (\<lambda>q. if is_relative_to q (Path ''/'' [''s'']) then sample_read q else Inr PNone) id sample_index"
  by (rule requirements_confined) (simp_all add: sample_index_def path_parent_def is_relative_to_def)

end
