(* ===== verification/Fixture_Manifest.thy ===== *)
theory Fixture_Manifest
  imports Fixture_Fields
begin

text \<open>
  \<open>fixture_manifest.py\<close>: the schema-1 fixture manifest. The TypedDict classes are
  annotations, each parser is the source's function, and each is interpreted as a
  \<^const>\<open>fixture_parser\<close> of its class: what it accepts inhabits the class and equals
  the input, and it only rejects by a ValidationError.
\<close>

section \<open>The classes\<close>

abbreviation req_field :: "string \<Rightarrow> annot \<Rightarrow> string \<times> bool \<times> annot" where
  "req_field k a \<equiv> (k, True, a)"

abbreviation opt_field :: "string \<Rightarrow> annot \<Rightarrow> string \<times> bool \<times> annot" where
  "opt_field k a \<equiv> (k, False, a)"


definition fixture_assets :: annot where
  "fixture_assets = ATyped ''FixtureAssets'' [
    req_field ''runtime_tree'' AStr, req_field ''app_tree'' AStr]"

definition fixture_size :: annot where
  "fixture_size = ATyped ''FixtureSize'' [
    req_field ''installed'' AInt, req_field ''download'' AInt]"

definition fixture_build :: annot where
  "fixture_build = ATyped ''FixtureBuild'' [
    req_field ''gpg_home'' AStr, req_field ''public_key'' AStr, req_field ''key_id'' AStr, req_field ''signed_repo'' AStr,
     req_field ''bundle'' AStr, req_field ''usb_repo'' AStr, req_field ''collection_id'' AStr,
     req_field ''usb_commits'' (ADict AStr AStr), req_field ''inheritance_tree'' AStr,
     req_field ''permissions_repo'' AStr]"

definition build_options_required_fields :: "(string \<times> bool \<times> annot) list" where
  "build_options_required_fields = [
    req_field ''oci'' AStr, req_field ''oci_ref'' AStr]"

definition fixture_build_options :: annot where
  "fixture_build_options = ATyped ''FixtureBuildOptions'' (build_options_required_fields @ [
    opt_field ''arch'' AStr, opt_field ''arch_repo'' AStr, opt_field ''arch_commits'' (ADict AStr AStr),
     opt_field ''oci_updates'' (ADict AStr AStr)])"

definition fixture_query_ref :: annot where
  "fixture_query_ref = ATyped ''FixtureQueryRef'' [
    req_field ''installed'' AInt, req_field ''download'' AInt, req_field ''commit'' AStr, req_field ''metadata'' AStr]"

definition fixture_query_version :: annot where
  "fixture_query_version = ATyped ''FixtureQueryVersion'' [
    req_field ''repo'' AStr, req_field ''refs'' (ADict AStr fixture_query_ref), req_field ''appstream'' AStr]"

definition fixture_policy_extension :: annot where
  "fixture_policy_extension = ATyped ''FixturePolicyExtension'' [
    req_field ''ref'' AStr, req_field ''commit'' AStr, req_field ''no_autodownload'' ABool, req_field ''autodelete'' ABool,
     req_field ''should_download'' ABool, req_field ''should_delete'' ABool]"

definition queries_required_fields :: "(string \<times> bool \<times> annot) list" where
  "queries_required_fields = [
    req_field ''app'' AStr, req_field ''second'' AStr, req_field ''extension'' AStr, req_field ''foreign_arch'' AStr,
     req_field ''versions'' (ADict AStr fixture_query_version), req_field ''bundle_urls'' AStr,
     req_field ''bundle_urls_size'' AInt, req_field ''bundle_plain'' AStr, req_field ''bundle_plain_size'' AInt,
     req_field ''policy_repo'' AStr, req_field ''policy_ref'' AStr, req_field ''policy_commit'' AStr,
     req_field ''policy_metadata'' AStr, req_field ''policy_extensions'' (AList fixture_policy_extension),
     req_field ''appstream'' AStr, req_field ''icons'' (ADict AStr AStr)]"

definition fixture_extension_mounts :: annot where
  "fixture_extension_mounts = ATyped ''FixtureExtensionMounts'' [
    req_field ''app'' AStr, req_field ''extension'' AStr, req_field ''app_repo'' AStr, req_field ''combined_repo'' AStr,
     req_field ''extension_repo'' AStr, req_field ''app_commit'' AStr, req_field ''runtime_commit'' AStr,
     req_field ''combined_commit'' AStr, req_field ''separate_commit'' AStr, req_field ''combined_marker'' AStr,
     req_field ''separate_marker'' AStr]"

definition fixture_queries :: annot where
  "fixture_queries = ATyped ''FixtureQueries'' (queries_required_fields @ [
    opt_field ''search_kind_repo'' AStr, opt_field ''selection_repo'' AStr,
     opt_field ''selection_commits'' (ADict AStr AStr), opt_field ''extension_mounts'' fixture_extension_mounts])"

definition fixture_transactions :: annot where
  "fixture_transactions = ATyped ''FixtureTransactions'' [
    req_field ''directory'' AStr, req_field ''apps'' (AList AStr),
     req_field ''commits'' (ADict AStr (ADict AStr AStr)),
     req_field ''payloads'' (ADict AStr (ADict AStr (AList AStr))), req_field ''metadata'' (ADict AStr AStr),
     req_field ''eol_reason'' AStr]"

definition fixture_contracts :: annot where
  "fixture_contracts = ATyped ''FixtureContracts'' [
    req_field ''repos'' (ADict AStr AStr), req_field ''refs'' (ADict AStr AStr),
     req_field ''commits'' (ADict AStr (ADict AStr AStr))]"

definition auth_required_fields :: "(string \<times> bool \<times> annot) list" where
  "auth_required_fields = [
    req_field ''directory'' AStr, req_field ''ref'' AStr, req_field ''commit'' AStr, req_field ''payloads'' (AList AStr)]"

definition fixture_auth :: annot where
  "fixture_auth = ATyped ''FixtureAuth'' (auth_required_fields @ [
    opt_field ''authenticator_ref'' AStr, opt_field ''authenticator_commit'' AStr,
     opt_field ''authenticator_runtime_ref'' AStr, opt_field ''authenticator_runtime_commit'' AStr,
     opt_field ''authenticator_binary'' AStr])"

definition fixture_extras :: annot where
  "fixture_extras = ATyped ''FixtureExtras'' [
    opt_field ''transactions'' fixture_transactions, opt_field ''auth'' fixture_auth]"

definition fixture_trigger :: annot where
  "fixture_trigger = ATyped ''FixtureTrigger'' [
    req_field ''repo'' AStr, req_field ''commit'' AStr]"

definition lifecycle_required_fields :: "(string \<times> bool \<times> annot) list" where
  "lifecycle_required_fields = [
    req_field ''reference_version'' AStr, req_field ''image_A'' AStr, req_field ''payload_A'' AStr,
     req_field ''image_B'' AStr, req_field ''payload_B'' AStr, req_field ''signed_bundle'' AStr,
     req_field ''sideload_native'' AStr, req_field ''sideload'' AStr, req_field ''usage_repo'' AStr,
     req_field ''usage_app'' AStr, req_field ''usage_sdk'' AStr, req_field ''usage_metadata'' AStr,
     req_field ''usage_app_commit'' AStr, req_field ''usage_sdk_commit'' AStr, req_field ''trigger_app'' AStr,
     req_field ''triggers'' (ADict AStr fixture_trigger)]"

definition fixture_lifecycle_extra :: annot where
  "fixture_lifecycle_extra = ATyped ''FixtureLifecycleExtra'' (lifecycle_required_fields @ [
    opt_field ''foreign_bundle'' AStr, opt_field ''sideload_update_repo'' AStr, opt_field ''sideload_update'' AStr,
     opt_field ''sideload_update_commit'' AStr])"

definition fixture_required_fields :: "(string \<times> bool \<times> annot) list" where
  "fixture_required_fields = [
    req_field ''schema'' AInt, req_field ''arch'' AStr, req_field ''app'' AStr, req_field ''runtime'' AStr,
     req_field ''branch'' AStr, req_field ''commits'' (ADict AStr AStr), req_field ''runtime_commit'' AStr,
     req_field ''sha256'' (ADict AStr AStr)]"

definition fixture_optional_fields :: "(string \<times> bool \<times> annot) list" where
  "fixture_optional_fields = [
    opt_field ''directory'' AStr, opt_field ''reference_version'' AStr, opt_field ''compiler'' AStr,
     opt_field ''assets'' fixture_assets, opt_field ''sizes'' (ADict AStr (ADict AStr fixture_size)),
     opt_field ''build'' fixture_build, opt_field ''build_options'' fixture_build_options,
     opt_field ''queries'' fixture_queries, opt_field ''extras'' fixture_extras,
     opt_field ''lifecycle_extra'' fixture_lifecycle_extra, opt_field ''contracts'' fixture_contracts]"

definition fixture_manifest :: annot where
  "fixture_manifest = ATyped ''FixtureManifest'' (fixture_required_fields @ fixture_optional_fields)"

definition fixture_build_entries :: annot where
  "fixture_build_entries = ATyped ''FixtureBuildEntries'' [
    opt_field ''build'' fixture_build, opt_field ''build_options'' fixture_build_options]"

definition fixture_query_entries :: annot where
  "fixture_query_entries = ATyped ''FixtureQueryEntries'' [
    req_field ''queries'' fixture_queries]"
section \<open>The parsers\<close>

definition parse_assets :: "pyval \<Rightarrow> string \<Rightarrow> pyval result" where
  "parse_assets = object_parser (\<lambda>data path. dict_display [
     (''runtime_tree'', text_field data ''runtime_tree'' path),
     (''app_tree'', text_field data ''app_tree'' path)])"

definition parse_size :: "pyval \<Rightarrow> string \<Rightarrow> pyval result" where
  "parse_size = object_parser (\<lambda>data path. dict_display [
     (''installed'', size_field data ''installed'' path),
     (''download'', size_field data ''download'' path)])"

interpretation assets: fixture_parser parse_assets fixture_assets
  unfolding parse_assets_def fixture_assets_def
  by (rule display_contract) (simp_all add: fixture_simps required_keys_def)

interpretation size_entry: fixture_parser parse_size fixture_size
  unfolding parse_size_def fixture_size_def
  by (rule display_contract) (simp_all add: fixture_simps required_keys_def)

definition parse_sizes :: "pyval \<Rightarrow> string \<Rightarrow> pyval result" where
  "parse_sizes = map_parser (map_parser parse_size)"

interpretation sizes: fixture_parser parse_sizes "ADict AStr (ADict AStr fixture_size)"
  unfolding parse_sizes_def
  by (rule fixture_parser.map_contract) (rule size_entry.map_contract)

definition parse_build :: "pyval \<Rightarrow> string \<Rightarrow> pyval result" where
  "parse_build = object_parser (\<lambda>data path. dict_display [
     (''gpg_home'', text_field data ''gpg_home'' path),
     (''public_key'', text_field data ''public_key'' path),
     (''key_id'', text_field data ''key_id'' path),
     (''signed_repo'', text_field data ''signed_repo'' path),
     (''bundle'', text_field data ''bundle'' path),
     (''usb_repo'', text_field data ''usb_repo'' path),
     (''collection_id'', text_field data ''collection_id'' path),
     (''usb_commits'', required_with (text_map False) data ''usb_commits'' path),
     (''inheritance_tree'', text_field data ''inheritance_tree'' path),
     (''permissions_repo'', text_field data ''permissions_repo'' path)])"

interpretation build: fixture_parser parse_build fixture_build
  unfolding parse_build_def fixture_build_def
  by (rule display_contract) (simp_all add: fixture_simps required_keys_def)

definition parse_oci_updates :: "pyval \<Rightarrow> string \<Rightarrow> pyval result" where
  "parse_oci_updates v path = bindE (text_map False v path) (\<lambda>updates.
     bindE (guardE (keys_of updates = {''app_A'', ''app_B'', ''runtime''}) ValidationError
       (path @ '': expected app_A, app_B and runtime layouts'')) (\<lambda>_. Inr updates))"

interpretation oci_updates: fixture_parser parse_oci_updates "ADict AStr AStr"
proof
  fix v p r
  assume "parse_oci_updates v p = Inr r"
  then have m: "text_map False v p = Inr r" by (auto simp: parse_oci_updates_def err_simps)
  show "has_type r (ADict AStr AStr)" by (rule text_map.typed [OF m])
  show "pyeq r v" if "wf_val v"
    using that m by (rule text_map.lossless)
next
  show "validation_error (parse_oci_updates v p)" for v p
    unfolding parse_oci_updates_def by (intro rejects text_map.only_rejects)
qed

definition parse_build_options :: "pyval \<Rightarrow> string \<Rightarrow> pyval result" where
  "parse_build_options = object_parser (\<lambda>data path.
     bindE (dict_display [(''oci'', text_field data ''oci'' path),
       (''oci_ref'', text_field data ''oci_ref'' path)]) (\<lambda>r.
     bindE (set_if (has_key data ''arch'') ''arch'' (text_field data ''arch'' path) r) (\<lambda>r.
     bindE (set_if (has_key data ''arch_repo'') ''arch_repo'' (text_field data ''arch_repo'' path) r) (\<lambda>r.
     bindE (set_if (has_key data ''arch_commits'') ''arch_commits''
       (item_with (text_map False) data ''arch_commits'' path) r) (\<lambda>r.
     set_if (has_key data ''oci_updates'') ''oci_updates''
       (item_with parse_oci_updates data ''oci_updates'' path) r)))))"

interpretation build_options: fixture_parser parse_build_options fixture_build_options
  unfolding parse_build_options_def fixture_build_options_def build_options_required_fields_def
  by (rule object_parser_contract) (simp, simp, intro body_bind,
    simp_all add: body_display body_set_if fixture_simps required_keys_def
      field_spec_with [OF oci_updates.fixture_parser_axioms])

definition parse_query_ref :: "pyval \<Rightarrow> string \<Rightarrow> pyval result" where
  "parse_query_ref = object_parser (\<lambda>data path. dict_display [
     (''commit'', text_field data ''commit'' path),
     (''metadata'', text_field data ''metadata'' path),
     (''installed'', size_field data ''installed'' path),
     (''download'', size_field data ''download'' path)])"

interpretation query_ref: fixture_parser parse_query_ref fixture_query_ref
  unfolding parse_query_ref_def fixture_query_ref_def
  by (rule display_contract) (simp_all add: fixture_simps required_keys_def)

lemmas query_ref_fields [fixture_simps] =
  field_spec_with [OF query_ref.fixture_parser_axioms]
  field_spec_list [OF query_ref.fixture_parser_axioms]
  field_spec_map [OF query_ref.fixture_parser_axioms]

definition parse_query_version :: "pyval \<Rightarrow> string \<Rightarrow> pyval result" where
  "parse_query_version = object_parser (\<lambda>data path. dict_display [
     (''repo'', text_field data ''repo'' path),
     (''appstream'', text_field data ''appstream'' path),
     (''refs'', required_with (map_parser parse_query_ref) data ''refs'' path)])"

interpretation query_version: fixture_parser parse_query_version fixture_query_version
  unfolding parse_query_version_def fixture_query_version_def
  by (rule display_contract) (simp_all add: fixture_simps required_keys_def)

lemmas query_version_fields [fixture_simps] =
  field_spec_with [OF query_version.fixture_parser_axioms]
  field_spec_list [OF query_version.fixture_parser_axioms]
  field_spec_map [OF query_version.fixture_parser_axioms]

definition parse_policy_extension :: "pyval \<Rightarrow> string \<Rightarrow> pyval result" where
  "parse_policy_extension = object_parser (\<lambda>data path. dict_display [
     (''ref'', text_field data ''ref'' path),
     (''commit'', text_field data ''commit'' path),
     (''no_autodownload'', flag_field data ''no_autodownload'' path),
     (''autodelete'', flag_field data ''autodelete'' path),
     (''should_download'', flag_field data ''should_download'' path),
     (''should_delete'', flag_field data ''should_delete'' path)])"

interpretation policy_extension: fixture_parser parse_policy_extension fixture_policy_extension
  unfolding parse_policy_extension_def fixture_policy_extension_def
  by (rule display_contract) (simp_all add: fixture_simps required_keys_def)

lemmas policy_extension_fields [fixture_simps] =
  field_spec_with [OF policy_extension.fixture_parser_axioms]
  field_spec_list [OF policy_extension.fixture_parser_axioms]
  field_spec_map [OF policy_extension.fixture_parser_axioms]

definition parse_extension_mounts :: "pyval \<Rightarrow> string \<Rightarrow> pyval result" where
  "parse_extension_mounts = object_parser (\<lambda>data path. dict_display [
     (''app'', text_field data ''app'' path),
     (''extension'', text_field data ''extension'' path),
     (''app_repo'', text_field data ''app_repo'' path),
     (''combined_repo'', text_field data ''combined_repo'' path),
     (''extension_repo'', text_field data ''extension_repo'' path),
     (''app_commit'', text_field data ''app_commit'' path),
     (''runtime_commit'', text_field data ''runtime_commit'' path),
     (''combined_commit'', text_field data ''combined_commit'' path),
     (''separate_commit'', text_field data ''separate_commit'' path),
     (''combined_marker'', text_field data ''combined_marker'' path),
     (''separate_marker'', text_field data ''separate_marker'' path)])"

interpretation extension_mounts: fixture_parser parse_extension_mounts fixture_extension_mounts
  unfolding parse_extension_mounts_def fixture_extension_mounts_def
  by (rule display_contract) (simp_all add: fixture_simps required_keys_def)

lemmas extension_mounts_fields [fixture_simps] =
  field_spec_with [OF extension_mounts.fixture_parser_axioms]
  field_spec_list [OF extension_mounts.fixture_parser_axioms]
  field_spec_map [OF extension_mounts.fixture_parser_axioms]

text \<open>The refs of the selection fixture, and the check that each has a commit.\<close>

definition selection_refs :: "string \<Rightarrow> string list" where
  "selection_refs arch = map (\<lambda>(kind, name). kind @ ''/'' @ name @ ''/'' @ arch @ ''/test'')
     [(''app'', ''org.flatpak.Selection''), (''app'', ''org.flatpak.SelectionOther''),
      (''runtime'', ''org.flatpak.SelectionPlatform''), (''runtime'', ''org.flatpak.Selection.Locale'')]"

definition selected_commit :: "pyval \<Rightarrow> string \<Rightarrow> string \<Rightarrow> unit result" where
  "selected_commit commits path ref = (case map_of (entries_of commits) ref of
     None \<Rightarrow> raise ValidationError (sub path ref @ '': required field is missing'')
   | Some x \<Rightarrow> liftE (\<lambda>_. ()) (string x (sub path ref) True))"

lemma validation_error_selected_commit [rejects]: "validation_error (selected_commit c p ref)"
  unfolding selected_commit_def by (auto intro!: rejects split: option.splits)

definition parse_queries :: "string \<Rightarrow> pyval \<Rightarrow> string \<Rightarrow> pyval result" where
  "parse_queries arch = object_parser (\<lambda>data path.
     bindE (dict_display [
     (''app'', text_field data ''app'' path),
     (''second'', text_field data ''second'' path),
     (''extension'', text_field data ''extension'' path),
     (''foreign_arch'', text_field data ''foreign_arch'' path),
     (''versions'', required_with (map_parser parse_query_version) data ''versions'' path),
     (''bundle_urls'', text_field data ''bundle_urls'' path),
     (''bundle_urls_size'', size_field data ''bundle_urls_size'' path),
     (''bundle_plain'', text_field data ''bundle_plain'' path),
     (''bundle_plain_size'', size_field data ''bundle_plain_size'' path),
     (''policy_repo'', text_field data ''policy_repo'' path),
     (''policy_ref'', text_field data ''policy_ref'' path),
     (''policy_commit'', text_field data ''policy_commit'' path),
     (''policy_metadata'', text_field data ''policy_metadata'' path),
     (''policy_extensions'', required_with (list_parser parse_policy_extension) data ''policy_extensions'' path),
     (''appstream'', text_field data ''appstream'' path),
     (''icons'', required_with (text_map False) data ''icons'' path)]) (\<lambda>r.
     bindE (set_if (has_key data ''search_kind_repo'') ''search_kind_repo''
       (text_field data ''search_kind_repo'' path) r) (\<lambda>r.
     bindE (if has_key data ''selection_repo'' then
         bindE (set_field ''selection_repo'' (text_field data ''selection_repo'' path) r) (\<lambda>r.
         bindE (required_with (text_map False) data ''selection_commits'' path) (\<lambda>commits.
         bindE (set_field ''selection_commits'' (Inr commits) r) (\<lambda>r.
         bindE (forE (selection_refs arch) (selected_commit commits (sub path ''selection_commits''))) (\<lambda>_.
         Inr r))))
       else Inr r) (\<lambda>r.
     set_if (has_key data ''extension_mounts'') ''extension_mounts''
       (item_with parse_extension_mounts data ''extension_mounts'' path) r))))"

lemmas body_rules = body_bind body_display body_set_if body_set_field body_if body_return

interpretation queries: fixture_parser "parse_queries arch" fixture_queries
  unfolding parse_queries_def fixture_queries_def queries_required_fields_def
  by (rule object_parser_contract, simp, simp)
    (intro body_bind body_if body_bound [where k = "''selection_commits''"] body_skip,
      simp_all add: body_display body_set_if body_set_field body_return fixture_simps
        required_keys_def rejects)

lemmas queries_fields [fixture_simps] = field_spec_with [OF queries.fixture_parser_axioms]

definition parse_transactions :: "pyval \<Rightarrow> string \<Rightarrow> pyval result" where
  "parse_transactions = object_parser (\<lambda>data path.
     bindE (required_with (text_list False) data ''apps'' path) (\<lambda>apps.
     bindE (guardE (2 \<le> length (elements_of apps)) ValidationError
       (sub path ''apps'' @ '': expected at least two apps'')) (\<lambda>_.
     dict_display [
     (''directory'', text_field data ''directory'' path),
     (''apps'', Inr apps),
     (''commits'', required_with (map_parser (text_map False)) data ''commits'' path),
     (''payloads'', required_with (map_parser (map_parser (text_list False))) data ''payloads'' path),
     (''metadata'', required_with (text_map False) data ''metadata'' path),
     (''eol_reason'', text_field data ''eol_reason'' path)])))"

interpretation transactions: fixture_parser parse_transactions fixture_transactions
  unfolding parse_transactions_def fixture_transactions_def
  by (rule object_parser_contract, simp, simp)
    (intro body_bound [where k = "''apps''"] body_skip,
      simp_all add: body_display body_set_if body_set_field body_return fixture_simps
        required_keys_def rejects)

lemmas transactions_fields [fixture_simps] = field_spec_with [OF transactions.fixture_parser_axioms]

definition parse_auth :: "pyval \<Rightarrow> string \<Rightarrow> pyval result" where
  "parse_auth = object_parser (\<lambda>data path.
     bindE (dict_display [
     (''directory'', text_field data ''directory'' path),
     (''ref'', text_field data ''ref'' path),
     (''commit'', text_field data ''commit'' path),
     (''payloads'', required_with (text_list False) data ''payloads'' path)]) (\<lambda>r.
     bindE (if has_key data ''authenticator_ref'' then
         bindE (set_field ''authenticator_ref'' (text_field data ''authenticator_ref'' path) r) (\<lambda>r.
         set_field ''authenticator_commit'' (text_field data ''authenticator_commit'' path) r)
       else Inr r) (\<lambda>r.
     if has_key data ''authenticator_binary'' then
       bindE (required data ''authenticator_ref'' path) (\<lambda>_.
       bindE (set_field ''authenticator_binary'' (text_field data ''authenticator_binary'' path) r) (\<lambda>r.
       bindE (set_field ''authenticator_runtime_ref''
         (text_field data ''authenticator_runtime_ref'' path) r) (\<lambda>r.
       set_field ''authenticator_runtime_commit''
         (text_field data ''authenticator_runtime_commit'' path) r)))
     else Inr r)))"

lemma body_required:
  "(\<And>x. body_spec fs data (f x)) \<Longrightarrow> body_spec fs data (bindE (required data k p) f)"
  by (rule body_skip) (simp_all add: rejects)

interpretation auth: fixture_parser parse_auth fixture_auth
  unfolding parse_auth_def fixture_auth_def auth_required_fields_def
  by (rule object_parser_contract, simp, simp)
    (intro body_required body_bind body_if,
      simp_all add: body_display body_set_if body_set_field body_return fixture_simps
        required_keys_def rejects)

lemmas auth_fields [fixture_simps] = field_spec_with [OF auth.fixture_parser_axioms]

definition parse_extras :: "pyval \<Rightarrow> string \<Rightarrow> pyval result" where
  "parse_extras = object_parser (\<lambda>data path.
     bindE (set_if (has_key data ''transactions'') ''transactions''
       (item_with parse_transactions data ''transactions'' path) []) (\<lambda>r.
     set_if (has_key data ''auth'') ''auth'' (item_with parse_auth data ''auth'' path) r))"

lemma partial_ok_Nil: "required_keys fs = [] \<Longrightarrow> partial_ok fs data []"
  by (simp add: partial_ok_def entries_ok_def)

interpretation extras: fixture_parser parse_extras fixture_extras
  unfolding parse_extras_def fixture_extras_def
  by (rule object_parser_contract, simp, simp)
    (intro body_bind, simp_all add: body_set_if partial_ok_Nil fixture_simps required_keys_def)

lemmas extras_fields [fixture_simps] = field_spec_with [OF extras.fixture_parser_axioms]

definition parse_trigger :: "pyval \<Rightarrow> string \<Rightarrow> pyval result" where
  "parse_trigger = object_parser (\<lambda>data path. dict_display [
     (''repo'', text_field data ''repo'' path),
     (''commit'', text_field data ''commit'' path)])"

interpretation trigger: fixture_parser parse_trigger fixture_trigger
  unfolding parse_trigger_def fixture_trigger_def
  by (rule display_contract) (simp_all add: fixture_simps required_keys_def)

lemmas trigger_fields [fixture_simps] =
  field_spec_with [OF trigger.fixture_parser_axioms]
  field_spec_list [OF trigger.fixture_parser_axioms]
  field_spec_map [OF trigger.fixture_parser_axioms]

definition parse_lifecycle_extra :: "pyval \<Rightarrow> string \<Rightarrow> pyval result" where
  "parse_lifecycle_extra = object_parser (\<lambda>data path.
     bindE (dict_display [
     (''reference_version'', text_field data ''reference_version'' path),
     (''image_A'', text_field data ''image_A'' path),
     (''payload_A'', text_field data ''payload_A'' path),
     (''image_B'', text_field data ''image_B'' path),
     (''payload_B'', text_field data ''payload_B'' path),
     (''signed_bundle'', text_field data ''signed_bundle'' path),
     (''sideload_native'', text_field data ''sideload_native'' path),
     (''sideload'', text_field data ''sideload'' path),
     (''usage_repo'', text_field data ''usage_repo'' path),
     (''usage_app'', text_field data ''usage_app'' path),
     (''usage_sdk'', text_field data ''usage_sdk'' path),
     (''usage_metadata'', text_field data ''usage_metadata'' path),
     (''usage_app_commit'', text_field data ''usage_app_commit'' path),
     (''usage_sdk_commit'', text_field data ''usage_sdk_commit'' path),
     (''trigger_app'', text_field data ''trigger_app'' path),
     (''triggers'', required_with (map_parser parse_trigger) data ''triggers'' path)]) (\<lambda>r.
     bindE (set_if (has_key data ''foreign_bundle'') ''foreign_bundle''
       (text_field data ''foreign_bundle'' path) r) (\<lambda>r.
     if has_key data ''sideload_update_repo'' then
       bindE (set_field ''sideload_update_repo'' (text_field data ''sideload_update_repo'' path) r) (\<lambda>r.
       bindE (set_field ''sideload_update'' (text_field data ''sideload_update'' path) r) (\<lambda>r.
       set_field ''sideload_update_commit'' (text_field data ''sideload_update_commit'' path) r))
     else Inr r)))"

interpretation lifecycle_extra: fixture_parser parse_lifecycle_extra fixture_lifecycle_extra
  unfolding parse_lifecycle_extra_def fixture_lifecycle_extra_def lifecycle_required_fields_def
  by (rule object_parser_contract, simp, simp)
    (intro body_bind body_if,
      simp_all add: body_display body_set_if body_set_field body_return fixture_simps
        required_keys_def rejects)

lemmas lifecycle_fields [fixture_simps] = field_spec_with [OF lifecycle_extra.fixture_parser_axioms]

text \<open>
  The checks between the parts of the contract fixture: every alias has a ref, and each
  of the four repositories has a commit of every ref. \<open>member\<close> is \<open>dict(result[key])\<close>
  of a field the display has just set.
\<close>

definition member :: "dict \<Rightarrow> string \<Rightarrow> dict" where
  "member r key = entries_of (get_default r key PNone)"

definition contract_aliases :: "string list" where
  "contract_aliases = [''one'', ''two'', ''platform'', ''sdk'', ''extension'', ''shared'', ''one_debug'',
     ''two_debug'', ''platform_debug'', ''sdk_debug'']"

definition contract_versions :: "string list" where
  "contract_versions = [''A'', ''RUNTIME'', ''EXTENSION'', ''APP'']"

definition contract_alias :: "dict \<Rightarrow> string \<Rightarrow> string \<Rightarrow> unit result" where
  "contract_alias r path alias =
     bindE (required (member r ''refs'') alias (sub path ''refs'')) (\<lambda>x.
     liftE (\<lambda>_. ()) (string x (sub (sub path ''refs'') alias) True))"

definition contract_version :: "dict \<Rightarrow> string \<Rightarrow> string \<Rightarrow> unit result" where
  "contract_version r path version =
     bindE (required (member r ''repos'') version (sub path ''repos'')) (\<lambda>_.
     bindE (required (member r ''commits'') version (sub path ''commits'')) (\<lambda>x.
     bindE (object_map x (sub (sub path ''commits'') version)) (\<lambda>commits.
     forE (map (\<lambda>(_, ref). text_of ref) (member r ''refs'')) (\<lambda>ref.
       liftE (\<lambda>_. ()) (required commits ref (sub (sub path ''commits'') version))))))"

lemma validation_error_contract [rejects]:
  "validation_error (contract_alias r p a)" "validation_error (contract_version r p v)"
  unfolding contract_alias_def contract_version_def by (auto intro!: rejects)

definition parse_contracts :: "pyval \<Rightarrow> string \<Rightarrow> pyval result" where
  "parse_contracts = object_parser (\<lambda>data path.
     bindE (dict_display [
     (''repos'', required_with (text_map True) data ''repos'' path),
     (''refs'', required_with (text_map True) data ''refs'' path),
     (''commits'', required_with (map_parser (text_map True)) data ''commits'' path)]) (\<lambda>r.
     bindE (forE contract_aliases (contract_alias r path)) (\<lambda>_.
     bindE (forE contract_versions (contract_version r path)) (\<lambda>_. Inr r))))"

lemma body_for:
  "(\<And>x. x \<in> set xs \<Longrightarrow> validation_error (f x)) \<Longrightarrow> body_spec fs data m \<Longrightarrow>
     body_spec fs data (bindE (forE xs f) (\<lambda>_. m))"
  by (rule body_skip) (simp_all add: rejects)

interpretation contracts: fixture_parser parse_contracts fixture_contracts
  unfolding parse_contracts_def fixture_contracts_def
  by (rule object_parser_contract, simp, simp)
    (intro body_for body_bind,
      simp_all add: body_display body_set_if body_set_field body_return fixture_simps
        required_keys_def rejects)

lemmas contracts_fields [fixture_simps] = field_spec_with [OF contracts.fixture_parser_axioms]
lemmas top_fields [fixture_simps] =
  field_spec_with [OF assets.fixture_parser_axioms]
  field_spec_with [OF sizes.fixture_parser_axioms]
  field_spec_with [OF build.fixture_parser_axioms]
  field_spec_with [OF build_options.fixture_parser_axioms]

section \<open>The manifest\<close>

definition fixture_body :: "dict \<Rightarrow> string \<Rightarrow> dict result" where
  "fixture_body data path =
     bindE (schema_one data path) (\<lambda>_.
     bindE (required_with (text_map True) data ''commits'' path) (\<lambda>commits.
     bindE (forE [''A'', ''B''] (\<lambda>version. guardE (version \<in> keys_of commits) ValidationError
       (sub (sub path ''commits'') version @ '': required field is missing''))) (\<lambda>_.
     bindE (dict_display [
     (''schema'', Inr (PInt 1)),
     (''arch'', required_with (text_value True) data ''arch'' path),
     (''app'', required_with (text_value True) data ''app'' path),
     (''runtime'', required_with (text_value True) data ''runtime'' path),
     (''branch'', required_with (text_value True) data ''branch'' path),
     (''commits'', Inr commits),
     (''runtime_commit'', text_field data ''runtime_commit'' path),
     (''sha256'', required_with (text_map False) data ''sha256'' path)]) (\<lambda>r.
     bindE (set_if (has_key data ''directory'') ''directory''
       (text_field data ''directory'' path) r) (\<lambda>r.
     bindE (set_if (has_key data ''reference_version'') ''reference_version''
       (text_field data ''reference_version'' path) r) (\<lambda>r.
     bindE (set_if (has_key data ''compiler'') ''compiler''
       (text_field data ''compiler'' path) r) (\<lambda>r.
     bindE (set_if (has_key data ''assets'') ''assets''
       (item_with parse_assets data ''assets'' path) r) (\<lambda>r.
     bindE (set_if (has_key data ''sizes'') ''sizes''
       (item_with parse_sizes data ''sizes'' path) r) (\<lambda>r.
     bindE (set_if (has_key data ''build'') ''build''
       (item_with parse_build data ''build'' path) r) (\<lambda>r.
     bindE (set_if (has_key data ''build_options'') ''build_options''
       (item_with parse_build_options data ''build_options'' path) r) (\<lambda>r.
     bindE (set_if (has_key data ''queries'') ''queries''
       (item_with (parse_queries (text_of (get_default r ''arch'' PNone))) data ''queries'' path) r) (\<lambda>r.
     bindE (set_if (has_key data ''extras'') ''extras''
       (item_with parse_extras data ''extras'' path) r) (\<lambda>r.
     bindE (set_if (has_key data ''lifecycle_extra'') ''lifecycle_extra''
       (item_with parse_lifecycle_extra data ''lifecycle_extra'' path) r) (\<lambda>r.
     set_if (has_key data ''contracts'') ''contracts''
       (item_with parse_contracts data ''contracts'' path) r))))))))))))))"

definition parse_fixture :: "pyval \<Rightarrow> string \<Rightarrow> pyval result" where
  "parse_fixture = object_parser fixture_body"

lemma body_schema:
  "(map_of data ''schema'' = Some (PInt 1) \<Longrightarrow> body_spec fs data m) \<Longrightarrow>
     body_spec fs data (bindE (schema_one data p) (\<lambda>_. m))"
  by (rule body_skip) (auto simp: rejects schema_one_Inr)

lemma fixture_body_schema: "fixture_body data p = Inr res \<Longrightarrow> map_of data ''schema'' = Some (PInt 1)"
  by (auto simp: fixture_body_def bindE_Inr_iff schema_one_Inr)

lemma object_parser_schema:
  assumes "distinct (map fst fs)" and "\<And>data p. body_spec fs data (body data p)"
    and "\<And>data p res. body data p = Inr res \<Longrightarrow> map_of data ''schema'' = Some (PInt 1)"
  shows "fixture_parser (object_parser body) (ATyped nm fs)"
  using assms(2) by (intro object_parser_builds assms(1)) (auto simp: body_spec_def dest: assms(3))

lemma fixture_body_spec:
  "body_spec (fixture_required_fields @ fixture_optional_fields) data (fixture_body data p)"
  unfolding fixture_body_def fixture_required_fields_def fixture_optional_fields_def
  by (intro body_schema body_bound [where k = "''commits''"] body_for body_bind,
    simp_all add: body_display body_set_if fixture_simps field_spec_same required_keys_def rejects)

interpretation manifest: fixture_parser parse_fixture fixture_manifest
  unfolding parse_fixture_def fixture_manifest_def
  by (rule object_parser_schema [OF _ fixture_body_spec fixture_body_schema])
    (simp add: fixture_required_fields_def fixture_optional_fields_def)

lemma fixture_body_entries:
  "fixture_body data p = Inr res \<Longrightarrow> fst ` set res \<subseteq>
    {''schema'', ''arch'', ''app'', ''runtime'', ''branch'', ''commits'', ''runtime_commit'', ''sha256'',
     ''directory'', ''reference_version'', ''compiler'', ''assets'', ''sizes'', ''build'', ''build_options'',
     ''queries'', ''extras'', ''lifecycle_extra'', ''contracts''}"
  using built_keys [OF fixture_body_spec]
  by (fastforce simp: fixture_required_fields_def fixture_optional_fields_def)

definition load_fixture :: "json_loads \<Rightarrow> (string \<Rightarrow> string result) \<Rightarrow> string \<Rightarrow> pyval result" where
  "load_fixture loads read_text path = bindE (load_json loads read_text path) (\<lambda>v. parse_fixture v path)"

section \<open>Properties\<close>

text \<open>C3: an accepted fixture manifest has the declared class and equals the document it was parsed from,
  so no field is dropped, renamed or altered.\<close>

theorem fixture_lossless:
  assumes "wf_val v" and "parse_fixture v p = Inr r"
  shows "has_type r fixture_manifest \<and> pyeq r v"
  using assms manifest.typed manifest.lossless by blast

definition sample_fixture :: pyval where
  "sample_fixture = PObj [(''schema'', PInt 1), (''arch'', PStr ''x86_64''), (''app'', PStr ''org.app''),
     (''runtime'', PStr ''org.rt''), (''branch'', PStr ''test''),
     (''commits'', pstr_map [(''A'', ''c1''), (''B'', ''c2'')]), (''runtime_commit'', PStr ''c3''),
     (''sha256'', pstr_map []), (''assets'', PObj [(''runtime_tree'', PStr ''r''), (''app_tree'', PStr ''a'')])]"

theorem fixture_lossless_witness:
  "has_type sample_fixture fixture_manifest \<and> pyeq sample_fixture sample_fixture"
  by (rule fixture_lossless [of sample_fixture "''fixture''"], code_simp, code_simp)

text \<open>C27: A fixture manifest is accepted only when it is an object all of whose keys, wherever they stand,
  are fields of its class; one undeclared key among any number of declared ones rejects it, and every
  rejection is a ValidationError.\<close>

theorem fixture_rejects_unknown:
  "case parse_fixture v p of
     Inl e \<Rightarrow> exn_class e = ValidationError
   | Inr r \<Rightarrow> \<exists>d. v = PObj d \<and> fst ` set d \<subseteq>
       {''schema'', ''arch'', ''app'', ''runtime'', ''branch'', ''commits'', ''runtime_commit'',
           ''sha256'', ''directory'', ''reference_version'', ''compiler'', ''assets'', ''sizes'', ''build'',
           ''build_options'', ''queries'', ''extras'', ''lifecycle_extra'', ''contracts''}"
proof (cases "parse_fixture v p")
  case (Inl e)
  with manifest.only_rejects [of v p] show ?thesis by (auto simp: validation_error_def)
next
  case (Inr r)
  then obtain d res where v: "v = PObj d" and res: "fixture_body d p = Inr res" and keys: "fst ` set d \<subseteq> fst ` set res"
    by (auto simp: parse_fixture_def object_parser_def bindE_Inr_iff known_fixture_Inr object_map_Inr)
  from keys fixture_body_entries [OF res] have "fst ` set d \<subseteq>
       {''schema'', ''arch'', ''app'', ''runtime'', ''branch'', ''commits'', ''runtime_commit'',
           ''sha256'', ''directory'', ''reference_version'', ''compiler'', ''assets'', ''sizes'', ''build'',
           ''build_options'', ''queries'', ''extras'', ''lifecycle_extra'', ''contracts''}"
    by (rule subset_trans)
  with v show ?thesis unfolding Inr sum.case by (intro exI [of _ d] conjI)
qed

text \<open>C26: in an accepted contract fixture every alias names a ref, and each of the four repositories is
  present and has a commit of every ref.\<close>

theorem contracts_complete:
  assumes "parse_contracts v p = Inr r"
  shows "\<exists>d. r = PObj d \<and>
    (\<forall>a\<in>set contract_aliases. \<exists>s. map_of (member d ''refs'') a = Some (PStr s) \<and> s \<noteq> []) \<and>
    (\<forall>version\<in>set contract_versions. has_key (member d ''repos'') version \<and>
      (\<exists>cs. map_of (member d ''commits'') version = Some (PObj cs) \<and>
        (\<forall>(_, ref)\<in>set (member d ''refs''). has_key cs (text_of ref))))"
proof -
  from assms obtain data d where r: "r = PObj d"
    and al: "forE contract_aliases (contract_alias d p) = Inr ()"
    and ve: "forE contract_versions (contract_version d p) = Inr ()"
    by (auto simp: parse_contracts_def object_parser_def bindE_Inr_iff)
  have "\<exists>s. map_of (member d ''refs'') a = Some (PStr s) \<and> s \<noteq> []" if "a \<in> set contract_aliases" for a
    using al that by (auto simp: forE_Inr contract_alias_def bindE_Inr_iff required_Inr string_Inr)
  moreover have "has_key (member d ''repos'') x \<and> (\<exists>cs. map_of (member d ''commits'') x = Some (PObj cs) \<and>
      (\<forall>(_, ref)\<in>set (member d ''refs''). has_key cs (text_of ref)))" if x: "x \<in> set contract_versions" for x
  proof -
    from ve x obtain cs where rp: "has_key (member d ''repos'') x"
      and cs: "map_of (member d ''commits'') x = Some (PObj cs)"
      and rf: "\<forall>ref\<in>set (map (\<lambda>(_, ref). text_of ref) (member d ''refs'')). \<exists>y. map_of cs ref = Some y"
      by (fastforce simp: forE_Inr contract_version_def bindE_Inr_iff required_Inr object_map_Inr has_key_def)
    from rf have "\<forall>(_, ref)\<in>set (member d ''refs''). has_key cs (text_of ref)"
      by (fastforce simp: has_key_def)
    with rp cs show ?thesis by blast
  qed
  ultimately show ?thesis using r by blast
qed

definition sample_contracts :: pyval where
  "sample_contracts = PObj [
     (''repos'', pstr_map (map (\<lambda>k. (k, ''repo'')) contract_versions)),
     (''refs'', pstr_map (map (\<lambda>k. (k, ''app/x'')) contract_aliases)),
     (''commits'', PObj (map (\<lambda>k. (k, pstr_map [(''app/x'', ''c'')])) contract_versions))]"

theorem contracts_complete_witness:
  "\<exists>d cs. sample_contracts = PObj d \<and> map_of (member d ''commits'') ''APP'' = Some (PObj cs) \<and>
    list_all (\<lambda>(_, ref). has_key cs (text_of ref)) (member d ''refs'')"
proof -
  have "parse_contracts sample_contracts ''x'' = Inr sample_contracts" by code_simp
  from contracts_complete [OF this] obtain d where d: "sample_contracts = PObj d"
    and all: "\<forall>version\<in>set contract_versions. \<exists>cs. map_of (member d ''commits'') version = Some (PObj cs) \<and>
      (\<forall>(_, ref)\<in>set (member d ''refs''). has_key cs (text_of ref))" by blast
  have "''APP'' \<in> set contract_versions" by code_simp
  with all d show ?thesis unfolding list_all_iff by blast
qed

end
