(* ===== verification/Report_Schema.thy ===== *)
theory Report_Schema
  imports Catalogue_Schema Fixture_Manifest
begin

text \<open>
  \<open>report_schema.py\<close>: the execution report's classes and its checked boundary
  \<open>parse_report\<close>. What it accepts has the report's type, finite nonnegative durations and
  gap records that explain themselves; what it rejects, it rejects by a ValidationError.
\<close>

section \<open>The classes\<close>

definition definition_class :: annot where
  "definition_class = ATyped ''Definition'' [
     (''schema'', True, AInt), (''fingerprint'', True, AStr), (''files'', True, ADict AStr AStr),
     (''policy_sha256'', True, AStr), (''loader_sha256'', True, AStr),
     (''reference_commit'', True, AStr)]"

definition case_identity_fields :: "(string \<times> bool \<times> annot) list" where
  "case_identity_fields = [
     (''behavior_id'', True, AStr), (''driver'', True, AStr), (''profile'', True, AStr)]"

definition case_identity_class :: annot where
  "case_identity_class = ATyped ''CaseIdentity'' case_identity_fields"

definition repository_request_class :: annot where
  "repository_request_class = ATyped ''RepositoryRequest'' [
     (''path'', True, AStr), (''version'', True, AStr), (''blocked'', True, ABool)]"

definition sideload_network_observation_fields :: "(string \<times> bool \<times> annot) list" where
  "sideload_network_observation_fields = [
     (''requests'', True, AList repository_request_class)]"

definition sideload_network_observation_class :: annot where
  "sideload_network_observation_class =
     ATyped ''SideloadNetworkObservation'' sideload_network_observation_fields"

definition query_network_observation_class :: annot where
  "query_network_observation_class =
     ATyped ''QueryNetworkObservation'' (sideload_network_observation_fields @ [
     (''cached_query_requests'', True, AInt), (''uncached_query_requests'', True, AInt)])"

definition sideload_image_network_observation_class :: annot where
  "sideload_image_network_observation_class =
     ATyped ''SideloadImageNetworkObservation'' (sideload_network_observation_fields @ [
     (''remote_contains_images'', True, ABool)])"

definition evidence_record_class :: annot where
  "evidence_record_class = ATyped ''EvidenceRecord'' [
     (''argv'', False, AList AStr), (''cli_argv'', False, AList AStr), (''interface'', False, AStr),
     (''exit_status'', False, AInt), (''stdout'', False, AStr), (''stderr'', False, AStr),
     (''api_calls'', False, AList AStr), (''signals'', False, AList AStr),
     (''observation'', False, AStr), (''data'', False, AJson), (''error'', False, AStr),
     (''timed_out'', False, ABool), (''role'', False, AStr), (''mode'', False, AStr),
     (''xdg_data_home'', False, AStr), (''cleanup_confirmed'', False, ABool),
     (''query_network_observation'', False, query_network_observation_class),
     (''sideload_image_network_observation'', False, sideload_image_network_observation_class),
     (''sideload_network_observation'', False, sideload_network_observation_class)]"

definition case_status_fields :: "(string \<times> bool \<times> annot) list" where
  "case_status_fields = case_identity_fields @ [
     (''status'', True, AStr)]"

definition case_timings_class :: annot where
  "case_timings_class = ATyped ''CaseTimings'' [
     (''setup_seconds'', True, AFloat), (''execution_seconds'', True, AFloat),
     (''cleanup_seconds'', True, AFloat)]"

definition case_result_class :: annot where
  "case_result_class = ATyped ''CaseResult'' (case_status_fields @ [
     (''duration_seconds'', False, AFloat), (''timings'', False, case_timings_class),
     (''evidence'', False, AList evidence_record_class), (''cleanup_complete'', False, ABool),
     (''cleanup_error'', False, AStr), (''error'', False, AStr),
     (''target_version'', False, AUnion [AStr, ANone]), (''required_capabilities'', False, AList AStr),
     (''unsupported_capabilities'', False, ADict AStr AStr), (''state_directory'', False, AStr),
     (''repository_requests'', False, AList repository_request_class)])"

definition artifact_provenance_fields :: "(string \<times> bool \<times> annot) list" where
  "artifact_provenance_fields = [
     (''path'', False, AStr), (''sha256'', False, AStr)]"

definition artifact_provenance_class :: annot where
  "artifact_provenance_class = ATyped ''ArtifactProvenance'' artifact_provenance_fields"

definition target_provenance_class :: annot where
  "target_provenance_class = ATyped ''TargetProvenance'' [
     (''configuration_sha256'', False, AStr), (''cli_path'', False, AStr),
     (''cli_sha256'', False, AStr), (''adapter_files'', False, AList artifact_provenance_class)]"

definition fixture_provenance_class :: annot where
  "fixture_provenance_class = ATyped ''FixtureProvenance'' [
     (''path'', False, AStr), (''manifest_sha256'', False, AStr)]"

definition library_provenance_class :: annot where
  "library_provenance_class = ATyped ''LibraryProvenance'' (artifact_provenance_fields @ [
     (''package_version'', False, AStr), (''client_sha256'', False, AStr),
     (''api_features'', False, ADict AStr ABool)])"

definition artifact_integrity_class :: annot where
  "artifact_integrity_class = ATyped ''ArtifactIntegrity'' [
     (''status'', False, AStr), (''errors'', False, AList AStr), (''changed_paths'', False, AList AStr)]"

definition coverage_metric_class :: annot where
  "coverage_metric_class = ATyped ''CoverageMetric'' [
     (''total'', True, AInt), (''implemented'', True, AInt),
     (''implemented_percent'', True, AUnion [AFloat, ANone]), (''passed'', True, AUnion [AInt, ANone]),
     (''passed_percent'', True, AUnion [AFloat, ANone])]"

definition verification_class :: annot where
  "verification_class = ATyped ''Verification'' [
     (''status'', True, AStr), (''reason'', True, AStr)]"

definition coverage_metrics_class :: annot where
  "coverage_metrics_class = ATyped ''CoverageMetrics'' [
     (''behaviors'', True, ADict AStr coverage_metric_class),
     (''surfaces'', True, ADict AStr coverage_metric_class),
     (''profiles'', True, ADict AStr (ADict AStr coverage_metric_class)),
     (''categories'', True, ADict AStr (ADict AStr coverage_metric_class))]"

definition cli_option_accounting_class :: annot where
  "cli_option_accounting_class = ATyped ''CLIOptionAccounting'' [
     (''equivalence_checks'', True, coverage_metric_class),
     (''accounted'', True, coverage_metric_class),
     (''equivalence_evidence'', True, ADict AStr (AList case_identity_class))]"

definition coverage_summary_required_fields :: "(string \<times> bool \<times> annot) list" where
  "coverage_summary_required_fields = [
     (''schema'', True, AInt), (''definition'', True, definition_class),
     (''verification'', True, verification_class), (''metrics'', True, coverage_metrics_class),
     (''case_statuses'', True, ADict AStr AInt),
     (''evidence'', True, ADict AStr (AList case_identity_class)),
     (''interface_evidence'', True, ADict AStr (AList case_identity_class)),
     (''requirement_capabilities'', True, ADict AStr (AList AStr)),
     (''all_possible_behavior_percent'', True, ANone),
     (''recorded_execution'', True, AUnion [(ADict AStr AJson), ANone]),
     (''surfaces_without_catalogued_requirements'', True, AList AStr),
     (''unimplemented_requirements'', True, AList AStr),
     (''unverified_requirements'', True, AUnion [(AList AStr), ANone]),
     (''limitations'', True, AList AStr)]"

definition coverage_summary_class :: annot where
  "coverage_summary_class = ATyped ''CoverageSummary'' (coverage_summary_required_fields @ [
     (''cli_option_accounting'', False, cli_option_accounting_class)])"

definition report_schema_fields :: "(string \<times> bool \<times> annot) list" where
  "report_schema_fields = [
     (''schema'', True, AInt)]"

definition run_report_class :: annot where
  "run_report_class = ATyped ''RunReport'' (report_schema_fields @ [
     (''duration_seconds'', False, AFloat), (''results'', False, AList case_result_class),
     (''coverage_definition'', False, definition_class), (''complete'', False, ABool),
     (''target'', False, AStr), (''target_configuration'', False, AStr),
     (''target_version'', False, AStr), (''started_at'', False, AStr), (''finished_at'', False, AStr),
     (''target_provenance'', False, target_provenance_class),
     (''library_provenance'', False, library_provenance_class),
     (''fixture_provenance'', False, fixture_provenance_class),
     (''artifact_integrity'', False, artifact_integrity_class),
     (''declared_unsupported_capabilities'', False, ADict AStr AStr),
     (''setup_evidence'', False, AList evidence_record_class), (''setup_error'', False, AStr),
     (''setup_status'', False, AStr), (''full_compatibility'', False, ABool),
     (''fixture'', False, fixture_manifest), (''gaps'', False, AList gap_behavior_class),
     (''coverage'', False, coverage_summary_class)])"

section \<open>The checked boundary\<close>

text \<open>
  \<open>math.isfinite\<close> converts an integer to a double; an integer that rounds to \<open>2 ^ 1024\<close>
  or beyond overflows, which the source takes as invalid.
\<close>

definition float_overflow :: "int \<Rightarrow> bool" where
  "float_overflow n = (2 ^ 1024 - 2 ^ 970 \<le> \<bar>n\<bar>)"

definition finite_seconds :: "pyval \<Rightarrow> bool" where
  "finite_seconds v = (case v of PInt n \<Rightarrow> \<not> float_overflow n \<and> 0 \<le> n
     | PFloat (Fin r) \<Rightarrow> 0 \<le> r | _ \<Rightarrow> False)"

definition seconds :: "pyval \<Rightarrow> string \<Rightarrow> unit result" where
  "seconds v path = guardE (finite_seconds v) ValidationError
     (path @ '': expected finite nonnegative seconds'')"

definition check_observation :: "string \<Rightarrow> nat \<times> pyval \<Rightarrow> unit result" where
  "check_observation path ix = (case ix of (index, record) \<Rightarrow>
     if has record ''query_network_observation'' then
       bindE (getitem record ''query_network_observation'') (\<lambda>observation.
       let prefix = sub (idx path index) ''query_network_observation'' in
       bindE (getitem observation ''cached_query_requests'') (\<lambda>cached.
       bindE (integer cached (sub prefix ''cached_query_requests'') (Some 0)) (\<lambda>_.
       bindE (getitem observation ''uncached_query_requests'') (\<lambda>uncached.
       bindE (integer uncached (sub prefix ''uncached_query_requests'') (Some 0)) (\<lambda>_. Inr ())))))
     else Inr ())"

definition check_observations :: "pyval list \<Rightarrow> string \<Rightarrow> unit result" where
  "check_observations evidence path = forE (enumerate_list evidence) (check_observation path)"

definition check_duration :: "pyval \<Rightarrow> string \<Rightarrow> unit result" where
  "check_duration v path = (if has v ''duration_seconds''
     then bindE (getitem v ''duration_seconds'') (\<lambda>s. seconds s (sub path ''duration_seconds''))
     else Inr ())"

definition check_case :: "string \<Rightarrow> nat \<times> pyval \<Rightarrow> unit result" where
  "check_case path ix = (case ix of (index, res) \<Rightarrow>
     let prefix = idx (sub path ''results'') index in
     bindE (check_duration res prefix) (\<lambda>_.
     bindE (forE (entries_of (get_or res ''timings'' (PObj []))) (\<lambda>(key, s).
       seconds s (sub (sub prefix ''timings'') key))) (\<lambda>_.
     check_observations (elements_of (get_or res ''evidence'' (PList []))) (sub prefix ''evidence''))))"

text \<open>The steps of \<open>parse_report\<close> over the typed report.\<close>

definition report_fixture :: "pyval \<Rightarrow> string \<Rightarrow> pyval result" where
  "report_fixture report path = (if has report ''fixture''
     then bindE (getitem report ''fixture'') (\<lambda>f.
       liftE (setitem report ''fixture'') (parse_fixture f (sub path ''fixture'')))
     else Inr report)"

definition report_gaps :: "pyval \<Rightarrow> string \<Rightarrow> pyval result" where
  "report_gaps report path = (if has report ''gaps''
     then bindE (getitem report ''gaps'') (\<lambda>gaps.
       liftE (\<lambda>gs. setitem report ''gaps'' (PList gs))
         (mapE (\<lambda>(index, gap). parse_gap gap (idx (sub path ''gaps'') index))
           (enumerate_list (elements_of gaps))))
     else Inr report)"

definition parse_report :: "pyval \<Rightarrow> string \<Rightarrow> pyval result" where
  "parse_report v path =
     bindE (parse_typed v run_report_class path) (\<lambda>report.
     bindE (check_duration report path) (\<lambda>_.
     bindE (report_fixture report path) (\<lambda>report.
     bindE (report_gaps report path) (\<lambda>report.
     bindE (check_observations (elements_of (get_or report ''setup_evidence'' (PList [])))
       (sub path ''setup_evidence'')) (\<lambda>_.
     bindE (forE (enumerate_list (elements_of (get_or report ''results'' (PList [])))) (check_case path)) (\<lambda>_.
     Inr report))))))"

section \<open>What an accepted report satisfies\<close>

definition durations_ok :: "pyval \<Rightarrow> bool" where
  "durations_ok c \<longleftrightarrow> (\<forall>s. getitem c ''duration_seconds'' = Inr s \<longrightarrow> finite_seconds s) \<and>
     (\<forall>t k s. getitem c ''timings'' = Inr t \<longrightarrow> (k, s) \<in> set (entries_of t) \<longrightarrow> finite_seconds s)"

definition report_ok :: "pyval \<Rightarrow> bool" where
  "report_ok r \<longleftrightarrow> has_type r run_report_class \<and>
     (\<forall>s. getitem r ''duration_seconds'' = Inr s \<longrightarrow> finite_seconds s) \<and>
     (\<forall>gs. getitem r ''gaps'' = Inr (PList gs) \<longrightarrow> (\<forall>g\<in>set gs. gap_ok g)) \<and>
     (\<forall>rs. getitem r ''results'' = Inr (PList rs) \<longrightarrow> (\<forall>c\<in>set rs. durations_ok c))"

lemma not_has_getitem: "\<not> has v k \<Longrightarrow> getitem v k \<noteq> Inr x"
  by (auto simp: getitem_def has_def has_key_def split: pyval.splits)

lemma has_getitem: "has v k \<Longrightarrow> \<exists>x. getitem v k = Inr x"
  by (auto simp: getitem_def has_def has_key_def split: pyval.splits)

lemma get_or_has: "getitem v k = Inr x \<Longrightarrow> get_or v k y = x"
  by (simp add: get_or_def)

lemma gives_seconds: "gives (seconds s p) (\<lambda>_. finite_seconds s)"
  unfolding seconds_def by (rule gives_guard)

lemma gives_optional:
  assumes "\<And>x. getitem v k = Inr x \<Longrightarrow> gives (f x) (\<lambda>_. P x)"
  shows "gives (if has v k then bindE (getitem v k) f else Inr ()) (\<lambda>_. \<forall>x. getitem v k = Inr x \<longrightarrow> P x)"
proof (cases "has v k")
  case True
  then obtain x where x: "getitem v k = Inr x" using has_getitem by blast
  with assms [OF x] show ?thesis by (simp add: True)
qed (simp add: not_has_getitem)

lemma gives_replace:
  assumes "I v" and "\<And>x. getitem v k = Inr x \<Longrightarrow> gives (f x) I"
  shows "gives (if has v k then bindE (getitem v k) f else Inr v) I"
proof (cases "has v k")
  case True
  then obtain x where x: "getitem v k = Inr x" using has_getitem by blast
  with assms(2) [OF x] show ?thesis by (simp add: True)
qed (simp add: assms(1))

lemma typed_field:
  assumes "has_type v c" and "c = ATyped nm fs" and "map_of fs k = Some (r, a)" and "getitem v k = Inr x"
  shows "has_type x a"
  using assms map_of_SomeD [OF assms(3)]
  unfolding has_type_typed_iff by (fastforce simp: has_type_typed_iff split: option.splits)

lemma report_fields:
  assumes "has_type r run_report_class"
  shows "getitem r ''gaps'' = Inr x \<Longrightarrow> has_type x (AList gap_behavior_class)"
    and "getitem r ''setup_evidence'' = Inr x \<Longrightarrow> has_type x (AList evidence_record_class)"
    and "getitem r ''results'' = Inr x \<Longrightarrow> has_type x (AList case_result_class)"
  by (rule typed_field [OF assms run_report_class_def, where r = False];
      simp add: report_schema_fields_def)+

lemma case_fields:
  assumes "has_type r case_result_class"
  shows "getitem r ''timings'' = Inr x \<Longrightarrow> has_type x case_timings_class"
    and "getitem r ''evidence'' = Inr x \<Longrightarrow> has_type x (AList evidence_record_class)"
  by (rule typed_field [OF assms case_result_class_def, where r = False];
      simp add: case_status_fields_def case_identity_fields_def)+

lemma observation_fields:
  assumes "has_type r evidence_record_class" and "getitem r ''query_network_observation'' = Inr x"
  shows "gives (getitem x ''cached_query_requests'') (\<lambda>y. has_type y AInt)"
    and "gives (getitem x ''uncached_query_requests'') (\<lambda>y. has_type y AInt)"
proof -
  have x: "has_type x query_network_observation_class"
    by (rule typed_field [OF assms(1) evidence_record_class_def _ assms(2), where r = False]) simp
  show "gives (getitem x ''cached_query_requests'') (\<lambda>y. has_type y AInt)"
    and "gives (getitem x ''uncached_query_requests'') (\<lambda>y. has_type y AInt)"
    by (rule gives_field [OF x query_network_observation_class_def],
        simp add: sideload_network_observation_fields_def)+
qed

lemma check_observation_gives:
  assumes "has_type r evidence_record_class"
  shows "gives (check_observation p (i, r)) (\<lambda>_. True)"
proof -
  let ?f = "\<lambda>observation. let prefix = sub (idx p i) ''query_network_observation'' in
       bindE (getitem observation ''cached_query_requests'') (\<lambda>cached.
       bindE (integer cached (sub prefix ''cached_query_requests'') (Some 0)) (\<lambda>_.
       bindE (getitem observation ''uncached_query_requests'') (\<lambda>uncached.
       bindE (integer uncached (sub prefix ''uncached_query_requests'') (Some 0)) (\<lambda>_. Inr ()))))"
  have "gives (?f x) (\<lambda>_. True)" if "getitem r ''query_network_observation'' = Inr x" for x
    unfolding Let_def
    by (intro gives_bind [OF observation_fields(1) [OF assms that]] gives_bind [OF gives_integer]
        gives_bind [OF observation_fields(2) [OF assms that]]) simp
  from gives_optional [of r "''query_network_observation''" ?f "\<lambda>_. True", OF this]
  show ?thesis by (simp add: check_observation_def)
qed

lemma check_observations_gives:
  assumes "\<And>r. r \<in> set es \<Longrightarrow> has_type r evidence_record_class"
  shows "gives (check_observations es p) (\<lambda>_. True)"
proof -
  have "gives (check_observation p ix) (\<lambda>_. True)" if "ix \<in> set (enumerate_list es)" for ix
  proof -
    from that have "snd ix \<in> set es" using in_enumerate_list [of "fst ix" "snd ix"] by simp
    from check_observation_gives [OF assms [OF this], of p "fst ix"] show ?thesis by simp
  qed
  from gives_forE [OF this] show ?thesis by (simp add: check_observations_def)
qed

lemma get_or_list:
  assumes "\<And>x. getitem v k = Inr x \<Longrightarrow> has_type x (AList a)" and "r \<in> set (elements_of (get_or v k (PList [])))"
  shows "has_type r a"
  using assms by (auto simp: get_or_def has_type_list split: sum.splits)

lemma check_duration_gives:
  "gives (check_duration v p) (\<lambda>_. \<forall>s. getitem v ''duration_seconds'' = Inr s \<longrightarrow> finite_seconds s)"
  unfolding check_duration_def by (rule gives_optional) (rule gives_seconds)

lemma check_case_gives:
  assumes "has_type c case_result_class"
  shows "gives (check_case p (i, c)) (\<lambda>_. durations_ok c)"
proof -
  have ev: "gives (check_observations (elements_of (get_or c ''evidence'' (PList []))) q) (\<lambda>_. True)" for q
    by (rule check_observations_gives, rule get_or_list [OF case_fields(2) [OF assms]])
  have ti: "gives (forE d (\<lambda>(key, s). seconds s (q key))) (\<lambda>_. \<forall>ks\<in>set d. finite_seconds (snd ks))" for d :: dict and q
  proof (rule gives_forE)
    fix ks :: "string \<times> pyval"
    show "gives (case ks of (key, s) \<Rightarrow> seconds s (q key)) (\<lambda>_. finite_seconds (snd ks))"
      using gives_seconds by (cases ks) simp
  qed
  have ok: "durations_ok c" if "\<forall>s. getitem c ''duration_seconds'' = Inr s \<longrightarrow> finite_seconds s"
    and "\<forall>ks\<in>set (entries_of (get_or c ''timings'' (PObj []))). finite_seconds (snd ks)"
    using that by (fastforce simp: durations_ok_def get_or_has)
  show ?thesis unfolding check_case_def prod.case Let_def
    by (rule gives_bind [OF check_duration_gives], rule gives_bind [OF ti], rule gives_weaken [OF ev], rule ok)
qed

lemma report_setitem:
  assumes "has_type r run_report_class"
  shows "has_type x fixture_manifest \<Longrightarrow> has_type (setitem r ''fixture'' x) run_report_class"
    and "has_type x (AList gap_behavior_class) \<Longrightarrow> has_type (setitem r ''gaps'' x) run_report_class"
  using assms unfolding run_report_class_def report_schema_fields_def
  by (auto intro!: has_type_setitem)

lemma parse_fixture_gives: "gives (parse_fixture v p) (\<lambda>r. has_type r fixture_manifest)"
  using manifest.only_rejects manifest.typed by (auto simp: gives_iff)

lemma typed_object: "has_type r run_report_class \<Longrightarrow> \<exists>d. r = PObj d"
  by (auto simp: run_report_class_def has_type_typed_iff)

lemma getitem_setitem_typed:
  "has_type r run_report_class \<Longrightarrow> getitem (setitem r k x) j = (if j = k then Inr x else getitem r j)"
  using getitem_setitem typed_object by metis

text \<open>The three stages of \<open>parse_report\<close> that change or check the report as a whole.\<close>

definition timed :: "pyval \<Rightarrow> bool" where
  "timed r \<longleftrightarrow> has_type r run_report_class \<and>
     (\<forall>s. getitem r ''duration_seconds'' = Inr s \<longrightarrow> finite_seconds s)"

lemma report_fixture_gives:
  assumes "timed r"
  shows "gives (report_fixture r p) timed"
  unfolding report_fixture_def
proof (rule gives_replace [where I = timed, OF assms])
  fix f
  show "gives (liftE (setitem r ''fixture'') (parse_fixture f (sub p ''fixture''))) timed"
    by (rule gives_bind [OF parse_fixture_gives])
      (use assms in \<open>auto simp: timed_def report_setitem getitem_setitem_typed\<close>)
qed

definition explained :: "pyval \<Rightarrow> bool" where
  "explained r \<longleftrightarrow> timed r \<and> (\<forall>gs. getitem r ''gaps'' = Inr (PList gs) \<longrightarrow> (\<forall>g\<in>set gs. gap_ok g))"

lemma report_gaps_gives:
  assumes "timed r"
  shows "gives (report_gaps r p) explained"
proof (cases "has r ''gaps''")
  case True
  then obtain gaps where gaps: "getitem r ''gaps'' = Inr gaps" using has_getitem by blast
  have each: "gives (mapE (\<lambda>(index, gap). parse_gap gap (q index)) (enumerate_list xs)) (\<lambda>gs. \<forall>g\<in>set gs. gap_ok g)" for q xs
    by (rule gives_mapE) (auto intro: parse_gap_gives split: prod.splits)
  have "explained (setitem r ''gaps'' (PList gs))" if "\<forall>g\<in>set gs. gap_ok g" for gs
    using assms that
    by (auto simp: explained_def timed_def report_setitem(2) getitem_setitem_typed has_type_list gap_ok_def)
  then show ?thesis unfolding report_gaps_def if_P [OF True] gaps bindE_simps
    by (intro gives_bind [OF each]) simp
qed (use assms not_has_getitem in \<open>simp add: explained_def report_gaps_def\<close>)

lemma check_cases_gives:
  assumes "\<And>c. c \<in> set xs \<Longrightarrow> has_type c case_result_class"
  shows "gives (forE (enumerate_list xs) (check_case p)) (\<lambda>_. \<forall>c\<in>set xs. durations_ok c)"
proof -
  have "gives (check_case p ix) (\<lambda>_. durations_ok (snd ix))" if "ix \<in> set (enumerate_list xs)" for ix
    using check_case_gives [of "snd ix" p "fst ix"] that assms in_enumerate_list [of "fst ix" "snd ix" xs]
    by simp
  from gives_weaken [OF gives_forE [OF this]] show ?thesis
    by (auto simp flip: snd_set_enumerate_list [of xs])
qed

lemma parse_report_gives: "gives (parse_report v p) report_ok"
  unfolding parse_report_def
proof (rule gives_bind [OF gives_parse_typed], rule gives_bind [OF check_duration_gives],
    rule gives_bind [OF report_fixture_gives], simp add: timed_def,
    rule gives_bind [OF report_gaps_gives], assumption)
  fix r assume e: "explained r"
  then have ty: "has_type r run_report_class" by (simp add: explained_def timed_def)
  have "gives (forE (enumerate_list (elements_of (get_or r ''results'' (PList [])))) (check_case p))
      (\<lambda>_. report_ok r)"
    by (rule gives_weaken [OF check_cases_gives], rule get_or_list [OF report_fields(3) [OF ty]])
      (use e in \<open>auto simp: report_ok_def explained_def timed_def get_or_has\<close>)
  note last = this
  show "gives (bindE (check_observations (elements_of (get_or r ''setup_evidence'' (PList [])))
      (sub p ''setup_evidence'')) (\<lambda>_.
    bindE (forE (enumerate_list (elements_of (get_or r ''results'' (PList [])))) (check_case p)) (\<lambda>_. Inr r))) report_ok"
    by (rule gives_bind [OF check_observations_gives], rule get_or_list [OF report_fields(2) [OF ty]],
        assumption, assumption, rule gives_bind [OF last]) simp
qed

section \<open>Properties\<close>

text \<open>C32: the report boundary either rejects by a ValidationError or returns a typed report with finite
  nonnegative durations, in the report, its cases and their timings, and gap records that explain themselves.\<close>

theorem report_boundary:
  "(case parse_report v p of Inr r \<Rightarrow> report_ok r | Inl e \<Rightarrow> exn_class e = ValidationError)"
  using parse_report_gives [of v p] by (simp add: gives_def split: sum.splits)

end
