(* ===== verification/Scenario_Catalogue.thy ===== *)
theory Scenario_Catalogue
  imports Catalogue_Schema
begin

text \<open>
  \<open>scenario_catalogue.py\<close> and \<open>format_json.py\<close>: the executable scenario groups and the
  formatting of the suite's static JSON. The directory listings (\<open>glob\<close>, \<open>rglob\<close>), the
  checked reader \<open>load_json\<close> and \<open>is_file\<close> are parameters.
\<close>

section \<open>Scenario groups\<close>

text \<open>\<open>sorted\<close> on paths compares their parts.\<close>

definition sorted_paths :: "path list \<Rightarrow> path list" where
  "sorted_paths ps = sort_key (\<lambda>p. root p # parts p) ps"

definition read_document :: "(path \<Rightarrow> pyval result) \<Rightarrow> path \<Rightarrow> pyval result" where
  "read_document read path = bindE (read path) (\<lambda>v. parse_scenario_group v (path_str path))"

definition documents :: "(path \<Rightarrow> pyval result) \<Rightarrow> path list \<Rightarrow> pyval list result" where
  "documents read scenario_data = mapE (read_document read) (sorted_paths scenario_data)"

definition extend_from :: "string \<Rightarrow> pyval list \<Rightarrow> pyval \<Rightarrow> pyval list result" where
  "extend_from key items document =
     bindE (getitem document key) (\<lambda>more. Inr (items @ elements_of more))"

definition load_behaviors :: "(path \<Rightarrow> pyval result) \<Rightarrow> path list \<Rightarrow> path \<Rightarrow> pyval list result" where
  "load_behaviors read scenario_data suite =
     (let path = path_join suite (path_of ''inventory.json'') in
     bindE (bindE (read path) (\<lambda>v. parse_inventory v (path_str path))) (\<lambda>inventory.
     bindE (getitem inventory ''behaviors'') (\<lambda>behaviors.
     bindE (documents read scenario_data) (\<lambda>docs.
     bindE (foldE (extend_from ''behaviors'') (elements_of behaviors) docs) (\<lambda>items.
     bindE (indexed items ''behavior'') (\<lambda>_. Inr items))))))"

definition load_mappings :: "(path \<Rightarrow> pyval result) \<Rightarrow> path list \<Rightarrow> path \<Rightarrow> pyval list result" where
  "load_mappings read scenario_data suite =
     (let path = path_join suite (path_of ''coverage-data/mapping.json'') in
     bindE (bindE (read path) (\<lambda>v. parse_mappings v (path_str path))) (\<lambda>document.
     bindE (getitem document ''cases'') (\<lambda>cases.
     bindE (documents read scenario_data) (\<lambda>docs.
     foldE (extend_from ''mappings'') (elements_of cases) docs))))"

text \<open>The client sources the groups add to the library driver, one per entry point.\<close>

type_synonym clients = "(string \<times> path) list"

definition client_step :: "(path \<Rightarrow> bool) \<Rightarrow> path \<Rightarrow> clients \<Rightarrow> pyval \<Rightarrow> clients result" where
  "client_step is_file suite clients document =
     (if \<not> has document ''client'' then Inr clients else
     bindE (getitem document ''client'') (\<lambda>client.
     bindE (getitem client ''entry'') (\<lambda>e.
     bindE (getitem client ''source'') (\<lambda>s.
     let entry = text_of e; source = text_of s in
     bindE (guardE (client_entry entry) ValueError (''invalid client entry point: '' @ entry)) (\<lambda>_.
     bindE (guardE (client_source source) ValueError (''invalid client source: '' @ source)) (\<lambda>_.
     let path = path_join suite (path_of source) in
     bindE (guardE (is_file path \<and> map_of clients entry \<in> {None, Some path}) ValueError
       (''missing or conflicting client source: '' @ source)) (\<lambda>_.
     Inr (AList.update entry path clients))))))))"

definition extension_clients :: "(path \<Rightarrow> pyval result) \<Rightarrow> (path \<Rightarrow> bool) \<Rightarrow> path list \<Rightarrow> path
    \<Rightarrow> (path \<times> string) list result" where
  "extension_clients read is_file scenario_data suite =
     bindE (documents read scenario_data) (\<lambda>docs.
     bindE (foldE (client_step is_file suite) [] docs) (\<lambda>clients.
     Inr (map (\<lambda>(entry, path). (path, entry)) (sort_key fst clients))))"

section \<open>Formatting the static JSON\<close>

definition static_paths :: "path list \<Rightarrow> path list \<Rightarrow> path list \<Rightarrow> path list" where
  "static_paths suite_json scenario_data coverage_data = sorted_paths (suite_json @ scenario_data @ coverage_data)"

text \<open>The files as a finite map from paths to their text; \<open>loads\<close> is the checked reader of a
  text and \<open>dumps\<close> the writer with an indentation of two.\<close>

type_synonym files = "(path \<times> string) list"

definition read_file :: "files \<Rightarrow> path \<Rightarrow> string result" where
  "read_file fs p = (case map_of fs p of Some s \<Rightarrow> Inr s
     | None \<Rightarrow> raise FileNotFoundError (''[Errno 2] No such file or directory: '' @ repr_str (path_str p)))"

definition format_file :: "(string \<Rightarrow> string \<Rightarrow> pyval result) \<Rightarrow> (pyval \<Rightarrow> string) \<Rightarrow> bool
    \<Rightarrow> files \<times> path list \<Rightarrow> path \<Rightarrow> (files \<times> path list) result" where
  "format_file loads dumps write st path = (case st of (fs, changed) \<Rightarrow>
     bindE (read_file fs path) (\<lambda>txt.
     bindE (loads txt (path_str path)) (\<lambda>v.
     let formatted = dumps v @ ''\<newline>'' in
     if txt \<noteq> formatted then
       Inr (if write then AList.update path formatted fs else fs, changed @ [path])
     else Inr (fs, changed))))"

definition format_files :: "(string \<Rightarrow> string \<Rightarrow> pyval result) \<Rightarrow> (pyval \<Rightarrow> string) \<Rightarrow> bool
    \<Rightarrow> path list \<Rightarrow> files \<Rightarrow> (files \<times> path list) result" where
  "format_files loads dumps write paths fs = foldE (format_file loads dumps write) (fs, []) paths"

definition format_status :: "bool \<Rightarrow> path list \<Rightarrow> int" where
  "format_status write changed = (if changed \<noteq> [] \<and> \<not> write then 1 else 0)"

definition format_line :: "bool \<Rightarrow> path \<Rightarrow> path \<Rightarrow> string result" where
  "format_line write suite path = (case relative_to path suite of
     None \<Rightarrow> raise ValueError (repr_str (path_str path) @ '' is not in the subpath of '' @ repr_str (path_str suite))
   | Some p \<Rightarrow> Inr ((if write then ''Formatted'' else ''Needs formatting'') @ '': '' @ path_str p))"

text \<open>\<open>main\<close>: the files it leaves, the lines it prints and its exit status.\<close>

definition format_main :: "(string \<Rightarrow> string \<Rightarrow> pyval result) \<Rightarrow> (pyval \<Rightarrow> string) \<Rightarrow> bool
    \<Rightarrow> path \<Rightarrow> path list \<Rightarrow> files \<Rightarrow> (files \<times> string list \<times> int) result" where
  "format_main loads dumps write suite paths fs =
     bindE (format_files loads dumps write paths fs) (\<lambda>(left, changed).
     bindE (mapE (format_line write suite) changed) (\<lambda>printed. Inr (left, printed, format_status write changed)))"

section \<open>What is loaded\<close>

lemma sorted_paths_set [simp]: "set (sorted_paths ps) = set ps"
  by (simp add: sorted_paths_def)

definition group_ok :: "pyval \<Rightarrow> bool" where
  "group_ok r \<longleftrightarrow> inventory_ok scenario_group_class r \<and> client_ok r"

lemma documents_ok:
  assumes "documents read ps = Inr docs" and "d \<in> set docs"
  shows "group_ok d"
  using assms givesD [OF parse_scenario_group_gives]
  by (auto simp: documents_def read_document_def bindE_Inr_iff group_ok_def dest!: mapE_in)

lemma extend_from_Inr:
  "extend_from key acc d = Inr items \<longleftrightarrow> (\<exists>xs. getitem d key = Inr xs \<and> items = acc @ elements_of xs)"
  by (auto simp: extend_from_def bindE_Inr_iff)

lemma foldE_extend:
  assumes "foldE (extend_from key) acc docs = Inr items" and "\<forall>x\<in>set acc. P x"
    and "\<And>d xs x. d \<in> set docs \<Longrightarrow> getitem d key = Inr xs \<Longrightarrow> x \<in> set (elements_of xs) \<Longrightarrow> P x"
  shows "(\<forall>x\<in>set items. P x) \<and> set acc \<subseteq> set items"
  using assms
proof (induction docs arbitrary: acc)
  case (Cons d docs)
  from Cons.prems(1) obtain xs where xs: "getitem d key = Inr xs"
    and rest: "foldE (extend_from key) (acc @ elements_of xs) docs = Inr items"
    by (auto simp: bindE_Inr_iff extend_from_Inr)
  have "\<forall>x\<in>set (acc @ elements_of xs). P x"
    using Cons.prems(2) Cons.prems(3) [of d xs] xs by auto
  from Cons.IH [OF rest this] Cons.prems(3) show ?case by auto
qed simp

lemma load_behaviors_ok:
  assumes "load_behaviors read ps suite = Inr items"
  shows "identified items \<and> (\<forall>b\<in>set items. behavior_ok b)"
proof -
  obtain inventory bs docs d where inv: "inventory_ok inventory_class inventory"
    and bs: "getitem inventory ''behaviors'' = Inr bs" and docs: "documents read ps = Inr docs"
    and items: "foldE (extend_from ''behaviors'') (elements_of bs) docs = Inr items"
    and idx: "indexed items ''behavior'' = Inr d"
    using assms unfolding load_behaviors_def Let_def bindE_Inr_iff
    by (elim exE conjE, intro that) (assumption | rule givesD [OF parse_inventory_gives] | simp)+
  have more: "behavior_ok b" if "d \<in> set docs" and "getitem d ''behaviors'' = Inr xs" and "b \<in> set (elements_of xs)" for d xs b
    using documents_ok [OF docs that(1)] that by (auto simp: inventory_ok_def group_ok_def)
  have "\<forall>b\<in>set (elements_of bs). behavior_ok b" using inv bs by (auto simp: inventory_ok_def)
  from foldE_extend [OF items this more]
  have "(\<forall>b\<in>set items. behavior_ok b) \<and> set (elements_of bs) \<subseteq> set items" .
  with indexed_Inr [OF idx] show ?thesis by simp
qed

lemma load_mappings_ok:
  assumes "load_mappings read ps suite = Inr items"
  shows "\<forall>m\<in>set items. has_type m coverage_mapping_class"
proof -
  obtain document cases docs where doc: "has_type document mapping_document_class"
    and cases: "getitem document ''cases'' = Inr cases" and docs: "documents read ps = Inr docs"
    and items: "foldE (extend_from ''mappings'') (elements_of cases) docs = Inr items"
    using assms unfolding load_mappings_def Let_def bindE_Inr_iff parse_mappings_def
    by (elim exE conjE, intro that) (assumption | rule givesD [OF gives_parse_typed] | simp)+
  have cs: "has_type cases (AList coverage_mapping_class)"
    by (rule givesD [OF gives_field [OF doc mapping_document_class_def] cases]) simp
  have ms: "has_type xs (AList coverage_mapping_class)"
    if "d \<in> set docs" and "getitem d ''mappings'' = Inr xs" for d xs
  proof -
    have ty: "has_type d scenario_group_class"
      using documents_ok [OF docs that(1)] by (simp add: group_ok_def inventory_ok_def)
    show ?thesis
      by (rule givesD [OF gives_field [OF ty scenario_group_class_def] that(2)])
        (simp add: inventory_fields_def)
  qed
  show ?thesis
    using foldE_extend [OF items, of "\<lambda>m. has_type m coverage_mapping_class"]
      has_type_elements [OF cs] has_type_elements [OF ms] by blast
qed

text \<open>Every client is a present C file beside the suite, with an entry point of its own.\<close>

definition clients_ok :: "(path \<Rightarrow> bool) \<Rightarrow> path \<Rightarrow> clients \<Rightarrow> bool" where
  "clients_ok is_file suite clients \<longleftrightarrow> distinct (map fst clients) \<and>
     (\<forall>(entry, p)\<in>set clients. client_entry entry \<and> is_file p \<and>
       (\<exists>s. plain_part s \<and> endswith s ''.c'' \<and> p = path_join suite (path_of s)))"

lemma client_step_ok:
  assumes "client_step is_file suite clients d = Inr clients'" and "clients_ok is_file suite clients"
  shows "clients_ok is_file suite clients'"
proof (cases "has d ''client''")
  case True
  with assms(1) obtain entry source where "client_entry entry" "client_source source"
    "is_file (path_join suite (path_of source))"
    and cl: "clients' = AList.update entry (path_join suite (path_of source)) clients"
    by (auto simp: client_step_def Let_def bindE_Inr_iff guardE_Inr)
  then have "client_entry e \<and> is_file p \<and> (\<exists>s. plain_part s \<and> endswith s ''.c'' \<and> p = path_join suite (path_of s))"
    if "(e, p) \<in> set clients'" for e p
    using in_update [OF that [unfolded cl]] assms(2) client_source_plain [of source]
    by (auto simp: clients_ok_def)
  then show ?thesis using assms(2) by (auto simp: clients_ok_def cl distinct_update)
qed (use assms in \<open>simp add: client_step_def\<close>)

lemma extension_clients_ok:
  assumes "extension_clients read is_file ps suite = Inr cs"
  shows "clients_ok is_file suite (map (\<lambda>(p, e). (e, p)) cs) \<and> sorted (map snd cs)"
proof -
  obtain docs clients where fold: "foldE (client_step is_file suite) [] docs = Inr clients"
    and cs: "cs = map (\<lambda>(e, p). (p, e)) (sort_key fst clients)"
    using assms by (auto simp: extension_clients_def bindE_Inr_iff)
  have step: "clients_ok is_file suite c \<Longrightarrow> foldE (client_step is_file suite) c ds = Inr clients \<Longrightarrow>
      clients_ok is_file suite clients" for c ds
    by (induction ds arbitrary: c) (auto simp: bindE_Inr_iff dest!: client_step_ok)
  have ok: "clients_ok is_file suite clients"
    by (rule step [OF _ fold]) (simp add: clients_ok_def)
  have flip: "map (\<lambda>(p, e). (e, p)) cs = sort_key fst clients" and snd: "map snd cs = map fst (sort_key fst clients)"
    by (auto simp: cs comp_def case_prod_beta)
  have "distinct (map fst (sort_key fst clients)) \<longleftrightarrow> distinct (map fst clients)"
    by (simp add: distinct_map)
  with ok show ?thesis unfolding flip snd clients_ok_def by simp
qed

section \<open>What formatting does\<close>

lemma format_file_check:
  "format_file loads dumps False (fs, ch) p = Inr (fs', ch') \<Longrightarrow> fs' = fs \<and> set ch \<subseteq> set ch'"
  by (auto simp: format_file_def Let_def bindE_Inr_iff split: if_splits)

lemma format_check_readonly:
  "foldE (format_file loads dumps False) (fs, ch) ps = Inr (fs', ch') \<Longrightarrow> fs' = fs"
  by (induction ps arbitrary: ch)
    (fastforce simp: bindE_Inr_iff dest: format_file_check)+

section \<open>Properties\<close>

text \<open>C33: the behaviors loaded from the inventory and from every scenario group are well formed and have
  identifiers that are unique over all documents.\<close>

theorem behaviors_identified:
  assumes "load_behaviors read ps suite = Inr bs"
  shows "identified bs \<and> (\<forall>b\<in>set bs. behavior_ok b)"
  using assms by (rule load_behaviors_ok)

definition sample_gap :: "string \<Rightarrow> pyval" where
  "sample_gap i = PObj [(''id'', PStr i), (''gap'', PStr ''why'')]"

definition sample_group :: pyval where
  "sample_group = PObj [(''schema'', PInt 1), (''behaviors'', PList [sample_gap ''two'']), (''mappings'', PList []),
     (''client'', PObj [(''source'', PStr ''extra.c''), (''entry'', PStr ''blackbox_extra_main'')])]"

definition sample_suite :: path where
  "sample_suite = Path ''/'' [''s'']"

definition sample_documents :: "path \<Rightarrow> pyval result" where
  "sample_documents q = (if path_name q = ''inventory.json''
     then Inr (PObj [(''schema'', PInt 1), (''behaviors'', PList [sample_gap ''one''])])
     else Inr sample_group)"

theorem behaviors_identified_witness:
  "identified [sample_gap ''one'', sample_gap ''two''] \<and> behavior_ok (sample_gap ''one'') \<and>
   behavior_ok (sample_gap ''two'')"
proof -
  have "load_behaviors sample_documents [Path ''/'' [''s'', ''scenario-data'', ''g.json'']] sample_suite =
      Inr [sample_gap ''one'', sample_gap ''two'']" by code_simp
  from behaviors_identified [OF this] show ?thesis by simp
qed

text \<open>C34: every client source the build compiles is a present C file directly beside the suite, with an entry
  point of the suite's form that no other client claims, and the clients are listed by entry point.\<close>

theorem clients_confined:
  assumes "extension_clients read is_file ps suite = Inr cs"
  shows "clients_ok is_file suite (map (\<lambda>(p, e). (e, p)) cs) \<and> sorted (map snd cs)"
  using assms by (rule extension_clients_ok)

theorem clients_confined_witness:
  "clients_ok (\<lambda>_. True) sample_suite [(''blackbox_extra_main'', Path ''/'' [''s'', ''extra.c''])] \<and>
   sorted [''blackbox_extra_main'']"
proof -
  let ?ps = "[Path ''/'' [''s'', ''scenario-data'', ''g.json'']]"
  have "extension_clients sample_documents (\<lambda>_. True) ?ps sample_suite =
      Inr [(Path ''/'' [''s'', ''extra.c''], ''blackbox_extra_main'')]" by code_simp
  from clients_confined [OF this] show ?thesis by simp
qed

end
