(* ===== verification/Coverage_Report.thy ===== *)
theory Coverage_Report
  imports Report_Schema Scenario_Catalogue
begin

text \<open>
  \<open>coverage_report.py\<close>: the coverage model and the credit a report earns. The checked
  documents stay dictionaries; \<open>fld\<close> and \<open>text_at\<close> read a field its type guarantees. Sets of
  identifiers are lists without repetition where the code iterates over them.
\<close>

section \<open>Helpers\<close>

definition fld :: "pyval \<Rightarrow> string \<Rightarrow> pyval" where
  "fld v key = get_or v key PNone"

definition text_at :: "pyval \<Rightarrow> string \<Rightarrow> string" where
  "text_at v key = text_of (fld v key)"

definition items_at :: "pyval \<Rightarrow> string \<Rightarrow> pyval list" where
  "items_at v key = elements_of (get_or v key (PList []))"

definition texts_at :: "pyval \<Rightarrow> string \<Rightarrow> string list" where
  "texts_at v key = map text_of (items_at v key)"

type_synonym case_key = "string \<times> string \<times> string"

definition case_key :: "pyval \<Rightarrow> case_key" where
  "case_key c = (text_at c ''behavior_id'', text_at c ''driver'', text_at c ''profile'')"

definition key_repr :: "case_key \<Rightarrow> string" where
  "key_repr k = (case k of (b, d, p) \<Rightarrow> repr_tuple [repr_str b, repr_str d, repr_str p])"

definition kinds :: "string list" where
  "kinds = [''cli-command'', ''cli-option'', ''library-function'', ''library-signal'']"

definition statuses :: "string list" where
  "statuses = [''passed'', ''failed'', ''unmet-prerequisite'', ''unsupported'', ''setup-error'', ''not-selected'']"

definition interfaces :: "string list" where
  "interfaces = [''cli'', ''library'']"

definition profiles :: "string list" where
  "profiles = [''user'', ''system'', ''any'']"

text \<open>The option must lead the arguments of the selected command of the selected CLI.\<close>

fun leading_option :: "string \<Rightarrow> string list \<Rightarrow> bool" where
  "leading_option opt [] = False"
| "leading_option opt (a # args) =
     (if a = ''--'' \<or> \<not> startswith a ''-'' then False
      else if a = opt \<or> startswith a (opt @ ''='') then True
      else leading_option opt args)"

definition invoked_option :: "pyval \<Rightarrow> string \<Rightarrow> string \<Rightarrow> string \<Rightarrow> bool" where
  "invoked_option record cli command opt =
     (let argv = texts_at record ''argv'' in
      if fld record ''interface'' \<noteq> PStr ''cli'' \<or> argv = [] then False
      else
        let inner = texts_at record ''cli_argv'' in
        if hd argv \<noteq> cli \<and> (inner = [] \<or> hd inner \<noteq> cli \<or>
            drop (length argv - length inner) argv \<noteq> inner) then False
        else
          let argv = (if hd argv \<noteq> cli then inner else argv) in
          2 \<le> length argv \<and> argv ! 1 = command \<and> leading_option opt (drop 2 argv))"

section \<open>Percentages\<close>

text \<open>
  \<open>round(count * 100 / total, 2)\<close>: the quotient rounded to a double (53 bits, ties to
  even; here at most 100, so no scaling down), then to hundredths (ties to even on the
  double's exact value). The result is the number of hundredths.
\<close>

definition round_div :: "nat \<Rightarrow> nat \<Rightarrow> nat" where
  "round_div n d = (let q = n div d; r = n mod d in
     if 2 * r < d then q else if d < 2 * r then q + 1 else if even q then q else q + 1)"

function double_scale :: "nat \<Rightarrow> nat \<Rightarrow> nat \<Rightarrow> nat \<times> nat" where
  "double_scale n d e = (if n = 0 \<or> 2 ^ 52 * d \<le> n then (n, e) else double_scale (2 * n) d (e + 1))"
  by pat_completeness auto
termination
  by (relation "measure (\<lambda>(n, d, e). 2 ^ 52 * d - n)") auto

definition percentage :: "nat \<Rightarrow> nat \<Rightarrow> nat option" where
  "percentage count whole = (if whole = 0 then None else
     (case double_scale (count * 100) whole 0 of (n, e) \<Rightarrow>
        Some (round_div (round_div n whole * 100) (2 ^ e))))"

record coverage_metric =
  m_total :: nat
  m_implemented :: nat
  m_implemented_percent :: "nat option"
  m_passed :: "nat option"
  m_passed_percent :: "nat option"

definition metric :: "string set \<Rightarrow> string set \<Rightarrow> string set option \<Rightarrow> coverage_metric" where
  "metric universe impl pass =
     (let n = card universe; i = card (universe \<inter> impl);
          p = map_option (\<lambda>ps. card (universe \<inter> ps)) pass in
      \<lparr>m_total = n, m_implemented = i, m_implemented_percent = percentage i n,
       m_passed = p, m_passed_percent = Option.bind p (\<lambda>c. percentage c n)\<rparr>)"

section \<open>Attribution of a report\<close>

definition is_text :: "pyval \<Rightarrow> bool" where
  "is_text v = (case v of PStr s \<Rightarrow> s \<noteq> [] | _ \<Rightarrow> False)"

definition is_sha256 :: "pyval \<Rightarrow> bool" where
  "is_sha256 v = (case v of PStr s \<Rightarrow> length s = 64 \<and> set s \<subseteq> set ''0123456789abcdef'' | _ \<Rightarrow> False)"

fun is_dict :: "pyval \<Rightarrow> bool" where
  "is_dict (PDict _) = True"
| "is_dict _ = False"

fun is_list :: "pyval \<Rightarrow> bool" where
  "is_list (PList _) = True"
| "is_list _ = False"

fun is_str :: "pyval \<Rightarrow> bool" where
  "is_str (PStr _) = True"
| "is_str _ = False"

fun is_int :: "pyval \<Rightarrow> bool" where
  "is_int (PInt _) = True"
| "is_int _ = False"

text \<open>The problem of one record of a passing case's evidence.\<close>

definition command_problem :: "pyval \<Rightarrow> string option" where
  "command_problem command =
     (if \<not> is_dict command then Some ''Malformed command evidence.''
      else if has command ''observation'' then
        (if \<not> is_text (fld command ''observation'') \<or> \<not> has command ''data'' \<or>
            has command ''argv'' \<or> has command ''interface''
         then Some ''Malformed supplemental observation.'' else None)
      else
        let argv = fld command ''argv'' in
        if \<not> is_list argv \<or> elements_of argv = [] \<or> \<not> is_text (hd (elements_of argv)) \<or>
          \<not> list_all is_str (elements_of argv)
        then Some ''Command evidence lacks arguments.''
        else if \<not> is_int (fld command ''exit_status'') \<or>
          \<not> list_all (\<lambda>stream. is_str (fld command stream)) [''stdout'', ''stderr'']
        then Some ''Command evidence lacks its result.''
        else if fld command ''interface'' = PStr ''library'' then
          (let calls = fld command ''api_calls''; signals = fld command ''signals'' in
           if \<not> is_list calls \<or> \<not> list_all is_text (elements_of calls)
           then Some ''Library command evidence lacks a call-stage trace.''
           else if \<not> is_list signals \<or> \<not> list_all is_text (elements_of signals)
           then Some ''Library command evidence lacks signal-emission accounting.''
           else None)
        else None)"

fun first_problem :: "('a \<Rightarrow> string option) \<Rightarrow> 'a list \<Rightarrow> string option" where
  "first_problem f [] = None"
| "first_problem f (x # xs) = (case f x of Some m \<Rightarrow> Some m | None \<Rightarrow> first_problem f xs)"

definition case_problem :: "pyval \<Rightarrow> string option" where
  "case_problem res =
     (let commands = fld res ''evidence'' in
      if \<not> is_list commands \<or> elements_of commands = []
      then Some (''Passing case has no command evidence: '' @ key_repr (case_key res))
      else case first_problem command_problem (elements_of commands) of
        Some m \<Rightarrow> Some m
      | None \<Rightarrow>
        if \<not> list_ex (\<lambda>c. fld c ''interface'' = fld res ''driver'') (elements_of commands)
        then Some ''Passing case has no evidence at its declared interface.'' else None)"

definition target_problem :: "pyval \<Rightarrow> string option" where
  "target_problem report =
     (let target = fld report ''target_provenance''; adapters = fld target ''adapter_files'' in
      if \<not> is_dict target \<or> \<not> is_text (fld target ''cli_path'') \<or>
        \<not> list_all (\<lambda>f. is_sha256 (fld target f)) [''configuration_sha256'', ''cli_sha256'']
      then Some ''Passing report lacks selected target provenance.''
      else if \<not> is_list adapters \<or> elements_of adapters = [] \<or>
        \<not> list_all (\<lambda>a. is_dict a \<and> is_text (fld a ''path'') \<and> is_sha256 (fld a ''sha256'')) (elements_of adapters)
      then Some ''Passing report lacks adapter provenance.'' else None)"

definition fixture_problem :: "pyval \<Rightarrow> string option" where
  "fixture_problem report =
     (let fx = fld report ''fixture_provenance'' in
      if \<not> is_dict fx \<or> \<not> is_text (fld fx ''path'') \<or> \<not> is_sha256 (fld fx ''manifest_sha256'')
      then Some ''Passing report lacks fixture provenance.'' else None)"

definition library_problem :: "pyval \<Rightarrow> pyval list \<Rightarrow> string option" where
  "library_problem report passing =
     (let lib = fld report ''library_provenance'' in
      if list_ex (\<lambda>r. fld r ''driver'' = PStr ''library'') passing \<and>
        (\<not> is_dict lib \<or> \<not> is_text (fld lib ''path'') \<or> \<not> is_text (fld lib ''package_version'') \<or>
         \<not> list_all (\<lambda>f. is_sha256 (fld lib f)) [''sha256'', ''client_sha256''])
      then Some ''Passing library cases lack selected library/client provenance.'' else None)"

definition integrity_problem :: "pyval \<Rightarrow> string option" where
  "integrity_problem report =
     (let integrity = fld report ''artifact_integrity'' in
      if \<not> is_dict integrity \<or> fld integrity ''status'' \<noteq> PStr ''verified''
      then Some ''Selected artifacts were not verified unchanged at completion.'' else None)"

definition subject_problem :: "pyval \<Rightarrow> pyval list \<Rightarrow> string option" where
  "subject_problem report results =
     (let passing = filter (\<lambda>r. fld r ''status'' = PStr ''passed'') results in
      if passing = [] then None else
      first_problem (\<lambda>f. f ())
       [\<lambda>_. first_problem (\<lambda>f. if is_text (fld report f) then None
           else Some (''Passing report lacks '' @ f @ ''.''))
           [''target'', ''target_version'', ''started_at'', ''finished_at''],
        \<lambda>_. target_problem report, \<lambda>_. fixture_problem report,
        \<lambda>_. library_problem report passing, \<lambda>_. integrity_problem report,
        \<lambda>_. first_problem case_problem passing])"

section \<open>The coverage model\<close>

record coverage_model =
  surfaces :: dict
  limitations :: "string list"
  requirements :: dict
  cases :: "(case_key \<times> pyval) list"
  mapping :: "(case_key \<times> string list) list"
  surface_assertions :: "(case_key \<times> string list) list"
  equivalent_options :: "(case_key \<times> string list) list"
  coverage_definition :: pyval

definition row :: "dict \<Rightarrow> string \<Rightarrow> pyval" where
  "row d k = get_default d k PNone"

definition check_requirement :: "dict \<Rightarrow> string \<Rightarrow> pyval \<Rightarrow> unit result" where
  "check_requirement surfs interface r =
     (let i = text_at r ''id''; caps = items_at r ''required_capabilities'' in
     bindE (guardE (text_at r ''interface'' = interface \<and> text_at r ''profile'' \<in> set profiles) ValueError
       (''invalid interface/profile for '' @ i)) (\<lambda>_.
     bindE (guardE (text_at r ''description'' \<noteq> [] \<and> items_at r ''sources'' \<noteq> []) ValueError
       (''requirement lacks contract/source: '' @ i)) (\<lambda>_.
     bindE (guardE (caps \<noteq> [] \<and> list_all is_text caps \<and> distinct caps) ValueError
       (''invalid requirement capabilities: '' @ i)) (\<lambda>_.
     bindE (guardE (texts_at r ''surfaces'' \<noteq> []) ValueError
       (''requirement lacks interface references: '' @ i)) (\<lambda>_.
     forE (texts_at r ''surfaces'') (\<lambda>s.
       bindE (guardE (has_key surfs s) ValueError (''unknown surface '' @ s @ '' in '' @ i)) (\<lambda>_.
       guardE (startswith (text_at (row surfs s) ''kind'') (interface @ ''-'')) ValueError
         (''cross-interface surface reference: '' @ i))))))))"

definition add_requirements :: "(path \<Rightarrow> pyval result) \<Rightarrow> (path \<Rightarrow> path) \<Rightarrow> path \<Rightarrow> dict
    \<Rightarrow> string list \<times> pyval list \<Rightarrow> string \<Rightarrow> (string list \<times> pyval list) result" where
  "add_requirements read resolve suite surfs st interface = (case st of (limits, reqs) \<Rightarrow>
     bindE (load_requirements read resolve
       (path_join suite (path_of (''coverage-data/'' @ interface @ ''-requirements.json'')))) (\<lambda>document.
     bindE (guardE (text_at document ''scope'' = interface) ValueError
       ''requirement file has incorrect interface scope'') (\<lambda>_.
     bindE (forE (items_at document ''requirements'') (check_requirement surfs interface)) (\<lambda>_.
     Inr (limits @ texts_at document ''limitations'', reqs @ items_at document ''requirements'')))))"

definition add_case :: "pyval \<Rightarrow> (case_key \<times> pyval) list \<Rightarrow> string \<Rightarrow> (case_key \<times> pyval) list result" where
  "add_case behavior cs driver =
     (let key = (text_at behavior ''id'', driver, text_at behavior ''profile'') in
     bindE (guardE (\<not> (has_key cs key \<or> driver \<notin> set interfaces)) ValueError
       (''invalid or duplicate case: '' @ key_repr key)) (\<lambda>_.
     bindE (executable_behavior behavior ''behavior'') (\<lambda>checked.
     Inr (AList.update key checked cs))))"

definition add_behavior :: "(case_key \<times> pyval) list \<Rightarrow> pyval \<Rightarrow> (case_key \<times> pyval) list result" where
  "add_behavior cs behavior = (if \<not> has behavior ''scenario'' then Inr cs else
     bindE (guardE (text_at behavior ''profile'' \<in> set profiles) ValueError
       (''invalid case profile: '' @ text_at behavior ''profile'')) (\<lambda>_.
     foldE (add_case behavior) cs (texts_at behavior ''drivers'')))"

definition check_mapped :: "dict \<Rightarrow> case_key \<Rightarrow> string \<Rightarrow> unit result" where
  "check_mapped reqs key identifier =
     bindE (guardE (has_key reqs identifier) ValueError (''unknown mapped requirement: '' @ identifier)) (\<lambda>_.
     let r = row reqs identifier in
     guardE (text_at r ''interface'' = fst (snd key) \<and> text_at r ''profile'' \<in> {''any'', snd (snd key)}) ValueError
       (''mapping cannot cover interface/profile: '' @ identifier @ '' from '' @ key_repr key))"

definition allowed_kinds :: "string \<Rightarrow> string list" where
  "allowed_kinds driver = (if driver = ''cli'' then [''cli-option''] else [''library-function'', ''library-signal''])"

definition add_assertion :: "dict \<Rightarrow> case_key \<Rightarrow> string list \<Rightarrow> pyval \<Rightarrow> string list result" where
  "add_assertion surfs key assertions assertion =
     (let identifier = text_at assertion ''id'' in
     bindE (guardE (\<not> (\<not> has_key surfs identifier \<or>
         text_at (row surfs identifier) ''kind'' \<notin> set (allowed_kinds (fst (snd key))) \<or>
         text_at assertion ''rationale'' = [] \<or> identifier \<in> set assertions)) ValueError
       (''invalid explicit surface assertion: '' @ identifier @ '' from '' @ key_repr key)) (\<lambda>_.
     Inr (assertions @ [identifier])))"

definition add_equivalent :: "dict \<Rightarrow> case_key \<Rightarrow> string set \<Rightarrow> string list \<Rightarrow> pyval \<Rightarrow> string list result" where
  "add_equivalent surfs key behavioral equivalent assertion =
     (let identifier = text_at assertion ''id'' in
     bindE (guardE (\<not> (fst (snd key) \<noteq> ''cli'' \<or> \<not> has_key surfs identifier \<or>
         text_at (row surfs identifier) ''kind'' \<noteq> ''cli-option'' \<or>
         strip (text_at assertion ''rationale'') = [] \<or> identifier \<in> set equivalent \<or>
         identifier \<in> behavioral)) ValueError
       (''invalid equivalent option: '' @ identifier @ '' from '' @ key_repr key)) (\<lambda>_.
     Inr (equivalent @ [identifier])))"

definition required_surfaces :: "dict \<Rightarrow> string list \<Rightarrow> string set" where
  "required_surfaces reqs ids = (\<Union>i\<in>set ids. set (texts_at (row reqs i) ''surfaces''))"

definition add_mapping :: "coverage_model \<Rightarrow> pyval \<Rightarrow> coverage_model result" where
  "add_mapping m entry =
     (let key = case_key entry; ids = texts_at entry ''requirements'' in
     bindE (guardE (\<not> (\<not> has_key (cases m) key \<or> has_key (mapping m) key)) ValueError
       (''unknown or duplicate coverage case: '' @ key_repr key)) (\<lambda>_.
     bindE (guardE (text_at entry ''rationale'' \<noteq> []) ValueError
       (''coverage mapping needs an assertion rationale: '' @ key_repr key)) (\<lambda>_.
     bindE (guardE (distinct ids) ValueError
       (''duplicate requirement in coverage mapping: '' @ key_repr key)) (\<lambda>_.
     bindE (forE ids (check_mapped (requirements m) key)) (\<lambda>_.
     bindE (foldE (add_assertion (surfaces m) key) [] (items_at entry ''surface_assertions'')) (\<lambda>assertions.
     bindE (foldE (add_equivalent (surfaces m) key (set assertions \<union> required_surfaces (requirements m) ids))
       [] (items_at entry ''equivalent_options'')) (\<lambda>equivalent.
     Inr (m\<lparr>mapping := AList.update key ids (mapping m),
       surface_assertions := AList.update key assertions (surface_assertions m),
       equivalent_options := AList.update key equivalent (equivalent_options m)\<rparr>))))))))"

text \<open>The reporting policy at the head of the module.\<close>

definition policy :: "string list" where
  "policy =
   [''Behavior percentages apply only to the curated obligations, not all possible Flatpak behavior.'',
    ''Interface reach means at least one directly related assertion, not complete coverage of an interface.'',
    ''Mapped requirements are implemented coverage; only complete passing cases provide run evidence.'',
    ''Repeated evidence is counted once. Failed, unselected, unsupported and system cases do not shrink denominators.'',
    ''User evidence cannot cover system obligations. Profile '' @ repr_str ''any'' @ '' does not mean both profiles were tested.'',
    ''Setup calls, fixture preparation, option presence and logged signals receive no automatic credit.'',
    ''Verification applies to the recorded target and fixture, not other versions or implementations.'',
    ''Current suite hashes are checked; reference-source drift is checked separately by catalogue.py --check.'',
    ''Verified function reach also requires a call-stage trace from the library client. '' @
    ''An early error cannot credit an unreached function.'',
    ''Default/no-op option equivalence checks are reported separately. They establish '' @
    ''the tested command'' @ [CHR 0x27] @ ''s ordinary result, not a distinguishable effect of the option, '' @
    ''and never increase behavioral interface coverage.'']"

text \<open>
  \<open>CoverageModel.__init__\<close>. \<open>snapshot\<close> gives the definition record of the files and of the
  cases; \<open>suite\<close> is the resolved suite directory.
\<close>

definition coverage_model_of :: "(path \<Rightarrow> pyval result) \<Rightarrow> (path \<Rightarrow> path) \<Rightarrow> path list \<Rightarrow>
    (coverage_model \<Rightarrow> pyval) \<Rightarrow> path \<Rightarrow> coverage_model result" where
  "coverage_model_of read resolve scenario_data snapshot suite =
     (let catalogue_path = path_join suite (path_of ''coverage-data/surfaces.json'') in
     bindE (bindE (read catalogue_path) (\<lambda>v. parse_catalogue v (path_str catalogue_path))) (\<lambda>catalogue.
     bindE (indexed (items_at catalogue ''surfaces'') ''surface'') (\<lambda>surfs.
     bindE (forE (map snd surfs) (\<lambda>s. guardE (text_at s ''kind'' \<in> set kinds) ValueError
       (''unknown surface kind: '' @ text_at s ''kind''))) (\<lambda>_.
     bindE (foldE (add_requirements read resolve suite surfs)
       (policy @ texts_at catalogue ''limitations'', []) interfaces) (\<lambda>(limits, reqs).
     bindE (indexed reqs ''requirement'') (\<lambda>requirements_index.
     bindE (load_behaviors read scenario_data suite) (\<lambda>behaviors.
     bindE (indexed behaviors ''behavior'') (\<lambda>behavior_index.
     bindE (foldE add_behavior [] (map snd behavior_index)) (\<lambda>cs.
     bindE (load_mappings read scenario_data suite) (\<lambda>mappings.
     bindE (foldE add_mapping \<lparr>surfaces = surfs, limitations = limits, requirements = requirements_index,
       cases = cs, mapping = [], surface_assertions = [], equivalent_options = [],
       coverage_definition = PNone\<rparr> mappings) (\<lambda>m.
     Inr (m\<lparr>coverage_definition := snapshot m\<rparr>))))))))))))"

text \<open>
  The definition record. \<open>paths\<close> are the files of the listings in the code's order,
  \<open>read_bytes\<close>, \<open>digest\<close> and \<open>canonical\<close> the files' contents, SHA-256 in hexadecimal and
  \<open>json.dumps(..., sort_keys=True)\<close>; \<open>policy_file\<close> and \<open>loader_file\<close> are the two modules.
\<close>

definition handler_paths :: "path \<Rightarrow> coverage_model \<Rightarrow> path list" where
  "handler_paths suite m = concat (map (\<lambda>(k, c). if has c ''handler''
     then [path_join suite (path_of (map (\<lambda>ch. if ch = CHR ''.'' then CHR ''/'' else ch)
       (hd (split_on (CHR '':'') (text_at c ''handler''))) @ ''.py''))] else []) (cases m))"

definition snapshot_of :: "path list \<Rightarrow> (path \<Rightarrow> string) \<Rightarrow> (string \<Rightarrow> string) \<Rightarrow> (pyval \<Rightarrow> string) \<Rightarrow>
    path \<Rightarrow> path \<Rightarrow> string \<Rightarrow> path \<Rightarrow> coverage_model \<Rightarrow> pyval" where
  "snapshot_of paths read_bytes digest canonical policy_file loader_file reference suite m =
     (let sources = sorted_paths (remdups (paths @ handler_paths suite m));
          files = PObj (map (\<lambda>p. (case relative_to p suite of Some q \<Rightarrow> path_str q | None \<Rightarrow> path_str p,
            PStr (digest (read_bytes p)))) sources);
          policy_hash = PStr (digest (read_bytes policy_file));
          loader_hash = PStr (digest (read_bytes loader_file));
          fingerprint = PStr (digest (canonical (PObj [(''files'', files), (''policy'', policy_hash),
            (''loader'', loader_hash)]))) in
      PObj [(''schema'', PInt 1), (''fingerprint'', fingerprint), (''files'', files),
        (''policy_sha256'', policy_hash), (''loader_sha256'', loader_hash),
        (''reference_commit'', PStr reference)])"

section \<open>The credit of a report\<close>

record verification =
  v_status :: string
  v_reason :: string

text \<open>The sets a current report fills. \<open>passed\<close> and the others are \<open>None\<close> until a report is current.\<close>

record credit =
  c_statuses :: "(string \<times> nat) list"
  c_passed :: "string set"
  c_surfaces :: "string set"
  c_equivalent :: "string set"
  c_evidence :: "(string \<times> case_key list) list"
  c_interface :: "(string \<times> case_key list) list"
  c_equivalence :: "(string \<times> case_key list) list"

definition no_credit :: credit where
  "no_credit = \<lparr>c_statuses = [], c_passed = {}, c_surfaces = {}, c_equivalent = {}, c_evidence = [],
     c_interface = [], c_equivalence = []\<rparr>"

text \<open>\<open>Counter[key] += 1\<close> and \<open>d.setdefault(key, []).append(x)\<close>.\<close>

definition count_one :: "string \<Rightarrow> (string \<times> nat) list \<Rightarrow> (string \<times> nat) list" where
  "count_one k d = AList.update k (get_default d k 0 + 1) d"

definition append_at :: "'k \<Rightarrow> 'v \<Rightarrow> ('k \<times> 'v list) list \<Rightarrow> ('k \<times> 'v list) list" where
  "append_at k x d = AList.update k (get_default d k [] @ [x]) d"

text \<open>\<open>command, option = identifier.removeprefix("cli.option.").split(".", 1)\<close>, and whether the
  case's evidence invokes that option.\<close>

definition option_parts :: "string \<Rightarrow> (string \<times> string) result" where
  "option_parts identifier = (case split_first (CHR ''.'') (removeprefix identifier ''cli.option.'') of
     [command, opt] \<Rightarrow> Inr (command, opt)
   | _ \<Rightarrow> raise ValueError ''not enough values to unpack (expected 2, got 1)'')"

definition equivalent_seen :: "pyval \<Rightarrow> pyval \<Rightarrow> string \<Rightarrow> bool result" where
  "equivalent_seen report res identifier = bindE (option_parts identifier) (\<lambda>(command, opt).
     Inr (list_ex (\<lambda>r. invoked_option r (text_at (fld report ''target_provenance'') ''cli_path'') command opt)
       (items_at res ''evidence'')))"

fun filterE :: "('a \<Rightarrow> bool result) \<Rightarrow> 'a list \<Rightarrow> 'a list result" where
  "filterE f [] = Inr []"
| "filterE f (x # xs) = bindE (f x) (\<lambda>b. bindE (filterE f xs) (\<lambda>ys. Inr (if b then x # ys else ys)))"

definition observed :: "string \<Rightarrow> string \<Rightarrow> pyval \<Rightarrow> string list" where
  "observed prefix key res = concat (map (\<lambda>c. if fld c ''interface'' = PStr ''library''
     then map (\<lambda>n. prefix @ n) (texts_at c key) else []) (items_at res ''evidence''))"

definition credited :: "dict \<Rightarrow> pyval \<Rightarrow> string set \<Rightarrow> string set" where
  "credited surfs res asserted = {s \<in> asserted.
     \<not> (text_at (row surfs s) ''kind'' = ''library-function'' \<and>
        s \<notin> set (observed ''library.function.'' ''api_calls'' res)) \<and>
     \<not> (text_at (row surfs s) ''kind'' = ''library-signal'' \<and>
        s \<notin> set (observed ''library.signal.'' ''signals'' res))}"

definition asserted :: "coverage_model \<Rightarrow> case_key \<Rightarrow> string list" where
  "asserted m key = get_default (surface_assertions m) key [] @
     concat (map (\<lambda>i. texts_at (row (requirements m) i) ''surfaces'') (get_default (mapping m) key []))"

definition credit_case :: "coverage_model \<Rightarrow> pyval \<Rightarrow> credit \<Rightarrow> pyval \<Rightarrow> credit result" where
  "credit_case m report c res =
     (let key = case_key res; c = c\<lparr>c_statuses := count_one (text_at res ''status'') (c_statuses c)\<rparr> in
      if text_at res ''status'' \<noteq> ''passed'' then Inr c else
      bindE (filterE (equivalent_seen report res) (get_default (equivalent_options m) key [])) (\<lambda>equivalent.
      let ids = get_default (mapping m) key [];
          earned = credited (surfaces m) res (set (asserted m key)) in
      Inr (c\<lparr>c_equivalent := c_equivalent c \<union> set equivalent,
        c_equivalence := fold (\<lambda>i. append_at i key) equivalent (c_equivalence c),
        c_passed := c_passed c \<union> set ids,
        c_evidence := fold (\<lambda>i. append_at i key) ids (c_evidence c),
        c_surfaces := c_surfaces c \<union> earned,
        c_interface := fold (\<lambda>s. append_at s key)
          (sorted_set (filter (\<lambda>s. s \<in> earned) (asserted m key))) (c_interface c)\<rparr>)))"

definition verify :: "coverage_model \<Rightarrow> pyval \<Rightarrow> pyval \<Rightarrow> verification" where
  "verify m now report =
     (if \<not> has report ''coverage_definition'' then
        \<lparr>v_status = ''unversioned'', v_reason = ''Report has no definition hashes.''\<rparr>
      else if \<not> pyeq (fld report ''coverage_definition'') (coverage_definition m) \<or>
        \<not> pyeq now (coverage_definition m) then
        \<lparr>v_status = ''stale'', v_reason = ''Report does not match current suite/catalogue definitions.''\<rparr>
      else if fld report ''complete'' \<noteq> PBool True then
        \<lparr>v_status = ''incomplete'', v_reason = ''Run did not complete; no verified credit assigned.''\<rparr>
      else
        let results = items_at report ''results''; keys = map case_key results in
        if \<not> distinct keys \<or> set keys \<noteq> set (map fst (cases m)) then
          \<lparr>v_status = ''invalid'', v_reason = ''Report has missing, duplicate or unknown cases.''\<rparr>
        else if list_ex (\<lambda>r. text_at r ''status'' \<notin> set statuses \<or>
            (text_at r ''status'' = ''passed'' \<and>
             (text_at r ''cleanup_error'' \<noteq> [] \<or> fld r ''cleanup_complete'' \<noteq> PBool True))) results then
          \<lparr>v_status = ''invalid'', v_reason = ''Report contains unfinished cases or unconfirmed cleanup.''\<rparr>
        else case subject_problem report results of
          Some problem \<Rightarrow> \<lparr>v_status = ''invalid'', v_reason = problem\<rparr>
        | None \<Rightarrow> \<lparr>v_status = ''current'', v_reason = ''Complete report matches current definitions.''\<rparr>)"

definition credit_of :: "coverage_model \<Rightarrow> pyval \<Rightarrow> pyval \<Rightarrow> credit option result" where
  "credit_of m now report = (if v_status (verify m now report) = ''current''
     then liftE Some (foldE (credit_case m report) no_credit (items_at report ''results'')) else Inr None)"

section \<open>The summary\<close>

definition implemented_ids :: "coverage_model \<Rightarrow> string set" where
  "implemented_ids m = (\<Union>(k, ids)\<in>set (mapping m). set ids)"

definition reached_surfaces :: "coverage_model \<Rightarrow> string set" where
  "reached_surfaces m = (\<Union>i\<in>implemented_ids m. set (texts_at (row (requirements m) i) ''surfaces'')) \<union>
     (\<Union>(k, ids)\<in>set (surface_assertions m). set ids)"

definition equivalent_ids :: "coverage_model \<Rightarrow> string set" where
  "equivalent_ids m = (\<Union>(k, ids)\<in>set (equivalent_options m). set ids)"

definition keys_where :: "(pyval \<Rightarrow> bool) \<Rightarrow> dict \<Rightarrow> string set" where
  "keys_where P d = fst ` set (filter (\<lambda>(k, x). P x) d)"

record coverage_metrics =
  behaviors :: "(string \<times> coverage_metric) list"
  surface_metrics :: "(string \<times> coverage_metric) list"
  profile_metrics :: "(string \<times> (string \<times> coverage_metric) list) list"
  category_metrics :: "(string \<times> (string \<times> coverage_metric) list) list"

definition categories_of :: "coverage_model \<Rightarrow> string \<Rightarrow> string list" where
  "categories_of m interface = sorted_set (map (\<lambda>(k, r). text_at r ''category'')
     (filter (\<lambda>(k, r). text_at r ''interface'' = interface) (requirements m)))"

definition metrics_of :: "coverage_model \<Rightarrow> string set option \<Rightarrow> string set option \<Rightarrow> coverage_metrics" where
  "metrics_of m pass pass_surfaces =
     (let impl = implemented_ids m; reached = reached_surfaces m in
      \<lparr>behaviors = map (\<lambda>i. (i, metric (keys_where (\<lambda>r. text_at r ''interface'' = i) (requirements m)) impl pass)) interfaces,
       surface_metrics = map (\<lambda>k. (k, metric (keys_where (\<lambda>s. text_at s ''kind'' = k) (surfaces m)) reached pass_surfaces)) kinds,
       profile_metrics = map (\<lambda>i. (i, map (\<lambda>p. (p, metric (keys_where
         (\<lambda>r. text_at r ''interface'' = i \<and> text_at r ''profile'' = p) (requirements m)) impl pass)) profiles)) interfaces,
       category_metrics = map (\<lambda>i. (i, map (\<lambda>c. (c, metric (keys_where
         (\<lambda>r. text_at r ''interface'' = i \<and> text_at r ''category'' = c) (requirements m)) impl pass)) (categories_of m i))) interfaces\<rparr>)"

record option_accounting =
  equivalence_checks :: coverage_metric
  accounted :: coverage_metric
  equivalence_evidence :: "(string \<times> case_key list) list"

record coverage_summary =
  s_definition :: pyval
  s_verification :: verification
  s_metrics :: coverage_metrics
  s_statuses :: "(string \<times> nat) list"
  s_evidence :: "(string \<times> case_key list) list"
  s_interface_evidence :: "(string \<times> case_key list) list"
  s_options :: option_accounting
  s_capabilities :: "(string \<times> string list) list"
  s_execution :: "(string \<times> pyval) list option"
  s_uncatalogued :: "string list"
  s_unimplemented :: "string list"
  s_unverified :: "string list option"
  s_limitations :: "string list"

definition recorded_keys :: "string list" where
  "recorded_keys = [''target'', ''target_version'', ''target_provenance'', ''library_provenance'',
     ''started_at'', ''finished_at'', ''declared_unsupported_capabilities'']"

text \<open>\<open>summarize\<close> on an optional checked report and its credit; \<open>now\<close> is the definition record of
  the files as they are.\<close>

definition summary_of :: "coverage_model \<Rightarrow> pyval \<Rightarrow> pyval option \<Rightarrow> credit option \<Rightarrow> coverage_summary" where
  "summary_of m now report c =
     (let v = (case report of None \<Rightarrow> \<lparr>v_status = ''not-run'', v_reason = ''No execution report supplied.''\<rparr>
            | Some r \<Rightarrow> verify m now r);
          c' = (case c of None \<Rightarrow> no_credit | Some x \<Rightarrow> x);
          pass = map_option c_passed c; pass_surfaces = map_option c_surfaces c;
          impl = implemented_ids m; reached = reached_surfaces m; equivalent = equivalent_ids m;
          options = keys_where (\<lambda>s. text_at s ''kind'' = ''cli-option'') (surfaces m) in
      \<lparr>s_definition = coverage_definition m, s_verification = v,
       s_metrics = metrics_of m pass pass_surfaces, s_statuses = c_statuses c',
       s_evidence = c_evidence c', s_interface_evidence = c_interface c',
       s_options = \<lparr>equivalence_checks = metric options equivalent (map_option c_equivalent c),
         accounted = metric options (reached \<union> equivalent)
           (map_option (\<lambda>x. c_surfaces x \<union> c_equivalent x) c),
         equivalence_evidence = c_equivalence c'\<rparr>,
       s_capabilities = map (\<lambda>(k, r). (k, texts_at r ''required_capabilities'')) (requirements m),
       s_execution = map_option (\<lambda>r. map (\<lambda>k. (k, fld r k)) recorded_keys) report,
       s_uncatalogued = sorted_set (filter (\<lambda>k. \<not> list_ex (\<lambda>(_, r). k \<in> set (texts_at r ''surfaces'')) (requirements m))
         (map fst (surfaces m))),
       s_unimplemented = sorted_set (filter (\<lambda>k. k \<notin> impl) (map fst (requirements m))),
       s_unverified = map_option (\<lambda>ps. sorted_set (filter (\<lambda>k. k \<notin> ps) (map fst (requirements m)))) pass,
       s_limitations = limitations m\<rparr>)"

definition summarize :: "coverage_model \<Rightarrow> pyval \<Rightarrow> pyval option \<Rightarrow> coverage_summary result" where
  "summarize m now report = (case report of None \<Rightarrow> Inr (summary_of m now None None)
     | Some v \<Rightarrow> bindE (parse_report v ''report'') (\<lambda>r.
         bindE (credit_of m now r) (\<lambda>c. Inr (summary_of m now (Some r) c))))"

text \<open>The exit status of \<open>coverage_report.py\<close>.\<close>

definition coverage_exit :: "coverage_summary \<Rightarrow> int" where
  "coverage_exit s = (if v_status (s_verification s) \<in> {''not-run'', ''current''} then 0 else 1)"

section \<open>The printed summary\<close>

definition show_hundredths :: "nat \<Rightarrow> string" where
  "show_hundredths h = show_nat (h div 100) @ ''.'' @ show_nat (h div 10 mod 10) @ show_nat (h mod 10)"

definition show_opt :: "pyval \<Rightarrow> string" where
  "show_opt v = (case v of PStr s \<Rightarrow> s | _ \<Rightarrow> ''None'')"

definition the_default :: "'a \<Rightarrow> 'a option \<Rightarrow> 'a" where
  "the_default x m = (case m of None \<Rightarrow> x | Some y \<Rightarrow> y)"

definition fraction :: "nat \<Rightarrow> nat \<Rightarrow> nat option \<Rightarrow> string" where
  "fraction n whole percent = (if whole = 0 then ''0/0 (n/a)''
     else show_nat n @ ''/'' @ show_nat whole @ '' ('' @ show_hundredths (the_default 0 percent) @ ''%)'')"

definition label_of :: "string \<Rightarrow> string" where
  "label_of k = the_default [] (map_of
     [(''cli'', ''CLI catalogued behavior obligations''),
      (''library'', ''Library catalogued behavior obligations''),
      (''cli-command'', ''CLI commands with assertion evidence''),
      (''cli-option'', ''Documented CLI long options with assertion evidence''),
      (''library-function'', ''Public library functions with assertion evidence''),
      (''library-signal'', ''Public library signals with assertion evidence'')] k)"

definition metric_line :: "string \<times> coverage_metric \<Rightarrow> string" where
  "metric_line kv = (case kv of (name, v) \<Rightarrow>
     ''| '' @ label_of name @ '' | '' @ fraction (m_implemented v) (m_total v) (m_implemented_percent v) @ '' | '' @
     (case m_passed v of None \<Rightarrow> ''unverified'' | Some n \<Rightarrow> fraction n (m_total v) (m_passed_percent v)) @ '' |'')"

definition accounting_line :: "coverage_metric \<times> string \<Rightarrow> string" where
  "accounting_line vl = (case vl of (v, label) \<Rightarrow>
     ''| '' @ label @ '' | '' @ show_nat (m_implemented v) @ ''/'' @ show_nat (m_total v) @ '' | '' @
     (case m_passed v of None \<Rightarrow> ''unverified'' | Some n \<Rightarrow> show_nat n) @ '' |'')"

definition format_summary :: "coverage_summary \<Rightarrow> string" where
  "format_summary s = join ''\<newline>'' (
     [''# Black-box coverage'', '''', ''Evidence: '' @ v_status (s_verification s) @ ''.'', v_reason (s_verification s)] @
     (case s_execution s of None \<Rightarrow> [] | Some ex \<Rightarrow>
        [''Recorded target: '' @ show_opt (get_default ex ''target'' PNone) @ '' ('' @
           show_opt (get_default ex ''target_version'' PNone) @ '').'']) @
     (if s_statuses s = [] then [] else
        [''Cases: '' @ join '', '' (map (\<lambda>(status, n). show_nat n @ '' '' @ status)
           (sort_key fst (s_statuses s))) @ ''.'']) @
     ['''', ''Percentages describe the stated denominators, not all possible behavior.'', '''',
      ''| Denominator | Implemented | Passing evidence |'', ''| --- | ---: | ---: |''] @
     map metric_line (behaviors (s_metrics s)) @ map metric_line (surface_metrics (s_metrics s)) @
     ['''', ''## Separate CLI-option inventory accounting'', '''',
      ''Equivalence checks test ordinary results for default/no-op options. '' @
      ''They do not demonstrate an option-specific effect and do not increase '' @
      ''the behavioral coverage above. Accounted options are the deduplicated '' @
      ''union of behavioral assertions and equivalence checks.'', '''',
      ''| Inventory measure | Implemented | Passing evidence |'', ''| --- | ---: | ---: |''] @
     map accounting_line [(equivalence_checks (s_options s), ''Default/no-op equivalence checks''),
       (accounted (s_options s), ''Options accounted for'')] @
     ['''', ''Reference source commit: `'' @ text_at (s_definition s) ''reference_commit'' @ ''`.'',
      ''Source drift is checked separately with `catalogue.py --check`.'',
      ''No percentage of all possible behavior is inferred from these counts.'']) @ ''\<newline>''"

text \<open>\<open>main\<close>, on what reading the catalogues and the report gives; \<open>dumps\<close> writes a summary as JSON and
  \<open>deliver\<close> prints the text or writes the output.\<close>

definition coverage_main :: "coverage_model result \<Rightarrow> pyval result option \<Rightarrow> pyval \<Rightarrow> bool \<Rightarrow> (coverage_summary \<Rightarrow> string)
    \<Rightarrow> (string \<Rightarrow> unit result) \<Rightarrow> int result" where
  "coverage_main model report now json dumps deliver =
     (case bindE model (\<lambda>m.
         bindE (case report of None \<Rightarrow> Inr None | Some r \<Rightarrow> liftE Some r) (\<lambda>v.
         bindE (summarize m now v) (\<lambda>s.
         bindE (deliver (if json then dumps s @ ''\<newline>'' else format_summary s)) (\<lambda>_. Inr (coverage_exit s))))) of
       Inr n \<Rightarrow> Inr n
     | Inl e \<Rightarrow> if instance_of_any e [OSError, ValueError, KeyError, TypeError] then Inr 1 else Inl e)"

section \<open>Facts about percentages and metrics\<close>

lemma round_div_mono: "0 < d \<Longrightarrow> a \<le> b \<Longrightarrow> round_div a d \<le> round_div b d"
proof -
  assume d: "0 < d" and ab: "a \<le> b"
  have q: "a div d \<le> b div d" using ab by (rule div_le_mono)
  show ?thesis
  proof (cases "a div d = b div d")
    case True
    then have "a mod d \<le> b mod d" using ab
      by (metis add_le_cancel_left mult_div_mod_eq)
    with True show ?thesis by (auto simp: round_div_def Let_def)
  next
    case False
    with q have "a div d + 1 \<le> b div d" by simp
    then show ?thesis by (auto simp: round_div_def Let_def)
  qed
qed

lemma round_div_exact: "0 < d \<Longrightarrow> round_div (k * d) d = k"
  by (simp add: round_div_def)

lemma round_div_le: "0 < d \<Longrightarrow> n \<le> k * d \<Longrightarrow> round_div n d \<le> k"
  using round_div_mono [of d n "k * d"] by (simp add: round_div_exact)

lemma double_scale_result: "double_scale n d e = (n', e') \<Longrightarrow> \<exists>j. n' = n * 2 ^ j \<and> e' = e + j"
proof (induction n d e arbitrary: n' e' rule: double_scale.induct)
  case (1 n d e)
  show ?case
  proof (cases "n = 0 \<or> 2 ^ 52 * d \<le> n")
    case True
    with "1.prems" have "n' = n * 2 ^ 0 \<and> e' = e + 0" by (subst (asm) double_scale.simps) simp
    then show ?thesis by blast
  next
    case False
    with "1.prems" have "double_scale (2 * n) d (e + 1) = (n', e')"
      by (subst (asm) double_scale.simps) (simp split: if_splits)
    from "1.IH" [OF False this] obtain j where "n' = 2 * n * 2 ^ j" and "e' = e + 1 + j" by blast
    then have "n' = n * 2 ^ Suc j \<and> e' = e + Suc j" by simp
    then show ?thesis by blast
  qed
qed

declare double_scale.simps [simp del]

lemma percentage_Some:
  assumes "percentage count whole = Some h"
  shows "\<exists>j. h = round_div (round_div (count * 100 * 2 ^ j) whole * 100) (2 ^ j) \<and> 0 < whole"
proof -
  obtain n e where ne: "double_scale (count * 100) whole 0 = (n, e)" by force
  with assms double_scale_result [OF ne] show ?thesis
    by (auto simp: percentage_def split: if_splits)
qed

lemma percentage_le: "percentage count whole = Some h \<Longrightarrow> count \<le> whole \<Longrightarrow> h \<le> 10000"
proof -
  assume p: "percentage count whole = Some h" and le: "count \<le> whole"
  obtain j where h: "h = round_div (round_div (count * 100 * 2 ^ j) whole * 100) (2 ^ j)" and w: "0 < whole"
    using percentage_Some [OF p] by blast
  have "count * 100 * 2 ^ j \<le> 100 * 2 ^ j * whole" using le by (simp add: mult.commute)
  then have "round_div (count * 100 * 2 ^ j) whole \<le> 100 * 2 ^ j" by (rule round_div_le [OF w])
  then show "h \<le> 10000" unfolding h by (intro round_div_le) simp_all
qed

lemma percentage_full: "0 < whole \<Longrightarrow> percentage whole whole = Some 10000"
proof -
  assume w: "0 < whole"
  then obtain h where p: "percentage whole whole = Some h"
    by (cases "double_scale (whole * 100) whole 0") (auto simp: percentage_def)
  then obtain j where h: "h = round_div (round_div (whole * 100 * 2 ^ j) whole * 100) (2 ^ j)"
    using percentage_Some by blast
  have "round_div (whole * 100 * 2 ^ j) whole = 100 * 2 ^ j"
    using round_div_exact [OF w, of "100 * 2 ^ j"] by (simp add: ac_simps)
  moreover have "100 * 2 ^ j * 100 = 10000 * (2 ^ j :: nat)" by simp
  ultimately have "h = 10000" unfolding h using round_div_exact [of "2 ^ j" 10000] by simp
  with p show ?thesis by simp
qed

lemma percentage_zero: "0 < whole \<Longrightarrow> percentage 0 whole = Some 0"
  by (simp add: percentage_def double_scale.simps round_div_def)



lemma keys_where_finite [simp]: "finite (keys_where P d)"
  by (simp add: keys_where_def)

section \<open>Facts about credit\<close>

text \<open>What a current verdict establishes.\<close>

lemma verify_current:
  assumes "v_status (verify m now report) = ''current''"
  shows "pyeq (fld report ''coverage_definition'') (coverage_definition m)" "pyeq now (coverage_definition m)"
    and "fld report ''complete'' = PBool True"
    and "distinct (map case_key (items_at report ''results''))"
    and "set (map case_key (items_at report ''results'')) = fst ` set (cases m)"
    and "\<And>r. r \<in> set (items_at report ''results'') \<Longrightarrow> text_at r ''status'' \<in> set statuses"
    and "\<And>r. r \<in> set (items_at report ''results'') \<Longrightarrow> text_at r ''status'' = ''passed'' \<Longrightarrow>
      fld r ''cleanup_complete'' = PBool True \<and> text_at r ''cleanup_error'' = []"
    and "subject_problem report (items_at report ''results'') = None"
proof -
  let ?rs = "items_at report ''results''"
  from assms have all: "pyeq (fld report ''coverage_definition'') (coverage_definition m) \<and> pyeq now (coverage_definition m) \<and>
      fld report ''complete'' = PBool True \<and> distinct (map case_key ?rs) \<and>
      set (map case_key ?rs) = set (map fst (cases m)) \<and>
      (\<forall>r\<in>set ?rs. text_at r ''status'' \<in> set statuses \<and> (text_at r ''status'' = ''passed'' \<longrightarrow>
        fld r ''cleanup_complete'' = PBool True \<and> text_at r ''cleanup_error'' = [])) \<and>
      subject_problem report ?rs = None"
    unfolding verify_def Let_def by (auto simp: list_ex_iff split: if_splits option.splits)
  then show "pyeq (fld report ''coverage_definition'') (coverage_definition m)" "pyeq now (coverage_definition m)"
    "fld report ''complete'' = PBool True" "distinct (map case_key ?rs)"
    "set (map case_key ?rs) = fst ` set (cases m)" "subject_problem report ?rs = None"
    "\<And>r. r \<in> set ?rs \<Longrightarrow> text_at r ''status'' \<in> set statuses"
    "\<And>r. r \<in> set ?rs \<Longrightarrow> text_at r ''status'' = ''passed'' \<Longrightarrow>
      fld r ''cleanup_complete'' = PBool True \<and> text_at r ''cleanup_error'' = []"
    by (simp_all only: set_map)
qed

lemma credit_of_current: "credit_of m now report = Inr (Some c) \<Longrightarrow>
    v_status (verify m now report) = ''current'' \<and>
    foldE (credit_case m report) no_credit (items_at report ''results'') = Inr c"
  by (auto simp: credit_of_def bindE_Inr_iff split: if_splits)

lemma filterE_subset: "filterE f xs = Inr ys \<Longrightarrow> y \<in> set ys \<Longrightarrow> y \<in> set xs \<and> f y = Inr True"
  by (induction xs arbitrary: ys) (auto simp: bindE_Inr_iff split: if_splits)

text \<open>One case's contribution to the credit.\<close>

definition passing :: "pyval \<Rightarrow> bool" where
  "passing r = (text_at r ''status'' = ''passed'')"

definition mapped :: "coverage_model \<Rightarrow> pyval \<Rightarrow> string list" where
  "mapped m r = get_default (mapping m) (case_key r) []"

definition equivalent_passed :: "coverage_model \<Rightarrow> pyval \<Rightarrow> pyval \<Rightarrow> string \<Rightarrow> bool" where
  "equivalent_passed m report r i \<longleftrightarrow> passing r \<and>
     i \<in> set (get_default (equivalent_options m) (case_key r) []) \<and> equivalent_seen report r i = Inr True"

lemma credit_case_Inr:
  assumes "credit_case m report c r = Inr c'"
  shows "c_passed c' = c_passed c \<union> (if passing r then set (mapped m r) else {}) \<and>
    c_surfaces c' = c_surfaces c \<union>
      (if passing r then credited (surfaces m) r (set (asserted m (case_key r))) else {}) \<and>
    (\<forall>i\<in>c_equivalent c'. i \<in> c_equivalent c \<or> equivalent_passed m report r i)"
proof (cases "passing r")
  case True
  then have pass: "text_at r ''status'' = ''passed''" by (simp add: passing_def)
  from assms obtain equivalent where
    eq: "filterE (equivalent_seen report r) (get_default (equivalent_options m) (case_key r) []) = Inr equivalent"
    unfolding credit_case_def Let_def pass by (auto simp: bindE_Inr_iff)
  with assms have "c_passed c' = c_passed c \<union> set (mapped m r)"
    "c_surfaces c' = c_surfaces c \<union> credited (surfaces m) r (set (asserted m (case_key r)))"
    "c_equivalent c' = c_equivalent c \<union> set equivalent"
    unfolding credit_case_def Let_def pass mapped_def by (auto simp: bindE_Inr_iff)
  with True filterE_subset [OF eq] show ?thesis by (auto simp: equivalent_passed_def)
next
  case False
  then have "text_at r ''status'' \<noteq> ''passed''" by (simp add: passing_def)
  with assms have "c' = c\<lparr>c_statuses := count_one (text_at r ''status'') (c_statuses c)\<rparr>"
    by (simp add: credit_case_def Let_def)
  with False show ?thesis by simp
qed

lemma credit_fold:
  assumes "foldE (credit_case m report) c rs = Inr c'"
  shows "c_passed c' = c_passed c \<union> (\<Union>r\<in>{r \<in> set rs. passing r}. set (mapped m r)) \<and>
    c_surfaces c' = c_surfaces c \<union>
      (\<Union>r\<in>{r \<in> set rs. passing r}. credited (surfaces m) r (set (asserted m (case_key r)))) \<and>
    (\<forall>i\<in>c_equivalent c'. i \<in> c_equivalent c \<or> (\<exists>r\<in>set rs. equivalent_passed m report r i))"
  using assms
proof (induction rs arbitrary: c)
  case (Cons r rs)
  then obtain d where d: "credit_case m report c r = Inr d" and rest: "foldE (credit_case m report) d rs = Inr c'"
    by (auto simp: bindE_Inr_iff)
  from credit_case_Inr [OF d] Cons.IH [OF rest] show ?case by auto
qed simp

lemma credit_of_sets:
  assumes "credit_of m now report = Inr (Some c)"
  shows "c_passed c = (\<Union>r\<in>{r \<in> set (items_at report ''results''). passing r}. set (mapped m r))"
    and "c_surfaces c = (\<Union>r\<in>{r \<in> set (items_at report ''results''). passing r}.
      credited (surfaces m) r (set (asserted m (case_key r))))"
    and "i \<in> c_equivalent c \<Longrightarrow> \<exists>r\<in>set (items_at report ''results''). equivalent_passed m report r i"
  using credit_fold [of m report no_credit "items_at report ''results''" c] credit_of_current [OF assms]
  by (auto simp: no_credit_def)

section \<open>The invariant of an accepted model\<close>

text \<open>
  Every mapped case exists, its requirements exist at its interface and at its profile
  (or at any), and no option counts both as a behavioral assertion and as an
  equivalence check of one case.
\<close>

definition mapping_ok :: "coverage_model \<Rightarrow> case_key \<Rightarrow> string list \<Rightarrow> bool" where
  "mapping_ok m key ids \<longleftrightarrow> has_key (cases m) key \<and> distinct ids \<and> (\<forall>i\<in>set ids. has_key (requirements m) i \<and>
     text_at (row (requirements m) i) ''interface'' = fst (snd key) \<and>
     text_at (row (requirements m) i) ''profile'' \<in> {''any'', snd (snd key)})"

definition assertions_ok :: "coverage_model \<Rightarrow> case_key \<Rightarrow> string list \<Rightarrow> bool" where
  "assertions_ok m key ids \<longleftrightarrow> distinct ids \<and> (\<forall>i\<in>set ids. has_key (surfaces m) i \<and>
     text_at (row (surfaces m) i) ''kind'' \<in> set (allowed_kinds (fst (snd key))))"

definition equivalents_ok :: "coverage_model \<Rightarrow> case_key \<Rightarrow> string list \<Rightarrow> bool" where
  "equivalents_ok m key ids \<longleftrightarrow> distinct ids \<and> (\<forall>i\<in>set ids. fst (snd key) = ''cli'' \<and> has_key (surfaces m) i \<and>
     text_at (row (surfaces m) i) ''kind'' = ''cli-option'' \<and> i \<notin> set (asserted m key))"

definition model_ok :: "coverage_model \<Rightarrow> bool" where
  "model_ok m \<longleftrightarrow>
     dom (map_of (surface_assertions m)) = dom (map_of (mapping m)) \<and>
     dom (map_of (equivalent_options m)) = dom (map_of (mapping m)) \<and>
     (\<forall>k ids. map_of (mapping m) k = Some ids \<longrightarrow> mapping_ok m k ids) \<and>
     (\<forall>k ids. map_of (surface_assertions m) k = Some ids \<longrightarrow> assertions_ok m k ids) \<and>
     (\<forall>k ids. map_of (equivalent_options m) k = Some ids \<longrightarrow> equivalents_ok m k ids)"

lemma foldE_preserves:
  assumes "foldE f s xs = Inr s'" and "I s" and "\<And>s x s'. I s \<Longrightarrow> f s x = Inr s' \<Longrightarrow> I s'"
  shows "I s'"
  using assms(1,2) by (induction xs arbitrary: s) (auto simp: bindE_Inr_iff intro: assms(3))

lemma assertions_fold:
  assumes "foldE (add_assertion surfs key) [] as = Inr ids"
  shows "distinct ids \<and> (\<forall>i\<in>set ids. has_key surfs i \<and>
    text_at (row surfs i) ''kind'' \<in> set (allowed_kinds (fst (snd key))))"
  by (rule foldE_preserves [OF assms]) (auto simp: add_assertion_def Let_def bindE_Inr_iff guardE_Inr)

lemma equivalents_fold:
  assumes "foldE (add_equivalent surfs key behavioral) [] as = Inr ids"
  shows "distinct ids \<and> (\<forall>i\<in>set ids. fst (snd key) = ''cli'' \<and> has_key surfs i \<and>
    text_at (row surfs i) ''kind'' = ''cli-option'' \<and> i \<notin> behavioral)"
  by (rule foldE_preserves [OF assms]) (auto simp: add_equivalent_def Let_def bindE_Inr_iff guardE_Inr)

lemma check_mapped_Inr: "check_mapped reqs key i = Inr u \<longleftrightarrow> has_key reqs i \<and>
    text_at (row reqs i) ''interface'' = fst (snd key) \<and> text_at (row reqs i) ''profile'' \<in> {''any'', snd (snd key)}"
  by (auto simp: check_mapped_def bindE_Inr_iff guardE_Inr Let_def)

lemma add_mapping_Inr:
  assumes "add_mapping m entry = Inr m'"
  obtains key ids as es where "key = case_key entry" and "\<not> has_key (mapping m) key"
    and "m' = m\<lparr>mapping := AList.update key ids (mapping m),
      surface_assertions := AList.update key as (surface_assertions m),
      equivalent_options := AList.update key es (equivalent_options m)\<rparr>"
    and "mapping_ok m key ids" and "assertions_ok m key as"
    and "distinct es \<and> (\<forall>i\<in>set es. fst (snd key) = ''cli'' \<and> has_key (surfaces m) i \<and>
      text_at (row (surfaces m) i) ''kind'' = ''cli-option'' \<and> i \<notin> set as \<union> required_surfaces (requirements m) ids)"
proof -
  let ?key = "case_key entry" and ?ids = "texts_at entry ''requirements''"
  from assms obtain as es where g: "\<not> (\<not> has_key (cases m) ?key \<or> has_key (mapping m) ?key)" "distinct ?ids"
    and chk: "forE ?ids (check_mapped (requirements m) ?key) = Inr ()"
    and as: "foldE (add_assertion (surfaces m) ?key) [] (items_at entry ''surface_assertions'') = Inr as"
    and es: "foldE (add_equivalent (surfaces m) ?key (set as \<union> required_surfaces (requirements m) ?ids)) []
      (items_at entry ''equivalent_options'') = Inr es"
    and m': "m' = m\<lparr>mapping := AList.update ?key ?ids (mapping m),
      surface_assertions := AList.update ?key as (surface_assertions m),
      equivalent_options := AList.update ?key es (equivalent_options m)\<rparr>"
    unfolding add_mapping_def Let_def bindE_Inr_iff guardE_Inr by auto
  show thesis
  proof (rule that [OF refl _ m'])
    show "\<not> has_key (mapping m) ?key" using g by simp
    show "mapping_ok m ?key ?ids"
      using g chk by (auto simp: mapping_ok_def forE_Inr check_mapped_Inr)
    show "assertions_ok m ?key as" using assertions_fold [OF as] by (simp add: assertions_ok_def)
  qed (rule equivalents_fold [OF es])
qed

lemma asserted_set: "set (asserted m k) =
    set (get_default (surface_assertions m) k []) \<union> required_surfaces (requirements m) (get_default (mapping m) k [])"
  by (auto simp: asserted_def required_surfaces_def)

lemma add_mapping_ok:
  assumes "add_mapping m entry = Inr m'" and ok: "model_ok m"
  shows "model_ok m'"
proof -
  from assms(1) obtain key ids as es where new: "\<not> has_key (mapping m) key"
    and m': "m' = m\<lparr>mapping := AList.update key ids (mapping m),
      surface_assertions := AList.update key as (surface_assertions m),
      equivalent_options := AList.update key es (equivalent_options m)\<rparr>"
    and mp: "mapping_ok m key ids" and asr: "assertions_ok m key as"
    and es: "distinct es \<and> (\<forall>i\<in>set es. fst (snd key) = ''cli'' \<and> has_key (surfaces m) i \<and>
      text_at (row (surfaces m) i) ''kind'' = ''cli-option'' \<and> i \<notin> set as \<union> required_surfaces (requirements m) ids)"
    by (rule add_mapping_Inr)
  have old: "map_of (surface_assertions m') k = map_of (surface_assertions m) k"
    "map_of (mapping m') k = map_of (mapping m) k" "map_of (equivalent_options m') k = map_of (equivalent_options m) k"
    if "k \<noteq> key" for k using that by (simp_all add: m' update_conv')
  have at_key: "map_of (surface_assertions m') key = Some as" "map_of (mapping m') key = Some ids"
    "map_of (equivalent_options m') key = Some es" by (simp_all add: m' update_conv')
  have fix_parts: "cases m' = cases m" "requirements m' = requirements m" "surfaces m' = surfaces m"
    by (simp_all add: m')
  have "asserted m' k = asserted m k" if "k \<noteq> key" for k
    by (simp add: asserted_def get_default_def old [OF that] fix_parts)
  then have eq_old: "equivalents_ok m' k xs" if "k \<noteq> key" and "equivalents_ok m k xs" for k xs
    using that by (simp add: equivalents_ok_def fix_parts)
  have eq_new: "equivalents_ok m' key es"
    using es by (auto simp: equivalents_ok_def asserted_set get_default_def at_key fix_parts)
  have rest: "mapping_ok m' = mapping_ok m" "assertions_ok m' = assertions_ok m"
    by (auto simp: fun_eq_iff mapping_ok_def assertions_ok_def fix_parts)
  have doms: "dom (map_of (surface_assertions m')) = insert key (dom (map_of (surface_assertions m)))"
    "dom (map_of (mapping m')) = insert key (dom (map_of (mapping m)))"
    "dom (map_of (equivalent_options m')) = insert key (dom (map_of (equivalent_options m)))"
    by (auto simp: m' update_conv')
  from ok have ok_at: "map_of (mapping m) k = Some xs \<Longrightarrow> mapping_ok m k xs"
    "map_of (surface_assertions m) k = Some xs \<Longrightarrow> assertions_ok m k xs"
    "map_of (equivalent_options m) k = Some xs \<Longrightarrow> equivalents_ok m k xs" for k xs
    unfolding model_ok_def by blast+
  show ?thesis
    unfolding model_ok_def doms rest
  proof (intro conjI allI impI)
    fix k xs
    show "mapping_ok m k xs" if "map_of (mapping m') k = Some xs"
      using that mp ok_at(1) by (cases "k = key") (simp_all add: old at_key)
    show "assertions_ok m k xs" if "map_of (surface_assertions m') k = Some xs"
      using that asr ok_at(2) by (cases "k = key") (simp_all add: old at_key)
    show "equivalents_ok m' k xs" if "map_of (equivalent_options m') k = Some xs"
      using that eq_old eq_new ok_at(3) by (cases "k = key") (simp_all add: old at_key)
  qed (use ok in \<open>simp_all add: model_ok_def\<close>)
qed

lemma model_ok_definition [simp]: "model_ok (m\<lparr>coverage_definition := s\<rparr>) \<longleftrightarrow> model_ok m"
  by (simp add: model_ok_def mapping_ok_def assertions_ok_def equivalents_ok_def asserted_def)

lemma coverage_model_ok:
  assumes "coverage_model_of read resolve scenario_data snapshot suite = Inr m"
  shows "model_ok m"
proof -
  from assms obtain m0 m1 entries where fold: "foldE add_mapping m0 entries = Inr m1"
    and m: "m = m1\<lparr>coverage_definition := snapshot m1\<rparr>"
    and "mapping m0 = []" "surface_assertions m0 = []" "equivalent_options m0 = []"
    unfolding coverage_model_of_def Let_def bindE_Inr_iff case_prod_beta
    by (elim exE conjE, intro that) (assumption | simp)+
  then have "model_ok m0" by (simp add: model_ok_def)
  then have "model_ok m1" by (rule foldE_preserves [OF fold]) (rule add_mapping_ok)
  with m show ?thesis by simp
qed

section \<open>Accuracy of percentages\<close>

lemma round_div_error:
  assumes "0 < d"
  shows "2 * n \<le> 2 * round_div n d * d + d" and "2 * round_div n d * d \<le> 2 * n + d"
proof -
  define q r where "q = n div d" and "r = n mod d"
  then have n: "n = q * d + r" and r: "r < d" using assms by simp_all
  have "round_div n d = (if 2 * r < d then q else if d < 2 * r then q + 1 else if even q then q else q + 1)"
    by (simp add: round_div_def q_def r_def Let_def)
  then have "round_div n d = q \<and> 2 * r \<le> d \<or> round_div n d = q + 1 \<and> d \<le> 2 * r"
    by (auto split: if_splits)
  then show "2 * n \<le> 2 * round_div n d * d + d" and "2 * round_div n d * d \<le> 2 * n + d"
    using r by (auto simp: n algebra_simps)
qed

lemma double_scale_enough: "double_scale n d e = (n', e') \<Longrightarrow> n' = 0 \<or> 2 ^ 52 * d \<le> n'"
proof (induction n d e rule: double_scale.induct)
  case (1 n d e)
  show ?case
  proof (cases "n = 0 \<or> 2 ^ 52 * d \<le> n")
    case True
    with "1.prems" show ?thesis by (simp add: double_scale.simps)
  next
    case False
    with "1.prems" have "double_scale (2 * n) d (e + 1) = (n', e')" by (simp add: double_scale.simps [of n])
    with "1.IH" [OF False] show ?thesis .
  qed
qed

lemma percentage_within:
  assumes p: "percentage count whole = Some h" and le: "count \<le> whole"
  shows "h * whole \<le> 10000 * count + whole \<and> 10000 * count \<le> h * whole + whole"
proof (cases "count = 0")
  case True
  with p have "h = 0" by (auto simp: percentage_def double_scale.simps round_div_def split: if_splits)
  with True show ?thesis by simp
next
  case False
  obtain n e where ne: "double_scale (count * 100) whole 0 = (n, e)" by force
  from p have w: "0 < whole" by (simp add: percentage_def split: if_splits)
  from double_scale_result [OF ne] have n: "n = count * 100 * 2 ^ e" by auto
  define m where "m = round_div n whole"
  from p ne w have h: "h = round_div (m * 100) (2 ^ e)" by (simp add: percentage_def m_def)
  have "n \<noteq> 0" using n False by simp
  with double_scale_enough [OF ne] have "2 ^ 52 * whole \<le> n" by simp
  also have "n \<le> whole * 100 * 2 ^ e" unfolding n using le by (intro mult_le_mono1)
  also have "\<dots> = 100 * 2 ^ e * whole" by (simp add: ac_simps)
  finally have "2 ^ 52 \<le> 100 * (2 ^ e :: nat)" using w by (simp only: mult_le_cancel2)
  then have e: "100 \<le> (2 ^ e :: nat)" by simp
  have m1: "2 * n \<le> 2 * m * whole + whole" "2 * m * whole \<le> 2 * n + whole"
    using round_div_error [OF w, of n] by (simp_all add: m_def)
  have h1: "2 * (m * 100) \<le> 2 * h * 2 ^ e + 2 ^ e" "2 * h * 2 ^ e \<le> 2 * (m * 100) + 2 ^ e"
    using round_div_error [of "2 ^ e" "m * 100"] by (simp_all add: h)
  have up: "2 * h * 2 ^ e * whole \<le> 2 * (10000 * count * 2 ^ e) + (100 + 2 ^ e) * whole"
  proof -
    have "2 * h * 2 ^ e * whole \<le> (2 * (m * 100) + 2 ^ e) * whole" using h1(2) by (rule mult_le_mono1)
    also have "\<dots> = 100 * (2 * m * whole) + 2 ^ e * whole" by (simp add: algebra_simps)
    also have "\<dots> \<le> 100 * (2 * n + whole) + 2 ^ e * whole" using m1(2) by simp
    also have "\<dots> = 2 * (10000 * count * 2 ^ e) + (100 + 2 ^ e) * whole" by (simp add: n algebra_simps)
    finally show ?thesis .
  qed
  have down: "2 * (10000 * count * 2 ^ e) \<le> 2 * h * 2 ^ e * whole + (100 + 2 ^ e) * whole"
  proof -
    have "2 * (10000 * count * 2 ^ e) = 100 * (2 * n)" by (simp add: n algebra_simps)
    also have "\<dots> \<le> 100 * (2 * m * whole + whole)" using m1(1) by simp
    also have "\<dots> = 2 * (m * 100) * whole + 100 * whole" by (simp add: algebra_simps)
    also have "\<dots> \<le> (2 * h * 2 ^ e + 2 ^ e) * whole + 100 * whole" using h1(1) by simp
    also have "\<dots> = 2 * h * 2 ^ e * whole + (100 + 2 ^ e) * whole" by (simp add: algebra_simps)
    finally show ?thesis .
  qed
  define a b s where "a = 2 ^ e * (h * whole)" and "b = 2 ^ e * (10000 * count)" and "s = 2 ^ e * whole"
  have "100 * whole \<le> s" using e by (simp add: s_def)
  moreover have "2 * a \<le> 2 * b + (100 * whole + s)" "2 * b \<le> 2 * a + (100 * whole + s)"
    using up down by (simp_all add: a_def b_def s_def algebra_simps)
  ultimately have "a \<le> b + s" "b \<le> a + s" by simp_all
  then have "2 ^ e * (h * whole) \<le> 2 ^ e * (10000 * count + whole)"
    "2 ^ e * (10000 * count) \<le> 2 ^ e * (h * whole + whole)"
    by (simp_all add: a_def b_def s_def distrib_left)
  then show ?thesis by (simp only: mult_le_cancel1) simp
qed

section \<open>Properties\<close>

text \<open>C22: a percentage of a part of a nonempty whole exists, is at most 100.00, is within one hundredth of
  the exact quotient, and is exactly 100.00 for the whole and 0.00 for nothing.\<close>

theorem percentage_accurate:
  assumes "count \<le> whole" and "0 < whole"
  shows "\<exists>h. percentage count whole = Some h \<and> h \<le> 10000 \<and>
    h * whole \<le> 10000 * count + whole \<and> 10000 * count \<le> h * whole + whole \<and>
    percentage whole whole = Some 10000 \<and> percentage 0 whole = Some 0"
proof -
  obtain h where h: "percentage count whole = Some h"
    using assms(2) by (cases "double_scale (count * 100) whole 0") (auto simp: percentage_def)
  with percentage_le [OF h assms(1)] percentage_within [OF h assms(1)]
    percentage_full [OF assms(2)] percentage_zero [OF assms(2)] show ?thesis by blast
qed

theorem percentage_accurate_witness:
  "\<exists>h. percentage 1 3 = Some h \<and> h \<le> 10000 \<and> h * 3 \<le> 10000 * 1 + 3 \<and> 10000 * 1 \<le> h * 3 + 3 \<and>
    percentage 3 3 = Some 10000 \<and> percentage 0 3 = Some 0"
  by (rule percentage_accurate [of 1 3]) simp_all


text \<open>C7: the coverage model that the catalogues build satisfies its invariant: mappings name known cases and
  requirements of their own interface and profile, assertions name surfaces of the allowed kinds, and no
  option counts for one case both as a behavioral assertion and as an equivalence check.\<close>

theorem model_invariant:
  "(case coverage_model_of read resolve scenario_data snapshot suite of Inr m \<Rightarrow> model_ok m | Inl e \<Rightarrow> True)"
  using coverage_model_ok [of read resolve scenario_data snapshot suite] by (simp split: sum.splits)

lemma verify_ran: "v_status (verify m now r) \<noteq> ''not-run''"
  unfolding verify_def Let_def by (simp split: option.split)

text \<open>C6: only a current report earns credit. Without one a summary has no passed number, no evidence and no
  verified requirement, and the tool's exit status is a failure unless there was no report at all.\<close>

theorem credit_needs_current:
  assumes "summarize m now (Some report) = Inr s" and "v_status (s_verification s) \<noteq> ''current''"
  shows "s_unverified s = None \<and> s_evidence s = [] \<and> s_interface_evidence s = [] \<and> s_statuses s = [] \<and>
    (\<forall>(k, v)\<in>set (behaviors (s_metrics s)). m_passed v = None \<and> m_passed_percent v = None) \<and>
    (\<forall>(k, v)\<in>set (surface_metrics (s_metrics s)). m_passed v = None \<and> m_passed_percent v = None) \<and>
    m_passed (equivalence_checks (s_options s)) = None \<and> coverage_exit s = 1"
proof -
  from assms(1) obtain r c where c: "credit_of m now r = Inr c" and s: "s = summary_of m now (Some r) c"
    by (auto simp: summarize_def bindE_Inr_iff)
  from s have v: "s_verification s = verify m now r" by (simp add: summary_of_def Let_def)
  with assms(2) c have none: "c = None" by (simp add: credit_of_def)
  with assms(2) v have exit: "coverage_exit s = 1"
    using verify_ran [of m now r] by (simp add: coverage_exit_def)
  have lists: "s_unverified s = None \<and> s_evidence s = [] \<and> s_interface_evidence s = [] \<and> s_statuses s = []"
    by (simp only: s none summary_of_def Let_def option.case option.map coverage_summary.simps no_credit_def
        credit.simps simp_thms)
  have unpassed: "m_passed (metric u i None) = None \<and> m_passed_percent (metric u i None) = None" for u i
    by (simp add: metric_def Let_def)
  have options: "m_passed (equivalence_checks (s_options s)) = None"
    by (simp only: s none summary_of_def Let_def option.map coverage_summary.simps option_accounting.simps unpassed)
  have metrics: "s_metrics s = metrics_of m None None"
    by (simp only: s none summary_of_def Let_def option.map coverage_summary.simps)
  have "\<forall>(k, v)\<in>set (behaviors (s_metrics s)). m_passed v = None \<and> m_passed_percent v = None"
    "\<forall>(k, v)\<in>set (surface_metrics (s_metrics s)). m_passed v = None \<and> m_passed_percent v = None"
    unfolding metrics metrics_of_def Let_def coverage_metrics.simps using unpassed by auto
  with lists options exit show ?thesis by blast
qed

text \<open>The single passing case of a small model: one library function, required and observed.\<close>

definition sample_key :: case_key where
  "sample_key = (''b'', ''library'', ''user'')"

definition sample_model :: coverage_model where
  "sample_model = \<lparr>surfaces = [(''library.function.f'', PObj [(''id'', PStr ''library.function.f''),
       (''kind'', PStr ''library-function'')])],
     limitations = [], requirements = [(''r'', PObj [(''id'', PStr ''r''), (''interface'', PStr ''library''),
       (''profile'', PStr ''any''), (''category'', PStr ''c''), (''surfaces'', pstr_list [''library.function.f''])])],
     cases = [(sample_key, PNone)], mapping = [(sample_key, [''r''])], surface_assertions = [(sample_key, [])],
     equivalent_options = [(sample_key, [])], coverage_definition = PObj [(''fingerprint'', PStr ''x'')]\<rparr>"

definition sample_sha :: pyval where
  "sample_sha = PStr (replicate 64 (CHR ''0''))"

definition sample_result :: pyval where
  "sample_result = PObj [(''behavior_id'', PStr ''b''), (''driver'', PStr ''library''), (''profile'', PStr ''user''),
     (''status'', PStr ''passed''), (''cleanup_complete'', PBool True),
     (''evidence'', PList [PObj [(''argv'', pstr_list [''client'']), (''interface'', PStr ''library''),
       (''exit_status'', PInt 0), (''stdout'', PStr []), (''stderr'', PStr []),
       (''api_calls'', pstr_list [''f'']), (''signals'', PList [])]])]"

definition sample_report :: pyval where
  "sample_report = PObj [(''coverage_definition'', PObj [(''fingerprint'', PStr ''x'')]), (''complete'', PBool True),
     (''results'', PList [sample_result]), (''target'', PStr ''t''), (''target_version'', PStr ''1''),
     (''started_at'', PStr ''s''), (''finished_at'', PStr ''f''),
     (''target_provenance'', PObj [(''cli_path'', PStr ''/usr/bin/flatpak''), (''cli_sha256'', sample_sha),
       (''configuration_sha256'', sample_sha),
       (''adapter_files'', PList [PObj [(''path'', PStr ''/a''), (''sha256'', sample_sha)]])]),
     (''fixture_provenance'', PObj [(''path'', PStr ''/f''), (''manifest_sha256'', sample_sha)]),
     (''library_provenance'', PObj [(''path'', PStr ''/l''), (''package_version'', PStr ''1''),
       (''sha256'', sample_sha), (''client_sha256'', sample_sha)]),
     (''artifact_integrity'', PObj [(''status'', PStr ''verified'')])]"

text \<open>A report without definition hashes.\<close>

definition unversioned_report :: pyval where
  "unversioned_report = PObj [(''schema'', PInt 1)]"

theorem credit_needs_current_witness:
  "\<exists>s. summarize sample_model PNone (Some unversioned_report) = Inr s \<and> s_unverified s = None \<and> coverage_exit s = 1"
proof -
  have "parse_report unversioned_report ''report'' = Inr unversioned_report" by code_simp
  moreover have v: "verify sample_model PNone unversioned_report =
      \<lparr>v_status = ''unversioned'', v_reason = ''Report has no definition hashes.''\<rparr>"
    by (simp add: verify_def unversioned_report_def has_key_def)
  ultimately have s: "summarize sample_model PNone (Some unversioned_report) = Inr (summary_of sample_model PNone (Some unversioned_report) None)"
    by (simp add: summarize_def credit_of_def)
  have "s_verification (summary_of sample_model PNone (Some unversioned_report) None) = verify sample_model PNone unversioned_report"
    by (simp add: summary_of_def Let_def)
  with v have "v_status (s_verification (summary_of sample_model PNone (Some unversioned_report) None)) \<noteq> ''current''" by simp
  from credit_needs_current [OF s this] s show ?thesis by blast
qed

text \<open>The invariant as a check of the three lists.\<close>

lemma model_ok_check:
  assumes "map fst (surface_assertions m) = map fst (mapping m)"
    and "map fst (equivalent_options m) = map fst (mapping m)"
    and "list_all (\<lambda>(k, ids). mapping_ok m k ids) (mapping m)"
    and "list_all (\<lambda>(k, ids). assertions_ok m k ids) (surface_assertions m)"
    and "list_all (\<lambda>(k, ids). equivalents_ok m k ids) (equivalent_options m)"
  shows "model_ok m"
proof -
  have "dom (map_of xs) = set (map fst xs)" for xs :: "(case_key \<times> string list) list"
    by (simp add: dom_map_of_conv_image_fst)
  then have doms: "dom (map_of (surface_assertions m)) = dom (map_of (mapping m))"
    "dom (map_of (equivalent_options m)) = dom (map_of (mapping m))"
    using assms(1,2) by metis+
  have each: "P k ids" if "list_all (\<lambda>(k, ids). P k ids) xs" and "map_of xs k = Some ids"
    for P and xs :: "(case_key \<times> string list) list" and k ids
    using that map_of_SomeD [OF that(2)] by (auto simp: list_all_iff)
  show ?thesis unfolding model_ok_def
    using doms each [OF assms(3)] each [OF assms(4)] each [OF assms(5)] by blast
qed

lemma sample_credit: "credit_of sample_model (PObj [(''fingerprint'', PStr ''x'')]) sample_report =
    Inr (Some \<lparr>c_statuses = [(''passed'', 1)], c_passed = {''r''}, c_surfaces = {''library.function.f''},
      c_equivalent = {}, c_evidence = [(''r'', [sample_key])],
      c_interface = [(''library.function.f'', [sample_key])], c_equivalence = []\<rparr>)"
  by code_simp

text \<open>C4: a verified requirement rests on a passed case of the report that is mapped to it, ran at its
  interface and its profile (a requirement of the system profile on a system case), and confirmed its
  cleanup; and the report was complete, of the current definitions, and listed every case once.\<close>

theorem credit_sound:
  assumes "model_ok m" and "credit_of m now report = Inr (Some c)" and "i \<in> c_passed c"
  shows "fld report ''complete'' = PBool True \<and> pyeq (fld report ''coverage_definition'') (coverage_definition m) \<and>
    set (map case_key (items_at report ''results'')) = fst ` set (cases m) \<and>
    (\<exists>r\<in>set (items_at report ''results''). passing r \<and> fld r ''cleanup_complete'' = PBool True \<and>
      i \<in> set (mapped m r) \<and>
      text_at (row (requirements m) i) ''interface'' = text_at r ''driver'' \<and>
      text_at (row (requirements m) i) ''profile'' \<in> {''any'', text_at r ''profile''})"
proof -
  from credit_of_current [OF assms(2)] have cur: "v_status (verify m now report) = ''current''" by simp
  from assms(3) credit_of_sets(1) [OF assms(2)] obtain r where r: "r \<in> set (items_at report ''results'')"
    and pass: "passing r" and i: "i \<in> set (mapped m r)" by auto
  from i obtain ids where ids: "map_of (mapping m) (case_key r) = Some ids" "i \<in> set ids"
    by (cases "map_of (mapping m) (case_key r)") (auto simp: mapped_def get_default_def)
  with assms(1) have "mapping_ok m (case_key r) ids" unfolding model_ok_def by blast
  with ids(2) have "text_at (row (requirements m) i) ''interface'' = text_at r ''driver''"
    "text_at (row (requirements m) i) ''profile'' \<in> {''any'', text_at r ''profile''}"
    by (auto simp: mapping_ok_def case_key_def)
  with r pass i verify_current(1,3,5) [OF cur] verify_current(7) [OF cur r] show ?thesis
    by (auto simp: passing_def)
qed

theorem credit_sound_witness:
  "\<exists>r\<in>set (items_at sample_report ''results''). passing r \<and> fld r ''cleanup_complete'' = PBool True \<and>
      ''r'' \<in> set (mapped sample_model r) \<and>
      text_at (row (requirements sample_model) ''r'') ''interface'' = text_at r ''driver''"
proof -
  have ok: "model_ok sample_model" by (rule model_ok_check) code_simp+
  have "''r'' \<in> {''r''}" by (rule singletonI)
  then show ?thesis
    using credit_sound [OF ok sample_credit, of "''r''"] unfolding credit.simps by blast
qed

text \<open>C5: a library function is credited only if a passed case's library evidence traces a call of it, and a
  library signal only if it traces an emission: setup calls, mapping entries and assertions alone earn nothing.\<close>

theorem library_credit_observed:
  assumes "credit_of m now report = Inr (Some c)" and "s \<in> c_surfaces c"
  shows "\<exists>r\<in>set (items_at report ''results''). passing r \<and> s \<in> set (asserted m (case_key r)) \<and>
    (text_at (row (surfaces m) s) ''kind'' = ''library-function'' \<longrightarrow>
      (\<exists>e\<in>set (items_at r ''evidence''). fld e ''interface'' = PStr ''library'' \<and>
        (\<exists>n\<in>set (texts_at e ''api_calls''). s = ''library.function.'' @ n))) \<and>
    (text_at (row (surfaces m) s) ''kind'' = ''library-signal'' \<longrightarrow>
      (\<exists>e\<in>set (items_at r ''evidence''). fld e ''interface'' = PStr ''library'' \<and>
        (\<exists>n\<in>set (texts_at e ''signals''). s = ''library.signal.'' @ n)))"
proof -
  have obs: "\<exists>e\<in>set (items_at r ''evidence''). fld e ''interface'' = PStr ''library'' \<and>
      (\<exists>n\<in>set (texts_at e k). s = p @ n)" if "s \<in> set (observed p k r)" for p k r
    using that by (fastforce simp: observed_def split: if_splits)
  from assms(2) credit_of_sets(2) [OF assms(1)] obtain r where r: "r \<in> set (items_at report ''results'')"
    "passing r" and s: "s \<in> credited (surfaces m) r (set (asserted m (case_key r)))" by auto
  from s have a: "s \<in> set (asserted m (case_key r))"
    and f: "text_at (row (surfaces m) s) ''kind'' = ''library-function'' \<longrightarrow>
      s \<in> set (observed ''library.function.'' ''api_calls'' r)"
    and g: "text_at (row (surfaces m) s) ''kind'' = ''library-signal'' \<longrightarrow>
      s \<in> set (observed ''library.signal.'' ''signals'' r)"
    unfolding credited_def mem_Collect_eq by blast+
  show ?thesis
    by (intro bexI [OF _ r(1)] conjI impI r(2) a obs) (use f g in \<open>assumption | blast\<close>)+
qed

theorem library_credit_observed_witness:
  "\<exists>r\<in>set (items_at sample_report ''results''). passing r \<and>
    (\<exists>e\<in>set (items_at r ''evidence''). fld e ''interface'' = PStr ''library'' \<and>
        (\<exists>n\<in>set (texts_at e ''api_calls''). ''library.function.f'' = ''library.function.'' @ n))"
proof -
  have k: "text_at (row (surfaces sample_model) ''library.function.f'') ''kind'' = ''library-function''"
    by code_simp
  have "''library.function.f'' \<in> {''library.function.f''}" by (rule singletonI)
  then show ?thesis
    using library_credit_observed [OF sample_credit, of "''library.function.f''"] k unfolding credit.simps by blast
qed

end
