(* ===== verification/Target_Config.thy ===== *)
theory Target_Config
  imports Json_Validation
begin

text \<open>
  \<open>target_config.py\<close>: the configuration of the tested target. The two frozen
  dataclasses are records; parsing rejects unknown fields and every string a process
  could not receive. \<open>target_ok\<close> is the invariant of an accepted configuration and
  \<open>target_json\<close> the document that denotes it.
\<close>

section \<open>Data and parsing\<close>

record library_config =
  runtime_library_dirs :: "string list"
  library_environment :: "(string \<times> string) list"
  pkg_config :: string
  package :: string
  cc :: string
  soname :: string

record target_config =
  target_name :: string
  target_cli :: string
  adapter :: "string list"
  target_environment :: "(string \<times> string) list"
  unsupported_capabilities :: "(string \<times> string) list"
  library :: "library_config option"

definition known_config :: "dict \<Rightarrow> string list \<Rightarrow> string \<Rightarrow> unit result" where
  "known_config data allowed path = forE (filter (\<lambda>k. k \<notin> set allowed) (map fst data))
     (\<lambda>key. raise ValidationError (sub path key @ '': unknown configuration field''))"

definition environment_entry :: "string \<Rightarrow> string \<times> pyval \<Rightarrow> (string \<times> string) result" where
  "environment_entry path kv = (case kv of (key, x) \<Rightarrow>
     bindE (string (PStr key) path True) (\<lambda>_.
     bindE (guardE (CHR ''='' \<notin> set key) ValidationError
       (sub path key @ '': environment names cannot contain '' @ repr_str ''='')) (\<lambda>_.
     bindE (string x (sub path key) False) (\<lambda>s. Inr (key, s)))))"

definition parse_environment :: "pyval \<Rightarrow> string \<Rightarrow> (string \<times> string) list result" where
  "parse_environment v path = bindE (object_map v path) (mapE (environment_entry path))"

definition library_fields :: "string list" where
  "library_fields = [''runtime_library_dirs'', ''environment'', ''pkg_config'', ''package'', ''cc'', ''soname'']"

definition parse_library :: "pyval \<Rightarrow> string \<Rightarrow> library_config result" where
  "parse_library v path = bindE (object_map v path) (\<lambda>data.
     bindE (known_config data library_fields path) (\<lambda>_.
     bindE (strings (get_default data ''runtime_library_dirs'' (PList []))
       (sub path ''runtime_library_dirs'') True) (\<lambda>dirs.
     bindE (parse_environment (get_default data ''environment'' (PObj [])) (sub path ''environment'')) (\<lambda>env.
     bindE (string (get_default data ''pkg_config'' (PStr ''pkg-config'')) (sub path ''pkg_config'') True) (\<lambda>pc.
     bindE (string (get_default data ''package'' (PStr ''flatpak'')) (sub path ''package'') True) (\<lambda>pk.
     bindE (string (get_default data ''cc'' (PStr ''cc'')) (sub path ''cc'') True) (\<lambda>c.
     bindE (string (get_default data ''soname'' (PStr ''libflatpak.so.0'')) (sub path ''soname'') True) (\<lambda>so.
     Inr \<lparr>runtime_library_dirs = dirs, library_environment = env, pkg_config = pc, package = pk,
       cc = c, soname = so\<rparr>))))))))"

definition target_fields :: "string list" where
  "target_fields = [''name'', ''cli'', ''adapter'', ''environment'', ''unsupported_capabilities'', ''library'']"

definition unsupported_entry :: "string \<Rightarrow> string \<times> pyval \<Rightarrow> (string \<times> string) result" where
  "unsupported_entry path kv = (case kv of (capability, reason) \<Rightarrow>
     bindE (string (PStr capability) (sub path ''unsupported_capabilities'') True) (\<lambda>_.
     bindE (string reason (sub (sub path ''unsupported_capabilities'') capability) True)
       (\<lambda>s. Inr (capability, s))))"

definition parse_target :: "pyval \<Rightarrow> string \<Rightarrow> target_config result" where
  "parse_target v path = bindE (object_map v path) (\<lambda>data.
     bindE (known_config data target_fields path) (\<lambda>_.
     bindE (required data ''adapter'' path) (\<lambda>a.
     bindE (strings a (sub path ''adapter'') False) (\<lambda>ad.
     bindE (guardE (ad \<noteq> [] \<and> hd ad \<noteq> []) ValidationError
       (sub path ''adapter'' @ '': expected a nonempty executable argument'')) (\<lambda>_.
     bindE (object_map (get_default data ''unsupported_capabilities'' (PObj []))
       (sub path ''unsupported_capabilities'')) (\<lambda>caps.
     bindE (mapE (unsupported_entry path) caps) (\<lambda>unsupported.
     let lib = get_default data ''library'' PNone in
     bindE (required data ''name'' path) (\<lambda>n.
     bindE (string n (sub path ''name'') True) (\<lambda>nm.
     bindE (required data ''cli'' path) (\<lambda>c.
     bindE (string c (sub path ''cli'') True) (\<lambda>cl.
     bindE (parse_environment (get_default data ''environment'' (PObj [])) (sub path ''environment'')) (\<lambda>env.
     bindE (if lib = PNone then Inr None else liftE Some (parse_library lib (sub path ''library''))) (\<lambda>l.
     Inr \<lparr>target_name = nm, target_cli = cl, adapter = ad, target_environment = env,
       unsupported_capabilities = unsupported, library = l\<rparr>)))))))))))))"

definition load_target :: "json_loads \<Rightarrow> (string \<Rightarrow> string result) \<Rightarrow> string \<Rightarrow> target_config result" where
  "load_target loads read_text path =
     bindE (load_json loads read_text path) (\<lambda>v. parse_target v ''target'')"

section \<open>What an accepted configuration satisfies\<close>

definition arg_ok :: "string \<Rightarrow> bool" where
  "arg_ok s = (CHR 0x00 \<notin> set s)"

definition env_ok :: "(string \<times> string) list \<Rightarrow> bool" where
  "env_ok env = (\<forall>(k, x)\<in>set env. k \<noteq> [] \<and> arg_ok k \<and> CHR ''='' \<notin> set k \<and> arg_ok x)"

definition name_ok :: "string \<Rightarrow> bool" where
  "name_ok s = (s \<noteq> [] \<and> arg_ok s)"

definition library_ok :: "library_config \<Rightarrow> bool" where
  "library_ok l = ((\<forall>d\<in>set (runtime_library_dirs l). name_ok d) \<and> env_ok (library_environment l) \<and>
     name_ok (pkg_config l) \<and> name_ok (package l) \<and> name_ok (cc l) \<and> name_ok (soname l))"

definition target_ok :: "target_config \<Rightarrow> bool" where
  "target_ok t = (name_ok (target_name t) \<and> name_ok (target_cli t) \<and>
     adapter t \<noteq> [] \<and> hd (adapter t) \<noteq> [] \<and> (\<forall>a\<in>set (adapter t). arg_ok a) \<and>
     env_ok (target_environment t) \<and>
     (\<forall>(k, r)\<in>set (unsupported_capabilities t). name_ok k \<and> name_ok r) \<and>
     (\<forall>l. library t = Some l \<longrightarrow> library_ok l))"

lemma environment_entry_Inr: "environment_entry p (k, x) = Inr (k', s) \<longleftrightarrow>
    k' = k \<and> x = PStr s \<and> k \<noteq> [] \<and> arg_ok k \<and> CHR ''='' \<notin> set k \<and> arg_ok s"
  by (auto simp: environment_entry_def err_simps arg_ok_def)

lemma unsupported_entry_Inr: "unsupported_entry p (k, x) = Inr (k', s) \<longleftrightarrow>
    k' = k \<and> x = PStr s \<and> name_ok k \<and> name_ok s"
  by (auto simp: unsupported_entry_def err_simps arg_ok_def name_ok_def)

lemma parse_environment_ok: "parse_environment v p = Inr env \<Longrightarrow> env_ok env"
  unfolding parse_environment_def env_ok_def
  by (auto simp: err_simps environment_entry_Inr dest!: mapE_in)

lemma strings_ok: "strings v p True = Inr ss \<Longrightarrow> \<forall>s\<in>set ss. name_ok s"
  by (auto simp: strings_Inr name_ok_def arg_ok_def)

lemma string_ok: "string v p True = Inr s \<Longrightarrow> name_ok s"
  by (auto simp: err_simps name_ok_def arg_ok_def)

lemma parse_library_ok: "parse_library v p = Inr l \<Longrightarrow> library_ok l"
  unfolding parse_library_def library_ok_def bindE_Inr_iff
  by (elim exE conjE) (auto dest!: string_ok strings_ok parse_environment_ok)

lemma strings_arg_ok: "strings v p ne = Inr ss \<Longrightarrow> \<forall>s\<in>set ss. arg_ok s"
  by (auto simp: strings_Inr arg_ok_def)

lemma unsupported_ok:
  "mapE (unsupported_entry p) d = Inr m \<Longrightarrow> \<forall>(k, r)\<in>set m. name_ok k \<and> name_ok r"
  by (auto simp: unsupported_entry_Inr dest!: mapE_in)

lemma library_option_ok:
  "(if lib = PNone then Inr None else liftE Some (parse_library lib p)) = Inr l' \<Longrightarrow>
     \<forall>l. l' = Some l \<longrightarrow> library_ok l"
  by (auto simp: err_simps split: if_splits dest!: parse_library_ok)

lemma parse_target_ok: "parse_target v p = Inr t \<Longrightarrow> target_ok t"
  unfolding parse_target_def target_ok_def Let_def bindE_Inr_iff guardE_Inr
  by (elim exE conjE)
    (auto dest!: string_ok strings_arg_ok parse_environment_ok unsupported_ok library_option_ok)

section \<open>Writing a configuration and reading it back\<close>

definition library_json :: "library_config \<Rightarrow> pyval" where
  "library_json l = PObj [(''runtime_library_dirs'', PList (map PStr (runtime_library_dirs l))),
     (''environment'', pstr_map (library_environment l)), (''pkg_config'', PStr (pkg_config l)),
     (''package'', PStr (package l)), (''cc'', PStr (cc l)), (''soname'', PStr (soname l))]"

definition target_json :: "target_config \<Rightarrow> pyval" where
  "target_json t = PObj ([(''name'', PStr (target_name t)), (''cli'', PStr (target_cli t)),
     (''adapter'', PList (map PStr (adapter t))), (''environment'', pstr_map (target_environment t)),
     (''unsupported_capabilities'', pstr_map (unsupported_capabilities t))] @
     (case library t of None \<Rightarrow> [] | Some l \<Rightarrow> [(''library'', library_json l)]))"

lemma mapE_entries:
  assumes "\<And>k s. (k, s) \<in> set m \<Longrightarrow> f (k, PStr s) = Inr (k, s)"
  shows "mapE f (map (\<lambda>(k, s). (k, PStr s)) m) = Inr m"
  using assms by (induction m) auto

lemma parse_environment_json: "env_ok env \<Longrightarrow> parse_environment (pstr_map env) p = Inr env"
proof -
  assume ok: "env_ok env"
  have "mapE (environment_entry p) (map (\<lambda>(k, s). (k, PStr s)) env) = Inr env"
    by (rule mapE_entries) (use ok in \<open>auto simp: environment_entry_Inr env_ok_def\<close>)
  then show ?thesis
    unfolding parse_environment_def pstr_map_def
    by (simp add: bindE_Inr_iff object_map_Inr)
qed

lemma strings_json: "\<forall>s\<in>set ss. arg_ok s \<and> (ne \<longrightarrow> s \<noteq> []) \<Longrightarrow> strings (PList (map PStr ss)) p ne = Inr ss"
  by (simp add: strings_Inr arg_ok_def)

lemma string_json: "name_ok s \<Longrightarrow> string (PStr s) p True = Inr s"
  by (simp add: string_Inr name_ok_def arg_ok_def)

lemma known_config_Inr: "known_config d fs p = Inr u \<longleftrightarrow> fst ` set d \<subseteq> set fs"
  by (auto simp: known_config_def err_simps)

lemma known_config_accepts [simp]: "fst ` set d \<subseteq> set fs \<Longrightarrow> known_config d fs p = Inr ()"
  by (simp add: known_config_Inr)

lemma parse_library_json: "library_ok l \<Longrightarrow> parse_library (library_json l) p = Inr l"
  by (simp add: parse_library_def library_json_def library_fields_def
      get_default_def strings_json parse_environment_json string_json library_ok_def name_ok_def)

lemma library_json_neq [simp]: "library_json l \<noteq> PNone"
  by (simp add: library_json_def)

lemma parse_target_json: "target_ok t \<Longrightarrow> parse_target (target_json t) p = Inr t"
proof -
  assume ok: "target_ok t"
  have caps: "mapE (unsupported_entry p) (map (\<lambda>(k, s). (k, PStr s)) (unsupported_capabilities t))
      = Inr (unsupported_capabilities t)"
    by (rule mapE_entries) (use ok in \<open>auto simp: unsupported_entry_Inr target_ok_def\<close>)
  show ?thesis
  proof (cases "library t")
    case None
    with ok caps show ?thesis
      by (simp add: parse_target_def target_json_def target_fields_def
          get_default_def strings_json parse_environment_json string_json target_ok_def
          required_def guardE_def)
  next
    case (Some l)
    with ok caps show ?thesis
      by (simp add: parse_target_def target_json_def target_fields_def
          get_default_def strings_json parse_environment_json string_json target_ok_def
          required_def guardE_def parse_library_json Let_def)
  qed
qed

section \<open>Properties\<close>

text \<open>C24: a configuration read back from its document is the configuration itself, exactly when it
  satisfies the invariant of accepted configurations (nonempty names, no NUL, no \<open>=\<close> in environment names,
  a nonempty adapter); so the invariant is what \<open>parse_target\<close> enforces.\<close>

theorem target_round_trip: "parse_target (target_json t) p = Inr t \<longleftrightarrow> target_ok t"
  using parse_target_ok parse_target_json by blast

text \<open>C25: every accepted configuration satisfies the invariant, whatever document it came from, and a
  rejected document is rejected by a ValidationError.\<close>

theorem target_invariant:
  "(case parse_target v p of Inr t \<Rightarrow> target_ok t | Inl e \<Rightarrow> exn_class e = ValidationError)"
proof -
  have env: "validation_error (parse_environment v p)" for v p
    unfolding parse_environment_def environment_entry_def by (auto intro!: rejects split: prod.splits)
  have lib: "validation_error (parse_library v p)" for v p
    unfolding parse_library_def known_config_def by (auto intro!: rejects env)
  have "validation_error (parse_target v p)"
    unfolding parse_target_def known_config_def unsupported_entry_def Let_def
    by (auto intro!: rejects env lib split: prod.splits)
  then show ?thesis using parse_target_ok by (auto simp: validation_error_def split: sum.splits)
qed

end
