(* ===== verification/Session.thy ===== *)
theory Session
  imports Py_Value
begin

text \<open>
  The runner's effects. A program of the suite is a function from a session to a result and
  the session it leaves; the session holds the trace of its interactions with everything
  outside the interpreter, the evidence list of the running case, the repository server, and
  the two dictionaries the setup fills: the fingerprints of the artifacts under test and the
  provenance of the library.

  What lies outside (the tested program and every process the suite starts, the file system,
  the clock) is a \<^emph>\<open>world\<close>: for each kind of interaction a function from the whole trace, the
  interaction last, to its answer. Nothing is assumed of it; an answer may be any exit status,
  text or exception, and may depend on everything that happened before.
\<close>

named_theorems run_simps \<comment> \<open>unfolding of the program combinators\<close>

type_synonym environ = "(string \<times> string) list"

section \<open>The repository server\<close>

record repository_server =
  served_version :: string
  fail_payloads :: bool
  requests :: "dict list"

definition new_repository :: repository_server where
  "new_repository = \<lparr>served_version = ''A'', fail_payloads = False, requests = []\<rparr>"

text \<open>
  \<open>do_GET\<close>: the request is recorded with the snapshot it addresses; a payload file is refused
  while failures are injected. The result is the answered status and the directory served.
\<close>

definition blocked :: "repository_server \<Rightarrow> string \<Rightarrow> bool" where
  "blocked r path = (fail_payloads r \<and> endswith path ''.filez'')"

definition do_GET :: "repository_server \<Rightarrow> string \<Rightarrow> repository_server" where
  "do_GET r path = r\<lparr>requests := requests r @
     [[(''path'', PStr path), (''version'', PStr (served_version r)), (''blocked'', PBool (blocked r path))]]\<rparr>"

section \<open>Interactions and sessions\<close>

text \<open>
  \<open>Command\<close> carries what the command can see: arguments, environment, working directory,
  the server's snapshot and whether it refuses payloads. A command ends with an exit
  status and its captured streams, outlives its time limit, or cannot be started.
\<close>

datatype event =
    Command "string list" environ string string bool
  | Start "string list" environ \<comment> \<open>a background process or server\<close>
  | Stop "string list"
  | Read string
  | Write string string
  | MakeDirectory string
  | Check string string \<comment> \<open>a test (\<open>exists\<close>, \<open>is_file\<close>, \<open>is_dir\<close>) of a path\<close>
  | Lookup string string \<comment> \<open>\<open>resolve\<close>, \<open>which\<close> or \<open>mkdtemp\<close> of a path\<close>
  | Remove string
  | Copy string string
  | Append string string
  | Move string string
  | Tick

datatype outcome = Exited int string string | Expired int string string | Refused exn

record world =
  commands :: "event list \<Rightarrow> outcome \<times> string list"
  texts :: "event list \<Rightarrow> string result"
  path_tests :: "event list \<Rightarrow> bool result"
  effects :: "event list \<Rightarrow> unit result"
  clock :: "event list \<Rightarrow> rat"

record session =
  world :: world
  trace :: "event list"
  evidence :: "dict list"
  repository :: repository_server
  artifacts :: "(string \<times> string) list"
  library_provenance :: dict

text \<open>An action over a state of type \<open>'s\<close>; the programs of the suite act on a session, the runner's
  main loop on a state that contains one.\<close>

type_synonym ('s, 'a) action = "'s \<Rightarrow> 'a result \<times> 's"

type_synonym 'a prog = "(session, 'a) action"

section \<open>Programs\<close>

definition ret :: "'a \<Rightarrow> ('s, 'a) action" where
  "ret x s = (Inr x, s)"

definition liftP :: "'a result \<Rightarrow> ('s, 'a) action" where
  "liftP r s = (r, s)"

definition raiseP :: "exn_class \<Rightarrow> string \<Rightarrow> ('s, 'a) action" where
  "raiseP c m = liftP (raise c m)"

definition guardP :: "bool \<Rightarrow> exn_class \<Rightarrow> string \<Rightarrow> ('s, unit) action" where
  "guardP ok c m = liftP (guardE ok c m)"

definition bindP :: "('s, 'a) action \<Rightarrow> ('a \<Rightarrow> ('s, 'b) action) \<Rightarrow> ('s, 'b) action" where
  "bindP m f s = (case m s of (Inl e, s') \<Rightarrow> (Inl e, s') | (Inr x, s') \<Rightarrow> f x s')"

definition thenP :: "('s, unit) action \<Rightarrow> ('s, 'a) action \<Rightarrow> ('s, 'a) action" where
  "thenP m n = bindP m (\<lambda>_. n)"

text \<open>A block of statements, \<open>for\<close> loops over a list, and a list built from results.\<close>

fun steps :: "('s, unit) action list \<Rightarrow> ('s, unit) action" where
  "steps [] = ret ()"
| "steps (p # ps) = thenP p (steps ps)"

fun mapP :: "('a \<Rightarrow> ('s, 'b) action) \<Rightarrow> 'a list \<Rightarrow> ('s, 'b list) action" where
  "mapP f [] = ret []"
| "mapP f (x # xs) = bindP (f x) (\<lambda>y. bindP (mapP f xs) (\<lambda>ys. ret (y # ys)))"

fun forP :: "'a list \<Rightarrow> ('a \<Rightarrow> ('s, unit) action) \<Rightarrow> ('s, unit) action" where
  "forP [] f = ret ()"
| "forP (x # xs) f = thenP (f x) (forP xs f)"

fun foldP :: "('b \<Rightarrow> 'a \<Rightarrow> ('s, 'b) action) \<Rightarrow> 'b \<Rightarrow> 'a list \<Rightarrow> ('s, 'b) action" where
  "foldP f b [] = ret b"
| "foldP f b (x # xs) = bindP (f b x) (\<lambda>b'. foldP f b' xs)"

definition whenP :: "bool \<Rightarrow> ('s, unit) action \<Rightarrow> ('s, unit) action" where
  "whenP c m = (if c then m else ret ())"

text \<open>\<open>try: m except cs as e: h e\<close> and \<open>try: m finally: f\<close>.\<close>

definition exceptP :: "('s, 'a) action \<Rightarrow> exn_class list \<Rightarrow> (exn \<Rightarrow> ('s, 'a) action) \<Rightarrow> ('s, 'a) action" where
  "exceptP m cs h s = (case m s of
     (Inl e, s') \<Rightarrow> if instance_of_any e cs then h e s' else (Inl e, s')
   | (Inr x, s') \<Rightarrow> (Inr x, s'))"

definition finallyP :: "('s, 'a) action \<Rightarrow> ('s, unit) action \<Rightarrow> ('s, 'a) action" where
  "finallyP m f s = (case m s of (r, s') \<Rightarrow> (case f s' of
     (Inl e, s'') \<Rightarrow> (Inl e, s'') | (Inr _, s'') \<Rightarrow> (r, s'')))"

text \<open>\<open>m\<close> inside a \<open>try\<close> whose \<open>finally\<close> is left to run at its first failure, as in the part of a
  context manager before its \<open>yield\<close>.\<close>

definition rollbackP :: "('s, 'a) action \<Rightarrow> ('s, unit) action \<Rightarrow> ('s, 'a) action" where
  "rollbackP m f s = (case m s of (Inr x, s') \<Rightarrow> (Inr x, s') | (Inl e, s') \<Rightarrow> (case f s' of
     (Inl e', s'') \<Rightarrow> (Inl e', s'') | (Inr _, s'') \<Rightarrow> (Inl e, s'')))"

definition readP :: "('s \<Rightarrow> 'a) \<Rightarrow> ('s, 'a) action" where
  "readP f s = (Inr (f s), s)"

definition modifyP :: "('s \<Rightarrow> 's) \<Rightarrow> ('s, unit) action" where
  "modifyP f s = (Inr (), f s)"

section \<open>The primitive interactions\<close>

definition ask :: "(world \<Rightarrow> event list \<Rightarrow> 'a) \<Rightarrow> event \<Rightarrow> session \<Rightarrow> 'a \<times> session" where
  "ask w ev s = (let tr = trace s @ [ev] in (w (world s) tr, s\<lparr>trace := tr\<rparr>))"

text \<open>A command runs while the server answers its requests.\<close>

definition spawn :: "string list \<Rightarrow> environ \<Rightarrow> string \<Rightarrow> session \<Rightarrow> outcome \<times> session" where
  "spawn argv env cwd s =
     (case ask commands (Command argv env cwd (served_version (repository s)) (fail_payloads (repository s))) s of
        ((result, paths), s') \<Rightarrow> (result, s'\<lparr>repository := foldl do_GET (repository s') paths\<rparr>))"

definition read_text :: "string \<Rightarrow> string prog" where
  "read_text path = ask texts (Read path)"

definition write_text :: "string \<Rightarrow> string \<Rightarrow> unit prog" where
  "write_text path text = ask effects (Write path text)"

definition make_directory :: "string \<Rightarrow> unit prog" where
  "make_directory path = ask effects (MakeDirectory path)"

definition remove_tree :: "string \<Rightarrow> unit prog" where
  "remove_tree path = ask effects (Remove path)"

definition copy_file :: "string \<Rightarrow> string \<Rightarrow> unit prog" where
  "copy_file source destination = ask effects (Copy source destination)"

definition move_file :: "string \<Rightarrow> string \<Rightarrow> unit prog" where
  "move_file source destination = ask effects (Move source destination)"

definition append_text :: "string \<Rightarrow> string \<Rightarrow> unit prog" where
  "append_text path text = ask effects (Append path text)"

text \<open>A process or server in the background is started and stopped; nothing else is known of it.\<close>

definition start_background :: "string list \<Rightarrow> environ \<Rightarrow> unit prog" where
  "start_background argv env = ask effects (Start argv env)"

definition stop_background :: "string list \<Rightarrow> unit prog" where
  "stop_background argv = ask effects (Stop argv)"

definition path_test :: "string \<Rightarrow> string \<Rightarrow> bool prog" where
  "path_test what path = ask path_tests (Check what path)"

definition lookup_path :: "string \<Rightarrow> string \<Rightarrow> string prog" where
  "lookup_path what path = ask texts (Lookup what path)"

definition read_clock :: "rat prog" where
  "read_clock s = (case ask clock Tick s of (t, s') \<Rightarrow> (Inr t, s'))"

text \<open>\<open>evidence.append\<close> and an update of the last record.\<close>

definition append_record :: "dict \<Rightarrow> unit prog" where
  "append_record r = modifyP (\<lambda>s. s\<lparr>evidence := evidence s @ [r]\<rparr>)"

definition update_dict :: "dict \<Rightarrow> dict \<Rightarrow> dict" where
  "update_dict d new = foldl (\<lambda>d (k, v). AList.update k v d) d new"

definition update_last :: "dict \<Rightarrow> unit prog" where
  "update_last new = modifyP (\<lambda>s. s\<lparr>evidence :=
     butlast (evidence s) @ [update_dict (last (evidence s)) new]\<rparr>)"

definition set_artifact :: "string \<Rightarrow> string \<Rightarrow> unit prog" where
  "set_artifact path digest = modifyP (\<lambda>s. s\<lparr>artifacts := AList.update path digest (artifacts s)\<rparr>)"

definition update_provenance :: "dict \<Rightarrow> unit prog" where
  "update_provenance new = modifyP (\<lambda>s. s\<lparr>library_provenance := update_dict (library_provenance s) new\<rparr>)"

definition serve_version :: "string \<Rightarrow> unit prog" where
  "serve_version v = modifyP (\<lambda>s. s\<lparr>repository := (repository s)\<lparr>served_version := v\<rparr>\<rparr>)"

definition block_payloads :: "bool \<Rightarrow> unit prog" where
  "block_payloads b = modifyP (\<lambda>s. s\<lparr>repository := (repository s)\<lparr>fail_payloads := b\<rparr>\<rparr>)"

section \<open>Laws of the combinators\<close>

lemmas prog_defs = ret_def liftP_def raiseP_def guardP_def bindP_def thenP_def whenP_def
  exceptP_def finallyP_def readP_def modifyP_def

lemma ret_bind [simp]: "bindP (ret x) f = f x"
  by (rule ext) (simp add: prog_defs)

lemma raise_bind [simp]: "bindP (raiseP c m) f = raiseP c m"
  by (rule ext) (simp add: prog_defs raise_def)

lemma bind_assoc: "bindP (bindP m f) g = bindP m (\<lambda>x. bindP (f x) g)"
  by (rule ext) (auto simp: prog_defs split: prod.splits sum.splits)

lemma guard_then [simp]: "thenP (guardP True c m) n = n" "thenP (guardP False c m) n = raiseP c m"
  by (rule ext, simp add: prog_defs guardE_def raise_def)+

lemma bind_Inr_iff: "bindP m f s = (Inr y, s') \<longleftrightarrow> (\<exists>x t. m s = (Inr x, t) \<and> f x t = (Inr y, s'))"
  by (auto simp: bindP_def split: prod.splits sum.splits)

lemma bind_Inl_iff: "bindP m f s = (Inl e, s') \<longleftrightarrow>
    m s = (Inl e, s') \<or> (\<exists>x t. m s = (Inr x, t) \<and> f x t = (Inl e, s'))"
  by (auto simp: bindP_def split: prod.splits sum.splits)

lemma then_Inr_iff: "thenP m n s = (Inr y, s') \<longleftrightarrow> (\<exists>t. m s = (Inr (), t) \<and> n t = (Inr y, s'))"
  by (simp add: thenP_def bind_Inr_iff)

lemma guard_Inr_iff: "guardP ok c m s = (Inr u, s') \<longleftrightarrow> ok \<and> s' = s"
  by (auto simp: guardP_def liftP_def guardE_def raise_def)

lemma steps_append: "steps (ps @ qs) = thenP (steps ps) (steps qs)"
  by (induction ps) (simp_all add: thenP_def bind_assoc)

section \<open>What every program keeps\<close>

text \<open>
  A reflexive transitive relation between the session before and the session after is kept by
  every program built from primitives that keep it. The locale proves the combinators' rules
  once; each relation of interest is an interpretation.
\<close>

definition keeps :: "('s \<Rightarrow> 's \<Rightarrow> bool) \<Rightarrow> ('s, 'a) action \<Rightarrow> bool" where
  "keeps R m = (\<forall>s. R s (snd (m s)))"

locale run_relation =
  fixes R :: "'s \<Rightarrow> 's \<Rightarrow> bool"
  assumes refl: "R s s"
    and trans: "R s t \<Longrightarrow> R t u \<Longrightarrow> R s u"
begin

lemma keeps_ret: "keeps R (ret x)"
  by (simp add: keeps_def ret_def refl)

lemma keeps_lift: "keeps R (liftP r)"
  by (simp add: keeps_def liftP_def refl)

lemma keeps_raise: "keeps R (raiseP c m)"
  by (simp add: raiseP_def keeps_lift)

lemma keeps_guard: "keeps R (guardP ok c m)"
  by (simp add: guardP_def keeps_lift)

lemma keeps_read: "keeps R (readP f)"
  by (simp add: keeps_def readP_def refl)

lemma keeps_bind: "keeps R m \<Longrightarrow> (\<And>x. keeps R (f x)) \<Longrightarrow> keeps R (bindP m f)"
  unfolding keeps_def bindP_def by (auto split: prod.splits sum.splits) (metis snd_conv trans)+

lemma keeps_then: "keeps R m \<Longrightarrow> keeps R n \<Longrightarrow> keeps R (thenP m n)"
  by (simp add: thenP_def keeps_bind)

lemma keeps_when: "keeps R m \<Longrightarrow> keeps R (whenP c m)"
  by (simp add: whenP_def keeps_ret)

lemma keeps_if: "keeps R m \<Longrightarrow> keeps R n \<Longrightarrow> keeps R (if c then m else n)"
  by simp

lemma keeps_steps_Nil: "keeps R (steps [])"
  by (simp add: keeps_ret)

lemma keeps_steps_Cons: "keeps R m \<Longrightarrow> keeps R (steps ms) \<Longrightarrow> keeps R (steps (m # ms))"
  by (simp add: keeps_then)

lemma keeps_for: "(\<And>x. keeps R (f x)) \<Longrightarrow> keeps R (forP xs f)"
  by (induction xs) (simp_all add: keeps_ret keeps_then)

lemma keeps_map: "(\<And>x. keeps R (f x)) \<Longrightarrow> keeps R (mapP f xs)"
  by (induction xs) (simp_all add: keeps_ret keeps_bind)

lemma keeps_fold: "(\<And>b x. keeps R (f b x)) \<Longrightarrow> keeps R (foldP f b xs)"
  by (induction xs arbitrary: b) (simp_all add: keeps_ret keeps_bind)

lemma keeps_except: "keeps R m \<Longrightarrow> (\<And>e. keeps R (h e)) \<Longrightarrow> keeps R (exceptP m cs h)"
  unfolding keeps_def exceptP_def by (auto split: prod.splits sum.splits) (metis snd_conv trans)+

lemma keeps_finally: "keeps R m \<Longrightarrow> keeps R f \<Longrightarrow> keeps R (finallyP m f)"
  unfolding keeps_def finallyP_def by (auto split: prod.splits sum.splits) (metis snd_conv trans)+

lemma keeps_rollback: "keeps R m \<Longrightarrow> keeps R f \<Longrightarrow> keeps R (rollbackP m f)"
  unfolding keeps_def rollbackP_def by (auto split: prod.splits sum.splits) (metis snd_conv trans)+

lemma keeps_steps: "(\<And>m. m \<in> set ms \<Longrightarrow> keeps R m) \<Longrightarrow> keeps R (steps ms)"
  by (induction ms) (simp_all add: keeps_ret keeps_then)

lemma keeps_let: "keeps R (f x) \<Longrightarrow> keeps R (let y = x in f y)"
  by simp

lemma keeps_option: "keeps R m \<Longrightarrow> (\<And>x. keeps R (f x)) \<Longrightarrow>
    keeps R (case v of None \<Rightarrow> m | Some x \<Rightarrow> f x)"
  by (cases v) simp_all

lemma keeps_prod: "(\<And>x y. keeps R (f x y)) \<Longrightarrow> keeps R (case p of (x, y) \<Rightarrow> f x y)"
  by (cases p) simp

lemmas combinators = keeps_ret keeps_lift keeps_raise keeps_guard keeps_read keeps_bind keeps_then
  keeps_when keeps_if keeps_steps_Nil keeps_steps_Cons keeps_for keeps_map keeps_fold keeps_except
  keeps_finally keeps_rollback keeps_let keeps_option keeps_prod

end

text \<open>The world never changes, and the trace only grows.\<close>

definition trace_grows :: "session \<Rightarrow> session \<Rightarrow> bool" where
  "trace_grows s t \<longleftrightarrow> world t = world s \<and> (\<exists>new. trace t = trace s @ new)"

interpretation tg: run_relation trace_grows
  by unfold_locales (auto simp: trace_grows_def)

lemma ask_parts [simp]:
  "trace (snd (ask w ev s)) = trace s @ [ev]" "world (snd (ask w ev s)) = world s"
  "evidence (snd (ask w ev s)) = evidence s" "repository (snd (ask w ev s)) = repository s"
  by (simp_all add: ask_def Let_def)

lemma do_GET_fold [simp]:
  "served_version (foldl do_GET r ps) = served_version r" "fail_payloads (foldl do_GET r ps) = fail_payloads r"
  by (induction ps arbitrary: r) (simp_all add: do_GET_def)

lemma spawn_parts [simp]:
  "trace (snd (spawn a e c s)) =
     trace s @ [Command a e c (served_version (repository s)) (fail_payloads (repository s))]"
  "world (snd (spawn a e c s)) = world s" "evidence (snd (spawn a e c s)) = evidence s"
  "served_version (repository (snd (spawn a e c s))) = served_version (repository s)"
  "fail_payloads (repository (snd (spawn a e c s))) = fail_payloads (repository s)"
  by (auto simp: spawn_def ask_def Let_def split: prod.splits)

section \<open>Simple worlds\<close>

text \<open>A session at its start, and a world in which every command prints one text and every file
  operation succeeds.\<close>

definition fresh_session :: "world \<Rightarrow> session" where
  "fresh_session w = \<lparr>world = w, trace = [], evidence = [], repository = new_repository,
     artifacts = [], library_provenance = []\<rparr>"

definition answering :: "string \<Rightarrow> world" where
  "answering out = \<lparr>commands = (\<lambda>_. (Exited 0 out '''', [])), texts = (\<lambda>_. Inr ''''), path_tests = (\<lambda>_. Inr True),
     effects = (\<lambda>_. Inr ()), clock = (\<lambda>_. 0)\<rparr>"

end
