(* ===== verification/Console_Output.thy ===== *)
theory Console_Output
  imports Session Coverage_Report "HOL-Library.Product_Lexorder"
begin

text \<open>
  \<open>console_output.py\<close>: the progress lines of the runner and its GitHub summary. Texts that come
  from the tested program pass through \<open>safe_text\<close>, which removes terminal commands and keeps one
  bounded line, and through \<open>markdown_cell\<close>, which leaves no active Markdown.
\<close>

section \<open>Terminal commands\<close>

definition esc :: char where "esc = CHR 0x1B"

text \<open>
  One match of \<open>_ESCAPES\<close> at the start of a text, given by what follows it. The body of a string
  command is greedy and cannot contain a terminator, so no other split of the text matches.
\<close>

definition string_command :: "nat list \<Rightarrow> bool \<Rightarrow> string \<Rightarrow> string option" where
  "string_command stops bell body = (case dropWhile (\<lambda>c. code c \<notin> set stops) body of
     [] \<Rightarrow> Some []
   | c # cs \<Rightarrow> if code c = 7 \<and> bell \<or> code c = 0x9C then Some cs
       else if code c = 0x1B then (case cs of d # ds \<Rightarrow> if code d = 0x5C then Some ds else None | [] \<Rightarrow> None)
       else None)"

definition final_byte :: "string \<Rightarrow> string option" where
  "final_byte cs = (case dropWhile (\<lambda>c. 0x20 \<le> code c \<and> code c \<le> 0x2F) cs of
     d # ds \<Rightarrow> if 0x40 \<le> code d \<and> code d \<le> 0x7E then Some ds else None | [] \<Rightarrow> None)"

definition control_sequence :: "string \<Rightarrow> string option" where
  "control_sequence cs = final_byte (dropWhile (\<lambda>c. 0x30 \<le> code c \<and> code c \<le> 0x3F) cs)"

definition first_some :: "'a option list \<Rightarrow> 'a option" where
  "first_some xs = (case filter (\<lambda>x. x \<noteq> None) xs of [] \<Rightarrow> None | x # _ \<Rightarrow> x)"

definition operating_command :: "string \<Rightarrow> string option" where
  "operating_command s = (case s of
     c # d # cs \<Rightarrow> if code c = 0x1B \<and> code d = 0x5D then string_command [7, 0x1B, 0x9C] True cs
       else if code c = 0x9D then string_command [7, 0x1B, 0x9C] True (d # cs) else None
   | [c] \<Rightarrow> if code c = 0x9D then Some [] else None | [] \<Rightarrow> None)"

definition device_command :: "string \<Rightarrow> string option" where
  "device_command s = (case s of
     c # d # cs \<Rightarrow> if code c = 0x1B \<and> code d \<in> {0x50, 0x5E, 0x5F, 0x58} then string_command [0x1B, 0x9C] False cs
       else if code c \<in> {0x90, 0x98, 0x9E, 0x9F} then string_command [0x1B, 0x9C] False (d # cs) else None
   | [c] \<Rightarrow> if code c \<in> {0x90, 0x98, 0x9E, 0x9F} then Some [] else None | [] \<Rightarrow> None)"

definition introduced_sequence :: "string \<Rightarrow> string option" where
  "introduced_sequence s = (case s of
     c # d # cs \<Rightarrow> if code c = 0x1B \<and> code d = 0x5B then control_sequence cs
       else if code c = 0x9B then control_sequence (d # cs) else None
   | _ \<Rightarrow> None)"

definition short_escape :: "string \<Rightarrow> string option" where
  "short_escape s = (case s of c # cs \<Rightarrow> if code c = 0x1B then final_byte cs else None | [] \<Rightarrow> None)"

definition escape_at :: "string \<Rightarrow> string option" where
  "escape_at s = first_some [operating_command s, device_command s, introduced_sequence s, short_escape s]"

lemma dropWhile_le: "length (dropWhile p xs) \<le> length xs"
  by (rule length_dropWhile_le)

lemma string_command_shorter: "string_command stops bell body = Some r \<Longrightarrow> length r \<le> length body"
  using dropWhile_le [of "\<lambda>c. code c \<notin> set stops" body]
  by (auto simp: string_command_def split: list.splits if_splits)

lemma final_byte_shorter: "final_byte cs = Some r \<Longrightarrow> length r < length cs"
  using dropWhile_le [of "\<lambda>c. 0x20 \<le> code c \<and> code c \<le> 0x2F" cs]
  by (auto simp: final_byte_def split: list.splits if_splits)

lemma control_sequence_shorter: "control_sequence cs = Some r \<Longrightarrow> length r < length cs"
  unfolding control_sequence_def
  using dropWhile_le [of "\<lambda>c. 0x30 \<le> code c \<and> code c \<le> 0x3F" cs] by (auto dest: final_byte_shorter)

lemma first_some_in: "first_some xs = Some r \<Longrightarrow> Some r \<in> set xs"
proof -
  assume "first_some xs = Some r"
  then obtain ys where "filter (\<lambda>x. x \<noteq> None) xs = Some r # ys"
    by (auto simp: first_some_def split: list.splits)
  then have "Some r \<in> set (filter (\<lambda>x. x \<noteq> None) xs)" by simp
  then show ?thesis by simp
qed

lemma operating_command_shorter: "operating_command s = Some r \<Longrightarrow> length r < length s"
  by (auto simp: operating_command_def split: list.splits if_splits dest!: string_command_shorter)

lemma device_command_shorter: "device_command s = Some r \<Longrightarrow> length r < length s"
  by (auto simp: device_command_def split: list.splits if_splits dest!: string_command_shorter)

lemma introduced_sequence_shorter: "introduced_sequence s = Some r \<Longrightarrow> length r < length s"
  by (auto simp: introduced_sequence_def split: list.splits if_splits dest!: control_sequence_shorter)

lemma short_escape_shorter: "short_escape s = Some r \<Longrightarrow> length r < length s"
  by (auto simp: short_escape_def split: list.splits if_splits dest!: final_byte_shorter)

lemma escape_at_shorter: "escape_at s = Some r \<Longrightarrow> length r < length s"
  unfolding escape_at_def
  using operating_command_shorter [of s r] device_command_shorter [of s r] introduced_sequence_shorter [of s r]
    short_escape_shorter [of s r]
  by (auto dest!: first_some_in)

text \<open>\<open>_ESCAPES.sub("", text)\<close>.\<close>

function drop_escapes :: "string \<Rightarrow> string" where
  "drop_escapes [] = []"
| "drop_escapes (c # cs) = (case escape_at (c # cs) of Some rest \<Rightarrow> drop_escapes rest | None \<Rightarrow> c # drop_escapes cs)"
  by pat_completeness auto
termination
  by (relation "measure length") (auto dest: escape_at_shorter)

text \<open>The characters of category \<open>C\<close>: controls and, below 256, the soft hyphen.\<close>

definition is_control :: "char \<Rightarrow> bool" where
  "is_control c = (code c < 32 \<or> 127 \<le> code c \<and> code c < 160 \<or> code c = 173)"

definition visible :: "string \<Rightarrow> string" where
  "visible s = map (\<lambda>c. if isspace c then CHR '' '' else c) (filter (\<lambda>c. isspace c \<or> \<not> is_control c) s)"

definition truncated :: "nat \<Rightarrow> string \<Rightarrow> string" where
  "truncated limit s = (if length s \<le> limit then s else take (limit - 3) s @ ''...'')"

definition safe_text :: "nat \<Rightarrow> string \<Rightarrow> string" where
  "safe_text limit s = truncated limit (join '' '' (split_ws (visible (drop_escapes s))))"

definition safe :: "string \<Rightarrow> string" where
  "safe s = safe_text 240 s"

definition use_color :: "string \<Rightarrow> bool \<Rightarrow> environ \<Rightarrow> bool" where
  "use_color mode tty env =
     (if get_default env ''NO_COLOR'' [] \<noteq> [] \<or> mode = ''never'' then False else mode = ''always'' \<or> tty)"

section \<open>Numbers and padding\<close>

definition pad_right :: "nat \<Rightarrow> string \<Rightarrow> string" where
  "pad_right w s = s @ replicate (w - length s) (CHR '' '')"

definition pad_left :: "nat \<Rightarrow> string \<Rightarrow> string" where
  "pad_left w s = replicate (w - length s) (CHR '' '') @ s"

text \<open>\<open>f"{r:.2f}"\<close>: the exact value to hundredths, ties to even.\<close>

definition show_fixed2 :: "rat \<Rightarrow> string" where
  "show_fixed2 r = (case quotient_of r of (p, q) \<Rightarrow>
     (if p < 0 then ''-'' else '''') @ show_hundredths (round_div (nat (abs p) * 100) (nat q)))"

definition seconds_value :: "pyval \<Rightarrow> rat" where
  "seconds_value v = (case v of PFloat (Fin r) \<Rightarrow> r | PInt i \<Rightarrow> of_int i | _ \<Rightarrow> 0)"

definition seconds_cell :: "pyval \<Rightarrow> string" where
  "seconds_cell v = show_fixed2 (seconds_value v) @ ''s''"

text \<open>\<open>f"{percent:.1f}"\<close> of a percentage held in hundredths: its double to tenths, ties to even.\<close>

definition show_tenths :: "nat \<Rightarrow> string" where
  "show_tenths h = (case double_scale h 100 0 of (n, e) \<Rightarrow>
     let t = round_div (round_div n 100 * 10) (2 ^ e) in show_nat (t div 10) @ ''.'' @ show_nat (t mod 10))"

section \<open>Rows of a report\<close>

definition status_labels :: "(string \<times> string \<times> nat) list" where
  "status_labels = [(''passed'', ''PASS'', 32), (''failed'', ''FAIL'', 31), (''setup-error'', ''ERROR'', 31),
     (''unmet-prerequisite'', ''UNMET'', 33), (''unsupported'', ''UNSUPPORTED'', 33)]"

definition integrity_status :: "pyval \<Rightarrow> pyval" where
  "integrity_status report = get_or (get_or report ''artifact_integrity'' (PObj [])) ''status'' PNone"

definition coverage_status :: "coverage_summary option \<Rightarrow> pyval" where
  "coverage_status coverage = (case coverage of None \<Rightarrow> PNone | Some c \<Rightarrow> PStr (v_status (s_verification c)))"

definition report_verified :: "pyval \<Rightarrow> coverage_summary option \<Rightarrow> bool" where
  "report_verified report coverage \<longleftrightarrow>
     coverage_status coverage = PStr ''current'' \<and> integrity_status report = PStr ''verified''"

definition passing_cell :: "bool \<Rightarrow> coverage_metric \<Rightarrow> string" where
  "passing_cell verified m = (case (m_passed m, m_passed_percent m) of
     (Some n, Some percent) \<Rightarrow> if verified then show_nat n @ '' ('' @ show_tenths percent @ ''%)'' else ''unverified''
   | _ \<Rightarrow> ''unverified'')"

definition row_groups :: "(string \<times> string \<times> string) list" where
  "row_groups = [(''behaviors'', ''cli'', ''CLI behaviors''), (''behaviors'', ''library'', ''Library behaviors''),
     (''surfaces'', ''cli-command'', ''CLI commands''), (''surfaces'', ''cli-option'', ''CLI options''),
     (''surfaces'', ''library-function'', ''Library functions''), (''surfaces'', ''library-signal'', ''Library signals'')]"

definition group_metrics :: "coverage_summary option \<Rightarrow> string \<Rightarrow> (string \<times> coverage_metric) list" where
  "group_metrics coverage kind = (case coverage of None \<Rightarrow> []
     | Some c \<Rightarrow> if kind = ''behaviors'' then behaviors (s_metrics c) else surface_metrics (s_metrics c))"

definition coverage_rows :: "pyval \<Rightarrow> coverage_summary option \<Rightarrow> (string \<times> string \<times> string) list" where
  "coverage_rows report coverage = map (\<lambda>(kind, key, label).
     case map_of (group_metrics coverage kind) key of
       None \<Rightarrow> (label, ''unverified'', ''unverified'')
     | Some m \<Rightarrow> (label, passing_cell (report_verified report coverage) m, show_nat (m_total m))) row_groups"

definition option_accounting_rows :: "pyval \<Rightarrow> coverage_summary option \<Rightarrow> (string \<times> string \<times> string) list" where
  "option_accounting_rows report coverage = (case coverage of None \<Rightarrow> [] | Some c \<Rightarrow>
     map (\<lambda>(label, m). (label, passing_cell (report_verified report coverage) m, show_nat (m_total m)))
       [(''Equivalence checks'', equivalence_checks (s_options c)), (''Accounted options'', accounted (s_options c))])"

definition slow_key :: "pyval \<Rightarrow> rat \<times> string \<times> string \<times> string" where
  "slow_key c = (- seconds_value (fld c ''duration_seconds''), text_at c ''behavior_id'', text_at c ''driver'',
     text_at c ''profile'')"

definition was_timed :: "pyval \<Rightarrow> bool" where
  "was_timed c \<longleftrightarrow> has c ''duration_seconds'' \<and>
     text_at c ''status'' \<notin> {''not-selected'', ''unsupported'', ''pending''}"

definition slowest_cases :: "pyval \<Rightarrow> pyval list" where
  "slowest_cases report = take 10 (sort_key slow_key (filter was_timed (items_at report ''results'')))"

definition timing_cells :: "pyval \<Rightarrow> string list" where
  "timing_cells c = seconds_cell (fld c ''duration_seconds'') #
     map (\<lambda>key. case get_or c ''timings'' PNone of
         PDict (e # es) \<Rightarrow> seconds_cell (fld (PDict (e # es)) key) | _ \<Rightarrow> ''unverified'')
       [''setup_seconds'', ''execution_seconds'', ''cleanup_seconds'']"

definition result_heading :: "pyval \<Rightarrow> coverage_summary option \<Rightarrow> int \<Rightarrow> string" where
  "result_heading report coverage status = (if \<not> report_verified report coverage then ''INVALID''
     else if status \<noteq> 0 then ''UNSUCCESSFUL'' else ''Selected cases passed'')"

section \<open>The GitHub summary\<close>

definition html_escape :: "string \<Rightarrow> string" where
  "html_escape s = concat (map (\<lambda>c. if c = CHR ''&'' then ''&amp;'' else if c = CHR ''<'' then ''&lt;''
     else if c = CHR ''>'' then ''&gt;'' else [c]) s)"

definition is_markdown :: "char \<Rightarrow> bool" where
  "is_markdown c = (code c \<in> {92, 96, 42, 95, 123, 125, 91, 93, 40, 41, 35, 43, 46, 33, 124, 126, 58, 47, 64, 45})"

definition markdown_cell :: "string \<Rightarrow> string" where
  "markdown_cell s = concat (map (\<lambda>c. if is_markdown c then ''&#'' @ show_nat (code c) @ '';'' else [c])
     (html_escape (safe s)))"

definition table_row :: "string list \<Rightarrow> string" where
  "table_row cells = ''| '' @ join '' | '' cells @ '' |''"

definition row_cells :: "string \<times> string \<times> string \<Rightarrow> string list" where
  "row_cells r = (case r of (a, b, c) \<Rightarrow> [a, b, c])"

definition status_totals :: "pyval \<Rightarrow> string" where
  "status_totals report = (let found = filter (\<lambda>s. s \<noteq> ''not-selected'') (map (\<lambda>c. text_at c ''status'') (items_at report ''results'')) in
     join '', '' (map (\<lambda>(key, label, _). show_nat (count_list found key) @ '' '' @ label) status_labels))"

definition status_label :: "string \<Rightarrow> string" where
  "status_label s = (case map_of status_labels s of Some (label, _) \<Rightarrow> label | None \<Rightarrow> s)"

definition case_row :: "pyval \<Rightarrow> string" where
  "case_row c = (let label = markdown_cell (status_label (text_at c ''status'')) in
     table_row ([markdown_cell (text_at c ''behavior_id''), markdown_cell (text_at c ''driver''),
       (if text_at c ''status'' \<noteq> ''passed'' then ''**'' @ label @ ''**'' else label)] @ timing_cells c))"

definition wall_time :: "pyval \<Rightarrow> string" where
  "wall_time report = (case get_or report ''duration_seconds'' PNone of PNone \<Rightarrow> ''unverified'' | d \<Rightarrow> seconds_cell d)"

definition known_or_unverified :: "pyval \<Rightarrow> string" where
  "known_or_unverified v = (case v of PStr s \<Rightarrow> s | _ \<Rightarrow> ''unverified'')"

definition summary_lines :: "pyval \<Rightarrow> coverage_summary option \<Rightarrow> int \<Rightarrow> string list" where
  "summary_lines report coverage status =
     [''## Flatpak compatibility'', '''', ''**'' @ result_heading report coverage status @ ''**'',
      ''Run wall time: '' @ wall_time report, '''',
      ''Artifact integrity: '' @ markdown_cell (known_or_unverified (integrity_status report)) @ ''; '' @
      ''coverage verification: '' @ markdown_cell (known_or_unverified (coverage_status coverage)), '''',
      status_totals report, '''', ''| Coverage | Passing | Total |'', ''| --- | ---: | ---: |''] @
     map (table_row \<circ> row_cells) (coverage_rows report coverage) @
     (case option_accounting_rows report coverage of [] \<Rightarrow> [] | rows \<Rightarrow>
        ['''', ''Separate option inventory; equivalence is not behavioral coverage.'', '''',
         ''| Inventory | Passing | Total |'', ''| --- | ---: | ---: |''] @ map (table_row \<circ> row_cells) rows) @
     ['''', ''Full compatibility coverage is incomplete.'', '''', ''### Slowest selected cases'', '''',
      ''| Case | Driver | Status | Total | Setup | Execution | Cleanup |'',
      ''| --- | --- | --- | ---: | ---: | ---: | ---: |''] @
     map case_row (slowest_cases report) @
     (if slowest_cases report = [] then ['''', ''No executed case timings available.''] else [])"

definition github_summary :: "pyval \<Rightarrow> coverage_summary option \<Rightarrow> int \<Rightarrow> string" where
  "github_summary report coverage status = join ''\<newline>'' (summary_lines report coverage status) @ ''\<newline>''"

section \<open>What \<open>safe_text\<close> leaves\<close>

text \<open>\<open>tidy b t\<close>: single blanks between words, none at the end; \<open>b\<close> tells whether \<open>t\<close> follows a word.\<close>

fun tidy :: "bool \<Rightarrow> string \<Rightarrow> bool" where
  "tidy b [] = b"
| "tidy b (c # cs) = (if isspace c then b \<and> c = CHR '' '' \<and> tidy False cs else tidy True cs)"

lemma tidy_mono: "tidy False t \<Longrightarrow> tidy b t"
  by (cases t) auto

lemma join_split_tidy: "tidy (acc \<noteq> []) t \<Longrightarrow> join '' '' (split_ws_acc acc t) = rev acc @ t"
proof (induction t arbitrary: acc)
  case (Cons c cs)
  show ?case
  proof (cases "isspace c")
    case True
    with Cons.prems have acc: "acc \<noteq> []" "c = CHR '' ''" "tidy False cs" by auto
    with Cons.IH [of "[]"] have rest: "join '' '' (split_ws_acc [] cs) = cs" by simp
    with acc(3) have "split_ws_acc [] cs \<noteq> []" by auto
    then obtain v vs where "split_ws_acc [] cs = v # vs" by (cases "split_ws_acc [] cs") auto
    with True acc rest show ?thesis by auto
  next
    case False
    with Cons show ?thesis by auto
  qed
qed auto

lemma tidy_word: "\<forall>c\<in>set w. \<not> isspace c \<Longrightarrow> tidy b (w @ t) = tidy (b \<or> w \<noteq> []) t"
  by (induction w arbitrary: b) auto

lemma isspace_blank [simp]: "isspace (CHR '' '')"
  by (simp add: isspace_def code_def)

definition is_words :: "string list \<Rightarrow> bool" where
  "is_words ws \<longleftrightarrow> (\<forall>w\<in>set ws. w \<noteq> [] \<and> (\<forall>c\<in>set w. \<not> isspace c))"

lemma tidy_join: "is_words ws \<Longrightarrow> ws \<noteq> [] \<Longrightarrow> tidy False (join '' '' ws)"
proof (induction "'' ''" ws rule: join.induct)
  case (2 w)
  then show ?case using tidy_word [of w False "[]"] by (simp add: is_words_def)
next
  case (3 w v ws)
  then have "tidy False (join '' '' (v # ws))" by (simp add: is_words_def)
  with 3 show ?case by (simp add: is_words_def tidy_word)
qed simp

lemma tidy_cut: "tidy b t \<Longrightarrow> w \<noteq> [] \<Longrightarrow> \<forall>c\<in>set w. \<not> isspace c \<Longrightarrow> tidy b (take n t @ w)"
proof (induction t arbitrary: n b)
  case Nil
  then show ?case using tidy_word [of w b "[]"] by simp
next
  case (Cons c cs)
  then show ?case
    using tidy_word [of w b "[]"] by (cases n) auto
qed

lemma is_words_Cons [simp]: "is_words (w # ws) \<longleftrightarrow> w \<noteq> [] \<and> (\<forall>c\<in>set w. \<not> isspace c) \<and> is_words ws"
  by (auto simp: is_words_def)

lemma is_words_Nil [simp]: "is_words []"
  by (simp add: is_words_def)

lemma split_ws_words: "\<forall>c\<in>set acc. \<not> isspace c \<Longrightarrow> is_words (split_ws_acc acc s)"
proof (induction s arbitrary: acc)
  case (Cons c s)
  from Cons.prems Cons.IH [of "[]"] Cons.IH [of "c # acc"] show ?case by simp
qed simp

lemma split_ws_chars: "\<Union> (set ` set (split_ws_acc acc s)) \<subseteq> set acc \<union> set s"
  by (induction acc s rule: split_ws_acc.induct) auto

lemma join_chars: "set (join sep ws) \<subseteq> set sep \<union> \<Union> (set ` set ws)"
  by (induction sep ws rule: join.induct) auto

text \<open>A clean character is no control and no white space but the blank.\<close>

definition clean :: "char \<Rightarrow> bool" where
  "clean c \<longleftrightarrow> \<not> is_control c \<and> (isspace c \<longrightarrow> c = CHR '' '')"

lemma clean_blank: "clean (CHR '' '')"
  by (simp add: clean_def is_control_def code_def)

lemma clean_visible: "c \<in> set (visible s) \<Longrightarrow> clean c"
  using clean_blank by (auto simp: visible_def clean_def split: if_splits)

lemma clean_no_linebreak: "clean c \<Longrightarrow> \<not> is_linebreak c"
  by (auto simp: clean_def is_control_def is_linebreak_def)

lemma drop_escapes_clean: "\<forall>c\<in>set s. \<not> is_control c \<Longrightarrow> drop_escapes s = s"
proof (induction s)
  case (Cons c cs)
  then have "\<not> is_control c" by simp
  then have "escape_at (c # cs) = None"
    by (auto simp: is_control_def escape_at_def operating_command_def device_command_def introduced_sequence_def
        short_escape_def first_some_def split: list.splits)
  with Cons show ?case by simp
qed simp

lemma visible_clean: "\<forall>c\<in>set s. clean c \<Longrightarrow> visible s = s"
  by (induction s) (auto simp: visible_def clean_def)

lemma clean_dots: "\<forall>c\<in>set ''...''. clean c" "\<forall>c\<in>set ''...''. \<not> isspace c"
  by (simp_all add: clean_def is_control_def isspace_def code_def)

lemma safe_text_clean: "c \<in> set (safe_text limit s) \<Longrightarrow> clean c"
proof -
  let ?v = "visible (drop_escapes s)"
  have "set (join '' '' (split_ws ?v)) \<subseteq> {CHR '' ''} \<union> set ?v"
    using join_chars [of "'' ''" "split_ws ?v"] split_ws_chars [of "[]" ?v] by (auto simp: split_ws_def)
  then have all: "\<forall>c\<in>set (join '' '' (split_ws ?v)). clean c" using clean_visible clean_blank by auto
  assume "c \<in> set (safe_text limit s)"
  then show "clean c"
    using all clean_dots(1) by (auto simp: safe_text_def truncated_def split: if_splits dest: in_set_takeD)
qed

lemma safe_text_tidy: "safe_text limit s = [] \<or> tidy False (safe_text limit s)"
proof -
  let ?ws = "split_ws (visible (drop_escapes s))"
  have words: "is_words ?ws" using split_ws_words [of "[]"] by (simp add: split_ws_def)
  show ?thesis
  proof (cases "?ws = []")
    case False
    from tidy_join [OF words this] show ?thesis
      using tidy_cut [OF _ _ clean_dots(2)] by (simp add: safe_text_def truncated_def)
  qed (simp add: safe_text_def truncated_def)
qed

text \<open>C19: A text made safe is one bounded line without control characters, and making it safe
  again changes nothing: for every text, the result has at most \<open>limit\<close> characters (the callers
  use 240 and 4096), none of them a control, an escape or a line break, and it is a fixed point.\<close>

theorem safe_text_bounded:
  assumes "3 \<le> limit"
  shows "length (safe_text limit s) \<le> limit \<and>
    (\<forall>c\<in>set (safe_text limit s). \<not> is_control c \<and> \<not> is_linebreak c \<and> c \<noteq> esc) \<and>
    safe_text limit (safe_text limit s) = safe_text limit s"
proof -
  let ?t = "safe_text limit s"
  have len: "length ?t \<le> limit" using assms by (auto simp: safe_text_def truncated_def)
  have cl: "\<forall>c\<in>set ?t. clean c" using safe_text_clean by blast
  then have "drop_escapes ?t = ?t" "visible ?t = ?t"
    by (simp_all add: clean_def drop_escapes_clean visible_clean)
  moreover have "join '' '' (split_ws ?t) = ?t"
    using safe_text_tidy [of limit s] join_split_tidy [of "[]" ?t] by (auto simp: split_ws_def)
  ultimately have "safe_text limit ?t = ?t"
    using len by (subst safe_text_def) (simp add: truncated_def)
  moreover have "is_control esc" by (simp add: esc_def is_control_def code_def)
  ultimately show ?thesis using len cl clean_no_linebreak by (auto simp: clean_def)
qed

theorem safe_text_bounded_witness:
  "length (safe_text 240 (esc # ''[31mred'')) \<le> 240 \<and> safe_text 240 (esc # ''[31mred'') = ''red''"
proof
  show "length (safe_text 240 (esc # ''[31mred'')) \<le> 240"
    using safe_text_bounded [of 240 "esc # ''[31mred''"] by simp
  show "safe_text 240 (esc # ''[31mred'') = ''red''" by code_simp
qed

section \<open>No injection into the summary\<close>

text \<open>A cell is free of the two characters that structure a table.\<close>

definition cell :: "string \<Rightarrow> bool" where
  "cell s \<longleftrightarrow> CHR 0x0A \<notin> set s \<and> CHR ''|'' \<notin> set s"

lemma cell_append [simp]: "cell (s @ t) \<longleftrightarrow> cell s \<and> cell t"
  by (auto simp: cell_def)

lemma cell_Cons [simp]: "cell (c # s) \<longleftrightarrow> c \<noteq> CHR 0x0A \<and> c \<noteq> CHR ''|'' \<and> cell s"
  by (auto simp: cell_def)

lemma cell_Nil [simp]: "cell []"
  by (simp add: cell_def)

lemma cell_digits: "(\<And>c. c \<in> set s \<Longrightarrow> isdigit c) \<Longrightarrow> cell s"
proof -
  have "\<not> isdigit (CHR 0x0A)" "\<not> isdigit (CHR ''|'')" by (simp_all add: isdigit_def code_def)
  moreover assume "\<And>c. c \<in> set s \<Longrightarrow> isdigit c"
  ultimately show "cell s" by (auto simp: cell_def)
qed

lemma cell_show_nat [simp]: "cell (show_nat n)"
  using show_nat_digits by (rule cell_digits)

lemma cell_concat: "(\<And>x. x \<in> set xs \<Longrightarrow> cell (f x)) \<Longrightarrow> cell (concat (map f xs))"
  by (induction xs) simp_all

lemma newline_escape: "CHR 0x0A \<in> set (html_escape s) \<longleftrightarrow> CHR 0x0A \<in> set s"
  by (induction s) (auto simp: html_escape_def)

lemma cell_markdown [simp]: "cell (markdown_cell s)"
proof -
  have "is_linebreak (CHR 0x0A)" by (simp add: is_linebreak_def code_def)
  then have "CHR 0x0A \<notin> set (safe s)" using safe_text_clean clean_no_linebreak by (metis safe_def)
  then have "CHR 0x0A \<notin> set (html_escape (safe s))" by (simp add: newline_escape)
  then have no_newline: "c \<noteq> CHR 0x0A" if "c \<in> set (html_escape (safe s))" for c using that by metis
  have bar: "is_markdown (CHR ''|'')" by (simp add: is_markdown_def code_def)
  show ?thesis
    unfolding markdown_cell_def
    by (rule cell_concat) (use no_newline bar in auto)
qed

lemma cell_numbers [simp]: "cell (show_fixed2 r)" "cell (seconds_cell v)" "cell (show_tenths h)"
  by (simp_all add: show_fixed2_def show_hundredths_def seconds_cell_def show_tenths_def Let_def split: prod.splits)

lemma cell_passing [simp]: "cell (passing_cell verified m)"
  by (simp add: passing_cell_def split: option.splits)

lemma cell_timings: "list_all cell (timing_cells c)"
  by (simp add: timing_cells_def split: pyval.splits list.splits)

lemma cell_join: "list_all cell ws \<Longrightarrow> cell sep \<Longrightarrow> cell (join sep ws)"
  by (induction sep ws rule: join.induct) simp_all

lemma newline_join: "\<forall>w\<in>set ws. CHR 0x0A \<notin> set w \<Longrightarrow> CHR 0x0A \<notin> set sep \<Longrightarrow> CHR 0x0A \<notin> set (join sep ws)"
  using join_chars [of sep ws] by auto

lemma newline_row: "list_all cell cells \<Longrightarrow> CHR 0x0A \<notin> set (table_row cells)"
  using newline_join [of cells "'' | ''"] by (auto simp: table_row_def cell_def list_all_iff)

lemma row_columns:
  assumes "list_all cell cells" "cells \<noteq> []"
  shows "split_on (CHR ''|'') (table_row cells) = [] # map (\<lambda>w. '' '' @ w @ '' '') cells @ [[]]"
proof -
  have tail: "split_on (CHR ''|'') (join '' | '' ws @ '' |'') = (hd ws @ '' '') # map (\<lambda>w. '' '' @ w @ '' '') (tl ws) @ [[]]"
    if "list_all cell ws" "ws \<noteq> []" for ws
    using that
  proof (induction "'' | ''" ws rule: join.induct)
    case (2 w)
    then show ?case using split_on_append [of "CHR ''|''" "w @ '' ''" "[]"] by (simp add: cell_def)
  next
    case (3 w v ws)
    then have "split_on (CHR ''|'') (join '' | '' (v # ws) @ '' |'') = (v @ '' '') # map (\<lambda>w. '' '' @ w @ '' '') ws @ [[]]"
      by simp
    then have "split_on (CHR ''|'') (CHR '' '' # join '' | '' (v # ws) @ '' |'') =
        ('' '' @ v @ '' '') # map (\<lambda>w. '' '' @ w @ '' '') ws @ [[]]" by simp
    then show ?case
      using 3 split_on_append [of "CHR ''|''" "w @ '' ''" "CHR '' '' # join '' | '' (v # ws) @ '' |''"]
      by (simp add: cell_def)
  qed simp
  from tail [OF assms] assms(2) show ?thesis
    by (cases cells) (simp_all add: table_row_def)
qed

lemma case_row_cells: "\<exists>cells. case_row c = table_row cells \<and> list_all cell cells \<and> length cells = 7"
proof (intro exI conjI)
  show "case_row c = table_row ([markdown_cell (text_at c ''behavior_id''), markdown_cell (text_at c ''driver''),
      (if text_at c ''status'' \<noteq> ''passed'' then ''**'' @ markdown_cell (status_label (text_at c ''status'')) @ ''**''
       else markdown_cell (status_label (text_at c ''status'')))] @ timing_cells c)" (is "_ = table_row ?cells")
    by (simp only: case_row_def Let_def)
  show "list_all cell ?cells" using cell_timings [of c] by simp
  show "length ?cells = 7" by (simp add: timing_cells_def)
qed

lemma coverage_cells: "r \<in> set (coverage_rows report coverage) \<Longrightarrow> list_all cell (row_cells r)"
proof -
  have "list_all (\<lambda>(kind, key, label). cell label) row_groups" by (simp add: row_groups_def)
  then have labels: "(kind, key, label) \<in> set row_groups \<Longrightarrow> cell label" for kind key label
    by (auto simp: list_all_iff)
  assume "r \<in> set (coverage_rows report coverage)"
  then show ?thesis
    by (auto simp: coverage_rows_def row_cells_def labels split: option.splits)
qed

lemma accounting_cells: "r \<in> set (option_accounting_rows report coverage) \<Longrightarrow> list_all cell (row_cells r)"
  by (auto simp: option_accounting_rows_def row_cells_def split: option.splits)

lemma newline_case_row: "CHR 0x0A \<notin> set (case_row c)"
  using case_row_cells [of c] newline_row by metis

lemma newline_texts: "CHR 0x0A \<notin> set (markdown_cell s)" "CHR 0x0A \<notin> set (wall_time report)"
  "CHR 0x0A \<notin> set (result_heading report coverage status)" "CHR 0x0A \<notin> set (status_totals report)"
proof -
  show "CHR 0x0A \<notin> set (markdown_cell s)" using cell_markdown by (simp add: cell_def)
  have "cell (wall_time report)" by (simp add: wall_time_def split: pyval.splits)
  then show "CHR 0x0A \<notin> set (wall_time report)" by (simp add: cell_def)
  have "cell (result_heading report coverage status)" by (simp add: result_heading_def)
  then show "CHR 0x0A \<notin> set (result_heading report coverage status)" by (simp add: cell_def)
  have "cell (status_totals report)"
    unfolding status_totals_def Let_def by (rule cell_join) (simp_all add: status_labels_def)
  then show "CHR 0x0A \<notin> set (status_totals report)" by (simp add: cell_def)
qed

lemma newline_summary:
  assumes "l \<in> set (summary_lines report coverage status)"
  shows "CHR 0x0A \<notin> set l"
proof -
  have rows: "\<forall>r\<in>set (option_accounting_rows report coverage). CHR 0x0A \<notin> set (table_row (row_cells r))"
    "\<forall>r\<in>set (coverage_rows report coverage). CHR 0x0A \<notin> set (table_row (row_cells r))"
    using accounting_cells coverage_cells newline_row by blast+
  show ?thesis
  proof (cases "option_accounting_rows report coverage")
    case Nil
    with assms rows show ?thesis
      unfolding summary_lines_def by (auto simp: newline_texts newline_case_row split: if_splits)
  next
    case (Cons r rs)
    with assms rows show ?thesis
      unfolding summary_lines_def Cons list.case by (auto simp: newline_texts newline_case_row split: if_splits)
  qed
qed

text \<open>C20: Nothing a report contains can add a line or a column to the GitHub summary: it splits at
  newlines into exactly the lines built for it, and the row of a case splits at bars into exactly
  its seven cells, whatever the case's identifier, driver and status are.\<close>

theorem summary_sealed:
  "split_on (CHR 0x0A) (github_summary report coverage status) = summary_lines report coverage status @ [''''] \<and>
   length (split_on (CHR ''|'') (case_row c)) = 9"
proof
  let ?ls = "summary_lines report coverage status"
  have "join sep (ls @ ['''']) = join sep ls @ sep" if "ls \<noteq> []" for ls and sep :: string
    using that by (induction sep ls rule: join.induct) simp_all
  moreover have "?ls \<noteq> []" by (simp add: summary_lines_def)
  ultimately have "github_summary report coverage status = join [CHR 0x0A] (?ls @ [''''])"
    by (simp add: github_summary_def)
  then show "split_on (CHR 0x0A) (github_summary report coverage status) = ?ls @ ['''']"
    using newline_summary by (simp add: split_on_join)
  from case_row_cells [of c] obtain cells where
    "case_row c = table_row cells" "list_all cell cells" "length cells = 7" by blast
  then show "length (split_on (CHR ''|'') (case_row c)) = 9"
    using row_columns [of cells] by (cases cells) simp_all
qed

section \<open>Progress on the console\<close>

record console =
  con_color :: bool
  con_total :: nat
  con_completed :: nat
  con_driver_width :: nat
  con_case_width :: nat
  con_lines :: "string list" \<comment> \<open>what was printed\<close>

definition width_of :: "pyval list \<Rightarrow> string \<Rightarrow> nat" where
  "width_of selected key = fold max (map (\<lambda>c. length (safe (text_at c key))) selected) 0"

definition new_console :: "pyval list \<Rightarrow> bool \<Rightarrow> console" where
  "new_console selected color = \<lparr>con_color = color, con_total = length selected, con_completed = 0,
     con_driver_width = width_of selected ''driver'', con_case_width = width_of selected ''behavior_id'', con_lines = []\<rparr>"

definition paint :: "console \<Rightarrow> string \<Rightarrow> nat \<Rightarrow> string" where
  "paint con s n = (if con_color con then esc # ''['' @ show_nat n @ ''m'' @ s @ esc # ''[0m'' else s)"

definition put_line :: "string \<Rightarrow> (console, unit) action" where
  "put_line s = modifyP (\<lambda>con. con\<lparr>con_lines := con_lines con @ [s]\<rparr>)"

definition failure_reasons :: "pyval \<Rightarrow> string list" where
  "failure_reasons c = map (\<lambda>key. text_at c key) (filter (has c) [''error'', ''cleanup_error'']) @
     map (\<lambda>(capability, reason). capability @ '': '' @ text_of reason)
       (entries_of (get_or c ''unsupported_capabilities'' (PObj [])))"

definition case_finished :: "pyval \<Rightarrow> (console, unit) action" where
  "case_finished c =
     thenP (modifyP (\<lambda>con. con\<lparr>con_completed := con_completed con + 1\<rparr>))
     (bindP (liftP (item status_labels (text_at c ''status''))) (\<lambda>(label, colour).
      let runtime = (case get_or c ''duration_seconds'' PNone of PNone \<Rightarrow> ''not timed'' | d \<Rightarrow> seconds_cell d) in
      thenP (bindP (readP id) (\<lambda>con.
        let progress = ''['' @ pad_left (length (show_nat (con_total con))) (show_nat (con_completed con)) @ ''/'' @
              show_nat (con_total con) @ '']'' in
        put_line (paint con progress 2 @ '' '' @ paint con (pad_right 11 label) colour @ '' '' @
          pad_right (con_driver_width con) (safe (text_at c ''driver'')) @ '' '' @
          pad_right (con_case_width con) (safe (text_at c ''behavior_id'')) @ '' '' @ runtime)))
      (whenP (failure_reasons c \<noteq> []) (put_line (''    '' @ safe (join ''; '' (failure_reasons c)))))))"

definition console_setup_error :: "string \<Rightarrow> string \<Rightarrow> (console, unit) action" where
  "console_setup_error status error = bindP (liftP (item status_labels status)) (\<lambda>(label, colour).
     bindP (readP id) (\<lambda>con. put_line (paint con label colour @ '' setup: '' @ safe error)))"

definition three_columns :: "string \<times> string \<times> string \<Rightarrow> string" where
  "three_columns r = (case r of (label, shown, whole) \<Rightarrow>
     ''  '' @ pad_right 24 label @ '' '' @ pad_left 16 shown @ '' '' @ pad_left 7 whole)"

definition invalid_reason :: "pyval \<Rightarrow> coverage_summary option \<Rightarrow> string" where
  "invalid_reason report coverage = (case coverage of
     None \<Rightarrow> ''unverified: No coverage report available''
   | Some c \<Rightarrow> v_status (s_verification c) @ '': '' @ v_reason (s_verification c))"

definition slow_line :: "console \<Rightarrow> pyval \<Rightarrow> string" where
  "slow_line con c =
     (let status = text_at c ''status'';
          (label, colour) = (case map_of status_labels status of Some x \<Rightarrow> x | None \<Rightarrow> (safe status, 33)) in
      ''  '' @ paint con (pad_right 11 label) colour @ '' '' @
      pad_right (con_driver_width con) (safe (text_at c ''driver'')) @ '' '' @
      pad_right (con_case_width con) (safe (text_at c ''behavior_id'')) @ '' '' @
      join '' '' (map (pad_left 9) (timing_cells c)))"

definition console_summary :: "pyval \<Rightarrow> coverage_summary option \<Rightarrow> string \<Rightarrow> int \<Rightarrow> (console, unit) action" where
  "console_summary report coverage out status = bindP (readP id) (\<lambda>con.
     let invalid = \<not> report_verified report coverage; slowest = slowest_cases report in
     steps (map put_line (
       [''\<newline>'' @ paint con (result_heading report coverage status) (if invalid \<or> status \<noteq> 0 then 31 else 32) @
          '' | '' @ wall_time report @ '' wall time'',
        ''  '' @ status_totals report] @
       (if invalid then [''  '' @ safe (''Artifact integrity: '' @ known_or_unverified (integrity_status report) @
          ''; coverage verification: '' @ invalid_reason report coverage)] else []) @
       [''  Full compatibility coverage is incomplete.'', ''\<newline>Coverage                    Passing           Total''] @
       map three_columns (coverage_rows report coverage) @
       (case option_accounting_rows report coverage of [] \<Rightarrow> [] | rows \<Rightarrow>
          ''\<newline>Option inventory (equivalence is not behavioral coverage)'' # map three_columns rows) @
       [''\<newline>Slowest selected cases:'', ''  '' @ pad_right 11 ''Status'' @ '' '' @
          pad_right (con_driver_width con) ''Driver'' @ '' '' @ pad_right (con_case_width con) ''Case'' @
          ''     Total     Setup Execution   Cleanup''] @
       map (slow_line con) slowest @
       (if slowest = [] then [''  No executed case timings available.''] else []) @
       [''Results: '' @ safe_text 4096 (out @ ''/report.json''), ''Coverage: '' @ safe_text 4096 (out @ ''/coverage.md'')])))"

text \<open>C21: The summary lists the slowest cases: at most ten, in order of falling duration, each a timed
  case of the report, and no timed case that is left out is slower than one that is listed.\<close>

theorem slowest_listed:
  "length (slowest_cases report) \<le> 10 \<and>
   sorted (map slow_key (slowest_cases report)) \<and>
   (\<forall>c\<in>set (slowest_cases report). c \<in> set (items_at report ''results'') \<and> was_timed c) \<and>
   (\<forall>c\<in>set (items_at report ''results''). was_timed c \<longrightarrow> c \<in> set (slowest_cases report) \<or>
      (\<forall>d\<in>set (slowest_cases report). seconds_value (fld c ''duration_seconds'') \<le> seconds_value (fld d ''duration_seconds'')))"
proof -
  let ?all = "sort_key slow_key (filter was_timed (items_at report ''results''))"
  have split: "?all = slowest_cases report @ drop 10 ?all" by (simp add: slowest_cases_def)
  have ordered: "sorted (map slow_key ?all)" by simp
  then have "sorted (map slow_key (slowest_cases report) @ map slow_key (drop 10 ?all))"
    using split by (metis map_append)
  then have parts: "sorted (map slow_key (slowest_cases report))"
    "\<forall>d\<in>set (slowest_cases report). \<forall>c\<in>set (drop 10 ?all). slow_key d \<le> slow_key c"
    by (auto simp: sorted_append)
  have mem: "c \<in> set (items_at report ''results'') \<and> was_timed c \<longleftrightarrow>
      c \<in> set (slowest_cases report) \<or> c \<in> set (drop 10 ?all)" for c
  proof -
    have "set ?all = set (slowest_cases report) \<union> set (drop 10 ?all)" by (metis split set_append)
    then show ?thesis by auto
  qed
  have later: "seconds_value (fld c ''duration_seconds'') \<le> seconds_value (fld d ''duration_seconds'')"
    if "slow_key d \<le> slow_key c" for c d
    using that by (auto simp: slow_key_def less_eq_prod_def less_prod_def split: if_splits)
  have "length (slowest_cases report) \<le> 10" by (simp add: slowest_cases_def)
  with parts mem later show ?thesis by blast
qed

definition sample_timed :: pyval where
  "sample_timed = PObj [(''results'', PList [PObj [(''behavior_id'', PStr ''b''), (''driver'', PStr ''cli''),
     (''profile'', PStr ''user''), (''status'', PStr ''passed''), (''duration_seconds'', PFloat (Fin 2))]])]"

theorem slowest_listed_witness:
  "items_at sample_timed ''results'' \<noteq> [] \<and> slowest_cases sample_timed = items_at sample_timed ''results'' \<and>
   list_all was_timed (slowest_cases sample_timed)"
proof -
  have "slowest_cases sample_timed = items_at sample_timed ''results''"
    by (simp add: slowest_cases_def sample_timed_def items_at_def get_or_def was_timed_def has_key_def text_at_def fld_def)
  moreover have "items_at sample_timed ''results'' \<noteq> []"
    by (simp add: sample_timed_def items_at_def get_or_def)
  ultimately show ?thesis using slowest_listed [of sample_timed] unfolding list_all_iff by blast
qed

end
