(* ===== verification/Driver.thy ===== *)
theory Driver
  imports Session Coverage_Report
begin

text \<open>
  The public runner helpers of \<open>run.py\<close>: the classification of failures, the execution of one
  command with its evidence record, and the \<open>Driver\<close> through which every scenario talks to the
  tested program. A driver call leaves exactly one record of the command it ran, whatever its
  outcome.
\<close>

section \<open>Failures\<close>

definition failure_status :: "exn \<Rightarrow> string" where
  "failure_status e =
     (if instance_of e DiagnosticFailure then ''setup-error''
      else if instance_of e PrerequisiteError then ''unmet-prerequisite''
      else if instance_of e UnsupportedCapability then ''unsupported''
      else if instance_of e ContractFailure then ''failed''
      else ''setup-error'')"

definition security_prefixes :: "string list" where
  "security_prefixes = [''auth.'', ''remote-auth.'', ''multiuser.auth-'', ''sandbox.'', ''oci-signatures.'']"

definition security_failure :: "pyval \<Rightarrow> bool" where
  "security_failure r \<longleftrightarrow> text_at r ''status'' = ''failed'' \<and>
     (startswith_any (text_at r ''behavior_id'') security_prefixes \<or>
      text_at r ''behavior_id'' = ''transaction.pre-auth'')"

text \<open>The coverage summary of a report is a record beside its dictionary.\<close>

definition expected_scenario_failures_only :: "pyval \<Rightarrow> coverage_summary option \<Rightarrow> int \<Rightarrow> bool \<Rightarrow> bool" where
  "expected_scenario_failures_only report coverage status summary_delivered =
     (let results = items_at report ''results'';
          case_statuses = map (\<lambda>r. text_at r ''status'') results in
      status = 1 \<and> summary_delivered \<and> get_or report ''complete'' PNone = PBool True \<and>
      \<not> has report ''setup_error'' \<and> ''failed'' \<in> set case_statuses \<and>
      \<not> list_ex security_failure results \<and>
      set case_statuses \<subseteq> {''passed'', ''failed'', ''not-selected''} \<and>
      get_or (get_or report ''artifact_integrity'' (PObj [])) ''status'' PNone = PStr ''verified'' \<and>
      (case coverage of None \<Rightarrow> False | Some c \<Rightarrow> v_status (s_verification c) = ''current''))"

definition require :: "bool \<Rightarrow> string \<Rightarrow> unit prog" where
  "require ok message = guardP ok ContractFailure message"

section \<open>Executing a command\<close>

record completed =
  cp_args :: "string list"
  returncode :: int
  stdout :: string
  stderr :: string

definition repr_strings :: "string list \<Rightarrow> string" where
  "repr_strings xs = repr_list (map repr_str xs)"

definition repr_arguments :: "string list \<Rightarrow> string" where
  "repr_arguments xs = repr_tuple (map repr_str xs)"

text \<open>\<open>limit\<close> is the timeout as the runner prints it.\<close>

definition finish_command :: "string list \<Rightarrow> string \<Rightarrow> outcome \<Rightarrow> completed prog" where
  "finish_command argv limit result = (case result of
     Refused e \<Rightarrow> if instance_of e FileNotFoundError
       then thenP (update_last [(''error'', PStr (exn_msg e))]) (raiseP PrerequisiteError (exn_msg e))
       else liftP (Inl e)
   | Expired st out err \<Rightarrow> thenP (update_last [(''stdout'', PStr out), (''stderr'', PStr err),
         (''timed_out'', PBool True), (''exit_status'', PInt st)])
       (raiseP DiagnosticFailure (''command timed out after '' @ limit @ ''s: '' @ repr_strings argv))
   | Exited st out err \<Rightarrow> thenP (update_last [(''stdout'', PStr out), (''stderr'', PStr err),
         (''exit_status'', PInt st)])
       (ret \<lparr>cp_args = argv, returncode = st, stdout = out, stderr = err\<rparr>))"

definition execute :: "string list \<Rightarrow> environ \<Rightarrow> string \<Rightarrow> string \<Rightarrow> completed prog" where
  "execute argv env cwd limit =
     thenP (append_record [(''argv'', PList (map PStr argv))])
       (\<lambda>s. case spawn argv env cwd s of (result, s') \<Rightarrow> finish_command argv limit result s')"

section \<open>The driver\<close>

record driver =
  driver_kind :: string
  driver_cli :: string
  driver_client :: "string option"
  driver_env :: environ
  driver_root :: string
  driver_timeout :: string

definition external_interfaces :: "string list" where
  "external_interfaces = [''cli'', ''library'', ''setup'']"

text \<open>The client reports its public calls and signals as marked lines of its error stream.\<close>

definition marked_lines :: "string \<Rightarrow> string \<Rightarrow> string list" where
  "marked_lines prefix text = sorted_set (map (\<lambda>l. removeprefix l prefix)
     (filter (\<lambda>l. startswith l prefix) (splitlines text)))"

definition interface_fields :: "string \<Rightarrow> string \<Rightarrow> dict" where
  "interface_fields interface err =
     (if interface \<noteq> ''setup'' then [(''interface'', PStr interface)] else []) @
     (if interface = ''library'' then
        [(''api_calls'', PList (map PStr (marked_lines ''api-call '' err))),
         (''signals'', PList (map PStr (marked_lines ''signal-event '' err)))] else [])"

definition external_call :: "driver \<Rightarrow> string list \<Rightarrow> string \<Rightarrow> completed prog" where
  "external_call d argv interface =
     (if interface \<notin> set external_interfaces
      then raiseP ValueError (''invalid external command interface: '' @ interface)
      else bindP (execute argv (driver_env d) (driver_root d) (driver_timeout d)) (\<lambda>result.
        thenP (update_last (interface_fields interface (stderr result))) (ret result)))"

definition check :: "driver \<Rightarrow> bool \<Rightarrow> string \<Rightarrow> unit prog" where
  "check d ok message = require ok message"

definition cli_call :: "driver \<Rightarrow> string list \<Rightarrow> completed prog" where
  "cli_call d arguments = external_call d (driver_cli d # arguments) ''cli''"

definition cli_success :: "driver \<Rightarrow> string list \<Rightarrow> string prog" where
  "cli_success d arguments = bindP (cli_call d arguments) (\<lambda>result.
     thenP (require (returncode result = 0) (''CLI '' @ repr_arguments arguments @ '' failed: '' @ stderr result))
       (ret (strip (stdout result))))"

definition setup_cli_success :: "driver \<Rightarrow> string list \<Rightarrow> string prog" where
  "setup_cli_success d arguments = bindP (cli_call d arguments) (\<lambda>result.
     thenP (guardP (returncode result = 0) DiagnosticFailure
         (''CLI setup '' @ repr_arguments arguments @ '' failed: '' @ stderr result))
       (ret (strip (stdout result))))"

text \<open>Tuple unpacking \<open>a, b, ... = arguments\<close> of a fixed number of elements.\<close>

definition unpack :: "nat \<Rightarrow> string list \<Rightarrow> unit result" where
  "unpack n xs =
     (if length xs < n then raise ValueError (''not enough values to unpack (expected '' @ show_nat n @
        '', got '' @ show_nat (length xs) @ '')'')
      else guardE (length xs = n) ValueError (''too many values to unpack (expected '' @ show_nat n @ '')''))"

definition remote_cli_args :: "string \<Rightarrow> string list \<Rightarrow> string list option result" where
  "remote_cli_args operation arguments =
     (if operation \<in> {''remote-create'', ''remote-edit''} then
        bindE (unpack 4 arguments) (\<lambda>_.
          let name = arguments ! 0; url = arguments ! 1; title = arguments ! 2; priority = arguments ! 3 in
          Inr (Some (if operation = ''remote-create''
            then [''remote-add'', ''--user'', ''--no-gpg-verify'', ''--title='' @ title, ''--prio='' @ priority, name, url]
            else [''remote-modify'', ''--user'', ''--url='' @ url, ''--title='' @ title, ''--prio='' @ priority, name])))
      else if operation = ''remote-list'' then
        bindE (guardE (arguments = []) ValueError ''remote-list takes no arguments'') (\<lambda>_.
          Inr (Some [''remotes'', ''--user'', ''--show-disabled'', ''--columns=name,url,title,priority'']))
      else if operation = ''remote-delete'' then
        bindE (unpack 1 arguments) (\<lambda>_. Inr (Some [''remote-delete'', ''--user'', arguments ! 0]))
      else Inr None)"

definition cli_commands :: "string \<Rightarrow> (string \<times> string list) list" where
  "cli_commands argument = [
     (''remote'', [''remote-add'', ''--user'', ''--no-gpg-verify'', ''fixture'', argument]),
     (''install'', [''install'', ''--user'', ''--noninteractive'', ''fixture'', argument]),
     (''update'', [''update'', ''--user'', ''--noninteractive'', argument]),
     (''uninstall'', [''uninstall'', ''--user'', ''--noninteractive'', argument]),
     (''query'', [''info'', ''--user'', ''--show-ref'', ''--show-commit'', argument]),
     (''list-apps'', [''list'', ''--user'', ''--app'', ''--columns=application'']),
     (''list-refs'', [''list'', ''--user'', ''--columns=ref''])]"

text \<open>The command line of an operation; an application always starts through the CLI.\<close>

definition call_argv :: "driver \<Rightarrow> string \<Rightarrow> string list \<Rightarrow> string list result" where
  "call_argv d operation arguments =
     (if operation = ''run'' then Inr ([driver_cli d, ''run'', ''--user''] @ arguments)
      else if driver_kind d = ''library'' then
        (case driver_client d of None \<Rightarrow> raise AssertionError ''''
         | Some client \<Rightarrow> Inr (client # operation # arguments))
      else bindE (remote_cli_args operation arguments) (\<lambda>remote. case remote of
          Some args \<Rightarrow> Inr (driver_cli d # args)
        | None \<Rightarrow> bindE (unpack 1 arguments) (\<lambda>_.
            bindE (item (cli_commands (arguments ! 0)) operation) (\<lambda>args. Inr (driver_cli d # args)))))"

definition call_interface :: "driver \<Rightarrow> string \<Rightarrow> string" where
  "call_interface d operation =
     (if driver_kind d = ''library'' \<and> operation \<noteq> ''run'' then ''library'' else ''cli'')"

definition call :: "driver \<Rightarrow> string \<Rightarrow> string list \<Rightarrow> completed prog" where
  "call d operation arguments = bindP (liftP (call_argv d operation arguments))
     (\<lambda>argv. external_call d argv (call_interface d operation))"

definition success :: "driver \<Rightarrow> string \<Rightarrow> string list \<Rightarrow> string prog" where
  "success d operation arguments = bindP (call d operation arguments) (\<lambda>result.
     thenP (require (returncode result = 0) (driver_kind d @ '' '' @ operation @ '' failed: '' @ stderr result))
       (ret (strip (stdout result))))"

definition setup_success :: "driver \<Rightarrow> string \<Rightarrow> string list \<Rightarrow> string prog" where
  "setup_success d operation arguments = bindP (call d operation arguments) (\<lambda>result.
     thenP (guardP (returncode result = 0) DiagnosticFailure
         (driver_kind d @ '' '' @ operation @ '' setup failed: '' @ stderr result))
       (ret (strip (stdout result))))"

text \<open>Statements that discard a result.\<close>

definition ignore :: "'a prog \<Rightarrow> unit prog" where
  "ignore m = bindP m (\<lambda>_. ret ())"

definition error_statuses :: "(string \<times> int) list" where
  "error_statuses = [(''NOT_INSTALLED'', 3), (''ALREADY_INSTALLED'', 4), (''REF_NOT_FOUND'', 5)]"

definition error_diagnostics :: "(string \<times> string list) list" where
  "error_diagnostics = [
     (''NOT_INSTALLED'', [''not installed'', ''nothing matches'', ''no installed refs found'']),
     (''REF_NOT_FOUND'', [''no remote refs found'', ''not found'', ''nothing matches''])]"

definition ref_identity :: "string \<Rightarrow> string result" where
  "ref_identity ref = (case split_on (CHR ''/'') ref of _ # identity # _ \<Rightarrow> Inr identity
     | _ \<Rightarrow> raise IndexError ''list index out of range'')"

definition mentions :: "string list \<Rightarrow> string \<Rightarrow> bool" where
  "mentions needles text = list_ex (\<lambda>n. contains n (casefold text)) needles"

definition expect_error :: "driver \<Rightarrow> string \<Rightarrow> string \<Rightarrow> string \<Rightarrow> unit prog" where
  "expect_error d operation ref error_name = bindP (call d operation [ref]) (\<lambda>result.
     if driver_kind d = ''library'' then
       bindP (liftP (item error_statuses error_name)) (\<lambda>expected.
       require (returncode result = expected) (operation @ '': expected public '' @ error_name @
         '' error, got client status '' @ show_int (returncode result) @ '': '' @ stderr result))
     else thenP (require (0 < returncode result) (operation @ '' must fail for '' @ ref))
       (bindP (liftP (ref_identity ref)) (\<lambda>identity.
        thenP (require (contains identity (stderr result)) (operation @ '' diagnostic must identify the requested ref''))
       (bindP (liftP (item error_diagnostics error_name)) (\<lambda>texts.
        require (mentions texts (stderr result)) (operation @ '' failed for an unrelated reason: '' @ stderr result))))))"

definition query :: "driver \<Rightarrow> string \<Rightarrow> string option \<Rightarrow> string prog" where
  "query d ref commit = bindP (success d ''query'' [ref]) (\<lambda>output.
     let ps = split_ws output; actual_ref = ps ! 0; actual_commit = ps ! 1 in
     thenP (require (length ps = 2) (''expected ref and commit, got '' @ repr_str output))
     (thenP (require (actual_ref = ref) (''queried ref '' @ repr_str actual_ref @ '' differs from '' @ repr_str ref))
     (thenP (case commit of None \<Rightarrow> ret ()
       | Some c \<Rightarrow> require (actual_commit = c) (''expected commit '' @ c @ '', got '' @ actual_commit))
     (ret actual_commit))))"

section \<open>The audit trail\<close>

text \<open>
  \<open>audited s t\<close>: between the two sessions the evidence was only appended to, the records of the
  appended part that carry arguments are exactly the commands that ran, in order, every
  appended record is an \<open>EvidenceRecord\<close>, and the repository's request log only grew.
\<close>

definition record_ok :: "dict \<Rightarrow> bool" where
  "record_ok r = has_type (PObj r) evidence_record_class"

fun command_argv :: "event \<Rightarrow> string list option" where
  "command_argv (Command argv _ _ _ _) = Some argv"
| "command_argv _ = None"

definition record_argv :: "dict \<Rightarrow> string list option" where
  "record_argv r = map_option (\<lambda>v. map text_of (elements_of v)) (map_of r ''argv'')"

definition audited :: "session \<Rightarrow> session \<Rightarrow> bool" where
  "audited s t \<longleftrightarrow> world t = world s \<and>
     (\<exists>evs recs reqs. trace t = trace s @ evs \<and> evidence t = evidence s @ recs \<and>
        requests (repository t) = requests (repository s) @ reqs \<and>
        List.map_filter record_argv recs = List.map_filter command_argv evs \<and>
        (\<forall>r\<in>set recs. record_ok r))"

lemma map_filter_append: "List.map_filter f (xs @ ys) = List.map_filter f xs @ List.map_filter f ys"
  by (simp add: List.map_filter_def)

lemma auditedI:
  assumes "world t = world s" "trace t = trace s @ evs" "evidence t = evidence s @ recs"
    "requests (repository t) = requests (repository s) @ reqs"
    "List.map_filter record_argv recs = List.map_filter command_argv evs" "\<And>r. r \<in> set recs \<Longrightarrow> record_ok r"
  shows "audited s t"
  using assms unfolding audited_def by blast

interpretation audit: run_relation audited
proof
  show "audited s s" for s by (rule auditedI [of _ _ "[]" "[]" "[]"]) simp_all
next
  fix s t u
  assume "audited s t" and "audited t u"
  then obtain e1 r1 q1 e2 r2 q2 where
    "world t = world s" "trace t = trace s @ e1" "evidence t = evidence s @ r1"
    "requests (repository t) = requests (repository s) @ q1"
    "List.map_filter record_argv r1 = List.map_filter command_argv e1" "\<forall>r\<in>set r1. record_ok r"
    "world u = world t" "trace u = trace t @ e2" "evidence u = evidence t @ r2"
    "requests (repository u) = requests (repository t) @ q2"
    "List.map_filter record_argv r2 = List.map_filter command_argv e2" "\<forall>r\<in>set r2. record_ok r"
    unfolding audited_def by blast
  then show "audited s u"
    by (intro auditedI [of _ _ "e1 @ e2" "r1 @ r2" "q1 @ q2"]) (auto simp: map_filter_append)
qed

definition evidence_field :: "string \<Rightarrow> pyval \<Rightarrow> bool" where
  "evidence_field k v = (case evidence_record_class of ATyped _ fs \<Rightarrow>
     list_all (\<lambda>(j, r, a). j = k \<longrightarrow> has_type v a) fs | _ \<Rightarrow> False)"

lemma evidence_field_simps [simp]:
  "evidence_field ''argv'' v \<longleftrightarrow> has_type v (AList AStr)"
  "evidence_field ''cli_argv'' v \<longleftrightarrow> has_type v (AList AStr)"
  "evidence_field ''interface'' v \<longleftrightarrow> has_type v AStr"
  "evidence_field ''exit_status'' v \<longleftrightarrow> has_type v AInt"
  "evidence_field ''stdout'' v \<longleftrightarrow> has_type v AStr"
  "evidence_field ''stderr'' v \<longleftrightarrow> has_type v AStr"
  "evidence_field ''api_calls'' v \<longleftrightarrow> has_type v (AList AStr)"
  "evidence_field ''signals'' v \<longleftrightarrow> has_type v (AList AStr)"
  "evidence_field ''observation'' v \<longleftrightarrow> has_type v AStr"
  "evidence_field ''data'' v \<longleftrightarrow> has_type v AJson"
  "evidence_field ''error'' v \<longleftrightarrow> has_type v AStr"
  "evidence_field ''timed_out'' v \<longleftrightarrow> has_type v ABool"
  by (simp_all add: evidence_field_def evidence_record_class_def)

lemma has_type_strings [simp]: "has_type (PList (map PStr xs)) (AList AStr)"
  by (auto simp: has_type_list)

text \<open>Every field of an evidence record is optional.\<close>

definition evidence_fields :: "(string \<times> bool \<times> annot) list" where
  "evidence_fields = (case evidence_record_class of ATyped _ fs \<Rightarrow> fs | _ \<Rightarrow> [])"

lemma evidence_fields_optional: "list_all (\<lambda>(k, r, a). \<not> r \<and> k \<noteq> ''schema'') evidence_fields"
  by (simp add: evidence_fields_def evidence_record_class_def)

lemma record_ok_iff:
  "record_ok r \<longleftrightarrow> (\<forall>k v. map_of r k = Some v \<longrightarrow> evidence_field k v)"
proof -
  have cls: "evidence_record_class = ATyped ''EvidenceRecord'' evidence_fields"
    by (simp add: evidence_fields_def evidence_record_class_def)
  have fld: "evidence_field k v \<longleftrightarrow> (\<forall>(j, r, a)\<in>set evidence_fields. j = k \<longrightarrow> has_type v a)" for k v
    unfolding evidence_field_def cls annot.case list_all_iff by simp
  have opt: "(k, True, a) \<notin> set evidence_fields" and sch: "''schema'' \<notin> fst ` set evidence_fields" for k a
    using evidence_fields_optional by (auto simp: list_all_iff)
  show ?thesis
    unfolding record_ok_def cls has_type_typed_iff PObj_inject fld using opt sch by blast
qed

lemma record_ok_Nil [simp]: "record_ok []"
  by (simp add: record_ok_iff)

lemma record_ok_Cons [simp]: "evidence_field k v \<Longrightarrow> record_ok r \<Longrightarrow> record_ok ((k, v) # r)"
  by (simp add: record_ok_iff)

lemma record_ok_update [simp]: "record_ok r \<Longrightarrow> evidence_field k v \<Longrightarrow> record_ok (AList.update k v r)"
  by (auto simp: record_ok_iff update_conv' split: if_splits)

lemma record_ok_update_dict: "record_ok r \<Longrightarrow> list_all (\<lambda>(k, v). evidence_field k v) new \<Longrightarrow>
    record_ok (update_dict r new)"
  by (induction new arbitrary: r) (auto simp: update_dict_def)

lemma map_of_update_dict: "k \<notin> fst ` set new \<Longrightarrow> map_of (update_dict r new) k = map_of r k"
  unfolding update_dict_def by (induction new arbitrary: r) (auto simp: update_conv')

lemma record_argv_update_dict: "''argv'' \<notin> fst ` set new \<Longrightarrow> record_argv (update_dict r new) = record_argv r"
  by (simp add: record_argv_def map_of_update_dict)

text \<open>One command, one record: \<open>logs argv m\<close> holds of a program that runs the one command \<open>argv\<close>
  and appends the one record of it.\<close>

definition logged :: "string list \<Rightarrow> session \<Rightarrow> session \<Rightarrow> dict \<Rightarrow> bool" where
  "logged argv s t r \<longleftrightarrow> world t = world s \<and>
     (\<exists>env cwd. trace t = trace s @ [Command argv env cwd (served_version (repository s)) (fail_payloads (repository s))]) \<and>
     evidence t = evidence s @ [r] \<and> record_ok r \<and> record_argv r = Some argv \<and>
     (\<exists>reqs. requests (repository t) = requests (repository s) @ reqs) \<and>
     served_version (repository t) = served_version (repository s) \<and>
     fail_payloads (repository t) = fail_payloads (repository s)"

definition logs :: "string list \<Rightarrow> 'a prog \<Rightarrow> bool" where
  "logs argv m = (\<forall>s. \<exists>r. logged argv s (snd (m s)) r)"

lemma do_GET_requests: "\<exists>reqs. requests (foldl do_GET r ps) = requests r @ reqs"
proof (induction ps arbitrary: r)
  case (Cons p ps)
  then obtain reqs where "requests (foldl do_GET (do_GET r p) ps) = requests (do_GET r p) @ reqs" by blast
  moreover obtain q where "requests (do_GET r p) = requests r @ [q]" by (simp add: do_GET_def)
  ultimately show ?case by simp
qed simp

lemma spawn_requests: "\<exists>reqs. requests (repository (snd (spawn a e c s))) = requests (repository s) @ reqs"
  using do_GET_requests [of "repository s"] by (simp add: spawn_def ask_def Let_def split: prod.split)

lemma logged_audited: "logged argv s t r \<Longrightarrow> audited s t"
  unfolding logged_def by (elim conjE exE, rule auditedI) (auto simp: List.map_filter_def)

lemma logs_audited [intro]: "logs argv m \<Longrightarrow> keeps audited m"
  unfolding logs_def keeps_def using logged_audited by blast

lemma logged_update:
  assumes "logged argv s t r" "list_all (\<lambda>(k, v). evidence_field k v) new" "''argv'' \<notin> fst ` set new"
  shows "logged argv s (snd (update_last new t)) (update_dict r new)"
  using assms by (auto simp: logged_def update_last_def modifyP_def record_argv_update_dict record_ok_update_dict)

lemma logs_update:
  assumes "logs argv m" "\<And>x. list_all (\<lambda>(k, v). evidence_field k v) (new x)" "\<And>x. ''argv'' \<notin> fst ` set (new x)"
  shows "logs argv (bindP m (\<lambda>x. thenP (update_last (new x)) (ret (f x))))"
  unfolding logs_def
proof
  fix s
  obtain res t where m: "m s = (res, t)" by force
  with assms(1) obtain r where r: "logged argv s t r" by (metis logs_def snd_conv)
  show "\<exists>r. logged argv s (snd (bindP m (\<lambda>x. thenP (update_last (new x)) (ret (f x))) s)) r"
  proof (cases res)
    case (Inl e)
    with m r show ?thesis by (auto simp: bindP_def)
  next
    case (Inr x)
    then have "snd (bindP m (\<lambda>x. thenP (update_last (new x)) (ret (f x))) s) = snd (update_last (new x) t)"
      by (simp add: bindP_def m thenP_def update_last_def modifyP_def ret_def)
    with logged_update [OF r assms(2,3)] show ?thesis by auto
  qed
qed

lemma some_bool [simp]: "\<exists>b. b" "\<exists>b. \<not> b"
  by blast+

lemma map_text_of_PStr [simp]: "map (text_of \<circ> PStr) xs = xs"
  by (simp add: comp_def)

lemma finish_command_effect:
  assumes "evidence t = rs @ [[(''argv'', PList (map PStr argv))]]" and "finish_command argv limit result t = (res, u)"
  shows "\<exists>r. evidence u = rs @ [r] \<and> world u = world t \<and> trace u = trace t \<and> repository u = repository t \<and>
    record_ok r \<and> record_argv r = Some argv"
  using assms
  by (cases result)
     (auto simp: finish_command_def thenP_def bindP_def update_last_def modifyP_def raiseP_def liftP_def ret_def
       record_argv_def update_dict_def split: if_splits)

lemma execute_logs: "logs argv (execute argv env cwd limit)"
  unfolding logs_def
proof
  fix s :: session
  let ?s0 = "s\<lparr>evidence := evidence s @ [[(''argv'', PList (map PStr argv))]]\<rparr>"
  obtain result t where sp: "spawn argv env cwd ?s0 = (result, t)" by (cases "spawn argv env cwd ?s0")
  then have t: "t = snd (spawn argv env cwd ?s0)" by simp
  obtain res u where f: "finish_command argv limit result t = (res, u)"
    by (cases "finish_command argv limit result t")
  then obtain r where r: "evidence u = evidence s @ [r]" "world u = world t" "trace u = trace t"
    "repository u = repository t" "record_ok r" "record_argv r = Some argv"
    using finish_command_effect [of t "evidence s" argv limit result res u] t by auto
  have "logged argv s u r"
    using r spawn_requests [of argv env cwd ?s0] unfolding logged_def t by auto
  moreover have "snd (execute argv env cwd limit s) = u"
    by (simp add: execute_def thenP_def bindP_def append_record_def modifyP_def sp f)
  ultimately show "\<exists>r. logged argv s (snd (execute argv env cwd limit s)) r" by auto
qed

lemma external_call_logs:
  "interface \<in> set external_interfaces \<Longrightarrow> logs argv (external_call d argv interface)"
  by (simp add: external_call_def)
     (rule logs_update [OF execute_logs], auto simp: interface_fields_def)


section \<open>Every driver operation keeps the audit trail\<close>

named_theorems audits \<comment> \<open>programs that keep the audit trail\<close>

declare audit.combinators [audits]

lemma audited_external_call [audits]: "keeps audited (external_call d argv interface)"
proof (cases "interface \<in> set external_interfaces")
  case True
  then show ?thesis by (rule logs_audited [OF external_call_logs])
qed (simp add: external_call_def audit.keeps_raise)

lemma audited_execute [audits]: "keeps audited (execute argv env cwd limit)"
  by (rule logs_audited [OF execute_logs])

lemma audited_ask:
  assumes "command_argv ev = None"
  shows "keeps audited (\<lambda>s. ask w ev s)"
  unfolding keeps_def
  by (intro allI auditedI [of _ _ "[ev]" "[]" "[]"]) (use assms in \<open>simp_all add: List.map_filter_def\<close>)

lemma audited_files [audits]:
  "keeps audited (read_text path)" "keeps audited (write_text path text)" "keeps audited (make_directory path)"
  "keeps audited (remove_tree path)" "keeps audited (copy_file path text)" "keeps audited (path_test what path)"
  "keeps audited (lookup_path what path)" "keeps audited (move_file path text)"
  "keeps audited (start_background argv env)" "keeps audited (stop_background argv)" "keeps audited (append_text path text)"
  unfolding read_text_def write_text_def make_directory_def remove_tree_def copy_file_def path_test_def lookup_path_def
    move_file_def append_text_def start_background_def stop_background_def
  by (simp_all add: audited_ask)

lemma audited_clock [audits]: "keeps audited read_clock"
proof -
  have "snd (read_clock s) = snd (ask clock Tick s)" for s by (simp add: read_clock_def split: prod.split)
  then show ?thesis
    unfolding keeps_def
    by (intro allI auditedI [of _ _ "[Tick]" "[]" "[]"]) (simp_all add: List.map_filter_def)
qed

lemma audited_server [audits]: "keeps audited (serve_version v)" "keeps audited (block_payloads b)"
  unfolding keeps_def serve_version_def block_payloads_def modifyP_def
  by (auto intro!: auditedI [of _ _ "[]" "[]" "[]"] simp: List.map_filter_def)

lemma audited_append_record:
  "record_ok r \<Longrightarrow> record_argv r = None \<Longrightarrow> keeps audited (append_record r)"
  unfolding keeps_def append_record_def modifyP_def
  by (auto intro!: auditedI [of _ _ "[]" "[r]" "[]" for r] simp: List.map_filter_def)

lemma audited_require [audits]: "keeps audited (require ok m)"
  unfolding require_def by (intro audits)

lemma audited_check [audits]: "keeps audited (check d ok m)"
  unfolding check_def by (intro audits)

lemma audited_cli [audits]: "keeps audited (cli_call d arguments)" "keeps audited (cli_success d arguments)"
  "keeps audited (setup_cli_success d arguments)"
  unfolding cli_call_def cli_success_def setup_cli_success_def by (intro audits)+

lemma audited_call [audits]: "keeps audited (call d operation arguments)"
  unfolding call_def by (intro audits)

lemma audited_success [audits]: "keeps audited (success d operation arguments)"
  "keeps audited (setup_success d operation arguments)"
  unfolding success_def setup_success_def by (intro audits)+

lemma audited_ignore [audits]: "keeps audited m \<Longrightarrow> keeps audited (ignore m)"
  unfolding ignore_def by (intro audits)

lemma audited_expect_error [audits]: "keeps audited (expect_error d operation ref name)"
  unfolding expect_error_def by (intro audits)

lemma audited_query [audits]: "keeps audited (query d ref commit)"
  unfolding query_def by (intro audits)


lemma audited_objects [audits]: "keeps audited (set_artifact path digest)" "keeps audited (update_provenance new)"
  unfolding keeps_def set_artifact_def update_provenance_def modifyP_def
  by (auto intro!: auditedI [of _ _ "[]" "[]" "[]"] simp: List.map_filter_def)

end
