(* ===== verification/Verdict.thy ===== *)
theory Verdict
  imports Driver
begin

text \<open>
  What a returned scenario has seen. The command log of a session lists the commands of its
  trace with the snapshot the repository then served and the outcome the world gave.
  \<open>earns v m v' Q\<close> is a triple on returning runs: started at snapshot \<open>v\<close>, a returning \<open>m\<close>
  ends at snapshot \<open>v'\<close> and the commands it ran, all of them and in order, satisfy \<open>Q\<close> with its result.
\<close>

type_synonym snapshot = "string \<times> bool"
datatype entry = Entry "string list" snapshot outcome

fun log_from :: "world \<Rightarrow> event list \<Rightarrow> event list \<Rightarrow> entry list" where
  "log_from w pre [] = []"
| "log_from w pre (ev # evs) = (case ev of
     Command argv _ _ v f \<Rightarrow> [Entry argv (v, f) (fst (commands w (pre @ [ev])))] | _ \<Rightarrow> []) @ log_from w (pre @ [ev]) evs"

definition command_log :: "session \<Rightarrow> entry list" where
  "command_log s = log_from (world s) [] (trace s)"

definition snapshot_of_session :: "session \<Rightarrow> snapshot" where
  "snapshot_of_session s = (served_version (repository s), fail_payloads (repository s))"

lemma log_from_append: "log_from w pre (xs @ ys) = log_from w pre xs @ log_from w (pre @ xs) ys"
  by (induction xs arbitrary: pre) auto

lemma command_log_grows:
  "world t = world s \<Longrightarrow> trace t = trace s @ evs \<Longrightarrow> command_log t = command_log s @ log_from (world s) (trace s) evs"
  by (simp add: command_log_def log_from_append)

section \<open>Programs that run no command\<close>

definition hushed :: "session \<Rightarrow> session \<Rightarrow> bool" where
  "hushed s t \<longleftrightarrow> world t = world s \<and> command_log t = command_log s \<and> snapshot_of_session t = snapshot_of_session s"

interpretation hushed_run: run_relation hushed
  by unfold_locales (simp_all add: hushed_def)

named_theorems hushes \<comment> \<open>programs that run no command and leave the snapshot alone\<close>

declare hushed_run.combinators [hushes]

lemma hushed_event: "world t = world s \<Longrightarrow> trace t = trace s @ [ev] \<Longrightarrow> repository t = repository s \<Longrightarrow>
    (\<And>argv e c v f. ev \<noteq> Command argv e c v f) \<Longrightarrow> hushed s t"
proof -
  assume same: "world t = world s" "trace t = trace s @ [ev]" "repository t = repository s"
    and quiet: "\<And>argv e c v f. ev \<noteq> Command argv e c v f"
  have "log_from (world s) (trace s) [ev] = []" using quiet by (cases ev) (simp, blast, simp_all)
  with command_log_grows [OF same(1,2)] same show ?thesis by (simp add: hushed_def snapshot_of_session_def)
qed

lemma hushed_asks [hushes]:
  "keeps hushed (read_text path)" "keeps hushed (write_text path contents)" "keeps hushed (make_directory path)"
  "keeps hushed (lookup_path what path)" "keeps hushed (path_test what path)"
  unfolding keeps_def read_text_def write_text_def make_directory_def lookup_path_def path_test_def ask_def Let_def
  by (auto intro: hushed_event)

lemma hushed_modify: "(\<And>s. hushed s (f s)) \<Longrightarrow> keeps hushed (modifyP f)"
  by (simp add: keeps_def modifyP_def)

lemma hushed_same: "world t = world s \<Longrightarrow> trace t = trace s \<Longrightarrow> repository t = repository s \<Longrightarrow> hushed s t"
  by (simp add: hushed_def command_log_def snapshot_of_session_def)

lemma hushed_records [hushes]:
  "keeps hushed (append_record r)" "keeps hushed (update_last new)" "keeps hushed (set_artifact path digest)"
  "keeps hushed (update_provenance d)"
  unfolding append_record_def update_last_def set_artifact_def update_provenance_def
  by (intro hushed_modify hushed_same; simp)+

lemma hushed_require [hushes]: "keeps hushed (require ok m)"
  unfolding require_def by (intro hushes)

lemma hushed_ignore [hushes]: "keeps hushed m \<Longrightarrow> keeps hushed (ignore m)"
  unfolding ignore_def by (intro hushes)

section \<open>The triple\<close>

definition earns :: "snapshot \<Rightarrow> 'a prog \<Rightarrow> snapshot \<Rightarrow> ('a \<Rightarrow> entry list \<Rightarrow> bool) \<Rightarrow> bool" where
  "earns v m v' Q \<longleftrightarrow> (\<forall>s x t. snapshot_of_session s = v \<longrightarrow> m s = (Inr x, t) \<longrightarrow>
     snapshot_of_session t = v' \<and>
     (\<exists>es. command_log t = command_log s @ es \<and> Q x es))"

lemma earnsD:
  assumes "earns v m v' Q" "snapshot_of_session s = v" "m s = (Inr x, t)"
  obtains es where "command_log t = command_log s @ es" "Q x es" "snapshot_of_session t = v'"
  using assms unfolding earns_def by blast

lemma earns_bind:
  assumes "earns v m v1 P" and "\<And>x es. P x es \<Longrightarrow> earns v1 (f x) v2 (\<lambda>y es'. Q y (es @ es'))"
  shows "earns v (bindP m f) v2 Q"
  unfolding earns_def
proof (intro allI impI)
  fix s y u
  assume v: "snapshot_of_session s = v" and "bindP m f s = (Inr y, u)"
  then obtain x t where m: "m s = (Inr x, t)" and f: "f x t = (Inr y, u)" by (auto simp: bind_Inr_iff)
  from assms(1) v m obtain es1 where 1: "snapshot_of_session t = v1"
    "command_log t = command_log s @ es1" "P x es1" unfolding earns_def by blast
  from assms(2) [OF 1(3)] 1(1) f obtain es2 where 2: "snapshot_of_session u = v2"
    "command_log u = command_log t @ es2" "Q y (es1 @ es2)" unfolding earns_def by blast
  from 1 2 show "snapshot_of_session u = v2 \<and> (\<exists>es. command_log u = command_log s @ es \<and> Q y es)"
    by (intro conjI exI [of _ "es1 @ es2"]) simp_all
qed

lemma earns_then:
  assumes "earns v m v1 (\<lambda>_. P)" and "\<And>es. P es \<Longrightarrow> earns v1 n v2 (\<lambda>y es'. Q y (es @ es'))"
  shows "earns v (thenP m n) v2 Q"
  unfolding thenP_def by (rule earns_bind [OF assms])

lemma earns_ret: "Q x [] \<Longrightarrow> earns v (ret x) v Q"
  by (auto simp: earns_def ret_def)

lemma earns_guard: "(ok \<Longrightarrow> Q () []) \<Longrightarrow> earns v (guardP ok c m) v Q"
  by (auto simp: earns_def guard_Inr_iff)

lemma earns_require: "(ok \<Longrightarrow> Q () []) \<Longrightarrow> earns v (require ok m) v Q"
  unfolding require_def by (rule earns_guard)

lemma earns_raise: "earns v (raiseP c m) v' Q"
  by (auto simp: earns_def raiseP_def liftP_def raise_def)

lemma earns_mono: "earns v m v' P \<Longrightarrow> (\<And>x es. P x es \<Longrightarrow> Q x es) \<Longrightarrow> earns v m v' Q"
  unfolding earns_def by fast

lemma earns_serve: "Q () [] \<Longrightarrow> earns (a, f) (serve_version b) (b, f) Q"
  by (auto simp: earns_def serve_version_def modifyP_def snapshot_of_session_def command_log_def)

lemma earns_block: "Q () [] \<Longrightarrow> earns (a, f) (block_payloads b) (a, b) Q"
  by (auto simp: earns_def block_payloads_def modifyP_def snapshot_of_session_def command_log_def)

text \<open>A program that runs no command earns nothing.\<close>

lemma earns_silent: "keeps hushed m \<Longrightarrow> (\<And>x. Q x []) \<Longrightarrow> earns v m v Q"
  unfolding earns_def
proof (intro allI impI)
  fix s x t
  assume "keeps hushed m" and Q: "\<And>x. Q x []" and v: "snapshot_of_session s = v" and "m s = (Inr x, t)"
  then have "hushed s t" unfolding keeps_def by (metis snd_conv)
  with Q v show "snapshot_of_session t = v \<and> (\<exists>es. command_log t = command_log s @ es \<and> Q x es)"
    by (intro conjI exI [of _ "[]"]) (simp_all add: hushed_def)
qed

lemma earns_pass: "keeps hushed m \<Longrightarrow> earns v m v (\<lambda>_ es. es = [])"
  by (rule earns_silent) simp_all

lemma earns_bind_silent: "keeps hushed m \<Longrightarrow> (\<And>x. earns v (f x) v' Q) \<Longrightarrow> earns v (bindP m f) v' Q"
  by (erule earns_bind [OF earns_pass]) simp

lemma earns_then_silent: "keeps hushed m \<Longrightarrow> earns v n v' Q \<Longrightarrow> earns v (thenP m n) v' Q"
  by (erule earns_then [OF earns_pass]) simp

lemma earns_lift: "(\<And>x. r = Inr x \<Longrightarrow> earns v (f x) v' Q) \<Longrightarrow> earns v (bindP (liftP r) f) v' Q"
  by (cases r) (simp_all add: earns_def liftP_def bindP_def)

lemma earns_then_serve: "earns (b, f) n v' Q \<Longrightarrow> earns (a, f) (thenP (serve_version b) n) v' Q"
  by (rule earns_then [OF earns_serve [where Q = "\<lambda>_ es. es = []"]]) simp_all

lemma earns_then_block: "earns (a, b) n v' Q \<Longrightarrow> earns (a, f) (thenP (block_payloads b) n) v' Q"
  by (rule earns_then [OF earns_block [where Q = "\<lambda>_ es. es = []"]]) simp_all

lemma earns_guard_then: "(ok \<Longrightarrow> earns v n v' Q) \<Longrightarrow> earns v (thenP (guardP ok c m) n) v' Q"
  by (cases ok) (simp_all add: earns_raise)

lemma earns_require_then: "(ok \<Longrightarrow> earns v n v' Q) \<Longrightarrow> earns v (thenP (require ok m) n) v' Q"
  unfolding require_def by (rule earns_guard_then)

lemma earns_if: "(c \<Longrightarrow> earns v m v' Q) \<Longrightarrow> (\<not> c \<Longrightarrow> earns v n v' Q) \<Longrightarrow> earns v (if c then m else n) v' Q"
  by simp

text \<open>A driver call is its own entry.\<close>

lemma execute_Inr:
  assumes "execute argv env cwd limit s = (Inr c, t)"
  shows "command_log t = command_log s @
    [Entry argv (snapshot_of_session s) (Exited (returncode c) (stdout c) (stderr c))] \<and>
    snapshot_of_session t = snapshot_of_session s"
proof -
  let ?s = "s\<lparr>evidence := evidence s @ [[(''argv'', PList (map PStr argv))]]\<rparr>"
  obtain result u where u: "spawn argv env cwd ?s = (result, u)"
    by (cases "spawn argv env cwd ?s")
  have fst: "result = fst (commands (world s) (trace s @ [Command argv env cwd
      (served_version (repository s)) (fail_payloads (repository s))]))"
    using u by (auto simp: spawn_def ask_def Let_def split: prod.splits)
  have "world u = world s" "trace u = trace s @ [Command argv env cwd
      (served_version (repository s)) (fail_payloads (repository s))]"
    "snapshot_of_session u = snapshot_of_session s"
    using spawn_parts [of argv env cwd ?s] u by (auto simp: snapshot_of_session_def)
  moreover have "result = Exited (returncode c) (stdout c) (stderr c) \<and> world t = world u \<and> trace t = trace u \<and>
      snapshot_of_session t = snapshot_of_session u"
    using assms by (cases result)
      (auto simp: execute_def thenP_def bindP_def append_record_def
        modifyP_def u finish_command_def update_last_def ret_def liftP_def raiseP_def raise_def
        snapshot_of_session_def split: if_splits)
  ultimately show ?thesis
    using fst command_log_grows [of t s] by (simp add: snapshot_of_session_def)
qed

lemma earns_execute:
  "earns v (execute argv env cwd limit) v
     (\<lambda>c es. es = [Entry argv v (Exited (returncode c) (stdout c) (stderr c))])"
  unfolding earns_def using execute_Inr by blast

lemma earns_external_call:
  "earns v (external_call d argv interface) v
     (\<lambda>c es. es = [Entry argv v (Exited (returncode c) (stdout c) (stderr c))])"
  unfolding external_call_def
  by (rule earns_if, rule earns_raise, rule earns_bind [OF earns_execute], rule earns_then_silent, rule hushes)
    (simp add: earns_ret)

lemma earns_call:
  "earns v (call d operation arguments) v (\<lambda>c es. \<exists>argv. call_argv d operation arguments = Inr argv \<and>
     es = [Entry argv v (Exited (returncode c) (stdout c) (stderr c))])"
  unfolding call_def
proof (rule earns_bind)
  show "earns v (liftP (call_argv d operation arguments)) v
      (\<lambda>argv es. call_argv d operation arguments = Inr argv \<and> es = [])"
    by (auto simp: earns_def liftP_def)
qed (auto intro: earns_mono [OF earns_external_call])

text \<open>A successful operation exited with status 0 and printed its result, white space aside.\<close>

lemma earns_success:
  "earns v (success d operation arguments) v (\<lambda>x es. \<exists>argv out err. call_argv d operation arguments = Inr argv \<and>
     strip out = x \<and> es = [Entry argv v (Exited 0 out err)])"
  unfolding success_def
  by (rule earns_bind [OF earns_call], rule earns_then, rule earns_require) (auto intro: earns_ret)

lemma earns_setup:
  "earns v (setup_success d operation arguments) v (\<lambda>x es. \<exists>argv out err. call_argv d operation arguments = Inr argv \<and>
     strip out = x \<and> es = [Entry argv v (Exited 0 out err)])"
  unfolding setup_success_def
  by (rule earns_bind [OF earns_call], rule earns_then, rule earns_guard) (auto intro: earns_ret)

lemma earns_ignore: "earns v m v' (\<lambda>x es. Q es) \<Longrightarrow> earns v (ignore m) v' (\<lambda>_ es. Q es)"
  unfolding ignore_def by (erule earns_bind) (auto intro: earns_ret)

end
