(* ===== verification/Target_Contract.thy ===== *)
theory Target_Contract
  imports Verdict
begin

text \<open>
  The abstract specification of a tested program: a contract gives, for a client operation in
  an abstract state, what its result must satisfy and the state it leaves. A world that keeps
  the contract answers every command accordingly. \<open>leads\<close> is the total triple of programs
  against such a world: they return, with the abstract state as stated.
\<close>

type_synonym 'b contract = "snapshot \<Rightarrow> string \<Rightarrow> string list \<Rightarrow> 'b \<Rightarrow> ((completed \<Rightarrow> bool) \<times> 'b) option"

section \<open>The total triple\<close>

definition leads :: "(event list \<Rightarrow> 'b) \<Rightarrow> world \<Rightarrow> 'a prog \<Rightarrow> 'b \<times> snapshot \<Rightarrow> ('a \<Rightarrow> bool) \<Rightarrow> 'b \<times> snapshot \<Rightarrow> bool" where
  "leads view w m pre P post \<longleftrightarrow>
     (\<forall>s. world s = w \<longrightarrow> (view (trace s), snapshot_of_session s) = pre \<longrightarrow>
        (\<exists>x t. m s = (Inr x, t) \<and> P x \<and> world t = w \<and> (view (trace t), snapshot_of_session t) = post))"

abbreviation leads_on where "leads_on view w m pre post \<equiv> leads view w m pre (\<lambda>_. True) post"

lemma leadsD:
  assumes "leads view w m (b, v) P (b', v')" "world s = w" "view (trace s) = b" "snapshot_of_session s = v"
  obtains x t where "m s = (Inr x, t)" "P x" "view (trace t) = b'" "snapshot_of_session t = v'"
  using assms unfolding leads_def by blast

lemma leads_bind:
  "leads view w m pre P mid \<Longrightarrow> (\<And>x. P x \<Longrightarrow> leads view w (f x) mid Q post) \<Longrightarrow> leads view w (bindP m f) pre Q post"
  unfolding leads_def bindP_def by fastforce

lemma leads_then:
  "leads_on view w m pre mid \<Longrightarrow> leads view w n mid Q post \<Longrightarrow> leads view w (thenP m n) pre Q post"
  unfolding thenP_def by (rule leads_bind)

lemma leads_mono: "leads view w m pre P post \<Longrightarrow> (\<And>x. P x \<Longrightarrow> Q x) \<Longrightarrow> leads view w m pre Q post"
  unfolding leads_def by fast

lemma leads_ret: "P x \<Longrightarrow> leads view w (ret x) pre P pre"
  by (simp add: leads_def ret_def)

lemma leads_return: "m = (\<lambda>s. (Inr x, s)) \<Longrightarrow> P x \<Longrightarrow> leads view w m pre P pre"
  by (simp add: leads_def)

lemma leads_require: "ok \<Longrightarrow> leads_on view w (require ok m) pre pre"
  by (simp add: leads_def require_def guardP_def liftP_def guardE_def)

lemma leads_check: "ok \<Longrightarrow> leads_on view w (check d ok m) pre pre"
  by (simp add: check_def leads_require)

lemma leads_guard: "ok \<Longrightarrow> leads_on view w (guardP ok c m) pre pre"
  by (simp add: leads_def guardP_def liftP_def guardE_def)

lemma leads_lift: "r = Inr x \<Longrightarrow> P x \<Longrightarrow> leads view w (liftP r) pre P pre"
  by (simp add: leads_def liftP_def)

lemma leads_ignore: "leads view w m pre P post \<Longrightarrow> leads_on view w (ignore m) pre post"
  unfolding ignore_def by (erule leads_bind) (simp add: leads_ret)

lemma leads_steps_Nil: "leads_on view w (steps []) pre pre"
  by (simp add: leads_ret)

lemma leads_steps_Cons:
  "leads_on view w m pre mid \<Longrightarrow> leads_on view w (steps ms) mid post \<Longrightarrow> leads_on view w (steps (m # ms)) pre post"
  by (simp add: leads_then)

lemma leads_when: "(c \<Longrightarrow> leads_on view w m pre post) \<Longrightarrow> (\<not> c \<Longrightarrow> post = pre) \<Longrightarrow> leads_on view w (whenP c m) pre post"
  by (cases c) (auto simp: whenP_def leads_ret)

lemma leads_for: "(\<And>x. x \<in> set xs \<Longrightarrow> leads_on view w (f x) pre pre) \<Longrightarrow> leads_on view w (forP xs f) pre pre"
  by (induction xs) (auto simp: leads_ret intro: leads_then)

lemma leads_serve: "leads_on view w (serve_version v) (b, (a, f)) (b, (v, f))"
  by (simp add: leads_def serve_version_def modifyP_def snapshot_of_session_def)

lemma leads_block: "leads_on view w (block_payloads g) (b, (a, f)) (b, (a, g))"
  by (simp add: leads_def block_payloads_def modifyP_def snapshot_of_session_def)

section \<open>Running one operation\<close>

lemma call_runs:
  assumes argv: "call_argv d operation arguments = Inr argv"
    and reply: "fst (commands (world s) (trace s @ [Command argv (driver_env d) (driver_root d)
      (served_version (repository s)) (fail_payloads (repository s))])) = Exited st out err"
  shows "\<exists>t. call d operation arguments s = (Inr \<lparr>cp_args = argv, returncode = st, stdout = out, stderr = err\<rparr>, t) \<and>
    world t = world s \<and> snapshot_of_session t = snapshot_of_session s \<and>
    trace t = trace s @ [Command argv (driver_env d) (driver_root d)
      (served_version (repository s)) (fail_payloads (repository s))]"
proof -
  let ?s = "s\<lparr>evidence := evidence s @ [[(''argv'', PList (map PStr argv))]]\<rparr>"
  obtain result u where u: "spawn argv (driver_env d) (driver_root d) ?s = (result, u)"
    by (cases "spawn argv (driver_env d) (driver_root d) ?s")
  have "result = Exited st out err"
    using u reply by (auto simp: spawn_def ask_def Let_def split: prod.splits)
  moreover have "world u = world s" "trace u = trace s @ [Command argv (driver_env d) (driver_root d)
      (served_version (repository s)) (fail_payloads (repository s))]"
    "snapshot_of_session u = snapshot_of_session s"
    using spawn_parts [of argv "driver_env d" "driver_root d" ?s] u by (auto simp: snapshot_of_session_def)
  moreover have "call_interface d operation \<in> set external_interfaces"
    by (simp add: call_interface_def external_interfaces_def)
  ultimately show ?thesis
    using argv by (simp add: call_def external_call_def execute_def thenP_def bindP_def append_record_def
        modifyP_def liftP_def u finish_command_def update_last_def ret_def snapshot_of_session_def)
qed

section \<open>Keeping a contract\<close>

locale target_contract =
  fixes d :: driver and contract :: "'b contract" and view :: "event list \<Rightarrow> 'b" and w :: world
  assumes answers: "call_argv d operation arguments = Inr argv \<Longrightarrow>
    contract (v, f) operation arguments (view tr) = Some (ok, b) \<Longrightarrow>
    \<exists>st out err. fst (commands w (tr @ [Command argv (driver_env d) (driver_root d) v f])) = Exited st out err \<and>
      ok \<lparr>cp_args = argv, returncode = st, stdout = out, stderr = err\<rparr> \<and>
      view (tr @ [Command argv (driver_env d) (driver_root d) v f]) = b"
begin

lemma leads_call:
  assumes argv: "call_argv d operation arguments = Inr argv"
    and con: "contract v operation arguments b = Some (ok, b')"
  shows "leads view w (call d operation arguments) (b, v) ok (b', v)"
  unfolding leads_def
proof (intro allI impI)
  fix s :: session
  assume w: "world s = w" and "(view (trace s), snapshot_of_session s) = (b, v)"
  then have b: "view (trace s) = b" and v: "v = (served_version (repository s), fail_payloads (repository s))"
    by (auto simp: snapshot_of_session_def)
  let ?ev = "Command argv (driver_env d) (driver_root d) (served_version (repository s)) (fail_payloads (repository s))"
  obtain st out err where r: "fst (commands w (trace s @ [?ev])) = Exited st out err"
    "ok \<lparr>cp_args = argv, returncode = st, stdout = out, stderr = err\<rparr>" "view (trace s @ [?ev]) = b'"
    using answers [OF argv, of _ _ "trace s"] con b v by blast
  then show "\<exists>x t. call d operation arguments s = (Inr x, t) \<and> ok x \<and> world t = w \<and>
      (view (trace t), snapshot_of_session t) = (b', v)"
    using call_runs [OF argv, of s st out err] w v by (auto simp: snapshot_of_session_def)
qed

text \<open>A contract that asks for exit status 0 makes \<open>success\<close> return the stripped text.\<close>

lemma leads_success:
  assumes "call_argv d operation arguments = Inr argv" "contract v operation arguments b = Some (ok, b')"
    and "\<And>c. ok c \<Longrightarrow> returncode c = 0 \<and> P (strip (stdout c))"
  shows "leads view w (success d operation arguments) (b, v) P (b', v)"
  unfolding success_def
  by (rule leads_bind [OF leads_call [OF assms(1,2)]], rule leads_then, rule leads_require)
    (use assms(3) in \<open>auto intro: leads_ret\<close>)

lemma leads_setup:
  assumes "call_argv d operation arguments = Inr argv" "contract v operation arguments b = Some (ok, b')"
    and "\<And>c. ok c \<Longrightarrow> returncode c = 0"
  shows "leads_on view w (ignore (setup_success d operation arguments)) (b, v) (b', v)"
  unfolding setup_success_def
  by (rule leads_ignore, rule leads_bind [OF leads_call [OF assms(1,2)]], rule leads_then, rule leads_guard)
    (use assms(3) in \<open>auto intro: leads_ret\<close>)

lemma leads_operation:
  assumes "call_argv d operation arguments = Inr argv" "contract v operation arguments b = Some (ok, b')"
    and "\<And>c. ok c \<Longrightarrow> returncode c = 0"
  shows "leads_on view w (ignore (success d operation arguments)) (b, v) (b', v)"
  by (rule leads_ignore, rule leads_success [OF assms(1,2), of "\<lambda>_. True"]) (use assms(3) in auto)

end

end
