(* ===== verification/Remote_Scenarios.thy ===== *)
theory Remote_Scenarios
  imports Target_Contract
begin

text \<open>
  \<open>remote_scenarios.py\<close>: the scenarios on configured remotes, each query and each edit a
  separate client process. The abstract specification is a registry of remotes listed by
  descending priority; a target that implements it passes.
\<close>

section \<open>Reading a listing\<close>

type_synonym remote_row = "string \<times> string \<times> string option \<times> string"

definition tab :: char where "tab = CHR 0x09"

definition null_marker :: string where "null_marker = [CHR 0x5C, CHR ''N'']"

definition repr_optional :: "string option \<Rightarrow> string" where
  "repr_optional t = (case t of None \<Rightarrow> ''None'' | Some x \<Rightarrow> repr_str x)"

definition repr_row :: "remote_row \<Rightarrow> string" where
  "repr_row r = (case r of (n, u, t, p) \<Rightarrow> repr_tuple [repr_str n, repr_str u, repr_optional t, repr_str p])"

definition repr_rows :: "remote_row list \<Rightarrow> string" where
  "repr_rows rs = repr_list (map repr_row rs)"

definition repr_completed :: "completed \<Rightarrow> string" where
  "repr_completed c = ''CompletedProcess(args='' @ repr_strings (cp_args c) @ '', returncode='' @
     show_int (returncode c) @ '', stdout='' @ repr_str (stdout c) @ '', stderr='' @ repr_str (stderr c) @ '')''"

definition row_of_line :: "driver \<Rightarrow> string \<Rightarrow> string \<Rightarrow> remote_row prog" where
  "row_of_line d operation line =
     (let fs = split_on tab line in
      thenP (check d (length fs = 4) (operation @ '': expected four TSV fields, got '' @ repr_str line))
        (ret (fs ! 0, fs ! 1,
          if driver_kind d = ''library'' \<and> fs ! 2 = null_marker then None else Some (fs ! 2), fs ! 3)))"

definition remote_rows :: "driver \<Rightarrow> string \<Rightarrow> string list \<Rightarrow> remote_row list prog" where
  "remote_rows d operation arguments = bindP (success d operation arguments)
     (\<lambda>output. mapP (row_of_line d operation) (splitlines output))"

definition rows_match :: "bool \<Rightarrow> remote_row list \<Rightarrow> remote_row list \<Rightarrow> bool" where
  "rows_match ordered actual expected =
     (if ordered then actual = expected else length actual = length expected \<and> set actual = set expected)"

definition expect_remotes :: "driver \<Rightarrow> remote_row list \<Rightarrow> string \<Rightarrow> bool \<Rightarrow> unit prog" where
  "expect_remotes d expected context ordered = bindP (remote_rows d ''remote-list'' []) (\<lambda>actual.
     thenP (check d (rows_match ordered actual expected)
         (context @ '': expected remotes '' @ repr_rows expected @ '', got '' @ repr_rows actual))
     (whenP (driver_kind d = ''library'') (forP expected (\<lambda>row.
        bindP (remote_rows d ''remote-query'' [fst row]) (\<lambda>queried.
        check d (queried = [row]) (context @ '': lookup of '' @ fst row @ '' returned '' @ repr_rows queried @
          '', expected '' @ repr_row row))))))"

section \<open>The scenarios\<close>

definition first_remote :: string where "first_remote = ''remote-z-first''"
definition second_remote :: string where "second_remote = ''remote-a-second''"

definition app_of :: "pyval \<Rightarrow> string \<Rightarrow> string" where
  "app_of fixture ending = ''app/'' @ text_at fixture ''app'' @ ending @ ''/'' @ text_at fixture ''arch'' @ ''/'' @
     text_at fixture ''branch''"

definition runtime_of :: "pyval \<Rightarrow> string" where
  "runtime_of fixture = ''runtime/'' @ text_at fixture ''runtime'' @ ''/'' @ text_at fixture ''arch'' @ ''/'' @
     text_at fixture ''branch''"

definition null_with_error :: "int \<Rightarrow> completed \<Rightarrow> bool" where
  "null_with_error status result \<longleftrightarrow> returncode result = status \<and> stdout result = [] \<and>
     contains ''error domain='' (stderr result)"

definition library_lookups :: "driver \<Rightarrow> pyval \<Rightarrow> unit prog" where
  "library_lookups d fixture = whenP (driver_kind d = ''library'')
     (bindP (success d ''remote-ref-query'' [first_remote, app_of fixture '''']) (\<lambda>found.
      thenP (check d (found = app_of fixture '''') ''remote ref lookup must reach the populated repository'')
     (bindP (call d ''remote-ref-query'' [first_remote, app_of fixture ''.Missing'']) (\<lambda>result.
      check d (null_with_error 5 result)
        (''missing remote ref must return NULL and REF_NOT_FOUND: '' @ repr_completed result)))))"

definition remote_configuration :: "driver \<Rightarrow> string \<Rightarrow> pyval \<Rightarrow> unit prog" where
  "remote_configuration d url fixture =
     (let second_url = url @ ''/''; changed_url = url @ ''/changed-location'';
          first_row = (\<lambda>u t p. (first_remote, u, t, p));
          second_row = (second_remote, second_url, Some ''Second remote title'', ''20'') in
      steps [
        serve_version ''A'',
        expect_remotes d [] ''fresh user installation'' True,
        ignore (success d ''remote-create'' [first_remote, url, ''First remote title'', ''20'']),
        expect_remotes d [first_row url (Some ''First remote title'') ''20''] ''first add persisted'' True,
        ignore (success d ''remote-create'' [second_remote, second_url, ''Second remote title'', ''20'']),
        expect_remotes d [first_row url (Some ''First remote title'') ''20'', second_row]
          ''fresh remote properties'' False,
        ignore (success d ''remote-edit'' [first_remote, url, ''First remote title'', ''10'']),
        expect_remotes d [second_row, first_row url (Some ''First remote title'') ''10'']
          ''descending priority after lowering first'' True,
        library_lookups d fixture,
        ignore (success d ''remote-edit'' [first_remote, url, ''First remote title'', ''30'']),
        expect_remotes d [first_row url (Some ''First remote title'') ''30'', second_row]
          ''priority change reverses order'' True,
        ignore (success d ''remote-edit'' [first_remote, changed_url, ''Revised remote title'', ''30'']),
        expect_remotes d [first_row changed_url (Some ''Revised remote title'') ''30'', second_row]
          ''URL and title edits persisted'' True,
        whenP (driver_kind d = ''library'') (steps [
          ignore (success d ''remote-clear-title'' [first_remote]),
          expect_remotes d [first_row changed_url None ''30'', second_row] ''NULL title persists as unset'' True]),
        ignore (success d ''remote-delete'' [first_remote]),
        expect_remotes d [second_row] ''deletion persists and other remote survives'' True,
        whenP (driver_kind d = ''library'')
          (bindP (call d ''remote-query'' [first_remote]) (\<lambda>result. steps [
            check d (null_with_error 1 result)
              (''deleted remote lookup must return NULL with an error: '' @ repr_completed result),
            expect_remotes d [second_row] ''missing lookup leaves other remote intact'' True]))])"

definition remote_priority_order :: "driver \<Rightarrow> string \<Rightarrow> unit prog" where
  "remote_priority_order d url =
     (let rows = [(first_remote, url, Some ''Earlier tied remote'', ''20''),
                  (second_remote, url, Some ''Later tied remote'', ''20''),
                  (''remote-low'', url, Some ''Lower priority remote'', ''10'')] in
      steps [
        expect_remotes d [] ''fresh user installation'' True,
        forP rows (\<lambda>(name, remote_url, title, priority). case title of None \<Rightarrow> raiseP AssertionError ''''
          | Some t \<Rightarrow> ignore (success d ''remote-create'' [name, remote_url, t, priority])),
        expect_remotes d [rows ! 1, rows ! 0, rows ! 2]
          ''documented descending priority and ascending-name ties'' True])"

lemma audited_remotes [audits]:
  "keeps audited (row_of_line d operation line)" "keeps audited (remote_rows d operation arguments)"
  "keeps audited (expect_remotes d expected context ordered)" "keeps audited (library_lookups d fixture)"
  "keeps audited (remote_configuration d url fixture)" "keeps audited (remote_priority_order d url)"
  unfolding row_of_line_def remote_rows_def expect_remotes_def library_lookups_def remote_configuration_def
    remote_priority_order_def
  by (intro audits)+


section \<open>The listing protocol\<close>

text \<open>How a listing prints a row, and which rows it can print.\<close>

definition row_line :: "remote_row \<Rightarrow> string" where
  "row_line r = (case r of (n, u, t, p) \<Rightarrow>
     join [tab] [n, u, (case t of None \<Rightarrow> null_marker | Some x \<Rightarrow> x), p])"

definition listing_text :: "remote_row list \<Rightarrow> string" where
  "listing_text rows = join [CHR 0x0A] (map row_line rows)"

definition plain_field :: "string \<Rightarrow> bool" where
  "plain_field s = (\<forall>c\<in>set s. \<not> is_linebreak c \<and> c \<noteq> tab)"

definition printable :: "driver \<Rightarrow> remote_row \<Rightarrow> bool" where
  "printable d r = (case r of (n, u, t, p) \<Rightarrow> plain_field n \<and> plain_field u \<and> plain_field p \<and>
     n \<noteq> [] \<and> \<not> isspace (hd n) \<and> p \<noteq> [] \<and> \<not> isspace (last p) \<and>
     (case t of None \<Rightarrow> driver_kind d = ''library''
      | Some x \<Rightarrow> plain_field x \<and> (driver_kind d = ''library'' \<longrightarrow> x \<noteq> null_marker)))"

lemma row_line_parts:
  assumes "printable d (n, u, t, p)"
  shows "split_on tab (row_line (n, u, t, p)) = [n, u, (case t of None \<Rightarrow> null_marker | Some x \<Rightarrow> x), p]"
proof -
  have "\<forall>w\<in>set [n, u, (case t of None \<Rightarrow> null_marker | Some x \<Rightarrow> x), p]. tab \<notin> set w"
    using assms by (auto simp: printable_def plain_field_def null_marker_def tab_def split: option.splits)
  then show ?thesis unfolding row_line_def by (simp only: prod.case split_on_join list.distinct not_False_eq_True)
qed

lemma row_of_line_row:
  assumes "printable d r"
  shows "row_of_line d operation (row_line r) s = (Inr r, s)"
proof -
  obtain n u t p where r: "r = (n, u, t, p)" by (cases r) auto
  show ?thesis
    using row_line_parts [of d n u t p] assms
    by (auto simp: r row_of_line_def check_def require_def printable_def Let_def
        thenP_def bindP_def guardP_def liftP_def guardE_def ret_def split: option.splits)
qed

lemma row_line_plain: "printable d r \<Longrightarrow> row_line r \<noteq> [] \<and> (\<forall>c\<in>set (row_line r). \<not> is_linebreak c)"
  by (cases r) (auto simp: row_line_def printable_def plain_field_def null_marker_def tab_def
      is_linebreak_def code_def split: option.splits)

lemma mapP_rows:
  "\<forall>r\<in>set rows. printable d r \<Longrightarrow> mapP (row_of_line d operation) (map row_line rows) s = (Inr rows, s)"
  by (induction rows) (auto simp: bindP_def ret_def row_of_line_row)

lemma strip_id: "s = [] \<or> \<not> isspace (hd s) \<and> \<not> isspace (last s) \<Longrightarrow> strip s = s"
proof -
  assume s: "s = [] \<or> \<not> isspace (hd s) \<and> \<not> isspace (last s)"
  have d: "dropWhile isspace xs = xs" if "xs = [] \<or> \<not> isspace (hd xs)" for xs
    using that by (cases xs) auto
  from s have "dropWhile isspace s = s" and "dropWhile isspace (rev s) = rev s"
    by (auto intro!: d simp: hd_rev)
  then show ?thesis by (simp add: strip_def strip_by_def)
qed

lemma join_ends:
  assumes "ws \<noteq> []" "\<forall>w\<in>set ws. w \<noteq> []"
  shows "join sep ws \<noteq> [] \<and> hd (join sep ws) = hd (hd ws) \<and> last (join sep ws) = last (last ws)"
  using assms by (induction sep ws rule: join.induct) (auto simp: hd_append)

lemma row_line_ends: "printable d r \<Longrightarrow> \<not> isspace (hd (row_line r)) \<and> \<not> isspace (last (row_line r))"
  by (cases r) (auto simp: row_line_def printable_def hd_append)

lemma strip_listing:
  assumes "\<forall>r\<in>set rows. printable d r"
  shows "strip (listing_text rows) = listing_text rows"
proof (cases "rows = []")
  case False
  let ?ls = "map row_line rows"
  from False have ls: "?ls \<noteq> []" "hd rows \<in> set rows" "last rows \<in> set rows"
    "hd ?ls = row_line (hd rows)" "last ?ls = row_line (last rows)" by (simp_all add: hd_map last_map)
  then have "\<not> isspace (hd (hd ?ls))" "\<not> isspace (last (last ?ls))"
    using row_line_ends assms by (metis (no_types))+
  moreover have "\<forall>w\<in>set ?ls. w \<noteq> []" using assms row_line_plain by auto
  ultimately show ?thesis
    unfolding listing_text_def using join_ends [OF ls(1), of "[CHR 0x0A]"] by (intro strip_id) simp
qed (simp add: listing_text_def strip_id)

lemma listing_reads_back:
  assumes "\<forall>r\<in>set rows. printable d r"
  shows "mapP (row_of_line d operation) (splitlines (strip (listing_text rows))) s = (Inr rows, s)"
proof -
  have "splitlines (listing_text rows) = map row_line rows"
    unfolding listing_text_def by (rule splitlines_join) (use assms row_line_plain in auto)
  then show ?thesis by (simp add: mapP_rows strip_listing [OF assms] assms)
qed

section \<open>The abstract registry\<close>

text \<open>
  What a remote registry promises: rows in the order of their creation, listed by descending
  priority and ascending name. \<open>registry\<close> answers one client operation with an exit status,
  the printed text and the rows it leaves; \<open>None\<close> is an operation outside the contract.
\<close>

definition listed :: "remote_row list \<Rightarrow> remote_row list" where
  "listed rows = sort_key (\<lambda>(n, u, t, p). - int (read_nat p)) (sort_key fst rows)"

definition registry :: "string \<Rightarrow> string \<Rightarrow> string list \<Rightarrow> remote_row list \<Rightarrow> (int \<times> string \<times> remote_row list) option" where
  "registry present operation arguments rows =
     (case (operation, arguments) of
        (op, [n, u, t, p]) \<Rightarrow>
          if op = ''remote-create'' \<and> n \<notin> fst ` set rows then Some (0, '''', rows @ [(n, u, Some t, p)])
          else if op = ''remote-edit'' \<and> n \<in> fst ` set rows
          then Some (0, '''', map (\<lambda>r. if fst r = n then (n, u, Some t, p) else r) rows) else None
      | (op, []) \<Rightarrow> if op = ''remote-list'' then Some (0, listing_text (listed rows), rows) else None
      | (op, [n]) \<Rightarrow>
          if op = ''remote-delete'' \<and> n \<in> fst ` set rows then Some (0, '''', filter (\<lambda>r. fst r \<noteq> n) rows)
          else if op = ''remote-clear-title''
          then Some (0, '''', map (\<lambda>r. if fst r = n then (n, fst (snd r), None, snd (snd (snd r))) else r) rows)
          else if op = ''remote-query''
          then (case map_of (map (\<lambda>r. (fst r, r)) rows) n of None \<Rightarrow> Some (1, '''', rows)
                | Some r \<Rightarrow> Some (0, listing_text [r], rows))
          else None
      | (op, [n, ref]) \<Rightarrow>
          if op = ''remote-ref-query'' then Some (if ref = present then (0, ref, rows) else (5, '''', rows)) else None
      | _ \<Rightarrow> None)"

text \<open>
  The registry as a contract: the exit status, the text up to outer white space, and of a failing
  query that it prints nothing and names its error domain.
\<close>

definition registry_contract :: "string \<Rightarrow> remote_row list contract" where
  "registry_contract present v operation arguments rows =
     (case registry present operation arguments rows of None \<Rightarrow> None
      | Some (st, shown, rows') \<Rightarrow> Some (\<lambda>c. returncode c = st \<and> strip (stdout c) = strip shown \<and>
          (st \<noteq> 0 \<longrightarrow> stdout c = [] \<and> contains ''error domain='' (stderr c)), rows'))"

text \<open>A driver as the runner builds it: the CLI's, or the library's with its compiled client.\<close>

definition runs_client :: "driver \<Rightarrow> bool" where
  "runs_client d \<longleftrightarrow> driver_kind d = ''cli'' \<or> driver_kind d = ''library'' \<and> driver_client d \<noteq> None"

lemma registry_argv:
  assumes "runs_client d"
  shows "\<exists>argv. call_argv d ''remote-create'' [n, u, t, p] = Inr argv"
    "\<exists>argv. call_argv d ''remote-edit'' [n, u, t, p] = Inr argv"
    "\<exists>argv. call_argv d ''remote-list'' [] = Inr argv"
    "\<exists>argv. call_argv d ''remote-delete'' [n] = Inr argv"
    "driver_kind d = ''library'' \<Longrightarrow> \<exists>argv. call_argv d operation arguments = Inr argv"
  using assms
  by (auto simp: runs_client_def call_argv_def remote_cli_args_def unpack_def guardE_def Let_def split: option.splits)

lemma set_listed [simp]: "set (listed rows) = set rows" "length (listed rows) = length rows"
  by (simp_all add: listed_def)

lemma map_of_names: "distinct (map fst rows) \<Longrightarrow> r \<in> set rows \<Longrightarrow> map_of (map (\<lambda>r. (fst r, r)) rows) (fst r) = Some r"
  by (rule map_of_is_SomeI) (auto simp: comp_def)

lemma names_order: "second_remote \<le> first_remote" "\<not> first_remote \<le> second_remote"
  "second_remote \<le> ''remote-low''" "''remote-low'' \<le> first_remote" "\<not> first_remote \<le> ''remote-low''"
  "\<not> ''remote-low'' \<le> second_remote"
  by code_simp+

lemma names_differ: "first_remote \<noteq> second_remote" "first_remote \<noteq> ''remote-low''" "second_remote \<noteq> ''remote-low''"
  by (simp_all add: first_remote_def second_remote_def)

lemma priorities: "read_nat ''10'' = 10" "read_nat ''20'' = 20" "read_nat ''30'' = 30"
  by (simp_all add: read_nat_def digit_value_def code_def)

lemmas listed_simps = listed_def insort_key.simps names_order priorities

lemma trimmed_constants:
  "\<not> isspace (hd first_remote)" "\<not> isspace (hd second_remote)" "first_remote \<noteq> []" "second_remote \<noteq> []"
  "\<not> isspace (CHR ''0'')" "\<not> isspace (CHR ''r'')"
  by (simp_all add: first_remote_def second_remote_def isspace_def code_def)

lemma plain_constants:
  "plain_field first_remote" "plain_field second_remote" "plain_field ''remote-low''"
  "plain_field ''10''" "plain_field ''20''" "plain_field ''30''"
  "plain_field ''First remote title''" "plain_field ''Second remote title''" "plain_field ''Revised remote title''"
  "plain_field ''Earlier tied remote''" "plain_field ''Later tied remote''" "plain_field ''Lower priority remote''"
  by (simp_all add: plain_field_def first_remote_def second_remote_def tab_def is_linebreak_def code_def)

lemma plain_url: "plain_field url \<Longrightarrow> plain_field (url @ ''/'') \<and> plain_field (url @ ''/changed-location'')"
  by (simp add: plain_field_def tab_def is_linebreak_def code_def)

lemmas printable_simps = printable_def plain_constants trimmed_constants null_marker_def

lemmas row_simps = listed_simps rows_match_def printable_simps names_differ names_differ [symmetric] insert_commute

section \<open>Against a registry the scenario passes\<close>

locale remote_registry = target_contract d "registry_contract present" view w
  for d :: driver and present :: string and view :: "event list \<Rightarrow> remote_row list" and w :: world +
  assumes client: "runs_client d"
begin

lemma leads_registry:
  assumes "\<exists>argv. call_argv d operation arguments = Inr argv"
    "registry present operation arguments rows = Some (0, shown, rows')"
  shows "leads_on view w (ignore (success d operation arguments)) (rows, v) (rows', v)"
proof -
  from assms(1) obtain argv where argv: "call_argv d operation arguments = Inr argv" ..
  show ?thesis by (rule leads_operation [OF argv]) (simp add: registry_contract_def assms(2), simp)
qed

lemma leads_listing:
  assumes "\<exists>argv. call_argv d operation arguments = Inr argv"
    "registry present operation arguments rows = Some (0, listing_text shown, rows)" "\<forall>r\<in>set shown. printable d r"
  shows "leads view w (remote_rows d operation arguments) (rows, v) (\<lambda>xs. xs = shown) (rows, v)"
proof -
  from assms(1) obtain argv where argv: "call_argv d operation arguments = Inr argv" ..
  show ?thesis
    unfolding remote_rows_def
  proof (rule leads_bind)
    show "leads view w (success d operation arguments) (rows, v) (\<lambda>x. x = strip (listing_text shown)) (rows, v)"
      by (rule leads_success [OF argv]) (simp add: registry_contract_def assms(2), simp)
    show "leads view w (mapP (row_of_line d operation) (splitlines printed_text)) (rows, v) (\<lambda>xs. xs = shown) (rows, v)"
      if "printed_text = strip (listing_text shown)" for printed_text
      by (rule leads_return [of _ shown], rule ext) (simp_all add: that listing_reads_back [OF assms(3)])
  qed
qed

lemma leads_expect:
  assumes rows: "\<forall>r\<in>set rows. printable d r" "distinct (map fst rows)"
    and match: "rows_match ordered (listed rows) expected"
  shows "leads_on view w (expect_remotes d expected ctx ordered) (rows, v) (rows, v)"
proof -
  have exp: "set expected = set rows"
    using match by (metis rows_match_def set_listed(1))
  have one: "leads_on view w (bindP (remote_rows d ''remote-query'' [fst row])
      (\<lambda>queried. check d (queried = [row]) (m queried))) (rows, v) (rows, v)"
    if "driver_kind d = ''library''" and "row \<in> set expected" for row and m
  proof (rule leads_bind [OF leads_listing])
    show "\<exists>argv. call_argv d ''remote-query'' [fst row] = Inr argv" by (rule registry_argv(5) [OF client that(1)])
    show "registry present ''remote-query'' [fst row] rows = Some (0, listing_text [row], rows)"
      using map_of_names [OF rows(2)] that(2) exp by (simp add: registry_def)
    show "\<forall>r\<in>set [row]. printable d r" using rows(1) that(2) exp by simp
  qed (simp add: leads_check)
  show ?thesis
    unfolding expect_remotes_def
  proof (rule leads_bind [OF leads_listing [OF registry_argv(3) [OF client]]])
    show "registry present ''remote-list'' [] rows = Some (0, listing_text (listed rows), rows)"
      by (simp add: registry_def)
    show "\<forall>r\<in>set (listed rows). printable d r" using rows(1) by simp
    show "leads_on view w (thenP (check d (rows_match ordered actual expected)
         (ctx @ '': expected remotes '' @ repr_rows expected @ '', got '' @ repr_rows actual))
       (whenP (driver_kind d = ''library'') (forP expected (\<lambda>row.
        bindP (remote_rows d ''remote-query'' [fst row]) (\<lambda>queried.
        check d (queried = [row]) (ctx @ '': lookup of '' @ fst row @ '' returned '' @ repr_rows queried @
          '', expected '' @ repr_row row)))))) (rows, v) (rows, v)" if "actual = listed rows" for actual
      by (rule leads_then [OF leads_check leads_when])
         (use match that one in \<open>auto intro!: leads_for\<close>)
  qed
qed

lemma leads_lookups:
  assumes "present = app_of fixture ''''" "strip present = present"
  shows "leads_on view w (library_lookups d fixture) (rows, v) (rows, v)"
proof -
  have other: "app_of fixture ''.Missing'' \<noteq> present" by (simp add: assms(1) app_of_def)
  have argv: "\<exists>argv. call_argv d ''remote-ref-query'' [n, ref] = Inr argv" if "driver_kind d = ''library''" for n ref
    by (rule registry_argv(5) [OF client that])
  have found: "leads view w (success d ''remote-ref-query'' [first_remote, present]) (rows, v)
      (\<lambda>x. x = present) (rows, v)" if "driver_kind d = ''library''"
  proof -
    from argv [OF that] obtain a where "call_argv d ''remote-ref-query'' [first_remote, present] = Inr a" ..
    then show ?thesis by (rule leads_success) (simp add: registry_contract_def registry_def, simp add: assms(2))
  qed
  have missing: "leads view w (call d ''remote-ref-query'' [first_remote, app_of fixture ''.Missing'']) (rows, v)
      (null_with_error 5) (rows, v)" if "driver_kind d = ''library''"
  proof -
    from argv [OF that] obtain a
      where "call_argv d ''remote-ref-query'' [first_remote, app_of fixture ''.Missing''] = Inr a" ..
    then show ?thesis
      by (rule leads_mono [OF leads_call])
        (use other in \<open>simp add: registry_contract_def registry_def\<close>, simp add: null_with_error_def)
  qed
  show ?thesis
    unfolding library_lookups_def assms(1) [symmetric]
    by (rule leads_when) (auto intro!: leads_bind [OF found] leads_bind [OF missing] leads_then leads_check)
qed

lemma leads_absent:
  assumes "driver_kind d = ''library''" "n \<notin> fst ` set rows"
    and "\<And>c. null_with_error 1 c \<Longrightarrow> leads_on view w (f c) (rows, v) post"
  shows "leads_on view w (bindP (call d ''remote-query'' [n]) f) (rows, v) post"
proof (rule leads_bind)
  have none: "map_of (map (\<lambda>r. (fst r, r)) rows) n = None"
    using assms(2) by (simp add: map_of_eq_None_iff image_image)
  obtain a where "call_argv d ''remote-query'' [n] = Inr a" using registry_argv(5) [OF client assms(1)] by blast
  then show "leads view w (call d ''remote-query'' [n]) (rows, v) (null_with_error 1) (rows, v)"
    by (rule leads_mono [OF leads_call])
      (use none in \<open>simp add: registry_contract_def registry_def\<close>, simp add: null_with_error_def)
qed (rule assms(3))

lemma leads_create:
  assumes "n \<notin> fst ` set rows" "rows' = rows @ [(n, u, Some t, p)]"
  shows "leads_on view w (ignore (success d ''remote-create'' [n, u, t, p])) (rows, v) (rows', v)"
  by (rule leads_registry [OF registry_argv(1) [OF client], where shown = "''''"])
    (use assms in \<open>simp add: registry_def\<close>)

lemma leads_edit:
  assumes "n \<in> fst ` set rows" "rows' = map (\<lambda>r. if fst r = n then (n, u, Some t, p) else r) rows"
  shows "leads_on view w (ignore (success d ''remote-edit'' [n, u, t, p])) (rows, v) (rows', v)"
  by (rule leads_registry [OF registry_argv(2) [OF client], where shown = "''''"])
    (use assms in \<open>simp add: registry_def\<close>)

lemma leads_delete:
  assumes "n \<in> fst ` set rows" "rows' = filter (\<lambda>r. fst r \<noteq> n) rows"
  shows "leads_on view w (ignore (success d ''remote-delete'' [n])) (rows, v) (rows', v)"
  by (rule leads_registry [OF registry_argv(4) [OF client], where shown = "''''"])
    (use assms in \<open>simp add: registry_def\<close>)

lemma leads_clear_title:
  assumes "driver_kind d = ''library''"
    "rows' = map (\<lambda>r. if fst r = n then (n, fst (snd r), None, snd (snd (snd r))) else r) rows"
  shows "leads_on view w (ignore (success d ''remote-clear-title'' [n])) (rows, v) (rows', v)"
  by (rule leads_registry [OF registry_argv(5) [OF client assms(1)], where shown = "''''"])
    (use assms(2) in \<open>simp add: registry_def\<close>)

lemmas moves = leads_create leads_edit leads_delete

lemma leads_configuration:
  assumes url: "plain_field url" and fixture: "present = app_of fixture ''''" "strip present = present"
  shows "leads_on view w (remote_configuration d url fixture) ([], (a, f))
    ([(second_remote, url @ ''/'', Some ''Second remote title'', ''20'')], (''A'', f))"
proof (cases "driver_kind d = ''library''")
  case True
  show ?thesis
    unfolding remote_configuration_def Let_def whenP_def if_P [OF True]
    by ((rule leads_steps_Cons leads_steps_Nil leads_serve leads_check moves leads_expect leads_absent leads_lookups [OF fixture]
      leads_clear_title); (simp add: True row_simps url plain_url; fail)?)+
next
  case False
  show ?thesis
    unfolding remote_configuration_def Let_def whenP_def if_not_P [OF False]
    by ((rule leads_steps_Cons leads_steps_Nil leads_serve moves leads_expect leads_lookups [OF fixture] leads_ret);
      (simp add: row_simps url plain_url; fail)?)+
qed

end

text \<open>C14: Refinement of the abstract registry. Against any target that keeps the registry's contract,
  the configuration scenario passes, through the CLI and through the library client, and leaves
  exactly the second remote.\<close>

theorem remote_configuration_accepts:
  assumes "remote_registry d (app_of fixture '''') rows_of (world s)" and "plain_field url"
    and "strip (app_of fixture '''') = app_of fixture ''''" and "rows_of (trace s) = []"
  shows "\<exists>t. remote_configuration d url fixture s = (Inr (), t) \<and>
    rows_of (trace t) = [(second_remote, url @ ''/'', Some ''Second remote title'', ''20'')]"
proof -
  obtain a f where "snapshot_of_session s = (a, f)" by force
  from leadsD [OF remote_registry.leads_configuration [OF assms(1,2) refl assms(3)] refl assms(4) this]
  show ?thesis by (metis (full_types) old.unit.exhaust)
qed

text \<open>C13: The line protocol of remote listings loses nothing: whatever rows a client prints, with
  white space around them, the scenarios read back exactly those rows, the library's NULL
  titles included.\<close>

theorem remote_rows_round_trip:
  assumes "\<forall>r\<in>set rows. printable d r" and "strip out = listing_text rows"
    and "call_argv d operation arguments = Inr argv"
    and "fst (commands (world s) (trace s @ [Command argv (driver_env d) (driver_root d)
      (served_version (repository s)) (fail_payloads (repository s))])) = Exited 0 out err"
  shows "fst (remote_rows d operation arguments s) = Inr rows"
proof -
  obtain t where "call d operation arguments s =
      (Inr \<lparr>cp_args = argv, returncode = 0, stdout = out, stderr = err\<rparr>, t)"
    using call_runs [OF assms(3,4)] by blast
  then show ?thesis
    using listing_reads_back [OF assms(1), of operation t] strip_listing [OF assms(1)] assms(2)
    by (simp add: remote_rows_def success_def bindP_def thenP_def require_def guardP_def liftP_def guardE_def ret_def)
qed

section \<open>A reference target\<close>

text \<open>The registry as a world behind the library client: the rows are a fold over the trace.\<close>

definition reference_step :: "string \<Rightarrow> remote_row list \<Rightarrow> event \<Rightarrow> remote_row list" where
  "reference_step present rows ev = (case ev of
     Command (client # operation # arguments) _ _ _ _ \<Rightarrow>
       (case registry present operation arguments rows of Some (_, _, rows') \<Rightarrow> rows' | None \<Rightarrow> rows)
   | _ \<Rightarrow> rows)"

definition reference_rows :: "string \<Rightarrow> event list \<Rightarrow> remote_row list" where
  "reference_rows present tr = foldl (reference_step present) [] tr"

definition reference_reply :: "string \<Rightarrow> event list \<Rightarrow> outcome" where
  "reference_reply present tr = (case last tr of
     Command (client # operation # arguments) _ _ _ _ \<Rightarrow>
       (case registry present operation arguments (reference_rows present (butlast tr)) of
          Some (st, shown, _) \<Rightarrow> Exited st shown (if st = 0 then '''' else ''error domain='')
        | None \<Rightarrow> Exited 1 '''' '''')
   | _ \<Rightarrow> Exited 1 '''' '''')"

definition reference_world :: "string \<Rightarrow> world" where
  "reference_world present = \<lparr>commands = (\<lambda>tr. (reference_reply present tr, [])),
     texts = (\<lambda>_. Inr ''''), path_tests = (\<lambda>_. Inr True), effects = (\<lambda>_. Inr ()), clock = (\<lambda>tr. of_nat (length tr))\<rparr>"

definition library_driver :: driver where
  "library_driver = \<lparr>driver_kind = ''library'', driver_cli = ''flatpak'', driver_client = Some ''library-client'',
     driver_env = [], driver_root = ''/tmp/fp-bb-0'', driver_timeout = ''120''\<rparr>"

lemma registry_run: "registry present ''run'' arguments rows = None"
  by (auto simp: registry_def split: list.splits)

lemma registry_failed: "registry present operation arguments rows = Some (st, shown, rows') \<Longrightarrow> st \<noteq> 0 \<Longrightarrow> shown = ''''"
  by (auto simp: registry_def split: list.splits if_splits option.splits)

interpretation reference: remote_registry library_driver present "reference_rows present" "reference_world present"
  for present
proof
  fix operation arguments argv v f tr ok rows
  assume argv: "call_argv library_driver operation arguments = Inr argv"
    and con: "registry_contract present (v, f) operation arguments (reference_rows present tr) = Some (ok, rows)"
  from con obtain st shown where reg: "registry present operation arguments (reference_rows present tr) = Some (st, shown, rows)"
    and ok: "ok = (\<lambda>c. returncode c = st \<and> strip (stdout c) = strip shown \<and>
      (st \<noteq> 0 \<longrightarrow> stdout c = [] \<and> contains ''error domain='' (stderr c)))"
    by (auto simp: registry_contract_def split: option.splits)
  from reg registry_run have "operation \<noteq> ''run''" by auto
  with argv have a: "argv = ''library-client'' # operation # arguments"
    by (simp add: call_argv_def library_driver_def)
  show "\<exists>st out err. fst (commands (reference_world present) (tr @ [Command argv (driver_env library_driver)
      (driver_root library_driver) v f])) = Exited st out err \<and>
      ok \<lparr>cp_args = argv, returncode = st, stdout = out, stderr = err\<rparr> \<and>
      reference_rows present (tr @ [Command argv (driver_env library_driver) (driver_root library_driver) v f]) = rows"
    using registry_failed [OF reg] reg unfolding ok
    by (auto simp: reference_world_def reference_reply_def a reference_rows_def reference_step_def startswith_def)
qed (simp add: runs_client_def library_driver_def)

definition reference_fixture :: pyval where
  "reference_fixture = PObj [(''app'', PStr ''org.flatpak.Test''), (''arch'', PStr ''x86_64''), (''branch'', PStr ''master''),
     (''runtime'', PStr ''org.flatpak.Platform''), (''runtime_commit'', PStr ''c0ffee''),
     (''commits'', PObj [(''A'', PStr ''aaaa''), (''B'', PStr ''bbbb'')])]"

lemma reference_app: "app_of reference_fixture '''' = ''app/org.flatpak.Test/x86_64/master''"
  by (simp add: app_of_def reference_fixture_def text_at_def fld_def get_or_def)

lemma remote_configuration_accepts_witness:
  "\<exists>t. remote_configuration library_driver ''http://127.0.0.1:8000'' reference_fixture
      (fresh_session (reference_world ''app/org.flatpak.Test/x86_64/master'')) = (Inr (), t) \<and>
    reference_rows ''app/org.flatpak.Test/x86_64/master'' (trace t) =
      [(second_remote, ''http://127.0.0.1:8000'' @ ''/'', Some ''Second remote title'', ''20'')]"
proof (rule remote_configuration_accepts)
  show "remote_registry library_driver (app_of reference_fixture '''')
      (reference_rows ''app/org.flatpak.Test/x86_64/master'')
      (world (fresh_session (reference_world ''app/org.flatpak.Test/x86_64/master'')))"
    unfolding reference_app fresh_session_def session.simps by (rule reference.remote_registry_axioms)
qed (simp_all add: reference_app fresh_session_def reference_rows_def plain_field_def tab_def is_linebreak_def
      code_def strip_id isspace_def)

definition sample_row :: remote_row where
  "sample_row = (''m'', ''file:///r'', None, ''1'')"

lemma remote_rows_round_trip_witness:
  "fst (remote_rows library_driver ''remote-query'' [''m'']
      (fresh_session (answering (listing_text [sample_row])))) = Inr [sample_row]"
proof (rule remote_rows_round_trip)
  show printable: "\<forall>r\<in>set [sample_row]. printable library_driver r"
    by (simp add: sample_row_def printable_def library_driver_def plain_field_def tab_def is_linebreak_def
        code_def isspace_def)
  show "strip (listing_text [sample_row]) = listing_text [sample_row]"
    by (rule strip_listing [OF printable])
  show "call_argv library_driver ''remote-query'' [''m''] = Inr [''library-client'', ''remote-query'', ''m'']"
    by (simp add: call_argv_def library_driver_def)
qed (simp add: fresh_session_def answering_def)

end
