(* ===== verification/Lifecycle_Scenario.thy ===== *)
theory Lifecycle_Scenario
  imports Remote_Scenarios Verdict
begin

text \<open>
  \<open>run.py\<close>, the built-in scenarios: installing, updating, failing and retrying an update,
  removing and aborting. A passed lifecycle rests on a sequence of observed commands: what the
  application printed when run against the snapshot the server then offered.
\<close>

section \<open>The scenarios\<close>

text \<open>\<open>v[k1][k2]...\<close> of a checked document, down to a string.\<close>

definition text_item :: "pyval \<Rightarrow> string list \<Rightarrow> string prog" where
  "text_item v keys = liftP (liftE text_of (foldE getitem v keys))"

definition assert_installed_version :: "driver \<Rightarrow> pyval \<Rightarrow> string \<Rightarrow> string \<Rightarrow> unit prog" where
  "assert_installed_version d fixture version context =
     bindP (text_item fixture [''commits'', version]) (\<lambda>commit.
     thenP (ignore (query d (app_of fixture '''') (Some commit)))
     (thenP (ignore (query d (runtime_of fixture) (Some (text_at fixture ''runtime_commit''))))
     (bindP (success d ''run'' [app_of fixture '''']) (\<lambda>output.
      require (output = version) (''app did not report version '' @ version @ '' '' @ context)))))"

definition count_lines :: "string \<Rightarrow> string \<Rightarrow> nat" where
  "count_lines line output = length (filter (\<lambda>l. l = line) (splitlines output))"

definition expect_empty :: "driver \<Rightarrow> string \<Rightarrow> string \<Rightarrow> (bool \<Rightarrow> string \<Rightarrow> unit prog) \<Rightarrow> unit prog" where
  "expect_empty d operation message verdict = bindP (success d operation ['''']) (\<lambda>output. verdict (output = '''') message)"

definition ready_abort :: "driver \<Rightarrow> pyval \<Rightarrow> unit prog" where
  "ready_abort d fixture =
     (let app = app_of fixture '''' in
      bindP (call d ''install-abort-ready'' [app]) (\<lambda>aborted. steps [
        check d (0 < returncode aborted) ''returning FALSE from ready must abort the transaction'',
        check d (count_lines ''signal ready'' (stderr aborted) = 1)
          ''the abort decision must be made by the public ready signal handler'',
        check d (\<not> list_ex (\<lambda>l. startswith l ''signal new-operation'') (splitlines (stderr aborted)))
          ''ready rejection must prevent operation execution'',
        expect_empty d ''list-refs'' ''aborted ready must leave no installed refs'' (check d),
        bindP (call d ''install'' [app]) (\<lambda>accepted. steps [
          check d (returncode accepted = 0) (''accepting ready must permit install: '' @ stderr accepted),
          check d (count_lines ''signal ready'' (stderr accepted) = 1)
            ''successful transaction must consult the accepting ready handler'',
          assert_installed_version d fixture ''A'' ''after accepting ready''])]))"

definition absent_ref :: "driver \<Rightarrow> pyval \<Rightarrow> unit prog" where
  "absent_ref d fixture = forP [''query'', ''uninstall''] (\<lambda>operation. steps [
     expect_error d operation (app_of fixture ''.Missing'') ''NOT_INSTALLED'',
     assert_installed_version d fixture ''A'' (''after '' @ operation @ '' of absent ref'')])"

definition repeated_install :: "driver \<Rightarrow> pyval \<Rightarrow> unit prog" where
  "repeated_install d fixture = thenP (serve_version ''B'')
     (if driver_kind d = ''library'' then expect_error d ''install'' (app_of fixture '''') ''ALREADY_INSTALLED''
      else bindP (call d ''install'' [app_of fixture '''']) (\<lambda>repeated. steps [
        require (returncode repeated = 0) ''repeated CLI install must succeed'',
        require (contains ''already installed'' (casefold (stdout repeated @ stderr repeated)))
          ''repeated CLI install must warn that the app is already installed'']))"

text \<open>The requests of the server since its log had a given length.\<close>

definition requests_since :: "nat \<Rightarrow> dict list prog" where
  "requests_since n = readP (\<lambda>s. drop n (requests (repository s)))"

definition was_blocked :: "dict \<Rightarrow> bool" where
  "was_blocked r = (get_default r ''blocked'' PNone = PBool True)"

definition payload_of :: "string \<Rightarrow> dict \<Rightarrow> bool" where
  "payload_of version r \<longleftrightarrow> get_default r ''version'' PNone = PStr version \<and>
     endswith (text_of (get_default r ''path'' PNone)) ''.filez'' \<and> \<not> was_blocked r"

definition failed_update :: "driver \<Rightarrow> pyval \<Rightarrow> unit prog" where
  "failed_update d fixture = bindP (call d ''update'' [app_of fixture '''']) (\<lambda>result.
     thenP (require (0 < returncode result) ''failed download must produce an update error'')
     (bindP (requests_since 0) (\<lambda>rs.
      require (list_ex was_blocked rs) ''update failed without attempting the injected payload download'')))"

definition retry_update :: "driver \<Rightarrow> pyval \<Rightarrow> unit prog" where
  "retry_update d fixture = thenP (block_payloads False)
     (bindP (readP (\<lambda>s. length (requests (repository s)))) (\<lambda>retry_start.
      thenP (ignore (success d ''update'' [app_of fixture '''']))
     (bindP (requests_since retry_start) (\<lambda>rs.
      thenP (require (list_ex (payload_of ''B'') rs) ''retry did not attempt a restored payload download'')
        (assert_installed_version d fixture ''B'' ''after retry'')))))"

definition removal :: "driver \<Rightarrow> pyval \<Rightarrow> unit prog" where
  "removal d fixture = thenP (ignore (success d ''uninstall'' [app_of fixture '''']))
     (thenP (ignore (query d (runtime_of fixture) (Some (text_at fixture ''runtime_commit''))))
     (bindP (call d ''query'' [app_of fixture '''']) (\<lambda>absent.
      if driver_kind d = ''library'' then require (returncode absent = 3) ''expected public NOT_INSTALLED error''
      else thenP (require (0 < returncode absent) ''query must fail after uninstall'')
        (expect_empty d ''list-apps'' ''successful app enumeration must be empty after uninstall'' require))))"

definition update_scenarios :: "string list" where
  "update_scenarios = [''lifecycle'', ''failed-update'', ''retry-update'']"

definition update_lifecycle :: "driver \<Rightarrow> pyval \<Rightarrow> string \<Rightarrow> unit prog" where
  "update_lifecycle d fixture name =
     (let failure = name \<in> {''failed-update'', ''retry-update''} in
      thenP (serve_version ''B'')
     (thenP (block_payloads failure)
     (thenP (if failure then failed_update d fixture else ignore (success d ''update'' [app_of fixture '''']))
     (thenP (assert_installed_version d fixture (if failure then ''A'' else ''B'') ''after update'')
     (thenP (whenP (name = ''retry-update'') (retry_update d fixture))
       (whenP (\<not> failure) (removal d fixture)))))))"

definition scenario :: "driver \<Rightarrow> string \<Rightarrow> pyval \<Rightarrow> string \<Rightarrow> unit prog" where
  "scenario d url fixture name =
     (if name = ''remote-config'' then remote_configuration d url fixture
      else if name = ''remote-priority-order'' then remote_priority_order d url
      else thenP (ignore (setup_success d ''remote'' [url]))
     (if name = ''ready-abort'' then ready_abort d fixture
      else if name = ''missing-install'' then steps [
        expect_error d ''install'' (app_of fixture ''.Missing'') ''REF_NOT_FOUND'',
        expect_empty d ''list-refs'' ''failed install must leave the fresh installation empty'' require]
      else thenP (ignore (setup_success d ''install'' [app_of fixture '''']))
     (thenP (assert_installed_version d fixture ''A'' ''after install'')
     (if name = ''absent-ref'' then absent_ref d fixture
      else if name \<in> {''noop-update'', ''repeated-install''} then
        thenP (if name = ''noop-update'' then ignore (success d ''update'' [app_of fixture ''''])
               else repeated_install d fixture)
          (assert_installed_version d fixture ''A'' (''after '' @ name))
      else if name \<notin> set update_scenarios then raiseP ValueError (''scenario has no implementation: '' @ name)
      else update_lifecycle d fixture name))))"

lemma audited_items [audits]: "keeps audited (text_item v keys)" "keeps audited (requests_since n)"
  unfolding text_item_def requests_since_def by (intro audits)+

lemma audited_version [audits]: "keeps audited (assert_installed_version d fixture version when)"
  unfolding assert_installed_version_def by (intro audits)

lemma audited_empty [audits]: "keeps audited (expect_empty d operation message (check d))"
  "keeps audited (expect_empty d operation message require)"
  unfolding expect_empty_def by (intro audits)+

lemma audited_parts [audits]:
  "keeps audited (ready_abort d fixture)" "keeps audited (absent_ref d fixture)"
  "keeps audited (repeated_install d fixture)" "keeps audited (failed_update d fixture)"
  "keeps audited (retry_update d fixture)" "keeps audited (removal d fixture)"
  unfolding ready_abort_def absent_ref_def repeated_install_def failed_update_def retry_update_def removal_def
  by (intro audits)+

lemma audited_update_lifecycle [audits]: "keeps audited (update_lifecycle d fixture name)"
  unfolding update_lifecycle_def by (intro audits)

lemma audited_scenario [audits]: "keeps audited (scenario d url fixture name)"
  unfolding scenario_def by (intro audits)


section \<open>A passed lifecycle is earned\<close>

text \<open>What a command is expected to be: the operation and its arguments, the snapshot served meanwhile, and
  what must hold of its exit status and of the text it printed, white space aside.\<close>

datatype expectation = Expect string "string list" snapshot "int \<Rightarrow> string \<Rightarrow> bool"

definition meets :: "driver \<Rightarrow> expectation \<Rightarrow> entry \<Rightarrow> bool" where
  "meets d x e \<longleftrightarrow> (case x of Expect operation arguments v ok \<Rightarrow> \<exists>argv st out err.
     call_argv d operation arguments = Inr argv \<and> e = Entry argv v (Exited st out err) \<and> ok st (strip out))"

definition succeeds :: "int \<Rightarrow> string \<Rightarrow> bool" where
  "succeeds st out \<longleftrightarrow> st = 0"

definition answers :: "string list \<Rightarrow> int \<Rightarrow> string \<Rightarrow> bool" where
  "answers ws st out \<longleftrightarrow> st = 0 \<and> split_ws out = ws"

definition prints :: "string \<Rightarrow> int \<Rightarrow> string \<Rightarrow> bool" where
  "prints shown st out \<longleftrightarrow> st = 0 \<and> out = shown"

text \<open>An installed version: the application at its commit, the runtime at its own, and what the application
  prints when run.\<close>

definition version_checks :: "pyval \<Rightarrow> snapshot \<Rightarrow> string \<Rightarrow> string \<Rightarrow> expectation list" where
  "version_checks fixture v commit version = [
     Expect ''query'' [app_of fixture ''''] v (answers [app_of fixture '''', commit]),
     Expect ''query'' [runtime_of fixture] v (answers [runtime_of fixture, text_at fixture ''runtime_commit'']),
     Expect ''run'' [app_of fixture ''''] v (prints version)]"

text \<open>A removal: the runtime stays, the application is gone, as far as either interface can tell.\<close>

definition removal_checks :: "driver \<Rightarrow> pyval \<Rightarrow> snapshot \<Rightarrow> expectation list" where
  "removal_checks d fixture v = [
     Expect ''uninstall'' [app_of fixture ''''] v succeeds,
     Expect ''query'' [runtime_of fixture] v (answers [runtime_of fixture, text_at fixture ''runtime_commit''])] @
     (if driver_kind d = ''library'' then [Expect ''query'' [app_of fixture ''''] v (\<lambda>st out. st = 3)]
      else [Expect ''query'' [app_of fixture ''''] v (\<lambda>st out. 0 < st), Expect ''list-apps'' [''''] v (prints '''')])"

definition lifecycle_checks :: "driver \<Rightarrow> string \<Rightarrow> pyval \<Rightarrow> (string \<Rightarrow> string) \<Rightarrow> expectation list" where
  "lifecycle_checks d url fixture commit =
     [Expect ''remote'' [url] (''A'', False) succeeds, Expect ''install'' [app_of fixture ''''] (''A'', False) succeeds] @
     version_checks fixture (''A'', False) (commit ''A'') ''A'' @
     [Expect ''update'' [app_of fixture ''''] (''B'', False) succeeds] @
     version_checks fixture (''B'', False) (commit ''B'') ''B'' @
     removal_checks d fixture (''B'', False)"

text \<open>The commit a fixture declares for a version.\<close>

definition declared_commit :: "pyval \<Rightarrow> string \<Rightarrow> string \<Rightarrow> bool" where
  "declared_commit fixture version commit \<longleftrightarrow> liftE text_of (foldE getitem fixture [''commits'', version]) = Inr commit"

section \<open>Performing a list of expectations\<close>

definition performs :: "driver \<Rightarrow> snapshot \<Rightarrow> 'a prog \<Rightarrow> snapshot \<Rightarrow> expectation list \<Rightarrow> bool" where
  "performs d v m v' xs \<longleftrightarrow> earns v m v' (\<lambda>_ es. list_all2 (meets d) xs es)"

lemma performs_then: "performs d v m v1 xs \<Longrightarrow> performs d v1 n v2 ys \<Longrightarrow> performs d v (thenP m n) v2 (xs @ ys)"
  unfolding performs_def
  by (erule earns_then) (rule earns_mono, assumption, rule list_all2_appendI)

lemma performs_then_serve: "performs d (b, f) n v' xs \<Longrightarrow> performs d (a, f) (thenP (serve_version b) n) v' xs"
  unfolding performs_def by (rule earns_then_serve)

lemma performs_then_block: "performs d (a, b) n v' xs \<Longrightarrow> performs d (a, f) (thenP (block_payloads b) n) v' xs"
  unfolding performs_def by (rule earns_then_block)

lemma performs_require: "performs d v (require ok m) v []"
  unfolding performs_def by (rule earns_require) simp

lemma performs_require_then: "(ok \<Longrightarrow> performs d v n v' xs) \<Longrightarrow> performs d v (thenP (require ok m) n) v' xs"
  unfolding performs_def by (rule earns_require_then)

lemma earns_success_check:
  "earns v (success d operation arguments) v (\<lambda>x es. list_all2 (meets d) [Expect operation arguments v (prints x)] es)"
  by (rule earns_mono [OF earns_success]) (auto simp: meets_def prints_def)

lemma earns_call_check:
  "earns v (call d operation arguments) v
     (\<lambda>c es. list_all2 (meets d) [Expect operation arguments v (\<lambda>st out. st = returncode c)] es)"
  by (rule earns_mono [OF earns_call]) (auto simp: meets_def)

lemma meets_weaken: "list_all2 (meets d) [Expect operation arguments v ok] es \<Longrightarrow> (\<And>st out. ok st out \<Longrightarrow> ok' st out) \<Longrightarrow>
    list_all2 (meets d) [Expect operation arguments v ok'] es"
  by (fastforce simp: meets_def list_all2_Cons1)

lemma performs_commands:
  "performs d v (ignore (success d operation arguments)) v [Expect operation arguments v succeeds]"
  "performs d v (ignore (setup_success d operation arguments)) v [Expect operation arguments v succeeds]"
proof -
  show "performs d v (ignore (success d operation arguments)) v [Expect operation arguments v succeeds]"
    unfolding performs_def
    by (rule earns_ignore, rule earns_mono [OF earns_success]) (auto simp: meets_def succeeds_def)
  show "performs d v (ignore (setup_success d operation arguments)) v [Expect operation arguments v succeeds]"
    unfolding performs_def
    by (rule earns_ignore, rule earns_mono [OF earns_setup]) (auto simp: meets_def succeeds_def)
qed

text \<open>A command whose result is required to satisfy a condition.\<close>

lemma performs_success_require:
  "performs d v (bindP (success d operation arguments) (\<lambda>x. require (ok x) (msg x))) v
     [Expect operation arguments v (\<lambda>st out. st = 0 \<and> ok out)]"
  unfolding performs_def
  by (rule earns_bind [OF earns_success_check], rule earns_require)
    (auto simp: prints_def elim!: meets_weaken)

lemma performs_query: "performs d v (ignore (query d ref (Some c))) v [Expect ''query'' [ref] v (answers [ref, c])]"
  unfolding performs_def query_def Let_def option.case
proof (rule earns_ignore, rule earns_bind [OF earns_success_check], (rule earns_require_then)+, rule earns_ret)
  fix x es
  assume es: "list_all2 (meets d) [Expect ''query'' [ref] v (prints x)] es"
    and x: "length (split_ws x) = 2" "split_ws x ! 0 = ref" "split_ws x ! 1 = c"
  obtain a b where "split_ws x = [a, b]" using x(1) by (auto simp: numeral_2_eq_2 length_Suc_conv)
  with x(2,3) have "split_ws x = [ref, c]" by simp
  with es show "list_all2 (meets d) [Expect ''query'' [ref] v (answers [ref, c])] (es @ [])"
    by (auto simp: prints_def answers_def elim!: meets_weaken)
qed

lemma performs_version:
  assumes "\<And>commit. declared_commit fixture version commit \<Longrightarrow> commit = c"
  shows "performs d v (assert_installed_version d fixture version when) v (version_checks fixture v c version)"
  unfolding assert_installed_version_def text_item_def performs_def
proof (rule earns_lift)
  fix commit
  assume "liftE text_of (foldE getitem fixture [''commits'', version]) = Inr commit"
  with assms have c: "commit = c" by (simp add: declared_commit_def)
  have run: "performs d v (bindP (success d ''run'' [app_of fixture '''']) (\<lambda>output. require (output = version) msg)) v
      [Expect ''run'' [app_of fixture ''''] v (prints version)]" for msg
    unfolding prints_def by (rule performs_success_require)
  from performs_then [OF performs_query performs_then [OF performs_query run]]
  show "earns v (thenP (ignore (query d (app_of fixture '''') (Some commit)))
      (thenP (ignore (query d (runtime_of fixture) (Some (text_at fixture ''runtime_commit''))))
      (bindP (success d ''run'' [app_of fixture '''']) (\<lambda>output.
        require (output = version) (''app did not report version '' @ version @ '' '' @ when))))) v
      (\<lambda>_ es. list_all2 (meets d) (version_checks fixture v c version) es)"
    unfolding performs_def version_checks_def c append_Cons append_Nil .
qed

lemma performs_removal: "performs d v (removal d fixture) v (removal_checks d fixture v)"
proof -
  have absent: "performs d v (bindP (call d ''query'' [app_of fixture '''']) (\<lambda>absent.
      if driver_kind d = ''library'' then require (returncode absent = 3) msg
      else thenP (require (0 < returncode absent) msg') (expect_empty d ''list-apps'' msg'' require))) v
      (if driver_kind d = ''library'' then [Expect ''query'' [app_of fixture ''''] v (\<lambda>st out. st = 3)]
       else [Expect ''query'' [app_of fixture ''''] v (\<lambda>st out. 0 < st), Expect ''list-apps'' [''''] v (prints '''')])"
    for msg msg' msg''
  proof (cases "driver_kind d = ''library''")
    case True
    then show ?thesis
      unfolding performs_def True refl [THEN eq_True [THEN iffD2]] if_True
      by (intro earns_bind [OF earns_call_check] earns_require) (auto elim!: meets_weaken)
  next
    case False
    have empty: "performs d v (expect_empty d ''list-apps'' msg'' require) v [Expect ''list-apps'' [''''] v (prints '''')]"
      unfolding expect_empty_def prints_def by (rule performs_success_require)
    have "earns v (thenP (require (0 < returncode c) msg') (expect_empty d ''list-apps'' msg'' require)) v
        (\<lambda>_ es'. list_all2 (meets d) [Expect ''query'' [app_of fixture ''''] v (\<lambda>st out. 0 < st),
           Expect ''list-apps'' [''''] v (prints '''')] (es @ es'))"
      if es: "list_all2 (meets d) [Expect ''query'' [app_of fixture ''''] v (\<lambda>st out. st = returncode c)] es" for c es
    proof (rule earns_require_then)
      assume "0 < returncode c"
      with es have "list_all2 (meets d) [Expect ''query'' [app_of fixture ''''] v (\<lambda>st out. 0 < st)] es"
        by (auto elim!: meets_weaken)
      from list_all2_appendI [OF this] empty
      show "earns v (expect_empty d ''list-apps'' msg'' require) v
          (\<lambda>_ es'. list_all2 (meets d) [Expect ''query'' [app_of fixture ''''] v (\<lambda>st out. 0 < st),
           Expect ''list-apps'' [''''] v (prints '''')] (es @ es'))"
        unfolding performs_def by (elim earns_mono) simp
    qed
    with False show ?thesis
      unfolding performs_def by (simp only: if_False) (rule earns_bind [OF earns_call_check])
  qed
  from performs_then [OF performs_commands(1) performs_then [OF performs_query absent]]
  show ?thesis unfolding removal_def removal_checks_def append_Cons append_Nil .
qed

lemma scenario_lifecycle:
  "scenario d url fixture ''lifecycle'' =
     thenP (ignore (setup_success d ''remote'' [url])) (thenP (ignore (setup_success d ''install'' [app_of fixture '''']))
     (thenP (assert_installed_version d fixture ''A'' ''after install'') (thenP (serve_version ''B'')
     (thenP (block_payloads False) (thenP (ignore (success d ''update'' [app_of fixture '''']))
     (thenP (assert_installed_version d fixture ''B'' ''after update'')
     (thenP (ret ()) (removal d fixture))))))))"
  by (simp add: scenario_def update_lifecycle_def update_scenarios_def whenP_def)

text \<open>C11: A passed lifecycle was earned, step by step: the commands it ran are exactly those of the
  lifecycle contract, in their order, and each had the outcome the contract asks for. With snapshot A served,
  the remote was configured and the application installed; it was found at A's declared commit, its runtime at
  the runtime's, and it printed A when run. With snapshot B served it was updated, was found at B's commit
  with the same runtime, and printed B. It was uninstalled; the runtime was still found, a query for the
  application failed (with the status of NOT_INSTALLED at the library), and at the command line the list
  of applications was empty.\<close>

theorem lifecycle_earned:
  assumes "scenario d url fixture ''lifecycle'' s = (Inr (), t)" and "snapshot_of_session s = (''A'', False)"
  shows "\<exists>commit es. declared_commit fixture ''A'' (commit ''A'') \<and> declared_commit fixture ''B'' (commit ''B'') \<and>
    command_log t = command_log s @ es \<and> list_all2 (meets d) (lifecycle_checks d url fixture commit) es"
proof -
  obtain a where a: "declared_commit fixture ''A'' a"
    using assms(1) unfolding scenario_lifecycle declared_commit_def
    by (auto simp: then_Inr_iff bind_Inr_iff assert_installed_version_def text_item_def liftP_def)
  obtain b where b: "declared_commit fixture ''B'' b"
    using assms(1) unfolding scenario_lifecycle declared_commit_def
    by (auto simp: then_Inr_iff bind_Inr_iff assert_installed_version_def text_item_def liftP_def)
  define commit where "commit v = (if v = ''A'' then a else b)" for v
  have version: "performs d v (assert_installed_version d fixture ''A'' context') v (version_checks fixture v (commit ''A'') ''A'')"
    "performs d v (assert_installed_version d fixture ''B'' context') v (version_checks fixture v (commit ''B'') ''B'')" for v context'
    by (rule performs_version; use a b in \<open>simp add: declared_commit_def commit_def\<close>)+
  have ended: "performs d v (thenP (ret ()) (removal d fixture)) v (removal_checks d fixture v)" for v
    using performs_then [of d v "ret ()" v "[]", OF _ performs_removal] by (simp add: performs_def earns_ret)
  note removed = performs_then [OF version(2) ended]
  note updated = performs_then_serve [OF performs_then_block [OF performs_then [OF performs_commands(1) removed]]]
  have "performs d (''A'', False) (scenario d url fixture ''lifecycle'') (''B'', False)
      (lifecycle_checks d url fixture commit)"
    using performs_then [OF performs_commands(2) performs_then [OF performs_commands(2) performs_then [OF version(1) updated]]]
    unfolding scenario_lifecycle lifecycle_checks_def append_Cons append_Nil .
  from earnsD [OF this [unfolded performs_def] assms(2,1)]
  obtain es where "command_log t = command_log s @ es" "list_all2 (meets d) (lifecycle_checks d url fixture commit) es"
    by blast
  with a b show ?thesis by (intro exI [of _ commit] exI [of _ es]) (simp add: commit_def)
qed

section \<open>A conforming installation passes\<close>

text \<open>
  What an installation promises: the snapshot version it holds of the application, if any, and
  whether the runtime came with it. Installing and updating take the version then served,
  provided its payloads are not refused; queries identify the ref and its commit; running the
  application prints the version held.
\<close>

type_synonym installation = "string option \<times> bool"

definition exits_with :: "int \<Rightarrow> completed \<Rightarrow> bool" where
  "exits_with st c \<longleftrightarrow> returncode c = st"

definition shows_words :: "string list \<Rightarrow> completed \<Rightarrow> bool" where
  "shows_words ws c \<longleftrightarrow> returncode c = 0 \<and> split_ws (strip (stdout c)) = ws"

definition shows_text :: "string \<Rightarrow> completed \<Rightarrow> bool" where
  "shows_text shown c \<longleftrightarrow> returncode c = 0 \<and> strip (stdout c) = strip shown"

definition not_installed :: "driver \<Rightarrow> completed \<Rightarrow> bool" where
  "not_installed d c \<longleftrightarrow> 0 < returncode c \<and> (driver_kind d = ''library'' \<longrightarrow> returncode c = 3)"

definition installation_contract :: "driver \<Rightarrow> string \<Rightarrow> string \<Rightarrow> (string \<Rightarrow> string) \<Rightarrow> string \<Rightarrow> installation contract" where
  "installation_contract d app runtime commit runtime_commit v operation arguments b =
     (case v of (served, refused) \<Rightarrow> case b of (held, present) \<Rightarrow>
      if operation = ''remote'' then Some (exits_with 0, b)
      else if operation = ''install'' \<and> arguments = [app] \<and> held = None \<and> \<not> refused then Some (exits_with 0, (Some served, True))
      else if operation = ''update'' \<and> arguments = [app] \<and> held \<noteq> None \<and> \<not> refused then Some (exits_with 0, (Some served, True))
      else if operation = ''uninstall'' \<and> arguments = [app] \<and> held \<noteq> None then Some (exits_with 0, (None, present))
      else if operation = ''query'' \<and> arguments = [app] then
        (case held of Some w \<Rightarrow> Some (shows_words [app, commit w], b) | None \<Rightarrow> Some (not_installed d, b))
      else if operation = ''query'' \<and> arguments = [runtime] \<and> present then Some (shows_words [runtime, runtime_commit], b)
      else if operation = ''run'' \<and> arguments = [app] then map_option (\<lambda>w. (shows_text w, b)) held
      else if operation = ''list-apps'' \<and> held = None then Some (shows_text '''', b)
      else None)"

locale conforming_installation =
  target_contract d "installation_contract d (app_of fixture '''') (runtime_of fixture) commit (text_at fixture ''runtime_commit'')" view w
  for d :: driver and fixture :: pyval and commit :: "string \<Rightarrow> string" and view :: "event list \<Rightarrow> installation" and w :: world +
  assumes client: "runs_client d"
    and commits: "served \<in> {''A'', ''B''} \<Longrightarrow> foldE getitem fixture [''commits'', served] = Inr (PStr (commit served))"
begin

lemma installation_argv:
  "\<exists>argv. call_argv d ''remote'' [x] = Inr argv" "\<exists>argv. call_argv d ''install'' [x] = Inr argv"
  "\<exists>argv. call_argv d ''update'' [x] = Inr argv" "\<exists>argv. call_argv d ''uninstall'' [x] = Inr argv"
  "\<exists>argv. call_argv d ''query'' [x] = Inr argv" "\<exists>argv. call_argv d ''run'' [x] = Inr argv"
  "\<exists>argv. call_argv d ''list-apps'' [x] = Inr argv"
  using client
  by (auto simp: runs_client_def call_argv_def remote_cli_args_def cli_commands_def unpack_def guardE_def item_def
      split: option.splits)

lemma app_not_runtime [simp]: "runtime_of fixture \<noteq> app_of fixture ''''"
  by (simp add: app_of_def runtime_of_def)

lemma leads_moves:
  "leads_on view w (ignore (setup_success d ''remote'' [url])) (b, v) (b, v)"
  "leads_on view w (ignore (setup_success d ''install'' [app_of fixture ''''])) ((None, p), (served, False)) ((Some served, True), (served, False))"
  "leads_on view w (ignore (success d ''update'' [app_of fixture ''''])) ((Some x, p), (served, False)) ((Some served, True), (served, False))"
  "leads_on view w (ignore (success d ''uninstall'' [app_of fixture ''''])) ((Some x, p), v) ((None, p), v)"
proof -
  show "leads_on view w (ignore (setup_success d ''remote'' [url])) (b, v) (b, v)"
    using installation_argv(1) [of url]
    by (elim exE, intro leads_setup) (auto simp: installation_contract_def exits_with_def split: prod.split)
  show "leads_on view w (ignore (setup_success d ''install'' [app_of fixture ''''])) ((None, p), (served, False)) ((Some served, True), (served, False))"
    using installation_argv(2) [of "app_of fixture ''''"]
    by (elim exE, intro leads_setup) (auto simp: installation_contract_def exits_with_def)
  show "leads_on view w (ignore (success d ''update'' [app_of fixture ''''])) ((Some x, p), (served, False)) ((Some served, True), (served, False))"
    using installation_argv(3) [of "app_of fixture ''''"]
    by (elim exE, intro leads_operation) (auto simp: installation_contract_def exits_with_def)
  show "leads_on view w (ignore (success d ''uninstall'' [app_of fixture ''''])) ((Some x, p), v) ((None, p), v)"
    using installation_argv(4) [of "app_of fixture ''''"]
    by (elim exE, intro leads_operation) (auto simp: installation_contract_def exits_with_def split: prod.split)
qed

lemma leads_query:
  assumes "installation_contract d (app_of fixture '''') (runtime_of fixture) commit (text_at fixture ''runtime_commit'')
      v ''query'' [ref] b = Some (shows_words [ref, c], b)"
  shows "leads_on view w (ignore (query d ref (Some c))) (b, v) (b, v)"
proof -
  obtain argv where argv: "call_argv d ''query'' [ref] = Inr argv" using installation_argv(5) by blast
  have "leads view w (success d ''query'' [ref]) (b, v) (\<lambda>x. split_ws x = [ref, c]) (b, v)"
    by (rule leads_success [OF argv assms]) (simp add: shows_words_def)
  then show ?thesis
    unfolding query_def Let_def
    by (intro leads_ignore) (erule leads_bind, auto intro!: leads_then leads_require leads_ret)
qed

lemma leads_installed:
  assumes "version \<in> {''A'', ''B''}"
  shows "leads_on view w (assert_installed_version d fixture version when) ((Some version, True), v) ((Some version, True), v)"
proof -
  obtain argv where argv: "call_argv d ''run'' [app_of fixture ''''] = Inr argv" using installation_argv(6) by blast
  have run: "leads view w (success d ''run'' [app_of fixture '''']) ((Some version, True), v) (\<lambda>x. x = version) ((Some version, True), v)"
    by (rule leads_success [OF argv, where ok = "shows_text version"])
      (use assms in \<open>auto simp: installation_contract_def shows_text_def strip_id isspace_def code_def split: prod.split\<close>)
  have item: "leads view w (text_item fixture [''commits'', version]) ((Some version, True), v) (\<lambda>x. x = commit version) ((Some version, True), v)"
    unfolding text_item_def by (rule leads_lift) (use commits [OF assms] in simp_all)
  have app: "leads_on view w (ignore (query d (app_of fixture '''') (Some (commit version)))) ((Some version, True), v) ((Some version, True), v)"
    by (rule leads_query) (simp add: installation_contract_def split: prod.split)
  have runtime: "leads_on view w (ignore (query d (runtime_of fixture) (Some (text_at fixture ''runtime_commit''))))
      ((Some version, True), v) ((Some version, True), v)"
    by (rule leads_query) (simp add: installation_contract_def split: prod.split)
  show ?thesis
    unfolding assert_installed_version_def
    by (rule leads_bind [OF item], hypsubst, rule leads_then [OF app], rule leads_then [OF runtime],
        rule leads_bind [OF run], rule leads_require)
qed

lemma leads_removal:
  "leads_on view w (removal d fixture) ((Some x, True), v) ((None, True), v)"
proof -
  obtain argv where argv: "call_argv d ''query'' [app_of fixture ''''] = Inr argv" using installation_argv(5) by blast
  obtain argv' where argv': "call_argv d ''list-apps'' [''''] = Inr argv'" using installation_argv(7) by blast
  have requery: "leads view w (call d ''query'' [app_of fixture '''']) ((None, True), v) (not_installed d) ((None, True), v)"
    by (rule leads_call [OF argv]) (simp add: installation_contract_def split: prod.split)
  have empty: "leads view w (success d ''list-apps'' ['''']) ((None, True), v) (\<lambda>x. x = '''') ((None, True), v)"
    by (rule leads_success [OF argv', where ok = "shows_text ''''"])
      (simp_all add: installation_contract_def shows_text_def strip_id split: prod.split)
  have runtime: "leads_on view w (ignore (query d (runtime_of fixture) (Some (text_at fixture ''runtime_commit''))))
      ((None, True), v) ((None, True), v)"
    by (rule leads_query) (simp add: installation_contract_def split: prod.split)
  show ?thesis
    unfolding removal_def expect_empty_def
    by (rule leads_then [OF leads_moves(4)], rule leads_then [OF runtime], rule leads_bind [OF requery])
      (auto simp: not_installed_def intro!: leads_then leads_require leads_bind [OF empty])
qed

lemma leads_lifecycle:
  "leads_on view w (scenario d url fixture ''lifecycle'') ((None, False), (''A'', False)) ((None, True), (''B'', False))"
  unfolding scenario_lifecycle
  by (rule leads_then, rule leads_moves(1), rule leads_then, rule leads_moves(2), rule leads_then, rule leads_installed, simp,
      rule leads_then, rule leads_serve, rule leads_then, rule leads_block, rule leads_then, rule leads_moves(3),
      rule leads_then, rule leads_installed, simp, rule leads_then, rule leads_ret, rule TrueI, rule leads_removal)

end

text \<open>C12: Refinement of the abstract installation. A target that keeps the installation's contract,
  behind either driver, passes the lifecycle from an empty installation, which ends without the
  application.\<close>

theorem lifecycle_accepts:
  assumes "conforming_installation d fixture commit view (world s)"
    and "view (trace s) = (None, False)" and "snapshot_of_session s = (''A'', False)"
  shows "\<exists>t. scenario d url fixture ''lifecycle'' s = (Inr (), t) \<and> view (trace t) = (None, True)"
proof -
  from leadsD [OF conforming_installation.leads_lifecycle [OF assms(1)] refl assms(2,3)]
  show ?thesis by (metis (full_types) old.unit.exhaust)
qed

section \<open>A reference installation\<close>

definition installed_step :: "installation \<Rightarrow> event \<Rightarrow> installation" where
  "installed_step b ev = (case ev of
     Command (_ # operation # _) _ _ v f \<Rightarrow>
       if operation = ''install'' \<or> operation = ''update'' then (Some v, True)
       else if operation = ''uninstall'' then (None, snd b) else b
   | _ \<Rightarrow> b)"

definition installed_view :: "event list \<Rightarrow> installation" where
  "installed_view tr = foldl installed_step (None, False) tr"

definition sample_commit :: "string \<Rightarrow> string" where
  "sample_commit v = (if v = ''A'' then ''aaaa'' else ''bbbb'')"

definition installation_reply :: "installation \<Rightarrow> event \<Rightarrow> outcome" where
  "installation_reply b ev = (case ev of
     Command (_ # operation # arguments) _ _ v f \<Rightarrow>
       if operation = ''query'' then
         (if arguments = [runtime_of reference_fixture]
          then Exited 0 (runtime_of reference_fixture @ '' '' @ ''c0ffee'') ''''
          else case fst b of Some w \<Rightarrow> Exited 0 (app_of reference_fixture '''' @ '' '' @ sample_commit w) ''''
            | None \<Rightarrow> Exited 3 '''' '''')
       else if operation = ''run'' then (case fst b of Some w \<Rightarrow> Exited 0 w '''' | None \<Rightarrow> Exited 1 '''' '''')
       else Exited 0 '''' ''''
   | _ \<Rightarrow> Exited 1 '''' '''')"

definition reference_installation :: world where
  "reference_installation = \<lparr>commands = (\<lambda>tr. (installation_reply (installed_view (butlast tr)) (last tr), [])),
     texts = (\<lambda>_. Inr ''''), path_tests = (\<lambda>_. Inr True), effects = (\<lambda>_. Inr ()), clock = (\<lambda>_. 0)\<rparr>"

lemma reference_items:
  "app_of reference_fixture '''' = ''app/org.flatpak.Test/x86_64/master''"
  "runtime_of reference_fixture = ''runtime/org.flatpak.Platform/x86_64/master''"
  "text_at reference_fixture ''runtime_commit'' = ''c0ffee''"
  by (simp_all add: app_of_def runtime_of_def reference_fixture_def text_at_def fld_def get_or_def)

lemma reference_words:
  "split_ws (strip (''app/org.flatpak.Test/x86_64/master'' @ '' '' @ sample_commit w)) =
     [''app/org.flatpak.Test/x86_64/master'', sample_commit w]"
  "split_ws (strip (''runtime/org.flatpak.Platform/x86_64/master'' @ '' '' @ ''c0ffee'')) =
     [''runtime/org.flatpak.Platform/x86_64/master'', ''c0ffee'']"
  by (simp_all add: sample_commit_def strip_id split_ws_def isspace_def code_def)

lemma reference_answer:
  assumes "installation_contract library_driver (app_of reference_fixture '''') (runtime_of reference_fixture) sample_commit
      (text_at reference_fixture ''runtime_commit'') (v, f) operation arguments b = Some (ok, b')"
    and "operation \<noteq> ''run'' \<Longrightarrow> rest = arguments"
  shows "\<exists>st out err. installation_reply b (Command (head # operation # rest) e c v f) = Exited st out err \<and>
      ok \<lparr>cp_args = argv, returncode = st, stdout = out, stderr = err\<rparr> \<and>
      installed_step b (Command (head # operation # rest) e c v f) = b'"
proof -
  have "operation \<in> {''remote'', ''install'', ''update'', ''uninstall'', ''query'', ''run'', ''list-apps''}"
    using assms(1) by (auto simp: installation_contract_def split: if_splits prod.splits)
  then show ?thesis
    using assms reference_words
    by (cases b) (auto simp: installation_contract_def installation_reply_def installed_step_def exits_with_def
      shows_words_def shows_text_def not_installed_def reference_items library_driver_def split: if_splits option.splits)
qed

interpretation reference: conforming_installation library_driver reference_fixture sample_commit installed_view reference_installation
proof
  fix operation arguments argv v f tr ok b
  assume argv: "call_argv library_driver operation arguments = Inr argv"
    and con: "installation_contract library_driver (app_of reference_fixture '''') (runtime_of reference_fixture) sample_commit
      (text_at reference_fixture ''runtime_commit'') (v, f) operation arguments (installed_view tr) = Some (ok, b)"
  obtain head rest where a: "argv = head # operation # rest" and rest: "operation \<noteq> ''run'' \<Longrightarrow> rest = arguments"
    using argv by (auto simp: call_argv_def library_driver_def split: if_splits)
  show "\<exists>st out err. fst (commands reference_installation (tr @ [Command argv (driver_env library_driver)
      (driver_root library_driver) v f])) = Exited st out err \<and>
      ok \<lparr>cp_args = argv, returncode = st, stdout = out, stderr = err\<rparr> \<and>
      installed_view (tr @ [Command argv (driver_env library_driver) (driver_root library_driver) v f]) = b"
    using reference_answer [OF con rest, where argv = argv]
    by (simp add: a reference_installation_def installed_view_def)
next
  show "runs_client library_driver" by (simp add: runs_client_def library_driver_def)
qed (auto simp: reference_fixture_def sample_commit_def)


lemma fresh_snapshot: "snapshot_of_session (fresh_session w) = (''A'', False)" "trace (fresh_session w) = []"
  "world (fresh_session w) = w"
  by (simp_all add: fresh_session_def snapshot_of_session_def new_repository_def)

lemma installed_empty: "installed_view [] = (None, False)"
  by (simp add: installed_view_def)

lemma lifecycle_accepts_witness:
  "\<exists>t. scenario library_driver ''http://127.0.0.1:8000'' reference_fixture ''lifecycle''
      (fresh_session reference_installation) = (Inr (), t) \<and> installed_view (trace t) = (None, True)"
  by (rule lifecycle_accepts [where commit = sample_commit])
    (simp_all add: fresh_snapshot reference.conforming_installation_axioms installed_empty)

lemma lifecycle_earned_witness:
  "\<exists>t commit es. declared_commit reference_fixture ''A'' (commit ''A'') \<and> declared_commit reference_fixture ''B'' (commit ''B'') \<and>
    command_log t = es \<and>
    list_all2 (meets library_driver) (lifecycle_checks library_driver ''http://127.0.0.1:8000'' reference_fixture commit) es"
proof -
  obtain x t where "scenario library_driver ''http://127.0.0.1:8000'' reference_fixture ''lifecycle''
      (fresh_session reference_installation) = (Inr x, t)"
    using leadsD [OF reference.leads_lifecycle] by (metis fresh_snapshot installed_empty)
  then have "scenario library_driver ''http://127.0.0.1:8000'' reference_fixture ''lifecycle''
      (fresh_session reference_installation) = (Inr (), t)" by simp
  from lifecycle_earned [OF this fresh_snapshot(1)]
  have "\<exists>commit es. declared_commit reference_fixture ''A'' (commit ''A'') \<and> declared_commit reference_fixture ''B'' (commit ''B'') \<and>
      command_log t = es \<and>
      list_all2 (meets library_driver) (lifecycle_checks library_driver ''http://127.0.0.1:8000'' reference_fixture commit) es"
    by (simp add: command_log_def fresh_snapshot)
  then show ?thesis by blast
qed

end
