(* ===== verification/Library_Features.thy ===== *)
theory Library_Features
  imports Verdict
begin

text \<open>
  \<open>library_features.py\<close>: probing the configured headers for optional public functions. Each
  probe is one compilation with its own source file and evidence record; the header written at
  the end states exactly what the probes found.
\<close>

section \<open>The features\<close>

record library_feature =
  feature_name :: string
  c_declaration :: string
  feature_behaviors :: "string list"

definition upper :: "string \<Rightarrow> string" where
  "upper s = map upper_char s"

definition feature_macro :: "library_feature \<Rightarrow> string" where
  "feature_macro f = ''BLACKBOX_HAVE_'' @ upper (feature_name f)"

definition features :: "library_feature list" where
  "features = [
     \<lparr>feature_name = ''flatpak_transaction_progress_get_bytes_per_second'',
      c_declaration = ''guint64 (*volatile blackbox_probe) (FlatpakTransactionProgress *) = '' @
        ''flatpak_transaction_progress_get_bytes_per_second;'',
      feature_behaviors = [''transaction.rate'']\<rparr>,
     \<lparr>feature_name = ''flatpak_user_data_delete'',
      c_declaration = ''gboolean (*volatile blackbox_probe) (const char *, GCancellable *, GError **) = '' @
        ''flatpak_user_data_delete;'',
      feature_behaviors = [''library.user-data.delete'']\<rparr>]"

section \<open>Probing\<close>

definition file_in :: "string \<Rightarrow> string \<Rightarrow> string" where
  "file_in directory name = path_str (path_join (path_of directory) (path_of name))"

definition compile_probe :: "string \<Rightarrow> string list \<Rightarrow> environ \<Rightarrow> string \<Rightarrow> string \<Rightarrow> string \<Rightarrow> string \<Rightarrow> completed prog" where
  "compile_probe compiler flags env out limit name body =
     (let source = file_in out (''probe-'' @ name @ ''.c'') in
      thenP (write_text source (''#include <flatpak.h>\<newline>int main(void) {\<newline>'' @ body @ ''\<newline>}\<newline>''))
        (execute ([compiler, ''-std=c11'', ''-Wall'', ''-Wextra'', ''-Werror'', source, ''-o'',
            file_in out (''probe-'' @ name)] @ flags) env out limit))"

definition availability :: "string \<Rightarrow> bool \<Rightarrow> dict" where
  "availability name found = [(''observation'', PStr ''library-api-availability''),
     (''data'', PObj [(''api'', PStr name), (''available'', PBool found)])]"

definition probe_feature :: "string \<Rightarrow> string list \<Rightarrow> environ \<Rightarrow> string \<Rightarrow> string \<Rightarrow>
    (string \<times> bool) list \<Rightarrow> library_feature \<Rightarrow> (string \<times> bool) list prog" where
  "probe_feature compiler flags env out limit available f =
     bindP (compile_probe compiler flags env out limit (feature_name f)
       (c_declaration f @ ''\<newline>return blackbox_probe == NULL;'')) (\<lambda>result.
     thenP (append_record (availability (feature_name f) (returncode result = 0)))
       (ret (AList.update (feature_name f) (returncode result = 0) available)))"

definition feature_header :: "(string \<times> bool) list \<Rightarrow> string" where
  "feature_header available = ''/* Generated by library_features.py for the selected target. */\<newline>'' @
     concat (map (\<lambda>f. ''#define '' @ feature_macro f @ '' '' @
       (if get_default available (feature_name f) False then ''1'' else ''0'') @ ''\<newline>'') features)"

definition probe_features :: "string \<Rightarrow> string list \<Rightarrow> environ \<Rightarrow> string \<Rightarrow> string \<Rightarrow> (string \<times> bool) list prog" where
  "probe_features compiler flags env out limit =
     bindP (compile_probe compiler flags env out limit ''baseline'' ''return 0;'') (\<lambda>baseline.
     thenP (guardP (returncode baseline = 0) ValueError
       (''library API probe baseline did not compile: '' @ stderr baseline))
     (bindP (foldP (probe_feature compiler flags env out limit) [] features) (\<lambda>available.
      thenP (write_text (file_in out ''blackbox-features.h'') (feature_header available)) (ret available))))"

definition missing_apis :: "string \<Rightarrow> (string \<times> bool) list \<Rightarrow> string list" where
  "missing_apis behavior available = map feature_name
     (filter (\<lambda>f. behavior \<in> set (feature_behaviors f) \<and> \<not> get_default available (feature_name f) False) features)"

lemma audited_availability [audits]: "keeps audited (append_record (availability name found))"
  by (rule audited_append_record) (simp_all add: availability_def record_argv_def json_like_PObj)

lemma audited_probes [audits]:
  "keeps audited (compile_probe compiler flags env out limit name body)"
  "keeps audited (probe_feature compiler flags env out limit available f)"
  "keeps audited (probe_features compiler flags env out limit)"
  unfolding compile_probe_def probe_feature_def probe_features_def by (intro audits)+

section \<open>What a probe run establishes\<close>

text \<open>Exactly the probed features are known afterwards, in the order of the table.\<close>

lemma foldP_Cons_Inr: "foldP f b (x # xs) s = (Inr y, t) \<longleftrightarrow>
    (\<exists>b' u. f b x s = (Inr b', u) \<and> foldP f b' xs u = (Inr y, t))"
  by (simp add: bind_Inr_iff)

text \<open>The compilation of a probe, with the status it exited with.\<close>

definition probe_argv :: "string \<Rightarrow> string list \<Rightarrow> string \<Rightarrow> string \<Rightarrow> string list" where
  "probe_argv compiler flags out name = [compiler, ''-std=c11'', ''-Wall'', ''-Wextra'', ''-Werror'',
     file_in out (''probe-'' @ name @ ''.c''), ''-o'', file_in out (''probe-'' @ name)] @ flags"

definition probed :: "string \<Rightarrow> string list \<Rightarrow> string \<Rightarrow> snapshot \<Rightarrow> string \<times> int \<Rightarrow> entry \<Rightarrow> bool" where
  "probed compiler flags out v probe e \<longleftrightarrow> (case probe of (name, st) \<Rightarrow>
     \<exists>text err. e = Entry (probe_argv compiler flags out name) v (Exited st text err))"

lemma earns_compile:
  "earns v (compile_probe compiler flags env out limit name body) v
     (\<lambda>c es. list_all2 (probed compiler flags out v) [(name, returncode c)] es)"
  unfolding compile_probe_def Let_def
  by (rule earns_then_silent, rule hushes, rule earns_mono [OF earns_execute]) (simp add: probed_def probe_argv_def)

lemma earns_probe:
  "earns v (probe_feature compiler flags env out limit available f) v (\<lambda>r es. \<exists>st.
     list_all2 (probed compiler flags out v) [(feature_name f, st)] es \<and> r = AList.update (feature_name f) (st = 0) available)"
  unfolding probe_feature_def
  by (rule earns_bind [OF earns_compile], rule earns_then_silent, rule hushes, rule earns_ret) auto

lemma earns_probes:
  "earns v (foldP (probe_feature compiler flags env out limit) available fs) v (\<lambda>r es. \<exists>sts. length sts = length fs \<and>
     list_all2 (probed compiler flags out v) (zip (map feature_name fs) sts) es \<and>
     r = fold (\<lambda>(f, st). AList.update (feature_name f) (st = 0)) (zip fs sts) available)"
proof (induction fs arbitrary: available)
  case Nil
  show ?case by (simp add: earns_ret)
next
  case (Cons f fs)
  show ?case
    unfolding foldP.simps
  proof (rule earns_bind [OF earns_probe])
    fix r es
    assume "\<exists>st. list_all2 (probed compiler flags out v) [(feature_name f, st)] es \<and> r = AList.update (feature_name f) (st = 0) available"
    then obtain st where st: "list_all2 (probed compiler flags out v) [(feature_name f, st)] es"
      "r = AList.update (feature_name f) (st = 0) available" by blast
    show "earns v (foldP (probe_feature compiler flags env out limit) r fs) v (\<lambda>r es'. \<exists>sts. length sts = length (f # fs) \<and>
        list_all2 (probed compiler flags out v) (zip (map feature_name (f # fs)) sts) (es @ es') \<and>
        r = fold (\<lambda>(f, st). AList.update (feature_name f) (st = 0)) (zip (f # fs) sts) available)"
    proof (rule earns_mono [OF Cons.IH])
      fix r' es'
      assume "\<exists>sts. length sts = length fs \<and> list_all2 (probed compiler flags out v) (zip (map feature_name fs) sts) es' \<and>
          r' = fold (\<lambda>(f, st). AList.update (feature_name f) (st = 0)) (zip fs sts) r"
      then obtain sts where sts: "length sts = length fs" "list_all2 (probed compiler flags out v) (zip (map feature_name fs) sts) es'"
        "r' = fold (\<lambda>(f, st). AList.update (feature_name f) (st = 0)) (zip fs sts) r" by blast
      from list_all2_appendI [OF st(1) sts(2)] sts(1,3) st(2)
      show "\<exists>sts. length sts = length (f # fs) \<and>
          list_all2 (probed compiler flags out v) (zip (map feature_name (f # fs)) sts) (es @ es') \<and>
          r' = fold (\<lambda>(f, st). AList.update (feature_name f) (st = 0)) (zip (f # fs) sts) available"
        by (intro exI [of _ "st # sts"]) simp
    qed
  qed
qed

text \<open>C18: A probe run compiles the baseline, which has to succeed, and then one probe per optional function,
  in the order of the table, and nothing else. An optional function is available exactly when the compilation
  of its own probe exited with 0, and an API a behavior needs is reported missing exactly when its
  probe exited with another status.\<close>

theorem probe_features_decide:
  assumes "probe_features compiler flags env out limit s = (Inr available, t)"
  shows "\<exists>sts es. length sts = length features \<and> command_log t = command_log s @ es \<and>
    list_all2 (probed compiler flags out (snapshot_of_session s)) ((''baseline'', 0) # zip (map feature_name features) sts) es \<and>
    available = zip (map feature_name features) (map (\<lambda>st. st = 0) sts) \<and>
    (\<forall>behavior. missing_apis behavior available =
       map (\<lambda>(f, st). feature_name f) (filter (\<lambda>(f, st). behavior \<in> set (feature_behaviors f) \<and> st \<noteq> 0) (zip features sts)))"
proof -
  let ?v = "snapshot_of_session s"
  have "earns ?v (probe_features compiler flags env out limit) ?v (\<lambda>r es. \<exists>sts. length sts = length features \<and>
      list_all2 (probed compiler flags out ?v) ((''baseline'', 0) # zip (map feature_name features) sts) es \<and>
      r = fold (\<lambda>(f, st). AList.update (feature_name f) (st = 0)) (zip features sts) [])"
    unfolding probe_features_def
  proof (rule earns_bind [OF earns_compile], rule earns_guard_then, rule earns_bind [OF earns_probes], rule earns_then_silent,
      rule hushes, rule earns_ret)
    fix c es r es'
    assume base: "list_all2 (probed compiler flags out ?v) [(''baseline'', returncode c)] es" "returncode c = 0"
      and "\<exists>sts. length sts = length features \<and> list_all2 (probed compiler flags out ?v) (zip (map feature_name features) sts) es' \<and>
        r = fold (\<lambda>(f, st). AList.update (feature_name f) (st = 0)) (zip features sts) []"
    then obtain sts where sts: "length sts = length features"
      "list_all2 (probed compiler flags out ?v) (zip (map feature_name features) sts) es'"
      "r = fold (\<lambda>(f, st). AList.update (feature_name f) (st = 0)) (zip features sts) []" by blast
    with list_all2_appendI [OF base(1) sts(2)] base(2)
    show "\<exists>sts. length sts = length features \<and>
        list_all2 (probed compiler flags out ?v) ((''baseline'', 0) # zip (map feature_name features) sts) (es @ es' @ []) \<and>
        r = fold (\<lambda>(f, st). AList.update (feature_name f) (st = 0)) (zip features sts) []" by auto
  qed
  from earnsD [OF this refl assms] obtain es sts where es: "command_log t = command_log s @ es" "length sts = length features"
    "list_all2 (probed compiler flags out ?v) ((''baseline'', 0) # zip (map feature_name features) sts) es"
    "available = fold (\<lambda>(f, st). AList.update (feature_name f) (st = 0)) (zip features sts) []" by blast
  then obtain a b where "sts = [a, b]" by (auto simp: features_def length_Suc_conv)
  with es(4) have "available = zip (map feature_name features) (map (\<lambda>st. st = 0) sts)"
    "missing_apis behavior available =
       map (\<lambda>(f, st). feature_name f) (filter (\<lambda>(f, st). behavior \<in> set (feature_behaviors f) \<and> st \<noteq> 0) (zip features sts))" for behavior
    by (simp_all add: features_def missing_apis_def get_default_def)
  with es show ?thesis by (intro exI [of _ sts] exI [of _ es]) blast
qed

lemma probe_features_decide_witness:
  "\<exists>sts t es. length sts = length features \<and> command_log t = es \<and>
    list_all2 (probed ''cc'' [] ''/o'' (''A'', False)) ((''baseline'', 0) # zip (map feature_name features) sts) es \<and>
    map (\<lambda>st. st = 0) sts = [True, True]"
proof -
  let ?s = "fresh_session (answering '''')"
  obtain available t where run: "probe_features ''cc'' [] [] ''/o'' ''120'' ?s = (Inr available, t)"
    and a: "available = [(''flatpak_transaction_progress_get_bytes_per_second'', True), (''flatpak_user_data_delete'', True)]"
    by (simp add: probe_features_def compile_probe_def features_def probe_feature_def thenP_def bindP_def ret_def
      fresh_session_def answering_def execute_def spawn_def ask_def Let_def append_record_def modifyP_def liftP_def
      finish_command_def update_last_def guardP_def guardE_def write_text_def)
  have s: "command_log ?s = []" "snapshot_of_session ?s = (''A'', False)"
    by (simp_all add: command_log_def fresh_session_def snapshot_of_session_def new_repository_def)
  from probe_features_decide [OF run] obtain sts es where e: "length sts = length features" "command_log t = es"
    "list_all2 (probed ''cc'' [] ''/o'' (''A'', False)) ((''baseline'', 0) # zip (map feature_name features) sts) es"
    "available = zip (map feature_name features) (map (\<lambda>st. st = 0) sts)"
    unfolding s append_Nil by (elim exE conjE) (rule that)
  from e(1) obtain x y where "sts = [x, y]" by (auto simp: features_def length_Suc_conv)
  with e(4) a have "map (\<lambda>st. st = 0) sts = [True, True]" by (simp add: features_def)
  with e(1-3) show ?thesis by (intro exI [of _ sts] exI [of _ t] exI [of _ es] conjI)
qed

end
