(* ===== verification/Returning.thy ===== *)
theory Returning
  imports Driver
begin

text \<open>
  \<open>returns w m P\<close>: whatever happened before, \<open>m\<close> returns in the world \<open>w\<close> with a result satisfying
  \<open>P\<close>. The rules decompose a program along its structure; the worlds they are applied to are
  the concrete hosts of the examples.
\<close>

definition returns :: "world \<Rightarrow> 'a prog \<Rightarrow> ('a \<Rightarrow> bool) \<Rightarrow> bool" where
  "returns w m P \<longleftrightarrow> (\<forall>s. world s = w \<longrightarrow> (\<exists>x t. m s = (Inr x, t) \<and> P x \<and> world t = w))"


lemma returnsD: "returns w m P \<Longrightarrow> world s = w \<Longrightarrow> \<exists>x t. m s = (Inr x, t) \<and> P x"
  unfolding returns_def by blast

lemma returns_mono: "returns w m P \<Longrightarrow> (\<And>x. P x \<Longrightarrow> Q x) \<Longrightarrow> returns w m Q"
  unfolding returns_def by fast

lemma returns_bind: "returns w m P \<Longrightarrow> (\<And>x. P x \<Longrightarrow> returns w (f x) Q) \<Longrightarrow> returns w (bindP m f) Q"
  unfolding returns_def bindP_def by fastforce

lemma returns_then: "returns w m (\<lambda>_. True) \<Longrightarrow> returns w n Q \<Longrightarrow> returns w (thenP m n) Q"
  unfolding thenP_def by (rule returns_bind)

lemma returns_ret: "P x \<Longrightarrow> returns w (ret x) P"
  by (simp add: returns_def ret_def)

lemma returns_guard: "ok \<Longrightarrow> P () \<Longrightarrow> returns w (guardP ok c m) P"
  by (simp add: returns_def guardP_def liftP_def guardE_def)

lemma returns_lift: "r = Inr x \<Longrightarrow> P x \<Longrightarrow> returns w (liftP r) P"
  by (simp add: returns_def liftP_def)

lemma returns_read: "(\<And>s. P (f s)) \<Longrightarrow> returns w (readP f) P"
  by (simp add: returns_def readP_def)

lemma returns_modify: "(\<And>s. world (f s) = world s) \<Longrightarrow> P () \<Longrightarrow> returns w (modifyP f) P"
  by (simp add: returns_def modifyP_def)

lemma returns_foldP_Nil: "P b \<Longrightarrow> returns w (foldP f b []) P"
  by (simp add: returns_ret)

lemma returns_foldP_Cons: "returns w (f b x) R \<Longrightarrow> (\<And>b'. R b' \<Longrightarrow> returns w (foldP f b' xs) P) \<Longrightarrow>
    returns w (foldP f b (x # xs)) P"
  by (simp add: returns_bind)

lemma returns_records: "P () \<Longrightarrow> returns w (append_record r) P" "P () \<Longrightarrow> returns w (update_last r) P"
  "P () \<Longrightarrow> returns w (set_artifact path d) P" "P () \<Longrightarrow> returns w (update_provenance r) P"
  unfolding append_record_def update_last_def set_artifact_def update_provenance_def
  by (simp_all add: returns_modify)

lemma returns_ask: "(\<And>tr. read w (tr @ [ev]) = Inr x) \<Longrightarrow> P x \<Longrightarrow> returns w (\<lambda>s. ask read ev s) P"
  by (simp add: returns_def ask_def Let_def)

lemma returns_files:
  "(\<And>tr. texts w (tr @ [Read path]) = Inr x) \<Longrightarrow> P x \<Longrightarrow> returns w (read_text path) P"
  "(\<And>tr. texts w (tr @ [Lookup what path]) = Inr x) \<Longrightarrow> P x \<Longrightarrow> returns w (lookup_path what path) P"
  "(\<And>tr. path_tests w (tr @ [Check what path]) = Inr b) \<Longrightarrow> Q b \<Longrightarrow> returns w (path_test what path) Q"
  "(\<And>tr. effects w (tr @ [Write path text]) = Inr ()) \<Longrightarrow> R () \<Longrightarrow> returns w (write_text path text) R"
  "(\<And>tr. effects w (tr @ [MakeDirectory path]) = Inr ()) \<Longrightarrow> R () \<Longrightarrow> returns w (make_directory path) R"
  "(\<And>tr. effects w (tr @ [Remove path]) = Inr ()) \<Longrightarrow> R () \<Longrightarrow> returns w (remove_tree path) R"
  unfolding read_text_def lookup_path_def path_test_def write_text_def make_directory_def remove_tree_def
  by (rule returns_ask; simp)+

lemma returns_execute:
  assumes "\<And>tr v f. fst (commands w (tr @ [Command argv env cwd v f])) = Exited st out err"
    and "P \<lparr>cp_args = argv, returncode = st, stdout = out, stderr = err\<rparr>"
  shows "returns w (execute argv env cwd limit) P"
  unfolding returns_def
proof (intro allI impI)
  fix s :: session
  assume w: "world s = w"
  let ?s = "s\<lparr>evidence := evidence s @ [[(''argv'', PList (map PStr argv))]]\<rparr>"
  obtain result u where u: "spawn argv env cwd ?s = (result, u)" by (cases "spawn argv env cwd ?s")
  have "result = Exited st out err"
    using u assms(1) w by (simp add: spawn_def ask_def Let_def split: prod.splits) (metis fst_conv)
  moreover have "world u = w" using spawn_parts [of argv env cwd ?s] u w by simp
  ultimately show "\<exists>x t. execute argv env cwd limit s = (Inr x, t) \<and> P x \<and> world t = w"
    using assms(2) by (simp add: execute_def thenP_def bindP_def append_record_def modifyP_def u
        finish_command_def update_last_def ret_def)
qed

lemma returns_ignore: "returns w m P \<Longrightarrow> Q () \<Longrightarrow> returns w (ignore m) Q"
  unfolding ignore_def by (erule returns_bind) (rule returns_ret)

text \<open>The same with the exact result, which the continuation then receives.\<close>

lemma returns_bind_exact: "returns w m (\<lambda>x. x = v) \<Longrightarrow> returns w (f v) Q \<Longrightarrow> returns w (bindP m f) Q"
  by (erule returns_bind) simp

lemma returns_ret_exact: "returns w (ret x) (\<lambda>y. y = x)"
  by (rule returns_ret) simp

lemma returns_lift_exact: "r = Inr x \<Longrightarrow> returns w (liftP r) (\<lambda>y. y = x)"
  by (rule returns_lift) simp_all

lemma returns_foldP_Nil_exact: "returns w (foldP f b []) (\<lambda>y. y = b)"
  by (simp add: returns_ret_exact)

lemma returns_foldP_exact: "returns w (f b x) (\<lambda>y. y = b') \<Longrightarrow> returns w (foldP f b' xs) P \<Longrightarrow> returns w (foldP f b (x # xs)) P"
  by (simp add: returns_bind_exact)

end
