(* ===== verification/Target_Setup.thy ===== *)
theory Target_Setup
  imports Library_Features Returning Target_Config
begin

text \<open>
  \<open>run.py\<close>, what surrounds a case: the isolated environment, program lookup, the fingerprints of
  the artifacts under test and their check at completion, and the compilation of the public
  library client with the proof that it loads the configured library.
\<close>

section \<open>The isolated environment\<close>

definition environment_directories :: "(string \<times> string) list" where
  "environment_directories = [(''HOME'', ''home''), (''XDG_DATA_HOME'', ''home/data''),
     (''XDG_CONFIG_HOME'', ''home/config''), (''XDG_CACHE_HOME'', ''home/cache''),
     (''XDG_STATE_HOME'', ''home/state''), (''XDG_RUNTIME_DIR'', ''runtime''), (''TMPDIR'', ''tmp'')]"

text \<open>\<open>host_path\<close> is \<open>os.environ.get("PATH", os.defpath)\<close>.\<close>

definition base_environment :: "string \<Rightarrow> environ" where
  "base_environment host_path = [(''PATH'', host_path), (''LC_ALL'', ''C''), (''TZ'', ''UTC''),
     (''TERM'', ''dumb''), (''GIO_USE_VFS'', ''local'')]"

definition update_environ :: "environ \<Rightarrow> environ \<Rightarrow> environ" where
  "update_environ env new = foldl (\<lambda>e (k, v). AList.update k v e) env new"

definition add_directory :: "string \<Rightarrow> environ \<Rightarrow> string \<times> string \<Rightarrow> environ prog" where
  "add_directory base env kd = (case kd of (key, directory) \<Rightarrow>
     let path = file_in base directory in
     thenP (make_directory path) (ret (AList.update key path env)))"

definition environment :: "string \<Rightarrow> string \<Rightarrow> target_config \<Rightarrow> environ prog" where
  "environment host_path base target =
     bindP (foldP (add_directory base) (base_environment host_path) environment_directories)
       (\<lambda>env. ret (update_environ env (target_environment target)))"

text \<open>\<open>shutil.which\<close> on an explicit search path is a lookup that prints nothing for \<open>None\<close>.\<close>

definition absolute_in :: "string \<Rightarrow> string \<Rightarrow> string" where
  "absolute_in directory entry = (if is_absolute (path_of entry) then path_str (path_of entry)
     else file_in directory entry)"

definition search_path :: "environ \<Rightarrow> string \<Rightarrow> string" where
  "search_path env directory = join '':'' (map (absolute_in directory) (split_on (CHR '':'') (get_default env ''PATH'' '''')))"

definition resolve_program :: "string \<Rightarrow> environ \<Rightarrow> string \<Rightarrow> string prog" where
  "resolve_program command env directory =
     (let command = (if CHR ''/'' \<in> set command then absolute_in directory command else command) in
      bindP (liftP (item env ''PATH'')) (\<lambda>_.
      bindP (lookup_path (''which '' @ search_path env directory) command) (\<lambda>selected.
      thenP (guardP (selected \<noteq> '''') PrerequisiteError (''executable not found: '' @ command))
        (lookup_path ''resolve'' selected))))"

section \<open>Artifacts\<close>

text \<open>\<open>digest\<close> is SHA-256 in hexadecimal.\<close>

definition record_artifact :: "(string \<Rightarrow> string) \<Rightarrow> string \<Rightarrow> dict prog" where
  "record_artifact digest path =
     bindP (lookup_path ''absolute'' path) (\<lambda>path.
     bindP (read_text path) (\<lambda>bytes.
     thenP (set_artifact path (digest bytes))
       (ret [(''path'', PStr path), (''sha256'', PStr (digest bytes))])))"

text \<open>An artifact that cannot be read has changed.\<close>

definition artifact_changed :: "(string \<Rightarrow> string) \<Rightarrow> string \<times> string \<Rightarrow> bool prog" where
  "artifact_changed digest pe = (case pe of (path, expected) \<Rightarrow>
     exceptP (bindP (read_text path) (\<lambda>bytes. ret (digest bytes \<noteq> expected))) [OSError] (\<lambda>_. ret True))"

definition changed_artifact :: "(string \<Rightarrow> string) \<Rightarrow> string list \<Rightarrow> string \<times> string \<Rightarrow> string list prog" where
  "changed_artifact digest changed pe = bindP (artifact_changed digest pe)
     (\<lambda>c. ret (if c then changed @ [fst pe] else changed))"

definition integrity_of :: "string list \<Rightarrow> dict" where
  "integrity_of changed = [(''status'', PStr (if changed = [] then ''verified'' else ''changed'')),
     (''changed_paths'', PList (map PStr changed))]"

definition check_artifacts :: "(string \<Rightarrow> string) \<Rightarrow> (string \<times> string) list \<Rightarrow> dict prog" where
  "check_artifacts digest arts = bindP (foldP (changed_artifact digest) [] arts) (\<lambda>changed. ret (integrity_of changed))"

section \<open>Shell words\<close>

text \<open>\<open>shlex.split\<close> in its POSIX mode without comments.\<close>

datatype lex_state = Between | Word | Quoted char | Escaped "char option"

definition lex_space :: "char \<Rightarrow> bool" where
  "lex_space c = (code c \<in> {9, 10, 13, 32})"

fun lex_shell :: "lex_state \<Rightarrow> string \<Rightarrow> string \<Rightarrow> string list result" where
  "lex_shell Between acc [] = Inr []"
| "lex_shell Between acc (c # cs) =
     (if lex_space c then lex_shell Between [] cs
      else if code c = 92 then lex_shell (Escaped None) [] cs
      else if code c \<in> {34, 39} then lex_shell (Quoted c) [] cs
      else lex_shell Word [c] cs)"
| "lex_shell Word acc [] = Inr [rev acc]"
| "lex_shell Word acc (c # cs) =
     (if lex_space c then bindE (lex_shell Between [] cs) (\<lambda>ws. Inr (rev acc # ws))
      else if code c = 92 then lex_shell (Escaped None) acc cs
      else if code c \<in> {34, 39} then lex_shell (Quoted c) acc cs
      else lex_shell Word (c # acc) cs)"
| "lex_shell (Quoted q) acc [] = raise ValueError ''No closing quotation''"
| "lex_shell (Quoted q) acc (c # cs) =
     (if c = q then lex_shell Word acc cs
      else if code c = 92 \<and> code q = 34 then lex_shell (Escaped (Some q)) acc cs
      else lex_shell (Quoted q) (c # acc) cs)"
| "lex_shell (Escaped r) acc [] = raise ValueError ''No escaped character''"
| "lex_shell (Escaped None) acc (c # cs) = lex_shell Word (c # acc) cs"
| "lex_shell (Escaped (Some q)) acc (c # cs) =
     lex_shell (Quoted q) (if code c \<noteq> 92 \<and> c \<noteq> q then c # CHR 0x5C # acc else c # acc) cs"

definition shell_words :: "string \<Rightarrow> string list result" where
  "shell_words s = lex_shell Between [] s"

section \<open>The library client\<close>

definition dispatcher_text :: "(string \<times> string) list \<Rightarrow> string" where
  "dispatcher_text extensions =
     join ''\<newline>'' (map (\<lambda>(_, entry). ''int '' @ entry @ ''(int, char **);'') extensions) @
     ''\<newline>int blackbox_extension_main(int argc, char **argv) {\<newline>'' @
     (if extensions \<noteq> [] then ''int result;\<newline>'' else ''(void)argc; (void)argv;\<newline>'') @
     join ''\<newline>'' (map (\<lambda>(_, entry). ''result = '' @ entry @ ''(argc, argv); if (result >= 0) return result;'') extensions) @
     ''\<newline>return -1;\<newline>}\<newline>''"

definition linked_libraries :: "string \<Rightarrow> string \<Rightarrow> string list" where
  "linked_libraries soname_text out = concat (map (\<lambda>line. case split_ws line of
       a # b # c # _ \<Rightarrow> if a = soname_text \<and> b = ''=>'' then [c] else [] | _ \<Rightarrow> []) (splitlines out))"

text \<open>\<open>any(... is_relative_to(Path(directory).resolve()) ...)\<close>, resolving as it goes.\<close>

fun loaded_from :: "string \<Rightarrow> string list \<Rightarrow> bool prog" where
  "loaded_from library_path [] = ret False"
| "loaded_from library_path (d # ds) =
     bindP (lookup_path ''resolve'' library_path) (\<lambda>p.
     bindP (lookup_path ''resolve'' d) (\<lambda>q.
     if is_relative_to (path_of p) (path_of q) then ret True else loaded_from library_path ds))"

fun absolute_directories :: "string list \<Rightarrow> bool prog" where
  "absolute_directories [] = ret True"
| "absolute_directories (d # ds) = (if \<not> is_absolute (path_of d) then ret False
     else bindP (path_test ''is_dir'' d) (\<lambda>ok. if ok then absolute_directories ds else ret False))"

definition required_command :: "completed \<Rightarrow> exn_class \<Rightarrow> string \<Rightarrow> unit prog" where
  "required_command result cls message = guardP (returncode result = 0) cls (message @ stderr result)"

definition identify_client :: "(string \<Rightarrow> string) \<Rightarrow> string \<Rightarrow> string \<Rightarrow> string \<Rightarrow> unit prog" where
  "identify_client digest resolved client version =
     bindP (lookup_path ''resolve'' resolved) (\<lambda>library_path.
     bindP (record_artifact digest library_path) (\<lambda>library_identity.
     thenP (ignore (record_artifact digest resolved))
     (bindP (record_artifact digest client) (\<lambda>client_identity.
     update_provenance [
       (''package_version'', PStr version), (''path'', get_default library_identity ''path'' PNone),
       (''sha256'', get_default library_identity ''sha256'' PNone),
       (''client_sha256'', get_default client_identity ''sha256'' PNone)]))))"

definition link_check :: "(string \<Rightarrow> string) \<Rightarrow> library_config \<Rightarrow> environ \<Rightarrow> string \<Rightarrow> string \<Rightarrow> string \<Rightarrow> string \<Rightarrow> unit prog" where
  "link_check digest lib env out limit client version =
     bindP (execute [''ldd'', client] env out limit) (\<lambda>linked.
     thenP (required_command linked PrerequisiteError ''cannot verify runtime library selection: '')
     (let resolved = linked_libraries (soname lib) (stdout linked);
          message = soname lib @ '' was not loaded from configured runtime library dirs'' in
      thenP (guardP (length resolved = 1) PrerequisiteError message)
     (bindP (loaded_from (resolved ! 0) (runtime_library_dirs lib)) (\<lambda>ok.
      thenP (guardP ok PrerequisiteError message)
        (identify_client digest (resolved ! 0) client version)))))"

definition library_message :: string where
  "library_message = ''public libflatpak development files missing: ''"

definition build_client :: "(string \<Rightarrow> string) \<Rightarrow> environ \<Rightarrow> (string \<times> string) list result \<Rightarrow> string \<Rightarrow>
    target_config \<Rightarrow> string \<Rightarrow> string \<Rightarrow> string prog" where
  "build_client digest host extensions here target out limit = (case library target of
     None \<Rightarrow> raiseP PrerequisiteError ''target.library: public library configuration is required''
   | Some lib \<Rightarrow>
     bindP (absolute_directories (runtime_library_dirs lib)) (\<lambda>ok.
     thenP (guardP (runtime_library_dirs lib \<noteq> [] \<and> ok) PrerequisiteError
       ''explicit existing absolute runtime library dirs required'')
     (let env = AList.update ''LD_LIBRARY_PATH'' (join '':'' (runtime_library_dirs lib))
                  (update_environ host (library_environment lib)) in
      bindP (execute [pkg_config lib, ''--modversion'', package lib] env out limit) (\<lambda>version.
      thenP (required_command version PrerequisiteError library_message)
     (bindP (execute [pkg_config lib, ''--cflags'', ''--libs'', package lib] env out limit) (\<lambda>flags.
      thenP (required_command flags PrerequisiteError library_message)
     (bindP (liftP (shell_words (stdout flags))) (\<lambda>words.
      bindP (probe_features (cc lib) words env out limit) (\<lambda>available.
      thenP (update_provenance [(''api_features'', PObj (map (\<lambda>(k, b). (k, PBool b)) available))])
     (bindP (liftP extensions) (\<lambda>exts.
      let client = file_in out ''library-client''; dispatcher = file_in out ''client-extensions.c'' in
      thenP (write_text dispatcher (dispatcher_text exts))
     (bindP (execute ([cc lib, ''-std=c11'', ''-Wall'', ''-Wextra'', ''-Werror'', ''-I'', out, ''-I'', here,
           file_in here ''client.c'', dispatcher] @ map fst exts @ [''-o'', client] @ words) env out limit) (\<lambda>result.
      thenP (required_command result ValueError ''public library client did not compile: '')
     (thenP (link_check digest lib env out limit client (strip (stdout version))) (ret client)))))))))))))))"

section \<open>The audit trail\<close>

lemma audited_loaded_from [audits]: "keeps audited (loaded_from library_path ds)"
proof (induction ds)
  case (Cons d ds)
  then show ?case unfolding loaded_from.simps by (intro audits)
qed (simp add: audit.keeps_ret)

lemma audited_absolute_directories [audits]: "keeps audited (absolute_directories ds)"
proof (induction ds)
  case (Cons d ds)
  then show ?case unfolding absolute_directories.simps by (intro audits)
qed (simp add: audit.keeps_ret)

lemma audited_setup [audits]:
  "keeps audited (add_directory base env kd)" "keeps audited (environment host_path base target)"
  "keeps audited (resolve_program command env directory)" "keeps audited (record_artifact digest path)"
  "keeps audited (artifact_changed digest pe)" "keeps audited (changed_artifact digest changed pe)"
  "keeps audited (check_artifacts digest arts)" "keeps audited (required_command result cls message)"
  "keeps audited (identify_client digest resolved client version)"
  "keeps audited (link_check digest lib env out limit client version)"
  "keeps audited (build_client digest host extensions here target out limit)"
  unfolding add_directory_def environment_def resolve_program_def record_artifact_def artifact_changed_def
    changed_artifact_def check_artifacts_def required_command_def identify_client_def link_check_def build_client_def
  by (intro audits)+

section \<open>Artifact integrity\<close>

text \<open>The reads of the completion check: the answer to the \<open>i\<close>th, and whether it vouches for its
  artifact.\<close>

definition checked_read :: "session \<Rightarrow> (string \<times> string) list \<Rightarrow> nat \<Rightarrow> string result" where
  "checked_read s arts i = texts (world s) (trace s @ map (\<lambda>a. Read (fst a)) (take (Suc i) arts))"

definition vouched :: "(string \<Rightarrow> string) \<Rightarrow> string result \<Rightarrow> string \<Rightarrow> bool" where
  "vouched digest answer expected = (case answer of Inr bytes \<Rightarrow> digest bytes = expected | Inl e \<Rightarrow> False)"

lemma artifact_changed_run:
  "artifact_changed digest (path, expected) s =
     (let tr = trace s @ [Read path]; t = s\<lparr>trace := tr\<rparr> in
      case texts (world s) tr of
        Inr bytes \<Rightarrow> (Inr (digest bytes \<noteq> expected), t)
      | Inl e \<Rightarrow> if instance_of e OSError then (Inr True, t) else (Inl e, t))"
  by (auto simp: artifact_changed_def exceptP_def bindP_def read_text_def ask_def ret_def Let_def
      instance_of_any_def split: sum.splits)

fun unvouched :: "(string \<Rightarrow> string) \<Rightarrow> world \<Rightarrow> event list \<Rightarrow> (string \<times> string) list \<Rightarrow> string list" where
  "unvouched digest w tr [] = []"
| "unvouched digest w tr ((path, expected) # arts) =
     (if vouched digest (texts w (tr @ [Read path])) expected then [] else [path]) @
     unvouched digest w (tr @ [Read path]) arts"

lemma check_fold:
  "foldP (changed_artifact digest) earlier arts s = (Inr changed, t) \<Longrightarrow>
   changed = earlier @ unvouched digest (world s) (trace s) arts"
proof (induction arts arbitrary: earlier s)
  case (Cons pe arts)
  obtain path expected where pe: "pe = (path, expected)" by force
  from Cons.prems obtain b u where b: "changed_artifact digest earlier (path, expected) s = (Inr b, u)"
    and rest: "foldP (changed_artifact digest) b arts u = (Inr changed, t)"
    unfolding pe foldP_Cons_Inr by blast
  from b obtain c where c: "artifact_changed digest (path, expected) s = (Inr c, u)"
    and b': "b = (if c then earlier @ [path] else earlier)"
    by (auto simp: changed_artifact_def bind_Inr_iff ret_def)
  from c have "world u = world s" "trace u = trace s @ [Read path]"
    "c = (\<not> vouched digest (texts (world s) (trace s @ [Read path])) expected)"
    by (auto simp: artifact_changed_run Let_def vouched_def split: sum.splits if_splits)
  with Cons.IH [OF rest] b' show ?case by (auto simp: pe split: if_splits)
qed (simp add: ret_def)

lemma unvouched_Nil_iff:
  "unvouched digest w tr arts = [] \<longleftrightarrow> (\<forall>i<length arts.
     vouched digest (texts w (tr @ map (\<lambda>a. Read (fst a)) (take (Suc i) arts))) (snd (arts ! i)))"
proof (induction arts arbitrary: tr)
  case (Cons pe arts)
  obtain path expected where pe: "pe = (path, expected)" by force
  have "(\<forall>i<length (pe # arts). vouched digest (texts w (tr @ map (\<lambda>a. Read (fst a)) (take (Suc i) (pe # arts)))) (snd ((pe # arts) ! i)))
    \<longleftrightarrow> vouched digest (texts w (tr @ [Read path])) expected \<and>
      (\<forall>i<length arts. vouched digest (texts w ((tr @ [Read path]) @ map (\<lambda>a. Read (fst a)) (take (Suc i) arts))) (snd (arts ! i)))"
    unfolding pe by (auto simp: All_less_Suc2)
  then show ?case using Cons.IH [of "tr @ [Read path]"] by (simp only: pe unvouched.simps) auto
qed simp

lemma unvouched_subset: "set (unvouched digest w tr arts) \<subseteq> fst ` set arts"
  by (induction digest w tr arts rule: unvouched.induct) auto

text \<open>C15: The completion check vouches for exactly what it read: the integrity is \<open>verified\<close> iff every
  recorded artifact could be read at completion and still has its recorded fingerprint;
  otherwise the changed paths are recorded ones. Unreadable files never pass.\<close>

theorem artifact_integrity_exact:
  assumes "check_artifacts digest arts s = (Inr integrity, t)"
  shows "(map_of integrity ''status'' = Some (PStr ''verified'') \<longleftrightarrow>
      (\<forall>i<length arts. vouched digest (checked_read s arts i) (snd (arts ! i)))) \<and>
    (\<exists>changed. map_of integrity ''changed_paths'' = Some (PList (map PStr changed)) \<and>
      set changed \<subseteq> fst ` set arts \<and> (changed = [] \<longleftrightarrow> map_of integrity ''status'' = Some (PStr ''verified'')))"
proof -
  from assms obtain changed u where "foldP (changed_artifact digest) [] arts s = (Inr changed, u)"
    and i: "integrity = integrity_of changed"
    by (auto simp: check_artifacts_def bind_Inr_iff ret_def)
  from check_fold [OF this(1)] have c: "changed = unvouched digest (world s) (trace s) arts" by simp
  show ?thesis
    unfolding i integrity_of_def checked_read_def
    using c unvouched_Nil_iff [of digest "world s" "trace s" arts] unvouched_subset [of digest "world s" "trace s" arts]
    by auto
qed

lemma add_directories:
  "foldP (add_directory base) e ds s = (Inr env, t) \<Longrightarrow>
   env = update_environ e (map (\<lambda>(k, d). (k, file_in base d)) ds) \<and>
   trace t = trace s @ map (\<lambda>(k, d). MakeDirectory (file_in base d)) ds"
proof (induction ds arbitrary: e s)
  case (Cons kd ds)
  then obtain b u where "add_directory base e kd s = (Inr b, u)"
    and rest: "foldP (add_directory base) b ds u = (Inr env, t)"
    unfolding foldP_Cons_Inr by blast
  then have "b = AList.update (fst kd) (file_in base (snd kd)) e \<and> trace u = trace s @ [MakeDirectory (file_in base (snd kd))]"
    by (auto simp: add_directory_def then_Inr_iff ret_def Let_def make_directory_def ask_def split: prod.splits)
  with Cons.IH [OF rest] show ?case by (simp add: update_environ_def case_prod_beta)
qed (simp add: ret_def update_environ_def)

lemma map_of_update_environ:
  "map_of (update_environ e new) k = (case map_of (rev new) k of Some v \<Rightarrow> Some v | None \<Rightarrow> map_of e k)"
proof (induction new arbitrary: e)
  case (Cons kv new)
  have "update_environ e (kv # new) = update_environ (AList.update (fst kv) (snd kv) e) new"
    by (simp add: update_environ_def case_prod_beta)
  with Cons.IH [of "AList.update (fst kv) (snd kv) e"] show ?case
    by (cases kv) (auto simp: update_conv' map_add_def split: option.split)
qed (simp add: update_environ_def)

lemma file_in_below: "root (path_of name) = '''' \<Longrightarrow> is_relative_to (path_of (file_in base name)) (path_of base)"
  unfolding file_in_def
  by (simp add: path_of_str normal_path_join normal_path_of is_relative_to_join)

text \<open>C17: The environment of a case is known entirely: a variable the target declares has the declared value (the
  last, if declared twice); otherwise each of the seven directory variables is set to its directory below
  the case's root, which has been made; otherwise a variable has its fixed value, the search path is the host's,
  and nothing else is inherited.\<close>

theorem environment_isolated:
  assumes "environment host_path base target s = (Inr env, t)"
  shows "map_of env key = (case map_of (rev (target_environment target)) key of Some x \<Rightarrow> Some x
      | None \<Rightarrow> (case map_of environment_directories key of Some d \<Rightarrow> Some (file_in base d)
      | None \<Rightarrow> map_of (base_environment host_path) key)) \<and>
    (\<forall>(k, d)\<in>set environment_directories. is_relative_to (path_of (file_in base d)) (path_of base)) \<and>
    trace t = trace s @ map (\<lambda>(k, d). MakeDirectory (file_in base d)) environment_directories"
proof -
  from assms obtain e where "foldP (add_directory base) (base_environment host_path) environment_directories s = (Inr e, t)"
    and env: "env = update_environ e (target_environment target)"
    by (auto simp: environment_def bind_Inr_iff ret_def)
  from add_directories [OF this(1)]
  have e: "e = update_environ (base_environment host_path) (map (\<lambda>(k, d). (k, file_in base d)) environment_directories)"
    and made: "trace t = trace s @ map (\<lambda>(k, d). MakeDirectory (file_in base d)) environment_directories" by simp_all
  have "is_relative_to (path_of (file_in base d)) (path_of base)" if "(k, d) \<in> set environment_directories" for k d
    by (rule file_in_below) (use that in \<open>auto simp: environment_directories_def path_of_def path_root_def startswith_def\<close>)
  moreover have "map_of (rev (map (\<lambda>(k, d). (k, file_in base d)) environment_directories)) key =
      map_option (file_in base) (map_of environment_directories key)"
    by (simp add: environment_directories_def)
  ultimately show ?thesis
    using made by (auto simp: env e map_of_update_environ split: option.split)
qed

section \<open>The client loads the configured library\<close>

text \<open>What the run was told: an event of its trace, with the answer the world gave to it.\<close>

definition saw :: "session \<Rightarrow> event \<Rightarrow> string \<Rightarrow> bool" where
  "saw t ev answer \<longleftrightarrow> (\<exists>before after. trace t = before @ ev # after \<and> texts (world t) (before @ [ev]) = Inr answer)"

lemma saw_grows: "saw s ev answer \<Longrightarrow> trace_grows s t \<Longrightarrow> saw t ev answer"
  unfolding saw_def trace_grows_def by fastforce

lemma saw_texts: "lookup_path what path s = (Inr p, t) \<Longrightarrow> saw t (Lookup what path) p"
  "read_text path s = (Inr p, t) \<Longrightarrow> saw t (Read path) p"
  unfolding saw_def lookup_path_def read_text_def ask_def Let_def
  by (simp_all, rule exI [of _ "trace s"], auto, rule exI [of _ "trace s"], auto)

lemma keeps_step: "keeps R m \<Longrightarrow> m s = (x, t) \<Longrightarrow> R s t"
  unfolding keeps_def by (drule spec [of _ s]) simp

lemma keeps_grows: "keeps audited m \<Longrightarrow> m s = (r, t) \<Longrightarrow> trace_grows s t"
  unfolding keeps_def audited_def trace_grows_def by (metis snd_conv)

lemma runs_grow:
  "lookup_path what path s = (x, t) \<Longrightarrow> trace_grows s t" "read_text path s = (x, t) \<Longrightarrow> trace_grows s t"
  "write_text path contents s = (y, t) \<Longrightarrow> trace_grows s t" "execute argv env cwd limit s = (c, t) \<Longrightarrow> trace_grows s t"
  "record_artifact digest path s = (d, t) \<Longrightarrow> trace_grows s t" "update_provenance new s = (y, t) \<Longrightarrow> trace_grows s t"
  "absolute_directories ds s = (b, t) \<Longrightarrow> trace_grows s t"
  "probe_features compiler flags env out limit s = (av, t) \<Longrightarrow> trace_grows s t"
  by (erule keeps_grows [rotated], rule audits)+

lemma loaded_from_True:
  "loaded_from path ds s = (Inr True, t) \<Longrightarrow> \<exists>d\<in>set ds. \<exists>p q. saw t (Lookup ''resolve'' path) p \<and>
     saw t (Lookup ''resolve'' d) q \<and> is_relative_to (path_of p) (path_of q)"
proof (induction ds arbitrary: s)
  case (Cons d ds)
  then obtain p u q v where p: "lookup_path ''resolve'' path s = (Inr p, u)" and q: "lookup_path ''resolve'' d u = (Inr q, v)"
    and rest: "(if is_relative_to (path_of p) (path_of q) then ret True else loaded_from path ds) v = (Inr True, t)"
    by (auto simp: bind_Inr_iff)
  have seen: "saw v (Lookup ''resolve'' path) p" "saw v (Lookup ''resolve'' d) q"
    using saw_grows [OF saw_texts(1) [OF p] runs_grow(1) [OF q]] saw_texts(1) [OF q] by simp_all
  show ?case
  proof (cases "is_relative_to (path_of p) (path_of q)")
    case True
    with rest have "t = v" by (simp add: ret_def)
    with True seen show ?thesis by auto
  next
    case False
    with rest have "loaded_from path ds v = (Inr True, t)" by simp
    from Cons.IH [OF this] show ?thesis by auto
  qed
qed (simp add: ret_def)

text \<open>What the identification of the client records of the library.\<close>

definition identified_as :: "(string \<Rightarrow> string) \<Rightarrow> string \<Rightarrow> session \<Rightarrow> bool" where
  "identified_as digest resolved t \<longleftrightarrow> (\<exists>q p bytes. saw t (Lookup ''resolve'' resolved) q \<and> saw t (Lookup ''absolute'' q) p \<and>
     saw t (Read p) bytes \<and> map_of (library_provenance t) ''path'' = Some (PStr p) \<and>
     map_of (library_provenance t) ''sha256'' = Some (PStr (digest bytes)) \<and> has_key (artifacts t) p)"

lemma record_artifact_Inr:
  assumes "record_artifact digest path s = (Inr identity, t)"
  shows "\<exists>p bytes. identity = [(''path'', PStr p), (''sha256'', PStr (digest bytes))] \<and> saw t (Lookup ''absolute'' path) p \<and>
    saw t (Read p) bytes \<and> has_key (artifacts t) p \<and> (\<forall>k. has_key (artifacts s) k \<longrightarrow> has_key (artifacts t) k)"
proof -
  from assms obtain p u bytes v where p: "lookup_path ''absolute'' path s = (Inr p, u)"
    and b: "read_text p u = (Inr bytes, v)" and t: "t = v\<lparr>artifacts := AList.update p (digest bytes) (artifacts v)\<rparr>"
    and i: "identity = [(''path'', PStr p), (''sha256'', PStr (digest bytes))]"
    by (auto simp: record_artifact_def bind_Inr_iff then_Inr_iff set_artifact_def modifyP_def ret_def)
  have "artifacts v = artifacts s" using p b by (auto simp: lookup_path_def read_text_def ask_def Let_def)
  moreover have "saw v (Lookup ''absolute'' path) p" "saw v (Read p) bytes"
    using saw_grows [OF saw_texts(1) [OF p] runs_grow(2) [OF b]] saw_texts(2) [OF b] by simp_all
  ultimately show ?thesis
    unfolding i t by (intro exI [of _ p] exI [of _ bytes]) (auto simp: saw_def has_key_def update_conv')
qed

lemma identify_client_Inr:
  assumes "identify_client digest resolved client version s = (Inr (), t)"
  shows "identified_as digest resolved t"
proof -
  from assms obtain q u identity v x v' cid w where q: "lookup_path ''resolve'' resolved s = (Inr q, u)"
    and 1: "record_artifact digest q u = (Inr identity, v)"
    and 2: "record_artifact digest resolved v = (Inr x, v')" and 3: "record_artifact digest client v' = (Inr cid, w)"
    and t: "update_provenance [(''package_version'', PStr version), (''path'', get_default identity ''path'' PNone),
       (''sha256'', get_default identity ''sha256'' PNone), (''client_sha256'', get_default cid ''sha256'' PNone)] w = (Inr (), t)"
    unfolding identify_client_def by (auto simp: bind_Inr_iff then_Inr_iff ignore_def ret_def)
  obtain p bytes where p: "identity = [(''path'', PStr p), (''sha256'', PStr (digest bytes))]"
    "saw v (Lookup ''absolute'' q) p" "saw v (Read p) bytes" "has_key (artifacts v) p"
    using record_artifact_Inr [OF 1] by blast
  have grows: "trace_grows u v" "trace_grows v v'" "trace_grows v' w"
    using runs_grow(5) [OF 1] runs_grow(5) [OF 2] runs_grow(5) [OF 3] by simp_all
  have "trace_grows v w" using grows(2,3) by (rule tg.trans)
  with p(2,3) saw_texts(1) [OF q] grows(1)
  have seen: "saw w (Lookup ''resolve'' resolved) q" "saw w (Lookup ''absolute'' q) p" "saw w (Read p) bytes"
    by (auto intro: saw_grows tg.trans)
  have key: "has_key (artifacts w) p" using record_artifact_Inr [OF 2] record_artifact_Inr [OF 3] p(4) by blast
  have t': "t = w\<lparr>library_provenance := update_dict (library_provenance w)
      [(''package_version'', PStr version), (''path'', PStr p), (''sha256'', PStr (digest bytes)),
       (''client_sha256'', get_default cid ''sha256'' PNone)]\<rparr>"
    using t by (simp add: update_provenance_def modifyP_def p(1) get_default_def)
  have same: "saw t ev answer = saw w ev answer" for ev answer by (simp add: saw_def t')
  show ?thesis
    unfolding identified_as_def same
    using seen key by (intro exI [of _ q] exI [of _ p] exI [of _ bytes]) (simp add: t' update_dict_def update_conv')
qed

lemma hushed_loaded_from [hushes]: "keeps hushed (loaded_from library_path ds)"
proof (induction ds)
  case (Cons d ds)
  then show ?case unfolding loaded_from.simps by (intro hushes)
qed (simp add: hushed_run.keeps_ret)

lemma hushed_absolute_directories [hushes]: "keeps hushed (absolute_directories ds)"
proof (induction ds)
  case (Cons d ds)
  then show ?case unfolding absolute_directories.simps by (intro hushes)
qed (simp add: hushed_run.keeps_ret)

lemma hushed_identity [hushes]: "keeps hushed (record_artifact digest path)" "keeps hushed (required_command result cls message)"
  "keeps hushed (identify_client digest resolved client version)"
  unfolding record_artifact_def required_command_def identify_client_def by (intro hushes)+

text \<open>A link check that succeeds ran the loader's report and nothing else.\<close>

lemma link_check_Inr:
  assumes "link_check digest lib env out limit client version s = (Inr (), t)"
  shows "\<exists>linked err resolved.
    command_log t = command_log s @ [Entry [''ldd'', client] (snapshot_of_session s) (Exited 0 linked err)] \<and>
    linked_libraries (soname lib) linked = [resolved] \<and>
    (\<exists>d\<in>set (runtime_library_dirs lib). \<exists>p q. saw t (Lookup ''resolve'' resolved) p \<and> saw t (Lookup ''resolve'' d) q \<and>
       is_relative_to (path_of p) (path_of q)) \<and> identified_as digest resolved t"
proof -
  from assms obtain linked u where run: "execute [''ldd'', client] env out limit s = (Inr linked, u)"
    and rest: "thenP (required_command linked PrerequisiteError ''cannot verify runtime library selection: '')
      (let resolved = linked_libraries (soname lib) (stdout linked);
           message = soname lib @ '' was not loaded from configured runtime library dirs'' in
       thenP (guardP (length resolved = 1) PrerequisiteError message)
      (bindP (loaded_from (resolved ! 0) (runtime_library_dirs lib)) (\<lambda>ok.
       thenP (guardP ok PrerequisiteError message) (identify_client digest (resolved ! 0) client version)))) u = (Inr (), t)"
    unfolding link_check_def bind_Inr_iff by blast
  define resolved where "resolved = linked_libraries (soname lib) (stdout linked)"
  from rest have steps: "returncode linked = 0 \<and> length resolved = 1 \<and>
      (\<exists>ok v. loaded_from (resolved ! 0) (runtime_library_dirs lib) u = (Inr ok, v) \<and> ok \<and>
         identify_client digest (resolved ! 0) client version v = (Inr (), t))"
    by (simp add: Let_def required_command_def then_Inr_iff guard_Inr_iff bind_Inr_iff flip: resolved_def)
  then obtain v where l: "loaded_from (resolved ! 0) (runtime_library_dirs lib) u = (Inr True, v)"
    and i: "identify_client digest (resolved ! 0) client version v = (Inr (), t)" by auto
  from steps have zero: "returncode linked = 0" and r: "resolved = linked_libraries (soname lib) (stdout linked)" "length resolved = 1"
    by (simp_all add: resolved_def)
  obtain one where one: "linked_libraries (soname lib) (stdout linked) = [one]"
    using r by (metis One_nat_def Suc_length_conv length_0_conv)
  have "hushed u v" using hushed_loaded_from l by (rule keeps_step)
  moreover have "hushed v t" using hushed_identity(3) i by (rule keeps_step)
  ultimately have "command_log t = command_log s @
      [Entry [''ldd'', client] (snapshot_of_session s) (Exited 0 (stdout linked) (stderr linked))]"
    using execute_Inr [OF run] zero by (simp add: hushed_def)
  moreover obtain d p q where "d \<in> set (runtime_library_dirs lib)" "saw v (Lookup ''resolve'' one) p" "saw v (Lookup ''resolve'' d) q"
    "is_relative_to (path_of p) (path_of q)"
    using loaded_from_True [OF l] unfolding r(1) one nth_Cons_0 by blast
  moreover have "trace_grows v t" by (rule keeps_grows [OF audited_setup(9) i])
  moreover have "identified_as digest one t" using identify_client_Inr [OF i] by (simp add: r(1) one)
  ultimately show ?thesis
    using one saw_grows [of v _ _ t]
    by (intro exI [of _ "stdout linked"] exI [of _ "stderr linked"] exI [of _ one]) blast
qed

text \<open>The compilation of the client.\<close>

definition client_argv :: "library_config \<Rightarrow> string \<Rightarrow> string \<Rightarrow> string list \<Rightarrow> string list \<Rightarrow> string list" where
  "client_argv lib here out sources flags =
     [cc lib, ''-std=c11'', ''-Wall'', ''-Wextra'', ''-Werror'', ''-I'', out, ''-I'', here,
      file_in here ''client.c'', file_in out ''client-extensions.c''] @ sources @ [''-o'', file_in out ''library-client''] @ flags"

lemma build_client_Inr:
  assumes "build_client digest host extensions here target out limit s = (Inr client, t)" and lib: "library target = Some lib"
  shows "\<exists>exts flags env version u before text err. extensions = Inr exts \<and> client = file_in out ''library-client'' \<and>
    command_log u = command_log s @ before @
      [Entry (client_argv lib here out (map fst exts) flags) (snapshot_of_session u) (Exited 0 text err)] \<and>
    link_check digest lib env out limit client version u = (Inr (), t)"
proof -
  let ?env = "AList.update ''LD_LIBRARY_PATH'' (join '':'' (runtime_library_dirs lib)) (update_environ host (library_environment lib))"
  from assms(1) obtain ok a version b flags c words available d d' exts e e' result u where
    a: "absolute_directories (runtime_library_dirs lib) s = (Inr ok, a)"
    and b: "execute [pkg_config lib, ''--modversion'', package lib] ?env out limit a = (Inr version, b)"
    and c: "execute [pkg_config lib, ''--cflags'', ''--libs'', package lib] ?env out limit b = (Inr flags, c)"
    and d: "probe_features (cc lib) words ?env out limit c = (Inr available, d)"
    and d': "update_provenance [(''api_features'', PObj (map (\<lambda>(k, b). (k, PBool b)) available))] d = (Inr (), d')"
    and ext: "extensions = Inr exts"
    and e: "write_text (file_in out ''client-extensions.c'') (dispatcher_text exts) d' = (Inr (), e)"
    and u: "execute (client_argv lib here out (map fst exts) words) ?env out limit e = (Inr result, u)"
    and zero: "returncode result = 0" and client: "client = file_in out ''library-client''"
    and link: "link_check digest lib ?env out limit client (strip (stdout version)) u = (Inr (), t)"
    unfolding build_client_def lib option.case Let_def required_command_def client_argv_def append_Cons append_Nil append_assoc
    by (auto simp: bind_Inr_iff then_Inr_iff guard_Inr_iff liftP_def ret_def)
  have "trace_grows s a" "trace_grows a b" "trace_grows b c" "trace_grows c d" "trace_grows d d'" "trace_grows d' e"
    using runs_grow(7) [OF a] runs_grow(4) [OF b] runs_grow(4) [OF c] runs_grow(8) [OF d] runs_grow(6) [OF d'] runs_grow(3) [OF e]
    by simp_all
  then have "trace_grows s e" by (blast intro: tg.trans)
  then obtain before where "command_log e = command_log s @ before"
    using command_log_grows unfolding trace_grows_def by blast
  with execute_Inr [OF u] zero have "command_log u = command_log s @ before @
      [Entry (client_argv lib here out (map fst exts) words) (snapshot_of_session u) (Exited 0 (stdout result) (stderr result))]"
    by simp
  with ext client link show ?thesis by blast
qed

text \<open>C16: The library client is only returned when it was compiled from the client's source and the scenario
  extensions, as the last command but one of the build, and the loader's report on that very file, the last
  command, resolved the configured SONAME to exactly one library. That library lies under a
  configured runtime directory, once both are resolved; its resolved absolute path and the digest of the bytes
  read there are in the provenance, and the path is among the artifacts checked again at completion.\<close>

theorem client_library_configured:
  assumes "build_client digest host extensions here target out limit s = (Inr client, t)"
  shows "\<exists>lib exts flags before v text err linked err' resolved. library target = Some lib \<and> extensions = Inr exts \<and>
    client = file_in out ''library-client'' \<and>
    command_log t = command_log s @ before @
      [Entry (client_argv lib here out (map fst exts) flags) v (Exited 0 text err),
       Entry [''ldd'', client] v (Exited 0 linked err')] \<and>
    linked_libraries (soname lib) linked = [resolved] \<and>
    (\<exists>d\<in>set (runtime_library_dirs lib). \<exists>p q. saw t (Lookup ''resolve'' resolved) p \<and> saw t (Lookup ''resolve'' d) q \<and>
       is_relative_to (path_of p) (path_of q)) \<and>
    identified_as digest resolved t"
proof -
  from assms obtain lib where lib: "library target = Some lib"
    by (auto simp: build_client_def raiseP_def liftP_def raise_def split: option.splits)
  from build_client_Inr [OF assms lib] obtain exts flags env version u before compiled err where
    b: "extensions = Inr exts" "client = file_in out ''library-client''"
      "command_log u = command_log s @ before @
        [Entry (client_argv lib here out (map fst exts) flags) (snapshot_of_session u) (Exited 0 compiled err)]"
    and link: "link_check digest lib env out limit client version u = (Inr (), t)" by blast
  from link_check_Inr [OF link] lib b show ?thesis by fastforce
qed


section \<open>Concrete runs\<close>

lemma artifact_integrity_exact_witness:
  "\<exists>t. check_artifacts (\<lambda>bytes. ''d'') [(''/f'', ''d''), (''/g'', ''e'')] (fresh_session (answering '''')) =
      (Inr (integrity_of [''/g'']), t) \<and>
    \<not> vouched (\<lambda>bytes. ''d'') (checked_read (fresh_session (answering '''')) [(''/f'', ''d''), (''/g'', ''e'')] 1) ''e''"
proof -
  obtain t where run: "check_artifacts (\<lambda>bytes. ''d'') [(''/f'', ''d''), (''/g'', ''e'')] (fresh_session (answering '''')) =
      (Inr (integrity_of [''/g'']), t)"
    by (simp add: check_artifacts_def changed_artifact_def artifact_changed_def exceptP_def bindP_def ret_def
        read_text_def ask_def Let_def fresh_session_def answering_def)
  from artifact_integrity_exact [OF run]
  have "\<not> (\<forall>i<2. vouched (\<lambda>bytes. ''d'') (checked_read (fresh_session (answering '''')) [(''/f'', ''d''), (''/g'', ''e'')] i)
      (snd ([(''/f'', ''d''), (''/g'', ''e'')] ! i)))"
    by (simp add: integrity_of_def numeral_2_eq_2)
  then show ?thesis
    using run by (auto simp: less_2_cases_iff checked_read_def vouched_def fresh_session_def answering_def)
qed

definition sample_library :: library_config where
  "sample_library = \<lparr>runtime_library_dirs = [''/l''], library_environment = [], pkg_config = ''pkg-config'',
     package = ''flatpak'', cc = ''cc'', soname = ''libflatpak.so.0''\<rparr>"

definition sample_target :: target_config where
  "sample_target = \<lparr>target_name = ''t'', target_cli = ''flatpak'', adapter = [''adapter''],
     target_environment = [(''FLATPAK_X'', ''1'')], unsupported_capabilities = [], library = Some sample_library\<rparr>"

lemma environment_isolated_witness:
  "\<exists>env t. environment ''/usr/bin'' ''/r'' sample_target (fresh_session (answering '''')) = (Inr env, t) \<and>
    map_of env ''HOME'' = Some (file_in ''/r'' ''home'') \<and> map_of env ''FLATPAK_X'' = Some ''1'' \<and>
    map_of env ''PATH'' = Some ''/usr/bin''"
proof -
  obtain env t where run: "environment ''/usr/bin'' ''/r'' sample_target (fresh_session (answering '''')) = (Inr env, t)"
    by (simp add: environment_def environment_directories_def add_directory_def thenP_def bindP_def ret_def
        make_directory_def ask_def Let_def fresh_session_def answering_def)
  from environment_isolated [OF run, of "''HOME''"] environment_isolated [OF run, of "''FLATPAK_X''"]
    environment_isolated [OF run, of "''PATH''"] run
  show ?thesis
    by (simp add: sample_target_def environment_directories_def base_environment_def)
qed

text \<open>A host whose loader finds the library under \<open>/l\<close> and whose paths resolve to themselves.\<close>

definition linking_host :: world where
  "linking_host = (answering '''')\<lparr>commands := (\<lambda>tr. (case last tr of
       Command (program # _) _ _ _ _ \<Rightarrow> if program = ''ldd'' then Exited 0 ''libflatpak.so.0 => /l/f.so'' '''' else Exited 0 '''' ''''
     | _ \<Rightarrow> Exited 0 '''' '''', [])),
     texts := (\<lambda>tr. Inr (case last tr of Lookup _ p \<Rightarrow> p | _ \<Rightarrow> ''''))\<rparr>"

lemma linked_sample: "linked_libraries ''libflatpak.so.0'' ''libflatpak.so.0 => /l/f.so'' = [''/l/f.so'']"
  by (simp add: linked_libraries_def splitlines_def is_linebreak_def code_def split_ws_def isspace_def)

lemma linking_execute:
  "argv \<noteq> [] \<Longrightarrow> returns linking_host (execute argv env cwd limit) (\<lambda>c. c = \<lparr>cp_args = argv, returncode = 0,
     stdout = (if hd argv = ''ldd'' then ''libflatpak.so.0 => /l/f.so'' else ''''), stderr = ''''\<rparr>)"
  by (rule returns_execute [where st = 0 and out = "if hd argv = ''ldd'' then ''libflatpak.so.0 => /l/f.so'' else ''''" and err = "''''"])
    (cases argv, auto simp: linking_host_def)

lemma linking_files:
  "returns linking_host (read_text path) (\<lambda>x. x = '''')" "returns linking_host (lookup_path what path) (\<lambda>x. x = path)"
  "returns linking_host (path_test what path) (\<lambda>b. b = True)"
  "returns linking_host (write_text path contents) (\<lambda>x. True)"
  by (rule returns_files; simp add: linking_host_def answering_def)+

lemma linking_artifact: "returns linking_host (record_artifact (\<lambda>bytes. ''d'') path)
    (\<lambda>r. r = [(''path'', PStr path), (''sha256'', PStr ''d'')])"
  unfolding record_artifact_def
  by (rule returns_bind_exact [OF linking_files(2)], rule returns_bind_exact [OF linking_files(1)], rule returns_then,
      rule returns_records, rule TrueI, rule returns_ret_exact)

lemma linking_probe: "returns linking_host (probe_feature ''cc'' ws env out limit available f)
    (\<lambda>r. r = AList.update (feature_name f) True available)"
  unfolding probe_feature_def compile_probe_def Let_def
  by (rule returns_bind_exact, rule returns_then, rule linking_files, rule linking_execute, simp, rule returns_then,
      rule returns_records, rule TrueI, simp, rule returns_ret_exact)

lemma linking_probes: "\<exists>v. returns linking_host (probe_features ''cc'' ws env out limit) (\<lambda>r. r = v)"
  unfolding probe_features_def compile_probe_def Let_def features_def
  by (rule exI, rule returns_bind_exact, rule returns_then, rule linking_files, rule linking_execute, simp, rule returns_then,
      rule returns_guard, simp, rule TrueI, rule returns_bind_exact, rule returns_foldP_exact, rule linking_probe,
      rule returns_foldP_exact, rule linking_probe, rule returns_foldP_Nil_exact, rule returns_then, rule linking_files,
      rule returns_ret_exact)

lemma linking_identity: "returns linking_host (identify_client (\<lambda>bytes. ''d'') resolved client version) (\<lambda>_. True)"
  unfolding identify_client_def
  by (rule returns_bind_exact [OF linking_files(2)], rule returns_bind_exact [OF linking_artifact], rule returns_then,
      rule returns_ignore, rule linking_artifact, rule TrueI, rule returns_bind_exact [OF linking_artifact],
      rule returns_records, rule TrueI)

lemma linking_loaded: "returns linking_host (loaded_from ''/l/f.so'' [''/l'']) (\<lambda>b. b = True)"
proof -
  have "is_relative_to (path_of ''/l/f.so'') (path_of ''/l'')"
    by (simp add: is_relative_to_def path_of_def path_root_def startswith_def)
  then show ?thesis
    unfolding loaded_from.simps
    by (intro returns_bind_exact [OF linking_files(2)]) (simp only: if_True, rule returns_ret_exact)
qed

lemma linking_link: "returns linking_host (link_check (\<lambda>bytes. ''d'') sample_library env out limit client version) (\<lambda>_. True)"
  unfolding link_check_def Let_def required_command_def
  by (rule returns_bind_exact, rule linking_execute, simp, rule returns_then, rule returns_guard, simp, rule TrueI,
      rule returns_then, rule returns_guard, simp add: sample_library_def linked_sample, rule TrueI,
      simp add: sample_library_def linked_sample del: loaded_from.simps, rule returns_bind_exact, rule linking_loaded,
      rule returns_then, rule returns_guard, rule TrueI, rule TrueI, rule linking_identity)

lemma linking_client:
  "returns linking_host (build_client (\<lambda>bytes. ''d'') [] (Inr []) ''/src'' sample_target ''/o'' ''120'') (\<lambda>c. c = ''/o/library-client'')"
proof -
  obtain v where v: "returns linking_host (probe_features ''cc'' [] [(''LD_LIBRARY_PATH'', ''/l'')] ''/o'' ''120'') (\<lambda>r. r = v)"
    using linking_probes by blast
  have lib: "library sample_target = Some sample_library" by (simp add: sample_target_def)
  have dirs: "returns linking_host (absolute_directories (runtime_library_dirs sample_library)) (\<lambda>b. b = True)"
  proof -
    have "is_absolute (path_of ''/l'')" by (simp add: is_absolute_def path_of_def path_root_def startswith_def)
    then show ?thesis
      unfolding sample_library_def library_config.simps absolute_directories.simps
      by (simp only: not_True_eq_False if_False, intro returns_bind_exact [OF linking_files(3)])
        (simp only: if_True, rule returns_ret_exact)
  qed
  have env: "AList.update ''LD_LIBRARY_PATH'' (join '':'' (runtime_library_dirs sample_library))
      (update_environ [] (library_environment sample_library)) = [(''LD_LIBRARY_PATH'', ''/l'')]"
    by (simp add: sample_library_def update_environ_def)
  have words: "shell_words '''' = Inr []" by (simp add: shell_words_def)
  have ldd: "pkg_config sample_library \<noteq> ''ldd''" "cc sample_library = ''cc''" by (simp_all add: sample_library_def)
  have client: "file_in ''/o'' ''library-client'' = ''/o/library-client''"
    by (simp add: file_in_def path_of_def path_root_def path_join_def path_str_def startswith_def)
  show ?thesis
    unfolding build_client_def lib option.case Let_def required_command_def env ldd(2)
    by (rule returns_bind_exact [OF dirs], rule returns_then, rule returns_guard, simp add: sample_library_def, rule TrueI,
        (rule returns_bind_exact, rule linking_execute, simp, rule returns_then, rule returns_guard, simp, rule TrueI)+,
        rule returns_bind_exact, rule returns_lift_exact, simp add: ldd words, rule returns_bind_exact, rule v,
        rule returns_then, rule returns_records, rule TrueI, rule returns_bind_exact, rule returns_lift_exact, rule refl,
        rule returns_then, rule linking_files, rule returns_bind_exact, rule linking_execute, simp, rule returns_then,
        rule returns_guard, simp, rule TrueI, rule returns_then, rule linking_link, simp add: client returns_ret)
qed

lemma client_library_configured_witness:
  "\<exists>t lib linked resolved. build_client (\<lambda>bytes. ''d'') [] (Inr []) ''/src'' sample_target ''/o'' ''120''
      (fresh_session linking_host) = (Inr ''/o/library-client'', t) \<and>
    library sample_target = Some lib \<and> linked_libraries (soname lib) linked = [resolved] \<and>
    identified_as (\<lambda>bytes. ''d'') resolved t"
proof -
  obtain t where run: "build_client (\<lambda>bytes. ''d'') [] (Inr []) ''/src'' sample_target ''/o'' ''120''
      (fresh_session linking_host) = (Inr ''/o/library-client'', t)"
    using returnsD [OF linking_client, of "fresh_session linking_host"] by (auto simp: fresh_session_def)
  from client_library_configured [OF run] run show ?thesis by blast
qed

end
