(* ===== verification/Action_Logic.thy ===== *)
theory Action_Logic
  imports Session
begin

text \<open>
  A Hoare logic for actions: \<open>triple P m Q E\<close> holds when \<open>m\<close>, run in a state satisfying \<open>P\<close>, either
  returns a value \<open>x\<close> in a state satisfying \<open>Q x\<close> or raises \<open>e\<close> in a state satisfying \<open>E e\<close>. Actions
  always end, so the triple is one of total correctness.
\<close>

definition triple :: "('s \<Rightarrow> bool) \<Rightarrow> ('s, 'a) action \<Rightarrow> ('a \<Rightarrow> 's \<Rightarrow> bool) \<Rightarrow> (exn \<Rightarrow> 's \<Rightarrow> bool) \<Rightarrow> bool" where
  "triple P m Q E \<longleftrightarrow> (\<forall>s. P s \<longrightarrow> (case m s of (Inl e, s') \<Rightarrow> E e s' | (Inr x, s') \<Rightarrow> Q x s'))"

lemma tripleI:
  "(\<And>s x t. P s \<Longrightarrow> m s = (Inr x, t) \<Longrightarrow> Q x t) \<Longrightarrow> (\<And>s e t. P s \<Longrightarrow> m s = (Inl e, t) \<Longrightarrow> E e t) \<Longrightarrow> triple P m Q E"
  by (auto simp: triple_def split: prod.split sum.split)

lemma triple_Inr: "triple P m Q E \<Longrightarrow> P s \<Longrightarrow> m s = (Inr x, t) \<Longrightarrow> Q x t"
  by (force simp: triple_def)

lemma triple_Inl: "triple P m Q E \<Longrightarrow> P s \<Longrightarrow> m s = (Inl e, t) \<Longrightarrow> E e t"
  by (force simp: triple_def)

section \<open>Consequence\<close>

lemma triple_weaken:
  assumes "triple P m Q E" "\<And>s. P' s \<Longrightarrow> P s" "\<And>x s. Q x s \<Longrightarrow> Q' x s" "\<And>e s. E e s \<Longrightarrow> E' e s"
  shows "triple P' m Q' E'"
  using assms by (intro tripleI) (blast dest: triple_Inr triple_Inl)+

lemma triple_pre: "triple P m Q E \<Longrightarrow> (\<And>s. P' s \<Longrightarrow> P s) \<Longrightarrow> triple P' m Q E"
  by (erule triple_weaken)

lemma triple_post: "triple P m Q E \<Longrightarrow> (\<And>x s. Q x s \<Longrightarrow> Q' x s) \<Longrightarrow> triple P m Q' E"
  by (erule triple_weaken)

lemma triple_all: "(\<And>c. triple (P c) m (\<lambda>_. Q c) (\<lambda>_. E c)) \<Longrightarrow> triple (\<lambda>s. \<forall>c. P c s) m (\<lambda>_ s. \<forall>c. Q c s) (\<lambda>_ s. \<forall>c. E c s)"
  by (intro tripleI) (blast dest: triple_Inr triple_Inl)+

lemma triple_assume: "(b \<Longrightarrow> triple P m Q E) \<Longrightarrow> triple (\<lambda>s. b \<and> P s) m Q E"
  by (auto simp: triple_def)

section \<open>The combinators\<close>

named_theorems hoare \<comment> \<open>one rule per combinator and primitive\<close>

lemma triple_ret [hoare]: "(\<And>s. P s \<Longrightarrow> Q x s) \<Longrightarrow> triple P (ret x) Q E"
  by (simp add: triple_def ret_def)

lemma triple_lift [hoare]:
  "(\<And>x s. r = Inr x \<Longrightarrow> P s \<Longrightarrow> Q x s) \<Longrightarrow> (\<And>e s. r = Inl e \<Longrightarrow> P s \<Longrightarrow> E e s) \<Longrightarrow> triple P (liftP r) Q E"
  by (cases r) (simp_all add: triple_def liftP_def)

lemma triple_raise [hoare]: "(\<And>s. P s \<Longrightarrow> E (Exn c m) s) \<Longrightarrow> triple P (raiseP c m) Q E"
  unfolding raiseP_def by (intro triple_lift) (simp_all add: raise_def)

lemma triple_guard [hoare]:
  "(\<And>s. ok \<Longrightarrow> P s \<Longrightarrow> Q () s) \<Longrightarrow> (\<And>s. \<not> ok \<Longrightarrow> P s \<Longrightarrow> E (Exn c m) s) \<Longrightarrow> triple P (guardP ok c m) Q E"
  unfolding guardP_def by (intro triple_lift) (auto simp: guardE_def raise_def split: if_splits)

lemma triple_read [hoare]: "(\<And>s. P s \<Longrightarrow> Q (f s) s) \<Longrightarrow> triple P (readP f) Q E"
  by (simp add: triple_def readP_def)

lemma triple_modify [hoare]: "(\<And>s. P s \<Longrightarrow> Q () (f s)) \<Longrightarrow> triple P (modifyP f) Q E"
  by (simp add: triple_def modifyP_def)

lemma triple_bind [hoare]:
  assumes "triple P m R E" "\<And>x. triple (R x) (f x) Q E"
  shows "triple P (bindP m f) Q E"
  using assms unfolding triple_def bindP_def by (fastforce split: prod.splits sum.splits)

lemma triple_then [hoare]:
  "triple P m (\<lambda>_. R) E \<Longrightarrow> triple R n Q E \<Longrightarrow> triple P (thenP m n) Q E"
  unfolding thenP_def by (rule triple_bind)

lemma triple_when [hoare]:
  "(c \<Longrightarrow> triple P m Q E) \<Longrightarrow> (\<And>s. \<not> c \<Longrightarrow> P s \<Longrightarrow> Q () s) \<Longrightarrow> triple P (whenP c m) Q E"
  by (cases c) (simp_all add: whenP_def triple_ret)

lemma triple_if: "(c \<Longrightarrow> triple P m Q E) \<Longrightarrow> (\<not> c \<Longrightarrow> triple P n Q E) \<Longrightarrow> triple P (if c then m else n) Q E"
  by simp

lemma triple_except [hoare]:
  assumes m: "triple P m Q F" and h: "\<And>e. instance_of_any e cs \<Longrightarrow> triple (F e) (h e) Q E"
    and other: "\<And>e s. \<not> instance_of_any e cs \<Longrightarrow> F e s \<Longrightarrow> E e s"
  shows "triple P (exceptP m cs h) Q E"
  unfolding triple_def
proof (intro allI impI)
  fix s
  assume "P s"
  obtain r t where r: "m s = (r, t)" by force
  show "case exceptP m cs h s of (Inl e, s') \<Rightarrow> E e s' | (Inr x, s') \<Rightarrow> Q x s'"
  proof (cases r)
    case (Inl e)
    with triple_Inl [OF m \<open>P s\<close>] r have F: "F e t" by simp
    show ?thesis
    proof (cases "instance_of_any e cs")
      case True
      with h [OF True] F r Inl show ?thesis by (simp add: exceptP_def triple_def)
    next
      case False
      with other F r Inl show ?thesis by (simp add: exceptP_def)
    qed
  next
    case (Inr x)
    with triple_Inr [OF m \<open>P s\<close>] r show ?thesis by (simp add: exceptP_def)
  qed
qed

lemma triple_finally [hoare]:
  assumes m: "triple P m R F" and ok: "\<And>x. triple (R x) f (\<lambda>_. Q x) E" and bad: "\<And>e. triple (F e) f (\<lambda>_. E e) E"
  shows "triple P (finallyP m f) Q E"
  unfolding triple_def
proof (intro allI impI)
  fix s
  assume "P s"
  obtain r t where r: "m s = (r, t)" by force
  obtain v u where v: "f t = (v, u)" by force
  show "case finallyP m f s of (Inl e, s') \<Rightarrow> E e s' | (Inr x, s') \<Rightarrow> Q x s'"
  proof (cases r)
    case (Inl e)
    with triple_Inl [OF m \<open>P s\<close>] r have "F e t" by simp
    with bad [of e] r v Inl show ?thesis by (cases v) (auto simp: finallyP_def triple_def)
  next
    case (Inr x)
    with triple_Inr [OF m \<open>P s\<close>] r have "R x t" by simp
    with ok [of x] r v Inr show ?thesis by (cases v) (auto simp: finallyP_def triple_def)
  qed
qed

text \<open>Loops keep an invariant.\<close>

lemma triple_for:
  assumes "\<And>x. x \<in> set xs \<Longrightarrow> triple I (f x) (\<lambda>_. I) E"
  shows "triple I (forP xs f) (\<lambda>_. I) E"
  using assms by (induction xs) (auto intro!: hoare)

text \<open>A loop whose invariant counts the elements done.\<close>

lemma triple_for_done:
  assumes "\<And>ys x zs. xs = ys @ x # zs \<Longrightarrow> triple (I ys) (f x) (\<lambda>_. I (ys @ [x])) E"
  shows "triple (I []) (forP xs f) (\<lambda>_. I xs) E"
proof -
  have "triple (I ys) (forP zs f) (\<lambda>_. I xs) E" if "xs = ys @ zs" for ys zs
    using that
  proof (induction zs arbitrary: ys)
    case (Cons z zs)
    from assms [OF Cons.prems] Cons.IH [of "ys @ [z]"] Cons.prems show ?case
      by (simp add: triple_then)
  qed (simp add: triple_ret)
  from this [of "[]" xs] show ?thesis by simp
qed

lemma triple_fold:
  assumes "\<And>b x. x \<in> set xs \<Longrightarrow> triple (I b) (f b x) I E"
  shows "triple (I b) (foldP f b xs) I E"
  using assms by (induction xs arbitrary: b) (auto intro!: triple_ret triple_bind)

text \<open>What an action keeps, whatever its outcome.\<close>

definition stays :: "('s \<Rightarrow> bool) \<Rightarrow> ('s, 'a) action \<Rightarrow> bool" where
  "stays I m \<longleftrightarrow> triple I m (\<lambda>_. I) (\<lambda>_. I)"

lemma staysD: "stays I m \<Longrightarrow> triple I m (\<lambda>_. I) (\<lambda>_. I)"
  by (simp add: stays_def)

lemma stays_keeps: "stays I m \<longleftrightarrow> (\<forall>s. I s \<longrightarrow> I (snd (m s)))"
  unfolding stays_def triple_def by (auto split: prod.splits sum.splits) (metis prod.collapse)

section \<open>Weakest preconditions\<close>

text \<open>\<open>wp m Q E\<close> is the weakest state predicate that makes the triple hold; it is computed along the
  structure of the action.\<close>

definition wp :: "('s, 'a) action \<Rightarrow> ('a \<Rightarrow> 's \<Rightarrow> bool) \<Rightarrow> (exn \<Rightarrow> 's \<Rightarrow> bool) \<Rightarrow> 's \<Rightarrow> bool" where
  "wp m Q E s = (case m s of (Inl e, t) \<Rightarrow> E e t | (Inr x, t) \<Rightarrow> Q x t)"

lemma triple_wp: "triple P m Q E \<longleftrightarrow> (\<forall>s. P s \<longrightarrow> wp m Q E s)"
  by (simp add: triple_def wp_def)

named_theorems wps \<comment> \<open>weakest preconditions of the combinators\<close>

lemma wp_ret [wps]: "wp (ret x) Q E s = Q x s"
  by (simp add: wp_def ret_def)

lemma wp_lift [wps]: "wp (liftP r) Q E s = (case r of Inl e \<Rightarrow> E e s | Inr x \<Rightarrow> Q x s)"
  by (cases r) (simp_all add: wp_def liftP_def)

lemma wp_raise [wps]: "wp (raiseP c m) Q E s = E (Exn c m) s"
  by (simp add: raiseP_def wp_lift raise_def)

lemma wp_guard [wps]: "wp (guardP ok c m) Q E s = (if ok then Q () s else E (Exn c m) s)"
  by (simp add: guardP_def wp_lift guardE_def raise_def)

lemma wp_read [wps]: "wp (readP f) Q E s = Q (f s) s"
  by (simp add: wp_def readP_def)

lemma wp_modify [wps]: "wp (modifyP f) Q E s = Q () (f s)"
  by (simp add: wp_def modifyP_def)

lemma wp_bind [wps]: "wp (bindP m f) Q E s = wp m (\<lambda>x. wp (f x) Q E) E s"
proof (cases "m s")
  case (Pair r t)
  then show ?thesis by (cases r) (simp_all add: wp_def bindP_def)
qed

lemma wp_then [wps]: "wp (thenP m n) Q E s = wp m (\<lambda>_. wp n Q E) E s"
  by (simp add: thenP_def wp_bind)

lemma wp_when [wps]: "wp (whenP c m) Q E s = (if c then wp m Q E s else Q () s)"
  by (simp add: whenP_def wp_ret)

lemma wp_except [wps]: "wp (exceptP m cs h) Q E s =
    wp m Q (\<lambda>e. if instance_of_any e cs then wp (h e) Q E else E e) s"
proof (cases "m s")
  case (Pair r t)
  then show ?thesis by (cases r) (simp_all add: wp_def exceptP_def)
qed

lemma wp_finally [wps]: "wp (finallyP m f) Q E s =
    wp m (\<lambda>x. wp f (\<lambda>_. Q x) E) (\<lambda>e. wp f (\<lambda>_. E e) E) s"
proof (cases "m s")
  case (Pair r t)
  then show ?thesis
    by (cases r; cases "f t"; cases "fst (f t)") (simp_all add: wp_def finallyP_def)
qed

lemma wp_rollback [wps]: "wp (rollbackP m f) Q E s = wp m Q (\<lambda>e. wp f (\<lambda>_. E e) E) s"
proof (cases "m s")
  case (Pair r t)
  then show ?thesis
    by (cases r; cases "f t"; cases "fst (f t)") (simp_all add: wp_def rollbackP_def)
qed

lemma wp_mono:
  assumes "wp m Q E s" "\<And>x t. Q x t \<Longrightarrow> Q' x t" "\<And>e t. E e t \<Longrightarrow> E' e t"
  shows "wp m Q' E' s"
proof (cases "m s")
  case (Pair r t)
  with assms show ?thesis by (cases r) (simp_all add: wp_def)
qed

lemma wp_triple: "triple P m Q E \<Longrightarrow> P s \<Longrightarrow> (\<And>x t. Q x t \<Longrightarrow> Q' x t) \<Longrightarrow> (\<And>e t. E e t \<Longrightarrow> E' e t) \<Longrightarrow> wp m Q' E' s"
  unfolding triple_wp by (rule wp_mono [of m Q E s]) simp_all

lemma wp_Inr: "m s = (Inr x, t) \<Longrightarrow> wp m Q E s \<longleftrightarrow> Q x t"
  by (simp add: wp_def)

lemma wp_Inl: "m s = (Inl e, t) \<Longrightarrow> wp m Q E s \<longleftrightarrow> E e t"
  by (simp add: wp_def)

end
