(* ===== verification/Py_Float.thy ===== *)
theory Py_Float
  imports Complex_Main
begin

text \<open>
  The subtraction of Python's floats. A float is an IEEE double; its value is a rational. The exact
  result of an operation is rounded to 53 significant bits, ties to the even neighbour. The
  exponent is not bounded: the sources subtract readings of a monotonic clock, whose differences
  are neither below the normal range without being exact nor near the largest double.
\<close>

section \<open>Rounding\<close>

definition half_even :: "rat \<Rightarrow> int" where
  "half_even y = (let f = \<lfloor>y\<rfloor>; r = y - of_int f in
     if r < 1 / 2 \<or> r = 1 / 2 \<and> even f then f else f + 1)"

text \<open>The weight of the last of the 53 bits of a positive quotient \<open>n / d\<close>.\<close>

function bit_count :: "int \<Rightarrow> nat" where
  "bit_count n = (if n \<le> 0 then 0 else Suc (bit_count (n div 2)))"
  by pat_completeness auto
termination by (relation "measure nat") simp_all

definition last_bit :: "int \<Rightarrow> int \<Rightarrow> int" where
  "last_bit n d = (let k = int (bit_count n) - int (bit_count d) in
     if 2 powi k \<le> (of_int n / of_int d :: rat) then k - 52 else k - 53)"

definition round_positive :: "rat \<Rightarrow> rat" where
  "round_positive x = (case quotient_of x of (n, d) \<Rightarrow>
     let e = last_bit n d in of_int (half_even (x / 2 powi e)) * 2 powi e)"

definition to_double :: "rat \<Rightarrow> rat" where
  "to_double x = (if x = 0 then 0 else if 0 < x then round_positive x else - round_positive (- x))"

definition float_minus :: "rat \<Rightarrow> rat \<Rightarrow> rat" where
  "float_minus a b = to_double (a - b)"

section \<open>The error of a rounding\<close>

lemma half_even_error: "\<bar>of_int (half_even y) - y\<bar> \<le> 1 / 2"
proof -
  have low: "of_int \<lfloor>y\<rfloor> \<le> y" "y < of_int \<lfloor>y\<rfloor> + 1" by linarith+
  then show ?thesis
    by (cases "y - of_int \<lfloor>y\<rfloor> < 1 / 2 \<or> y - of_int \<lfloor>y\<rfloor> = 1 / 2 \<and> even \<lfloor>y\<rfloor>")
      (simp_all only: half_even_def Let_def if_True if_False of_int_add of_int_1 abs_le_iff, linarith+)
qed

declare bit_count.simps [simp del]

lemma bit_count_bounds: "0 < n \<Longrightarrow> 2 ^ (bit_count n - 1) \<le> n \<and> n < 2 ^ bit_count n \<and> 0 < bit_count n"
proof (induction n rule: bit_count.induct)
  case (1 n)
  have step: "bit_count n = Suc (bit_count (n div 2))" using "1.prems" by (simp add: bit_count.simps)
  show ?case
  proof (cases "n = 1")
    case True
    then show ?thesis by (simp add: step) (simp add: bit_count.simps)
  next
    case False
    with "1.prems" have "0 < n div 2" by linarith
    with "1.IH" "1.prems" have IH: "2 ^ (bit_count (n div 2) - 1) \<le> n div 2" "n div 2 < 2 ^ bit_count (n div 2)"
      "0 < bit_count (n div 2)" by simp_all
    obtain k where k: "bit_count (n div 2) = Suc k" using IH(3) gr0_implies_Suc by blast
    from IH(1,2) have "2 * 2 ^ k \<le> n" "n < 2 * 2 ^ Suc k" unfolding k by simp_all
    then show ?thesis by (simp add: step k)
  qed
qed

lemma last_bit_bound:
  assumes "0 < n" "0 < d"
  shows "2 ^ 52 * 2 powi (last_bit n d) \<le> (of_int n / of_int d :: rat)"
proof -
  let ?i = "bit_count n" and ?j = "bit_count d" and ?x = "of_int n / of_int d :: rat"
  have i: "2 ^ (?i - 1) \<le> n" "0 < ?i" and j: "d < 2 ^ ?j"
    using bit_count_bounds assms by simp_all
  have "(2 :: rat) powi (int ?i - 1) \<le> of_int n"
  proof -
    have "int ?i - 1 = int (?i - 1)" using i(2) by linarith
    then have "(2 :: rat) powi (int ?i - 1) = of_int (2 ^ (?i - 1))"
      by (simp only: power_int_of_nat of_int_power of_int_numeral)
    also have "\<dots> \<le> of_int n" using i(1) by (simp only: of_int_le_iff)
    finally show ?thesis .
  qed
  moreover have "of_int d \<le> (2 :: rat) powi (int ?j)"
  proof -
    have "(of_int d :: rat) \<le> of_int (2 ^ ?j)" using j by (simp only: of_int_le_iff)
    then show ?thesis by (simp add: power_int_of_nat)
  qed
  ultimately have "(2 :: rat) powi (int ?i - 1) / 2 powi (int ?j) \<le> ?x"
    by (intro frac_le) (use assms in simp_all)
  then have below: "(2 :: rat) powi (int ?i - int ?j - 1) \<le> ?x"
  proof -
    have "(2 :: rat) powi (int ?i - 1 - int ?j) = 2 powi (int ?i - 1) / 2 powi (int ?j)"
      by (rule power_int_diff) simp
    moreover have "int ?i - int ?j - 1 = int ?i - 1 - int ?j" by simp
    ultimately show ?thesis using \<open>2 powi (int ?i - 1) / 2 powi (int ?j) \<le> ?x\<close> by metis
  qed
  have split: "(2 :: rat) ^ 52 * 2 powi e = 2 powi (e + 52)" for e
    by (simp add: power_int_add)
  show ?thesis
  proof (cases "2 powi (int ?i - int ?j) \<le> ?x")
    case True
    then have "last_bit n d + 52 = int ?i - int ?j" by (simp add: last_bit_def Let_def)
    with True split [of "last_bit n d"] show ?thesis by simp
  next
    case False
    then have "last_bit n d + 52 = int ?i - int ?j - 1" by (simp add: last_bit_def Let_def)
    with below split [of "last_bit n d"] show ?thesis by simp
  qed
qed

lemma round_positive_error:
  assumes "0 < x"
  shows "\<bar>round_positive x - x\<bar> \<le> x / 2 ^ 53"
proof -
  obtain n d where q: "quotient_of x = (n, d)" by force
  then have d: "0 < d" and x: "x = of_int n / of_int d"
    by (simp_all add: quotient_of_denom_pos quotient_of_div)
  with assms have n: "0 < n" by (simp add: zero_less_divide_iff)
  let ?e = "last_bit n d" and ?w = "2 powi last_bit n d :: rat"
  have w: "0 < ?w" by simp
  have "2 ^ 52 * ?w \<le> x"
    using last_bit_bound [OF n d] by (simp add: x)
  moreover have "\<bar>of_int (half_even (x / ?w)) * ?w - x\<bar> \<le> ?w / 2"
  proof -
    have "of_int (half_even (x / ?w)) * ?w - x = (of_int (half_even (x / ?w)) - x / ?w) * ?w"
      using w by (simp add: field_simps)
    also have "\<bar>\<dots>\<bar> = \<bar>of_int (half_even (x / ?w)) - x / ?w\<bar> * ?w"
      using w by (simp add: abs_mult)
    also have "\<dots> \<le> 1 / 2 * ?w"
      by (rule mult_right_mono [OF half_even_error]) (use w in simp)
    finally show ?thesis by simp
  qed
  ultimately show ?thesis by (simp add: round_positive_def q Let_def)
qed

lemma to_double_error: "\<bar>to_double x - x\<bar> \<le> \<bar>x\<bar> / 2 ^ 53"
proof (cases "x < 0")
  case True
  then have "\<bar>round_positive (- x) - (- x)\<bar> \<le> - x / 2 ^ 53" using round_positive_error [of "- x"] by simp
  moreover have "\<bar>- round_positive (- x) - x\<bar> = \<bar>round_positive (- x) - (- x)\<bar>" by simp
  ultimately show ?thesis using True by (simp only: to_double_def abs_of_neg if_False less_asym) simp
next
  case False
  then show ?thesis using round_positive_error [of x] by (auto simp: to_double_def)
qed

lemma to_double_zero [simp]: "to_double 0 = 0"
  by (simp add: to_double_def)

text \<open>In terms of the result.\<close>

lemma float_minus_error: "\<bar>float_minus a b - (a - b)\<bar> \<le> \<bar>float_minus a b\<bar> / 2 ^ 52"
proof -
  define x where "x = a - b"
  define y where "y = to_double x"
  have err: "\<bar>y - x\<bar> \<le> \<bar>x\<bar> / 2 ^ 53" using to_double_error by (simp add: y_def)
  have "\<bar>x\<bar> \<le> \<bar>y\<bar> + \<bar>y - x\<bar>" by linarith
  moreover have "\<bar>x\<bar> / 2 ^ 53 \<le> \<bar>x\<bar> / 2" by simp
  ultimately have "\<bar>x\<bar> \<le> 2 * \<bar>y\<bar>" using err by linarith
  then have "\<bar>x\<bar> / 2 ^ 53 \<le> \<bar>y\<bar> / 2 ^ 52" by simp
  with err show ?thesis by (simp only: float_minus_def flip: x_def y_def)
qed

text \<open>What three differences that share their ends add up to.\<close>

lemma float_minus_sum:
  "\<bar>float_minus b a + float_minus c b + float_minus d c - float_minus d a\<bar> \<le>
   (\<bar>float_minus b a\<bar> + \<bar>float_minus c b\<bar> + \<bar>float_minus d c\<bar> + \<bar>float_minus d a\<bar>) / 2 ^ 52"
proof -
  have "\<bar>p + q + r - w\<bar> \<le> P + Q + R + W"
    if "\<bar>p - (b - a)\<bar> \<le> P" "\<bar>q - (c - b)\<bar> \<le> Q" "\<bar>r - (d - c)\<bar> \<le> R" "\<bar>w - (d - a)\<bar> \<le> W" for p q r w P Q R W :: rat
    using that by linarith
  from this [OF float_minus_error float_minus_error float_minus_error float_minus_error] show ?thesis
    by (simp only: add_divide_distrib)
qed

end
