(* ===== verification/Case_Runner.thy ===== *)
theory Case_Runner
  imports Action_Logic Console_Output Lifecycle_Scenario Py_Float Target_Setup
begin

text \<open>
  One case of \<open>run.py\<close>'s main loop: a fresh state directory, repository server and session bus, the
  target's adapter, the scenario, and the cleanup whose outcome and durations the result records.
  The runner's state holds the session of the programs, the results (dictionaries, as the report
  has them), the console, and the variables of the running case.
\<close>

section \<open>State\<close>

datatype resource = Session_Bus "string list" | Repository_Http

record runner =
  machine :: session
  setup_evidence :: "dict list"
  run_report :: dict \<comment> \<open>the report but for the shared parts below\<close>
  run_results :: "dict list"
  run_cases :: "(case_key \<times> nat) list" \<comment> \<open>the keys of \<open>cases\<close> with the results they share\<close>
  run_coverage :: "coverage_summary option"
  run_status :: int
  screen :: console
  execution_started :: "rat option"
  cleanup_started :: "rat option"
  case_root :: "string option"
  case_server :: bool
  opened :: "resource list" \<comment> \<open>the exit stack, innermost first\<close>

type_synonym 'a run = "(runner, 'a) action"

definition inner :: "'a prog \<Rightarrow> 'a run" where
  "inner m r = (case m (machine r) of (x, s) \<Rightarrow> (x, r\<lparr>machine := s\<rparr>))"

definition on_screen :: "(console, 'a) action \<Rightarrow> 'a run" where
  "on_screen m r = (case m (screen r) of (x, c) \<Rightarrow> (x, r\<lparr>screen := c\<rparr>))"

definition update_result :: "nat \<Rightarrow> dict \<Rightarrow> unit run" where
  "update_result i new = modifyP (\<lambda>r. r\<lparr>run_results := (run_results r)[i := update_dict (run_results r ! i) new]\<rparr>)"

definition result_of :: "runner \<Rightarrow> nat \<Rightarrow> pyval" where
  "result_of r i = PObj (run_results r ! i)"

definition fail_run :: "unit run" where
  "fail_run = modifyP (\<lambda>r. r\<lparr>run_status := 1\<rparr>)"

definition report_case :: "nat \<Rightarrow> unit run" where
  "report_case i = bindP (readP (\<lambda>r. result_of r i)) (\<lambda>c. on_screen (case_finished c))"

text \<open>What the suite gets from its surroundings: the host's environment, the JSON reader and writer,
  SHA-256, its own directory, and the handlers by module and function.\<close>

type_synonym handler = "driver \<Rightarrow> string \<Rightarrow> pyval \<Rightarrow> string \<Rightarrow> unit prog"

record suite =
  host_path :: string
  host_environ :: environ
  suite_loads :: json_loads
  suite_dumps :: "pyval \<Rightarrow> coverage_summary option \<Rightarrow> string"
  suite_digest :: "string \<Rightarrow> string"
  suite_here :: string
  suite_files :: "path \<Rightarrow> pyval result" \<comment> \<open>the suite's JSON documents\<close>
  suite_listing :: "path list" \<comment> \<open>\<open>scenario-data/**/*.json\<close>\<close>
  suite_resolve :: "path \<Rightarrow> path"
  suite_source :: "path \<Rightarrow> bool" \<comment> \<open>whether a client's source is a file\<close>
  suite_snapshot :: "coverage_model \<Rightarrow> pyval" \<comment> \<open>the definition record of the files\<close>
  suite_now :: pyval \<comment> \<open>the same at completion\<close>
  suite_tty :: bool
  suite_handlers :: "string \<Rightarrow> string \<Rightarrow> handler result"

text \<open>What every case of a run shares.\<close>

record subject =
  subj_target :: target_config
  subj_directory :: string \<comment> \<open>of the target's configuration\<close>
  subj_cli :: string
  subj_adapter :: "string list"
  subj_fixture :: pyval
  subj_output :: string
  subj_limit :: string

section \<open>Writing the report\<close>

text \<open>The shared parts of the report at its keys.\<close>

definition report_value :: "runner \<Rightarrow> pyval" where
  "report_value r = PObj (map (\<lambda>(k, v).
     if k = ''results'' then (k, PList (map PObj (run_results r)))
     else if k = ''setup_evidence'' then (k, PList (map PObj (setup_evidence r)))
     else if k = ''library_provenance'' then (k, PObj (library_provenance (machine r)))
     else (k, v)) (run_report r))"

definition write_json :: "suite \<Rightarrow> string \<Rightarrow> string \<Rightarrow> pyval \<Rightarrow> coverage_summary option \<Rightarrow> unit prog" where
  "write_json S directory name v coverage =
     (let temporary = file_in directory (''.'' @ name @ ''.tmp'') in
      bindP (liftP (json_value v ''JSON'')) (\<lambda>j.
      thenP (write_text temporary (suite_dumps S j coverage @ ''\<newline>''))
        (move_file temporary (file_in directory name))))"

definition save_report :: "suite \<Rightarrow> string \<Rightarrow> unit run" where
  "save_report S out = bindP (readP (\<lambda>r. (report_value r, run_coverage r)))
     (\<lambda>(v, coverage). inner (write_json S out ''report.json'' v coverage))"

section \<open>Contexts\<close>

definition begin_cleanup :: "unit run" where
  "begin_cleanup = bindP (readP cleanup_started) (\<lambda>c. case c of
     Some _ \<Rightarrow> ret ()
   | None \<Rightarrow> bindP (inner read_clock) (\<lambda>t. modifyP (\<lambda>r. r\<lparr>cleanup_started := Some t\<rparr>)))"

definition bus_config :: "string \<Rightarrow> string" where
  "bus_config services =
     ''<busconfig><type>session</type><listen>unix:tmpdir=/tmp</listen><auth>EXTERNAL</auth><servicedir>'' @
     html_escape services @
     ''</servicedir><policy context='' @ [CHR 0x22] @ ''default'' @ [CHR 0x22] @ ''><allow send_destination='' @
     [CHR 0x22, CHR ''*'', CHR 0x22] @ ''/><allow receive_sender='' @ [CHR 0x22, CHR ''*'', CHR 0x22] @
     ''/><allow own='' @ [CHR 0x22, CHR ''*'', CHR 0x22] @ ''/></policy></busconfig>''"

definition bus_argv :: "string \<Rightarrow> string list" where
  "bus_argv config = [''dbus-daemon'', ''--config-file='' @ config, ''--nofork'', ''--print-address=1'']"

definition push :: "resource \<Rightarrow> unit run" where
  "push c = modifyP (\<lambda>r. r\<lparr>opened := c # opened r\<rparr>)"

definition leave_bus :: "string list \<Rightarrow> unit run" where
  "leave_bus argv = thenP begin_cleanup (inner (stop_background argv))"

text \<open>\<open>session_bus\<close> up to its \<open>yield\<close>; the address is the first line the daemon prints.\<close>

definition enter_bus :: "environ \<Rightarrow> string \<Rightarrow> environ run" where
  "enter_bus env base =
     (let services = file_in base ''services''; config = file_in base ''session.conf''; argv = bus_argv config in
      thenP (inner (make_directory services))
     (thenP (inner (write_text config (bus_config services)))
     (thenP (inner (write_text (file_in base ''dbus.log'') ''''))
     (thenP (exceptP (inner (start_background argv env)) [FileNotFoundError]
        (\<lambda>_. raiseP PrerequisiteError ''dbus-daemon is required''))
     (rollbackP
       (bindP (inner (path_test ''readable within 10 s'' ''dbus-daemon'')) (\<lambda>ready.
        thenP (guardP ready PrerequisiteError ''session bus startup timed out; see dbus.log'')
       (bindP (inner (lookup_path ''readline'' ''dbus-daemon'')) (\<lambda>line. let address = strip line in
        thenP (guardP (address \<noteq> '''') PrerequisiteError ''session bus failed to start; see dbus.log'')
       (thenP (push (Session_Bus argv)) (ret (AList.update ''DBUS_SESSION_BUS_ADDRESS'' address env)))))))
       (leave_bus argv))))))"

definition leave_server :: "bool \<Rightarrow> unit run" where
  "leave_server started = thenP begin_cleanup
     (finallyP (whenP started (inner (stop_background [''serve_forever''])))
       (inner (stop_background [''http.server''])))"

text \<open>\<open>RepositoryServer.serving\<close> up to its \<open>yield\<close>, with the server's address.\<close>

definition enter_server :: "string run" where
  "enter_server =
     thenP (inner (start_background [''http.server''] []))
    (thenP (rollbackP (inner (start_background [''serve_forever''] [])) (leave_server False))
    (rollbackP (bindP (inner (lookup_path ''server_port'' ''http.server'')) (\<lambda>port.
       thenP (push Repository_Http) (ret (''http://127.0.0.1:'' @ port)))) (leave_server True)))"

definition leave :: "resource \<Rightarrow> unit run" where
  "leave c = (case c of Session_Bus argv \<Rightarrow> leave_bus argv | Repository_Http \<Rightarrow> leave_server True)"

text \<open>\<open>contexts.close()\<close>: every context is left, the innermost first, whatever the others raise.\<close>

fun close_all :: "resource list \<Rightarrow> unit run" where
  "close_all [] = ret ()"
| "close_all (c # cs) = finallyP (leave c) (close_all cs)"

definition close_contexts :: "unit run" where
  "close_contexts = bindP (readP opened) (\<lambda>cs. thenP (modifyP (\<lambda>r. r\<lparr>opened := []\<rparr>)) (close_all cs))"

section \<open>The body of a case\<close>

definition library_directories :: "target_config \<Rightarrow> environ \<Rightarrow> environ result" where
  "library_directories target env = (case library target of
     None \<Rightarrow> raise PrerequisiteError ''target.library: configuration is required''
   | Some lib \<Rightarrow> bindE (guardE (runtime_library_dirs lib \<noteq> [] \<and>
         list_all (\<lambda>p. is_absolute (path_of p)) (runtime_library_dirs lib)) PrerequisiteError
         ''explicit absolute runtime library dirs required'') (\<lambda>_.
       Inr (AList.update ''LD_LIBRARY_PATH'' (join '':'' (runtime_library_dirs lib)) env)))"

text \<open>The target's adapter prepares the state directory and prints additions to the environment.\<close>

definition run_adapter :: "suite \<Rightarrow> subject \<Rightarrow> string \<Rightarrow> environ \<Rightarrow> environ prog" where
  "run_adapter S X base env =
     bindP (execute (subj_adapter X @ [base]) env (subj_directory X) (subj_limit X)) (\<lambda>result.
     thenP (guardP (returncode result \<noteq> 77) PrerequisiteError (''setup adapter failed: '' @ stderr result))
    (thenP (guardP (returncode result = 0) ValueError (''setup adapter failed: '' @ stderr result))
    (bindP (liftP (bindE (decode_json (suite_loads S) (stdout result) ''adapter'') (\<lambda>v. parse_environment v ''adapter'')))
       (\<lambda>new. ret (update_environ env new)))))"

text \<open>Everything before the scenario: the driver it gets and the repository's address.\<close>

definition case_setup :: "suite \<Rightarrow> subject \<Rightarrow> string \<Rightarrow> string option \<Rightarrow> nat \<Rightarrow> (driver \<times> string) run" where
  "case_setup S X kind client i =
     bindP (inner (lookup_path ''mkdtemp'' ''fp-bb-'')) (\<lambda>base.
     thenP (modifyP (\<lambda>r. r\<lparr>case_root := Some base\<rparr>))
    (thenP (update_result i [(''state_directory'', PStr base)])
    (thenP (modifyP (\<lambda>r. r\<lparr>machine := (machine r)\<lparr>repository := new_repository\<rparr>, case_server := True\<rparr>))
    (bindP (inner (environment (host_path S) base (subj_target X))) (\<lambda>env.
     bindP (inner (run_adapter S X base env)) (\<lambda>env.
     bindP (if kind = ''library'' then liftP (library_directories (subj_target X) env) else ret env) (\<lambda>env.
     bindP (enter_bus env base) (\<lambda>env.
     bindP enter_server (\<lambda>url.
     ret (\<lparr>driver_kind = kind, driver_cli = subj_cli X, driver_client = client, driver_env = env,
       driver_root = base, driver_timeout = subj_limit X\<rparr>, url))))))))))"

definition call_handler :: "suite \<Rightarrow> pyval \<Rightarrow> driver \<Rightarrow> string \<Rightarrow> pyval \<Rightarrow> unit prog" where
  "call_handler S behavior d url fixture =
     (let name = text_at behavior ''scenario'' in
      if has behavior ''handler'' then
        (let names = split_on (CHR '':'') (text_at behavior ''handler'') in
         bindP (liftP (unpack 2 names)) (\<lambda>_.
         bindP (liftP (suite_handlers S (names ! 0) (names ! 1))) (\<lambda>h. h d url fixture name)))
      else scenario d url fixture name)"

definition start_execution :: "unit run" where
  "start_execution = bindP (inner read_clock) (\<lambda>t. modifyP (\<lambda>r. r\<lparr>execution_started := Some t\<rparr>))"

definition case_body :: "suite \<Rightarrow> subject \<Rightarrow> string \<Rightarrow> string option \<Rightarrow> pyval \<Rightarrow> nat \<Rightarrow> unit run" where
  "case_body S X kind client behavior i =
     bindP (case_setup S X kind client i) (\<lambda>(d, url).
     thenP start_execution
    (thenP (inner (call_handler S behavior d url (subj_fixture X)))
       (update_result i [(''status'', PStr ''passed'')])))"

text \<open>The exceptions a case and the run survive.\<close>

definition survived :: "exn_class list" where
  "survived = [PrerequisiteError, ContractFailure, UnsupportedCapability, OSError, ValueError, KeyError, TypeError]"

definition case_failed :: "nat \<Rightarrow> exn \<Rightarrow> unit run" where
  "case_failed i e = thenP (update_result i [(''status'', PStr (failure_status e)), (''error'', PStr (exn_msg e))]) fail_run"

section \<open>Cleanup\<close>

definition release_root :: "subject \<Rightarrow> string \<Rightarrow> string \<Rightarrow> unit run" where
  "release_root X kind name = bindP (readP case_root) (\<lambda>base. case base of
     None \<Rightarrow> ret ()
   | Some base \<Rightarrow>
       bindP (inner (path_test ''exists'' (file_in base ''dbus.log''))) (\<lambda>found.
       thenP (whenP found (inner (copy_file (file_in base ''dbus.log'')
         (file_in (subj_output X) (kind @ ''-'' @ name @ ''-dbus.log'')))))
       (inner (remove_tree base))))"

definition record_requests :: "nat \<Rightarrow> unit run" where
  "record_requests i = bindP (readP (\<lambda>r. (case_server r, requests (repository (machine r))))) (\<lambda>(served, reqs).
     whenP served (update_result i [(''repository_requests'', PList (map PObj reqs))]))"

definition case_cleanup :: "subject \<Rightarrow> string \<Rightarrow> string \<Rightarrow> nat \<Rightarrow> unit run" where
  "case_cleanup X kind name i =
     exceptP
       (thenP (finallyP close_contexts (thenP (record_requests i) (release_root X kind name)))
         (update_result i [(''cleanup_complete'', PBool True)]))
       [OSError, ValueError, KeyError, TypeError, PrerequisiteError, ContractFailure]
       (\<lambda>e. thenP (update_result i [(''status'', PStr ''setup-error''), (''cleanup_error'', PStr (exn_msg e))]) fail_run)"

definition seconds_between :: "rat \<Rightarrow> rat \<Rightarrow> pyval" where
  "seconds_between a b = PFloat (Fin (float_minus b a))"

definition phase_seconds :: "rat \<Rightarrow> rat option \<Rightarrow> rat \<Rightarrow> rat \<Rightarrow> dict" where
  "phase_seconds started execution cleanup finished = [
     (''setup_seconds'', seconds_between started (case execution of Some e \<Rightarrow> e | None \<Rightarrow> cleanup)),
     (''execution_seconds'', case execution of Some e \<Rightarrow> seconds_between e cleanup | None \<Rightarrow> PFloat (Fin 0)),
     (''cleanup_seconds'', seconds_between cleanup finished)]"

definition record_timings :: "nat \<Rightarrow> rat \<Rightarrow> unit run" where
  "record_timings i started =
     bindP (inner read_clock) (\<lambda>finished.
     bindP (readP (\<lambda>r. (execution_started r, the_default 0 (cleanup_started r)))) (\<lambda>(execution, cleanup).
     update_result i [(''duration_seconds'', seconds_between started finished),
       (''timings'', PObj (phase_seconds started execution cleanup finished))]))"

text \<open>The result's evidence list is the driver's: it is the session's while the case runs.\<close>

definition open_case :: "unit run" where
  "open_case = modifyP (\<lambda>r. r\<lparr>setup_evidence := evidence (machine r), machine := (machine r)\<lparr>evidence := []\<rparr>,
     execution_started := None, cleanup_started := None, case_root := None, case_server := False, opened := []\<rparr>)"

definition close_case :: "nat \<Rightarrow> unit run" where
  "close_case i = bindP (readP (\<lambda>r. evidence (machine r))) (\<lambda>es.
     thenP (update_result i [(''evidence'', PList (map PObj es))])
       (modifyP (\<lambda>r. r\<lparr>machine := (machine r)\<lparr>evidence := setup_evidence r\<rparr>\<rparr>)))"

definition run_case :: "suite \<Rightarrow> subject \<Rightarrow> string \<Rightarrow> string option \<Rightarrow> pyval \<Rightarrow> nat \<Rightarrow> unit run" where
  "run_case S X kind client behavior i =
     bindP (inner read_clock) (\<lambda>started.
     thenP open_case
    (thenP (finallyP
       (exceptP (case_body S X kind client behavior i) survived (case_failed i))
       (thenP begin_cleanup
       (thenP (finallyP (case_cleanup X kind (text_at behavior ''scenario'') i)
                (thenP (record_timings i started) (close_case i)))
         (save_report S (subj_output X)))))
     (report_case i)))"

end
