(* ===== verification/Runner.thy ===== *)
theory Runner
  imports Case_Runner
begin

text \<open>
  \<open>run.py\<close>'s \<open>main\<close>: the table of cases, the capabilities a target lacks, the fixture and the programs
  under test, the loop over drivers and cases, and the report that is written whatever happens.
\<close>

section \<open>Arguments\<close>

record arguments =
  arg_target :: string
  arg_fixtures :: string
  arg_output :: string
  arg_driver :: string
  arg_scenario :: string
  arg_allow :: bool
  arg_color :: string
  arg_timeout :: rat
  arg_limit :: string \<comment> \<open>the timeout as text\<close>

definition inventory_of :: "suite \<Rightarrow> pyval list result" where
  "inventory_of S = load_behaviors (suite_files S) (suite_listing S) (path_of (suite_here S))"

definition model_of :: "suite \<Rightarrow> coverage_model result" where
  "model_of S = coverage_model_of (suite_files S) (suite_resolve S) (suite_listing S) (suite_snapshot S)
     (path_of (suite_here S))"

definition extensions_of :: "suite \<Rightarrow> (string \<times> string) list result" where
  "extensions_of S = bindE (extension_clients (suite_files S) (suite_source S) (suite_listing S) (path_of (suite_here S)))
     (\<lambda>cs. Inr (map (\<lambda>(p, entry). (path_str p, entry)) cs))"

text \<open>\<open>parser.error\<close> exits with status 2.\<close>

definition usage_error :: "string \<Rightarrow> 'a result" where
  "usage_error message = raise SystemExit message"

definition definitions_or_usage :: "'a result \<Rightarrow> 'a result" where
  "definitions_or_usage r = (case r of Inr x \<Rightarrow> Inr x
     | Inl e \<Rightarrow> if instance_of_any e [OSError, ValueError, KeyError, TypeError]
         then usage_error (''invalid coverage definitions: '' @ exn_msg e) else Inl e)"

definition scenario_names :: "pyval list \<Rightarrow> string list" where
  "scenario_names inventory = map (\<lambda>b. text_at b ''scenario'') (filter (\<lambda>b. has b ''scenario'') inventory)"

definition check_arguments :: "arguments \<Rightarrow> pyval list \<Rightarrow> unit result" where
  "check_arguments A inventory =
     bindE (if arg_driver A \<in> {''cli'', ''library'', ''all''} \<and> arg_color A \<in> {''auto'', ''always'', ''never''} \<and>
         arg_scenario A \<in> set (''all'' # scenario_names inventory) then Inr () else usage_error ''invalid choice'') (\<lambda>_.
     if arg_timeout A \<le> 0 then usage_error ''--timeout must be positive'' else Inr ())"

section \<open>The table of cases\<close>

definition is_selected :: "arguments \<Rightarrow> string \<Rightarrow> pyval \<Rightarrow> bool" where
  "is_selected A kind b \<longleftrightarrow> arg_driver A \<in> {''all'', kind} \<and> arg_scenario A \<in> {''all'', text_at b ''scenario''}"

definition behavior_key :: "string \<Rightarrow> pyval \<Rightarrow> case_key" where
  "behavior_key kind b = (text_at b ''id'', kind, text_at b ''profile'')"

definition case_capabilities :: "coverage_model \<Rightarrow> string \<Rightarrow> pyval \<Rightarrow> string list result" where
  "case_capabilities m kind b =
     bindE (mapE (\<lambda>i. bindE (item (requirements m) i) (\<lambda>r. Inr (texts_at r ''required_capabilities'')))
         (get_default (mapping m) (behavior_key kind b) [])) (\<lambda>more.
     Inr (sorted_set (texts_at b ''required_capabilities'' @ [''cli''] @
       (if kind = ''library'' then [''libflatpak''] else []) @ concat more)))"

definition new_case :: "coverage_model \<Rightarrow> arguments \<Rightarrow> string \<times> pyval \<Rightarrow> dict result" where
  "new_case m A kb = (case kb of (kind, b) \<Rightarrow>
     bindE (case_capabilities m kind b) (\<lambda>capabilities.
     Inr [(''behavior_id'', PStr (text_at b ''id'')), (''driver'', PStr kind), (''profile'', PStr (text_at b ''profile'')),
       (''target_version'', PNone),
       (''status'', PStr (if is_selected A kind b then ''pending'' else ''not-selected'')), (''evidence'', PList []),
       (''required_capabilities'', PList (map PStr capabilities))]))"

definition runs_with :: "string \<Rightarrow> pyval list \<Rightarrow> pyval list" where
  "runs_with kind inventory = filter (\<lambda>b. has b ''scenario'' \<and> kind \<in> set (texts_at b ''drivers'')) inventory"

definition case_table :: "pyval list \<Rightarrow> (string \<times> pyval) list" where
  "case_table inventory = concat (map (\<lambda>kind. map (Pair kind) (runs_with kind inventory)) interfaces)"

text \<open>A later case with the same key takes the key over.\<close>

definition index_cases :: "dict list \<Rightarrow> (case_key \<times> nat) list" where
  "index_cases rs = foldl (\<lambda>m (i, d). AList.update (case_key (PObj d)) i m) [] (enumerate_list rs)"

definition case_indices :: "runner \<Rightarrow> nat list" where
  "case_indices r = map snd (run_cases r)"

definition is_pending :: "runner \<Rightarrow> nat \<Rightarrow> bool" where
  "is_pending r i \<longleftrightarrow> text_at (result_of r i) ''status'' = ''pending''"

definition for_cases :: "(nat \<Rightarrow> unit run) \<Rightarrow> unit run" where
  "for_cases f = bindP (readP case_indices) (\<lambda>is. forP is f)"

definition set_report :: "dict \<Rightarrow> unit run" where
  "set_report new = modifyP (\<lambda>r. r\<lparr>run_report := update_dict (run_report r) new\<rparr>)"

section \<open>Capabilities\<close>

definition missing_capabilities :: "(string \<times> string) list \<Rightarrow> pyval \<Rightarrow> dict" where
  "missing_capabilities unsupported c = List.map_filter (\<lambda>k. map_option (\<lambda>v. (k, PStr v)) (map_of unsupported k))
     (texts_at c ''required_capabilities'')"

text \<open>A selected case whose capabilities the target declares missing, or whose profile needs another
  runner, is unsupported, which fails the run.\<close>

definition block_missing :: "(string \<times> string) list \<Rightarrow> nat \<Rightarrow> unit run" where
  "block_missing unsupported i = bindP (readP (\<lambda>r. result_of r i)) (\<lambda>c.
     let missing = missing_capabilities unsupported c in
     whenP (text_at c ''status'' = ''pending'' \<and> missing \<noteq> [])
       (thenP (update_result i [(''status'', PStr ''unsupported''), (''unsupported_capabilities'', PObj missing)]) fail_run))"

definition block_profile :: "coverage_model \<Rightarrow> nat \<Rightarrow> unit run" where
  "block_profile m i = bindP (readP (\<lambda>r. result_of r i)) (\<lambda>c.
     bindP (liftP (case map_of (cases m) (case_key c) of Some d \<Rightarrow> Inr d | None \<Rightarrow> raise KeyError (key_repr (case_key c)))) (\<lambda>definition_of.
     whenP (text_at c ''status'' = ''pending'' \<and> text_at c ''profile'' \<notin> {''user'', ''any''} \<and>
         get_or definition_of ''execution_environment'' PNone \<notin> {PStr ''root-userns'', PStr ''provisioned-system''})
       (thenP (update_result i [(''status'', PStr ''unsupported''),
          (''error'', PStr ''System-profile execution requires a VM runner.'')]) fail_run)))"

definition block_case :: "coverage_model \<Rightarrow> (string \<times> string) list \<Rightarrow> nat \<Rightarrow> unit run" where
  "block_case m unsupported i = thenP (block_missing unsupported i) (thenP (block_profile m i)
     (bindP (readP (\<lambda>r. result_of r i)) (\<lambda>c. whenP (text_at c ''status'' = ''unsupported'') (report_case i))))"

definition known_capabilities :: "coverage_model \<Rightarrow> runner \<Rightarrow> string set" where
  "known_capabilities m r = \<Union> (set ` (\<lambda>i. texts_at (result_of r i) ''required_capabilities'') ` set (case_indices r)) \<union>
     \<Union> (set ` (\<lambda>(_, q). texts_at q ''required_capabilities'') ` set (requirements m))"

section \<open>The subject of the run\<close>

definition read_target :: "suite \<Rightarrow> string \<Rightarrow> target_config prog" where
  "read_target S path = bindP (read_text path) (\<lambda>txt. liftP (load_target (suite_loads S) (\<lambda>_. Inr txt) path))"

definition select_target :: "suite \<Rightarrow> coverage_model \<Rightarrow> string \<Rightarrow> (target_config \<times> dict) run" where
  "select_target S m path =
     bindP (inner (read_target S path)) (\<lambda>target.
     bindP (inner (record_artifact (suite_digest S) path)) (\<lambda>configuration.
     thenP (set_report [(''target'', PStr (target_name target))])
    (bindP (readP (known_capabilities m)) (\<lambda>known.
     thenP (guardP (fst ` set (unsupported_capabilities target) \<subseteq> known) ValueError
       ''unsupported_capabilities must map known capabilities to reasons'')
    (thenP (set_report [(''declared_unsupported_capabilities'',
       PObj (map (\<lambda>(k, v). (k, PStr v)) (unsupported_capabilities target)))])
    (thenP (for_cases (block_case m (unsupported_capabilities target)))
    (bindP (readP (\<lambda>r. list_ex (is_pending r) (case_indices r))) (\<lambda>some.
     thenP (guardP some UnsupportedCapability ''target declares all selected scenarios unsupported'')
       (ret (target, configuration))))))))))"

definition check_fixture_file :: "suite \<Rightarrow> string \<Rightarrow> string \<times> pyval \<Rightarrow> unit prog" where
  "check_fixture_file S fixtures entry = (case entry of (relative, expected) \<Rightarrow>
     bindP (lookup_path ''resolve'' (file_in fixtures relative)) (\<lambda>path.
     thenP (guardP (is_relative_to (path_of path) (path_of fixtures)) PrerequisiteError
       (''fixture path escapes fixture directory: '' @ relative))
    (bindP (read_text path) (\<lambda>bytes.
     guardP (PStr (suite_digest S bytes) = expected) PrerequisiteError (''fixture checksum mismatch: '' @ relative)))))"

definition select_fixture :: "suite \<Rightarrow> string \<Rightarrow> pyval run" where
  "select_fixture S fixtures =
     (let manifest = file_in fixtures ''fixture.json'' in
      bindP (inner (bindP (read_text manifest) (\<lambda>txt. liftP (load_fixture (suite_loads S) (\<lambda>_. Inr txt) manifest)))) (\<lambda>fixture.
      thenP (inner (forP (entries_of (fld fixture ''sha256'')) (check_fixture_file S fixtures)))
     (let fixture = setitem fixture ''directory'' (PStr fixtures) in
      thenP (set_report [(''fixture'', fixture)])
     (bindP (inner (record_artifact (suite_digest S) manifest)) (\<lambda>identity.
      thenP (set_report [(''fixture_provenance'', PObj [(''path'', PStr fixtures),
          (''manifest_sha256'', get_default identity ''sha256'' PNone)])])
        (ret fixture))))))"

text \<open>An argument of the adapter that names a file is part of the subject.\<close>

definition argument_path :: "string \<Rightarrow> string \<Rightarrow> string" where
  "argument_path directory argument = absolute_in directory (last (split_first (CHR ''='') argument))"

definition adapter_file :: "suite \<Rightarrow> string \<Rightarrow> dict list \<Rightarrow> string \<Rightarrow> dict list prog" where
  "adapter_file S directory files argument =
     (let candidate = argument_path directory argument in
      bindP (exceptP (path_test ''is_file'' candidate) [OSError] (\<lambda>_. ret False)) (\<lambda>found.
      if found then bindP (record_artifact (suite_digest S) candidate) (\<lambda>d. ret (files @ [d])) else ret files))"

definition select_programs :: "suite \<Rightarrow> target_config \<Rightarrow> dict \<Rightarrow> string \<Rightarrow> string \<Rightarrow> (environ \<times> string \<times> string list) run" where
  "select_programs S target configuration directory out =
     bindP (inner (environment (host_path S) (file_in out ''probe'') target)) (\<lambda>env.
     bindP (inner (resolve_program (target_cli target) env directory)) (\<lambda>cli.
     bindP (inner (record_artifact (suite_digest S) cli)) (\<lambda>cli_identity.
     bindP (inner (resolve_program (hd (adapter target)) env directory)) (\<lambda>program.
     bindP (inner (record_artifact (suite_digest S) program)) (\<lambda>program_identity.
     bindP (inner (foldP (adapter_file S directory) [program_identity] (tl (adapter target)))) (\<lambda>files.
     thenP (set_report [(''target_provenance'', PObj [
         (''configuration_sha256'', get_default configuration ''sha256'' PNone),
         (''cli_path'', get_default cli_identity ''path'' PNone), (''cli_sha256'', get_default cli_identity ''sha256'' PNone),
         (''adapter_files'', PList (map PObj files))])])
       (ret (env, cli, program # tl (adapter target)))))))))"

definition query_versions :: "pyval \<Rightarrow> string \<Rightarrow> environ \<Rightarrow> string \<Rightarrow> string \<Rightarrow> unit run" where
  "query_versions fixture cli env out limit =
     bindP (inner (execute [cli, ''--version''] env out limit)) (\<lambda>version.
     thenP (inner (require (returncode version = 0) ''target version query failed''))
    (let v = PStr (strip (stdout version)) in
     thenP (set_report [(''target_version'', v)])
    (thenP (for_cases (\<lambda>i. update_result i [(''target_version'', v)]))
    (bindP (inner (execute [cli, ''--default-arch''] env out limit)) (\<lambda>arch.
     thenP (inner (require (returncode arch = 0) ''target architecture query failed''))
       (guardP (PStr (strip (stdout arch)) = fld fixture ''arch'') PrerequisiteError
         ''fixture architecture differs from target architecture''))))))"

section \<open>The loop\<close>

text \<open>The client is built once per run; its failure is every library case's.\<close>

definition client_for :: "suite \<Rightarrow> target_config \<Rightarrow> string \<Rightarrow> string \<Rightarrow> string \<Rightarrow> (string option \<times> exn option) run" where
  "client_for S target out limit kind =
     (if kind \<noteq> ''library'' then ret (None, None) else
      exceptP (bindP (inner (build_client (suite_digest S) (host_environ S) (extensions_of S) (suite_here S) target out limit))
          (\<lambda>client. ret (Some client, None)))
        [ContractFailure, PrerequisiteError, KeyError, ValueError, OSError]
        (\<lambda>e. ret (None, Some (if instance_of e ContractFailure then Exn ValueError (exn_msg e) else e))))"

definition available_features :: "runner \<Rightarrow> (string \<times> bool) list" where
  "available_features r = map (\<lambda>(k, v). (k, v = PBool True))
     (entries_of (get_default (library_provenance (machine r)) ''api_features'' (PObj [])))"

definition unavailable_case :: "nat \<Rightarrow> string list \<Rightarrow> unit run" where
  "unavailable_case i apis = thenP (update_result i [(''status'', PStr ''unsupported''),
       (''error'', PStr (''Public library APIs unavailable: '' @ join '', '' apis))])
     (thenP fail_run (report_case i))"

definition run_behavior :: "suite \<Rightarrow> subject \<Rightarrow> string \<Rightarrow> string option \<times> exn option \<Rightarrow> pyval \<Rightarrow> unit run" where
  "run_behavior S X kind client b = bindP (readP (\<lambda>r. map_of (run_cases r) (behavior_key kind b))) (\<lambda>found. case found of
     None \<Rightarrow> raiseP KeyError (key_repr (behavior_key kind b))
   | Some i \<Rightarrow> bindP (readP (\<lambda>r. (is_pending r i, available_features r))) (\<lambda>(pending, available).
       if \<not> pending then ret () else
       (case snd client of
          Some e \<Rightarrow> thenP (case_failed i e) (report_case i)
        | None \<Rightarrow>
            (let unavailable = (if kind = ''library'' then missing_apis (text_at b ''id'') available else []) in
             if unavailable \<noteq> [] then unavailable_case i unavailable
             else run_case S X kind (fst client) b i))))"

definition run_driver :: "suite \<Rightarrow> subject \<Rightarrow> pyval list \<Rightarrow> string \<Rightarrow> unit run" where
  "run_driver S X inventory kind =
     bindP (readP (\<lambda>r. list_ex (\<lambda>i. text_at (result_of r i) ''driver'' = kind \<and> is_pending r i) (case_indices r))) (\<lambda>some.
     whenP some (bindP (client_for S (subj_target X) (subj_output X) (subj_limit X) kind) (\<lambda>client.
       forP (runs_with kind inventory) (run_behavior S X kind client))))"

definition run_cases_of :: "suite \<Rightarrow> arguments \<Rightarrow> coverage_model \<Rightarrow> pyval list \<Rightarrow> string \<Rightarrow> string \<Rightarrow> string \<Rightarrow> unit run" where
  "run_cases_of S A m inventory target_path fixtures out =
     (let directory = path_str (path_parent (path_of target_path)) in
     bindP (select_target S m target_path) (\<lambda>(target, configuration).
     bindP (select_fixture S fixtures) (\<lambda>fixture.
     bindP (select_programs S target configuration directory out) (\<lambda>(env, cli, adapter_command).
     thenP (query_versions fixture cli env out (arg_limit A))
    (let X = \<lparr>subj_target = target, subj_directory = directory, subj_cli = cli, subj_adapter = adapter_command,
         subj_fixture = fixture, subj_output = out, subj_limit = arg_limit A\<rparr> in
     forP (if arg_driver A = ''all'' then interfaces else [arg_driver A]) (run_driver S X inventory))))))"

section \<open>Failure and completion of a run\<close>

definition fail_pending :: "exn \<Rightarrow> nat \<Rightarrow> unit run" where
  "fail_pending e i = bindP (readP (\<lambda>r. is_pending r i)) (\<lambda>pending. whenP pending
     (thenP (update_result i [(''status'', PStr (failure_status e)), (''error'', PStr (exn_msg e))]) (report_case i)))"

definition setup_failed :: "exn \<Rightarrow> unit run" where
  "setup_failed e =
     thenP (set_report [(''setup_error'', PStr (exn_msg e)), (''setup_status'', PStr (failure_status e))])
    (thenP (for_cases (fail_pending e))
    (thenP fail_run (on_screen (console_setup_error (failure_status e) (exn_msg e)))))"

definition complete_run :: "suite \<Rightarrow> coverage_model \<Rightarrow> rat \<Rightarrow> string \<Rightarrow> unit run" where
  "complete_run S m started out =
     bindP (readP (\<lambda>r. list_all (\<lambda>i. \<not> is_pending r i) (case_indices r))) (\<lambda>complete.
     thenP (set_report [(''complete'', PBool complete)])
    (bindP (inner (lookup_path ''utcnow'' '''')) (\<lambda>finished.
     thenP (set_report [(''finished_at'', PStr finished)])
    (bindP (readP (\<lambda>r. artifacts (machine r))) (\<lambda>arts.
     bindP (inner (check_artifacts (suite_digest S) arts)) (\<lambda>integrity.
     thenP (set_report [(''artifact_integrity'', PObj integrity)])
    (thenP (whenP (get_default integrity ''status'' PNone \<noteq> PStr ''verified'') fail_run)
    (bindP (readP report_value) (\<lambda>v.
     bindP (liftP (summarize m (suite_now S) (Some v))) (\<lambda>coverage.
     thenP (modifyP (\<lambda>r. r\<lparr>run_coverage := Some coverage\<rparr>))
    (thenP (whenP (v_status (s_verification coverage) \<noteq> ''current'') fail_run)
    (bindP (inner read_clock) (\<lambda>now.
     thenP (set_report [(''duration_seconds'', seconds_between started now)])
    (thenP (save_report S out)
       (inner (write_text (file_in out ''coverage.md'') (format_summary coverage)))))))))))))))))"

definition deliver_summary :: "suite \<Rightarrow> string \<Rightarrow> bool run" where
  "deliver_summary S out = (case get_default (host_environ S) ''GITHUB_STEP_SUMMARY'' [] of
     [] \<Rightarrow> ret True
   | path \<Rightarrow> exceptP
       (bindP (readP (\<lambda>r. github_summary (report_value r) (run_coverage r) (run_status r))) (\<lambda>rendered.
        thenP (inner (append_text path (''\<newline>\<newline>'' @ rendered)))
       (thenP (inner (write_text (file_in out ''job-summary.md'') rendered)) (ret True))))
       [OSError]
       (\<lambda>e. thenP (on_screen (console_setup_error ''setup-error'' (''Cannot write GitHub job summary: '' @ exn_msg e)))
          (thenP fail_run (ret False))))"

definition exit_status :: "arguments \<Rightarrow> bool \<Rightarrow> runner \<Rightarrow> int" where
  "exit_status A delivered r =
     (if arg_allow A \<and> expected_scenario_failures_only (report_value r) (run_coverage r) (run_status r) delivered
      then 0 else run_status r)"

text \<open>From the first written report to the exit status.\<close>

definition run_suite :: "suite \<Rightarrow> arguments \<Rightarrow> coverage_model \<Rightarrow> pyval list \<Rightarrow> rat \<Rightarrow> string \<Rightarrow> string \<Rightarrow> string \<Rightarrow> int run" where
  "run_suite S A m inventory started target_path fixtures out =
     thenP (save_report S out)
    (thenP (finallyP
       (exceptP (run_cases_of S A m inventory target_path fixtures out)
         [OSError, ValueError, KeyError, TypeError, PrerequisiteError, ContractFailure, UnsupportedCapability] setup_failed)
       (complete_run S m started out))
    (thenP (bindP (readP (\<lambda>r. (report_value r, run_coverage r, run_status r))) (\<lambda>(v, coverage, status).
        on_screen (console_summary v coverage out status)))
    (bindP (deliver_summary S out) (\<lambda>delivered. readP (exit_status A delivered)))))"

definition initial_report :: "coverage_model \<Rightarrow> string \<Rightarrow> pyval list \<Rightarrow> string \<Rightarrow> dict" where
  "initial_report m target_path gaps started_at = [
     (''schema'', PInt 1), (''target_configuration'', PStr target_path), (''results'', PList []), (''gaps'', PList gaps),
     (''full_compatibility'', PBool False), (''setup_evidence'', PList []), (''complete'', PBool False),
     (''coverage_definition'', coverage_definition m), (''started_at'', PStr started_at), (''library_provenance'', PObj [])]"

definition initial_runner :: "suite \<Rightarrow> arguments \<Rightarrow> dict \<Rightarrow> dict list \<Rightarrow> session \<Rightarrow> runner" where
  "initial_runner S A report rs s = \<lparr>machine = s, setup_evidence = [], run_report = report, run_results = rs,
     run_cases = index_cases rs, run_coverage = None, run_status = 0,
     screen = new_console (filter (\<lambda>c. text_at c ''status'' = ''pending'')
         (map (\<lambda>(_, i). PObj (rs ! i)) (index_cases rs)))
       (use_color (arg_color A) (suite_tty S) (host_environ S)),
     execution_started = None, cleanup_started = None, case_root = None, case_server = False, opened = []\<rparr>"

text \<open>What \<open>main\<close> does before the first report is written.\<close>

record prepared =
  prep_model :: coverage_model
  prep_inventory :: "pyval list"
  prep_started :: rat
  prep_target :: string
  prep_fixtures :: string
  prep_output :: string
  prep_report :: dict
  prep_results :: "dict list"

definition prepare_run :: "suite \<Rightarrow> arguments \<Rightarrow> prepared prog" where
  "prepare_run S A =
     bindP read_clock (\<lambda>started.
     bindP (liftP (definitions_or_usage (inventory_of S))) (\<lambda>inventory.
     bindP (liftP (check_arguments A inventory)) (\<lambda>_.
     bindP (liftP (definitions_or_usage (model_of S))) (\<lambda>m.
     bindP (lookup_path ''resolve'' (arg_target A)) (\<lambda>target_path.
     bindP (lookup_path ''resolve'' (arg_output A)) (\<lambda>out.
     thenP (make_directory out)
    (bindP (lookup_path ''resolve'' (arg_fixtures A)) (\<lambda>fixtures.
     bindP (liftP (mapE (\<lambda>b. parse_gap b ''gap'') (filter (\<lambda>b. has b ''gap'') inventory))) (\<lambda>gaps.
     bindP (lookup_path ''utcnow'' '''') (\<lambda>started_at.
     bindP (liftP (mapE (new_case m A) (case_table inventory))) (\<lambda>rs.
     ret \<lparr>prep_model = m, prep_inventory = inventory, prep_started = started, prep_target = target_path,
       prep_fixtures = fixtures, prep_output = out, prep_report = initial_report m target_path gaps started_at,
       prep_results = rs\<rparr>)))))))))))"

definition main :: "suite \<Rightarrow> arguments \<Rightarrow> session \<Rightarrow> int result \<times> runner" where
  "main S A s = (case prepare_run S A s of
     (Inl e, t) \<Rightarrow> (Inl e, initial_runner S A [] [] t)
   | (Inr p, t) \<Rightarrow> run_suite S A (prep_model p) (prep_inventory p) (prep_started p) (prep_target p) (prep_fixtures p)
       (prep_output p) (initial_runner S A (prep_report p) (prep_results p) t))"

end
