(* ===== verification/Run_Progress.thy ===== *)
theory Run_Progress
  imports Runner
begin

text \<open>
  What every step of a run keeps, whatever its outcome: the cases and their identities, a settled case
  stays settled, a selected case stays selected, a failed run stays failed, and a result's phases add
  up to its duration.
\<close>

section \<open>Updating dictionaries\<close>

lemma map_of_update_dict_new:
  "distinct (map fst new) \<Longrightarrow> map_of (update_dict d new) k = (case map_of new k of Some v \<Rightarrow> Some v | None \<Rightarrow> map_of d k)"
proof (induction new arbitrary: d)
  case (Cons kv new)
  obtain j v where kv: "kv = (j, v)" by force
  have "update_dict d (kv # new) = update_dict (AList.update j v d) new"
    by (simp add: update_dict_def kv)
  moreover have "map_of new j = None" using Cons.prems by (simp add: kv map_of_eq_None_iff)
  ultimately show ?case
    using Cons by (auto simp: kv update_conv' split: option.splits)
qed (simp add: update_dict_def)

lemma get_or_PObj: "get_or (PObj d) k x = (case map_of d k of Some v \<Rightarrow> v | None \<Rightarrow> x)"
  by (simp add: get_or_def raise_def split: option.split)

lemma text_at_PObj: "text_at (PObj d) k = (case map_of d k of Some v \<Rightarrow> text_of v | None \<Rightarrow> '''')"
  by (simp add: text_at_def fld_def get_or_PObj split: option.split)

section \<open>Durations\<close>

text \<open>A result's three phases, when recorded, add up to its duration: each of the four is a difference of two
  clock readings rounded to a double, so the sum is off by no more than their roundings.\<close>

definition phases :: "string list" where
  "phases = [''setup_seconds'', ''execution_seconds'', ''cleanup_seconds'']"

definition adds_up :: "pyval \<Rightarrow> pyval \<Rightarrow> bool" where
  "adds_up timings duration \<longleftrightarrow>
     \<bar>(\<Sum>k\<leftarrow>phases. seconds_value (fld timings k)) - seconds_value duration\<bar> \<le>
     ((\<Sum>k\<leftarrow>phases. \<bar>seconds_value (fld timings k)\<bar>) + \<bar>seconds_value duration\<bar>) / 2 ^ 52"

definition partitioned :: "dict \<Rightarrow> bool" where
  "partitioned d \<longleftrightarrow> (case map_of d ''timings'' of None \<Rightarrow> True
     | Some t \<Rightarrow> adds_up t (get_default d ''duration_seconds'' PNone))"

definition recorded :: "dict \<Rightarrow> bool" where
  "recorded d \<longleftrightarrow> map_of d ''timings'' \<noteq> None \<and> map_of d ''duration_seconds'' \<noteq> None"

lemma phase_seconds_sum:
  "adds_up (PObj (phase_seconds started execution cleanup finished)) (seconds_between started finished)"
proof (cases execution)
  case None
  then show ?thesis
    using float_minus_sum [of cleanup started cleanup finished]
    by (simp add: adds_up_def phases_def phase_seconds_def fld_def get_or_PObj seconds_value_def seconds_between_def float_minus_def)
next
  case (Some e)
  then show ?thesis
    using float_minus_sum [of e started cleanup finished]
    by (simp add: adds_up_def phases_def phase_seconds_def fld_def get_or_PObj seconds_value_def seconds_between_def add.assoc)
qed

section \<open>The relation\<close>

definition status_at :: "runner \<Rightarrow> nat \<Rightarrow> string" where
  "status_at r i = text_at (result_of r i) ''status''"

definition recorded_at :: "runner \<Rightarrow> nat \<Rightarrow> bool" where
  "recorded_at r i \<longleftrightarrow> recorded (run_results r ! i)"

text \<open>Between the steps of a case, its result may have passed before its times are recorded: the set
  \<open>X\<close> holds the cases this is excused for.\<close>

definition progress_but :: "nat set \<Rightarrow> runner \<Rightarrow> runner \<Rightarrow> bool" where
  "progress_but X r t \<longleftrightarrow> run_cases t = run_cases r \<and> length (run_results t) = length (run_results r) \<and>
     (run_status r \<noteq> 0 \<longrightarrow> run_status t \<noteq> 0) \<and>
     (\<forall>i<length (run_results r). case_key (result_of t i) = case_key (result_of r i) \<and>
        (status_at r i \<noteq> ''pending'' \<longrightarrow> status_at t i \<noteq> ''pending'') \<and>
        (status_at r i \<noteq> ''not-selected'' \<longrightarrow> status_at t i \<noteq> ''not-selected'') \<and>
        (partitioned (run_results r ! i) \<longrightarrow> partitioned (run_results t ! i)) \<and>
        (recorded_at r i \<longrightarrow> recorded_at t i) \<and>
        (i \<notin> X \<longrightarrow> status_at t i = ''passed'' \<longrightarrow> status_at r i = ''passed'' \<or> recorded_at t i))"

abbreviation progress :: "runner \<Rightarrow> runner \<Rightarrow> bool" where
  "progress \<equiv> progress_but {}"

lemma progress_but_trans: "progress_but X r t \<Longrightarrow> progress_but X t u \<Longrightarrow> progress_but X r u"
  unfolding progress_but_def by (intro conjI allI impI) (simp_all, blast+)

interpretation progress_run: run_relation "progress_but X" for X
  by unfold_locales (simp add: progress_but_def, rule progress_but_trans)

named_theorems progresses \<comment> \<open>actions that make progress\<close>

declare progress_run.combinators [progresses]

lemma progress_same:
  "run_cases t = run_cases r \<Longrightarrow> run_results t = run_results r \<Longrightarrow> run_status t \<in> {run_status r, 1} \<Longrightarrow> progress_but X r t"
  by (auto simp: progress_but_def result_of_def status_at_def recorded_at_def)

lemma progress_modify: "(\<And>r. progress_but X r (f r)) \<Longrightarrow> keeps (progress_but X) (modifyP f)"
  by (simp add: keeps_def modifyP_def)

lemma progress_inner [progresses]: "keeps (progress_but X) (inner m)"
  unfolding keeps_def inner_def by (auto intro: progress_same split: prod.split)

lemma progress_on_screen [progresses]: "keeps (progress_but X) (on_screen m)"
  unfolding keeps_def on_screen_def by (auto intro: progress_same split: prod.split)

lemma progress_sets [progresses]: "keeps (progress_but X) fail_run" "keeps (progress_but X) (set_report new)" "keeps (progress_but X) (push c)"
  "keeps (progress_but X) open_case"
  unfolding fail_run_def set_report_def push_def open_case_def
  by (intro progress_modify progress_same; simp)+

text \<open>An update of a result is harmless when it leaves the identity alone, never makes a case pending or
  unselected again, and records the phases together with their sum.\<close>

definition harmless :: "dict \<Rightarrow> bool" where
  "harmless new \<longleftrightarrow> distinct (map fst new) \<and>
     (\<forall>k\<in>{''behavior_id'', ''driver'', ''profile''}. map_of new k = None) \<and>
     (case map_of new ''status'' of None \<Rightarrow> True | Some v \<Rightarrow> text_of v \<notin> {''pending'', ''not-selected''}) \<and>
     (case map_of new ''timings'' of None \<Rightarrow> map_of new ''duration_seconds'' = None
        | Some _ \<Rightarrow> map_of new ''duration_seconds'' \<noteq> None \<and> partitioned new)"

lemma harmless_parts:
  assumes "harmless new"
  shows "case_key (PObj (update_dict d new)) = case_key (PObj d)"
    and "text_at (PObj d) ''status'' \<noteq> ''pending'' \<Longrightarrow> text_at (PObj (update_dict d new)) ''status'' \<noteq> ''pending''"
    and "text_at (PObj d) ''status'' \<noteq> ''not-selected'' \<Longrightarrow> text_at (PObj (update_dict d new)) ''status'' \<noteq> ''not-selected''"
    and "partitioned d \<Longrightarrow> partitioned (update_dict d new)"
    and "recorded d \<Longrightarrow> recorded (update_dict d new)"
    and "text_at (PObj (update_dict d new)) ''status'' = (case map_of new ''status'' of None \<Rightarrow> text_at (PObj d) ''status''
      | Some v \<Rightarrow> text_of v)"
proof -
  have upd: "map_of (update_dict d new) k = (case map_of new k of Some v \<Rightarrow> Some v | None \<Rightarrow> map_of d k)" for k
    using assms by (simp add: map_of_update_dict_new harmless_def)
  show "case_key (PObj (update_dict d new)) = case_key (PObj d)"
    using assms by (simp add: case_key_def text_at_PObj upd harmless_def)
  from assms have status: "case map_of new ''status'' of None \<Rightarrow> True | Some v \<Rightarrow> text_of v \<notin> {''pending'', ''not-selected''}"
    and times: "case map_of new ''timings'' of None \<Rightarrow> map_of new ''duration_seconds'' = None
        | Some _ \<Rightarrow> map_of new ''duration_seconds'' \<noteq> None \<and> partitioned new"
    by (simp_all add: harmless_def)
  from status show "text_at (PObj d) ''status'' \<noteq> ''pending'' \<Longrightarrow> text_at (PObj (update_dict d new)) ''status'' \<noteq> ''pending''"
    and "text_at (PObj d) ''status'' \<noteq> ''not-selected'' \<Longrightarrow> text_at (PObj (update_dict d new)) ''status'' \<noteq> ''not-selected''"
    by (cases "map_of new ''status''"; simp add: text_at_PObj upd)+
  from times show "partitioned d \<Longrightarrow> partitioned (update_dict d new)"
    by (cases "map_of new ''timings''"; cases "map_of new ''duration_seconds''") (simp_all add: partitioned_def upd get_default_def split: option.split option.split_asm)
  show "recorded d \<Longrightarrow> recorded (update_dict d new)"
    by (auto simp: recorded_def upd split: option.split)
  show "text_at (PObj (update_dict d new)) ''status'' = (case map_of new ''status'' of None \<Rightarrow> text_at (PObj d) ''status''
      | Some v \<Rightarrow> text_of v)"
    by (simp add: text_at_PObj upd split: option.split)
qed

text \<open>Only a case that is excused may be set to passed.\<close>

definition passes :: "dict \<Rightarrow> bool" where
  "passes new \<longleftrightarrow> (\<exists>v. map_of new ''status'' = Some v \<and> text_of v = ''passed'')"

lemma progress_update:
  assumes h: "harmless new" and p: "passes new \<Longrightarrow> i \<in> X"
  shows "keeps (progress_but X) (update_result i new)"
  unfolding update_result_def
proof (intro progress_modify)
  fix r :: runner
  let ?d = "run_results r ! i"
  have "i \<notin> X \<Longrightarrow> text_at (PObj (update_dict ?d new)) ''status'' = ''passed'' \<Longrightarrow> text_at (PObj ?d) ''status'' = ''passed''"
    using p by (auto simp: harmless_parts(6) [OF h] passes_def split: option.splits)
  then show "progress_but X r (r\<lparr>run_results := (run_results r)[i := update_dict (run_results r ! i) new]\<rparr>)"
    using harmless_parts(1-5) [OF h, of ?d]
    by (cases "i < length (run_results r)")
      (auto simp: progress_but_def result_of_def status_at_def recorded_at_def nth_list_update)
qed

lemma failure_status_cases: "failure_status e \<in> {''setup-error'', ''unmet-prerequisite'', ''unsupported'', ''failed''}"
  by (simp add: failure_status_def)

lemma harmless_simps [simp]:
  "harmless [(''status'', PStr s), (''error'', PStr m)] \<longleftrightarrow> s \<notin> {''pending'', ''not-selected''}"
  "harmless [(''status'', PStr s), (''cleanup_error'', PStr m)] \<longleftrightarrow> s \<notin> {''pending'', ''not-selected''}"
  "harmless [(''status'', PStr s), (''unsupported_capabilities'', v)] \<longleftrightarrow> s \<notin> {''pending'', ''not-selected''}"
  "harmless [(''status'', PStr s)] \<longleftrightarrow> s \<notin> {''pending'', ''not-selected''}"
  "harmless [(''cleanup_complete'', v)]" "harmless [(''state_directory'', v)]" "harmless [(''target_version'', v)]"
  "harmless [(''repository_requests'', v)]" "harmless [(''evidence'', v)]"
  by (simp_all add: harmless_def)

lemma passes_simps [simp]:
  "passes [(''status'', PStr s), (''error'', PStr m)] \<longleftrightarrow> s = ''passed''"
  "passes [(''status'', PStr s), (''cleanup_error'', PStr m)] \<longleftrightarrow> s = ''passed''"
  "passes [(''status'', PStr s), (''unsupported_capabilities'', v)] \<longleftrightarrow> s = ''passed''"
  "passes [(''status'', PStr s)] \<longleftrightarrow> s = ''passed''" "\<not> passes [(''duration_seconds'', v), (''timings'', w)]"
  "\<not> passes [(''cleanup_complete'', v)]" "\<not> passes [(''state_directory'', v)]" "\<not> passes [(''target_version'', v)]"
  "\<not> passes [(''repository_requests'', v)]" "\<not> passes [(''evidence'', v)]"
  by (simp_all add: passes_def)

lemma harmless_timings: "harmless [(''duration_seconds'', seconds_between started finished),
    (''timings'', PObj (phase_seconds started execution cleanup finished))]"
  by (simp add: harmless_def partitioned_def phase_seconds_sum get_default_def)

lemma failure_status_harmless [simp]: "failure_status e \<noteq> ''pending''" "failure_status e \<noteq> ''not-selected''"
  "failure_status e \<noteq> ''passed''"
  using failure_status_cases [of e] by auto

section \<open>Every step makes progress\<close>

lemma progress_updates [progresses]:
  "keeps (progress_but X) (update_result i [(''status'', PStr (failure_status e)), (''error'', PStr m)])"
  "i \<in> X \<Longrightarrow> keeps (progress_but X) (update_result i [(''status'', PStr ''passed'')])"
  "keeps (progress_but X) (update_result i [(''status'', PStr ''unsupported''), (''error'', PStr m)])"
  "keeps (progress_but X) (update_result i [(''status'', PStr ''unsupported''), (''unsupported_capabilities'', v)])"
  "keeps (progress_but X) (update_result i [(''status'', PStr ''setup-error''), (''cleanup_error'', PStr m)])"
  "keeps (progress_but X) (update_result i [(''cleanup_complete'', v)])" "keeps (progress_but X) (update_result i [(''state_directory'', v)])"
  "keeps (progress_but X) (update_result i [(''target_version'', v)])" "keeps (progress_but X) (update_result i [(''repository_requests'', v)])"
  "keeps (progress_but X) (update_result i [(''evidence'', v)])"
  "keeps (progress_but X) (update_result i [(''duration_seconds'', seconds_between started finished),
    (''timings'', PObj (phase_seconds started execution cleanup finished))])"
  by (rule progress_update; simp add: harmless_timings)+

lemma progress_sets_more [progresses]:
  "keeps (progress_but X) (modifyP (\<lambda>r. r\<lparr>case_root := base\<rparr>))" "keeps (progress_but X) (modifyP (\<lambda>r. r\<lparr>cleanup_started := v\<rparr>))"
  "keeps (progress_but X) (modifyP (\<lambda>r. r\<lparr>execution_started := v\<rparr>))" "keeps (progress_but X) (modifyP (\<lambda>r. r\<lparr>opened := cs\<rparr>))"
  "keeps (progress_but X) (modifyP (\<lambda>r. r\<lparr>machine := f r, case_server := b\<rparr>))" "keeps (progress_but X) (modifyP (\<lambda>r. r\<lparr>machine := f r\<rparr>))"
  "keeps (progress_but X) (modifyP (\<lambda>r. r\<lparr>run_coverage := v'\<rparr>))"
  by (intro progress_modify progress_same; simp)+

lemma progress_report_case [progresses]: "keeps (progress_but X) (report_case i)"
  unfolding report_case_def by (intro progresses)

lemma progress_save [progresses]: "keeps (progress_but X) (save_report S out)"
  unfolding save_report_def by (intro progresses)

lemma progress_contexts [progresses]: "keeps (progress_but X) begin_cleanup" "keeps (progress_but X) (leave_bus argv)"
  "keeps (progress_but X) (enter_bus env base)" "keeps (progress_but X) (leave_server b)" "keeps (progress_but X) enter_server"
  unfolding enter_server_def leave_server_def enter_bus_def leave_bus_def begin_cleanup_def Let_def
  by (intro progresses)+

lemma progress_leave [progresses]: "keeps (progress_but X) (leave c)"
  by (cases c) (simp_all add: leave_def progresses)

lemma progress_close_all [progresses]: "keeps (progress_but X) (close_all cs)"
  by (induction cs) (simp_all add: progresses)

lemma progress_case_steps [progresses]:
  "keeps (progress_but X) close_contexts" "keeps (progress_but X) (case_setup S Y kind client i)" "keeps (progress_but X) start_execution"
  "keeps (progress_but X) (case_failed i e)" "keeps (progress_but X) (release_root Y kind name)" "keeps (progress_but X) (record_requests i)"
  "keeps (progress_but X) (record_timings i started)" "keeps (progress_but X) (close_case i)"
  unfolding close_contexts_def case_setup_def start_execution_def case_failed_def release_root_def record_requests_def
    record_timings_def close_case_def
  by (intro progresses; simp?)+

lemma progress_case_body [progresses]: "i \<in> X \<Longrightarrow> keeps (progress_but X) (case_body S Y kind client behavior i)"
  unfolding case_body_def by (intro progresses)

lemma progress_cleanup [progresses]: "keeps (progress_but X) (case_cleanup Y kind name i)"
  unfolding case_cleanup_def by (intro progresses)

section \<open>A case that ran has its times\<close>

text \<open>However a case ends, its times are recorded: neither reading the clock nor recording can fail.\<close>

definition has_times :: "nat \<Rightarrow> runner \<Rightarrow> bool" where
  "has_times i r \<longleftrightarrow> (i < length (run_results r) \<longrightarrow> recorded_at r i)"

lemma wp_always: "(\<And>x s. Q x s) \<Longrightarrow> (\<And>e s. E e s) \<Longrightarrow> wp m Q E r"
  by (simp add: wp_def split: prod.split sum.split)

lemma wp_clock: "(\<And>t s. Q t (r\<lparr>machine := s\<rparr>)) \<Longrightarrow> wp (inner read_clock) Q E r"
  by (simp add: wp_def inner_def read_clock_def split: prod.split)

lemma wp_begin_cleanup: "(\<And>s. Q () s) \<Longrightarrow> wp begin_cleanup Q E r"
  by (cases "cleanup_started r") (auto simp: begin_cleanup_def wps intro!: wp_clock)

lemma wp_progress: "keeps progress m \<Longrightarrow> has_times i r \<Longrightarrow> wp m (\<lambda>_. has_times i) (\<lambda>_. has_times i) r"
proof (cases "m r")
  case (Pair x t)
  assume "keeps progress m" "has_times i r"
  then have "progress r t" using Pair by (metis keeps_def snd_conv)
  with \<open>has_times i r\<close> have "has_times i t" by (simp add: progress_but_def has_times_def)
  with Pair show ?thesis by (cases x) (simp_all add: wp_def)
qed

lemma record_timings_times: "wp (record_timings i started) (\<lambda>_. has_times i) (\<lambda>_. has_times i) r"
proof -
  have "has_times i (r\<lparr>machine := s, run_results := (run_results r)[i := update_dict (run_results r ! i)
      [(''duration_seconds'', v), (''timings'', w)]]\<rparr>)" for s v w
    by (simp add: has_times_def recorded_at_def recorded_def map_of_update_dict_new)
  then show ?thesis
    unfolding record_timings_def wp_bind [of "inner read_clock"]
    by (intro wp_clock) (simp add: update_result_def wps)
qed

lemma run_case_times: "wp (run_case S Y kind client behavior i) (\<lambda>_. has_times i) (\<lambda>_. has_times i) r"
proof -
  have close: "wp (thenP (record_timings i started) (close_case i)) (\<lambda>_. has_times i) (\<lambda>_. has_times i) s" for started s
    unfolding wp_then by (rule wp_mono [OF record_timings_times]) (auto intro: wp_progress progresses)
  have last: "wp (thenP begin_cleanup (thenP (finallyP c (thenP (record_timings i started) (close_case i))) (save_report S out)))
      (\<lambda>_. has_times i) (\<lambda>_. has_times i) s" for c :: "unit run" and started out s
  proof -
    have save: "wp (save_report S out) (\<lambda>_. has_times i) (\<lambda>_. has_times i) t" if "has_times i t" for t
      using that by (rule wp_progress [OF progress_save])
    have "wp (thenP (record_timings i started) (close_case i)) (\<lambda>_. wp (save_report S out) (\<lambda>_. has_times i) (\<lambda>_. has_times i))
        (\<lambda>_. has_times i) t" for t
      by (rule wp_mono [OF close save])
    note both = this close
    show ?thesis
      unfolding wp_then [of begin_cleanup] wp_then [of "finallyP _ _"] wp_finally
      by (rule wp_begin_cleanup, rule wp_always) (rule both)+
  qed
  show ?thesis
    unfolding run_case_def open_case_def wp_bind [of "inner read_clock"] wp_then [of "modifyP _"] wp_modify
      wp_then [of "finallyP _ _"] wp_finally
    by (rule wp_clock, rule wp_always)
      (rule wp_mono [OF last], (erule wp_progress [OF progress_report_case] | assumption)+ | rule last)+
qed

lemma progress_run_case [progresses]: "keeps (progress_but X) (run_case S Y kind client behavior i)"
  unfolding keeps_def
proof
  fix r
  let ?t = "snd (run_case S Y kind client behavior i r)"
  have "keeps (progress_but (insert i X)) (run_case S Y kind client behavior i)"
    unfolding run_case_def by (intro progresses) simp
  then have but: "progress_but (insert i X) r ?t" by (simp add: keeps_def)
  have "has_times i ?t"
    using run_case_times [of S Y kind client behavior i r] by (auto simp: wp_def split: prod.splits sum.splits)
  with but show "progress_but X r ?t"
    unfolding progress_but_def has_times_def by (intro conjI allI impI) (simp_all, blast)
qed

lemma progress_for_cases [progresses]: "(\<And>i. keeps (progress_but X) (f i)) \<Longrightarrow> keeps (progress_but X) (for_cases f)"
  unfolding for_cases_def by (intro progresses)

lemma progress_selection [progresses]:
  "keeps (progress_but X) (block_missing unsupported i)" "keeps (progress_but X) (block_profile m i)" "keeps (progress_but X) (block_case m unsupported i)"
  "keeps (progress_but X) (select_target S m path)" "keeps (progress_but X) (select_fixture S fixtures)"
  "keeps (progress_but X) (select_programs S target configuration directory out)"
  "keeps (progress_but X) (query_versions fixture cli env out limit)"
  unfolding block_case_def block_missing_def block_profile_def select_target_def select_fixture_def select_programs_def
    query_versions_def Let_def
  by (intro progresses)+

lemma progress_loop [progresses]:
  "keeps (progress_but X) (client_for S target out limit kind)" "keeps (progress_but X) (unavailable_case i apis)"
  "keeps (progress_but X) (run_behavior S Y kind client b)" "keeps (progress_but X) (run_driver S Y inventory kind)"
  "keeps (progress_but X) (run_cases_of S A m inventory target_path fixtures out)"
  unfolding run_cases_of_def run_driver_def run_behavior_def client_for_def unavailable_case_def Let_def
  by (intro progresses)+

lemma progress_completion [progresses]:
  "keeps (progress_but X) (fail_pending e i)" "keeps (progress_but X) (setup_failed e)" "keeps (progress_but X) (complete_run S m started out)"
  unfolding fail_pending_def setup_failed_def complete_run_def by (intro progresses)+

lemma progress_deliver [progresses]: "keeps (progress_but X) (deliver_summary S out)"
  unfolding deliver_summary_def by (cases "get_default (host_environ S) ''GITHUB_STEP_SUMMARY'' []") (simp_all add: progresses)

lemma progress_run_suite: "keeps (progress_but X) (run_suite S A m inventory started target_path fixtures out)"
  unfolding run_suite_def by (intro progresses)

end
