(* ===== verification/Run_Verdict.thy ===== *)
theory Run_Verdict
  imports Run_Progress
begin

text \<open>
  What the exit status of a run means: a run that returns has settled every selected case, and a run
  that exits with 0 has passed and cleaned up each of them, with unchanged artifacts and a current
  coverage verification.
\<close>

section \<open>Preconditions of the runner's steps\<close>

lemma wp_inner: "(\<And>x s. Q x (r\<lparr>machine := s\<rparr>)) \<Longrightarrow> (\<And>e s. E e (r\<lparr>machine := s\<rparr>)) \<Longrightarrow> wp (inner m) Q E r"
  by (simp add: wp_def inner_def split: prod.split sum.split)

lemma wp_screen: "(\<And>x c. Q x (r\<lparr>screen := c\<rparr>)) \<Longrightarrow> (\<And>e c. E e (r\<lparr>screen := c\<rparr>)) \<Longrightarrow> wp (on_screen m) Q E r"
  by (simp add: wp_def on_screen_def split: prod.split sum.split)

lemma wp_keeps:
  assumes "keeps R m" "\<And>x t. R r t \<Longrightarrow> Q x t" "\<And>e t. R r t \<Longrightarrow> E e t"
  shows "wp m Q E r"
proof (cases "m r")
  case (Pair x t)
  then have "R r t" using assms(1) by (metis keeps_def snd_conv)
  with Pair assms show ?thesis by (cases x) (simp_all add: wp_def)
qed

lemma triple_keeps: "keeps R m \<Longrightarrow> (\<And>r t. P r \<Longrightarrow> R r t \<Longrightarrow> P t) \<Longrightarrow> triple P m (\<lambda>_. P) (\<lambda>_ _. True)"
  unfolding triple_wp by (blast intro: wp_keeps)

section \<open>Settled cases\<close>

definition settled :: "case_key \<Rightarrow> runner \<Rightarrow> bool" where
  "settled k r \<longleftrightarrow> (\<forall>i<length (run_results r). map_of (run_cases r) k = Some i \<longrightarrow> status_at r i \<noteq> ''pending'')"

lemma settled_progress: "settled k r \<Longrightarrow> progress r t \<Longrightarrow> settled k t"
  by (auto simp: settled_def progress_but_def)

lemma status_update_result:
  "i < length (run_results r) \<Longrightarrow> distinct (map fst new) \<Longrightarrow> map_of new ''status'' = Some v \<Longrightarrow>
   status_at (r\<lparr>run_results := (run_results r)[i := update_dict (run_results r ! i) new]\<rparr>) i = text_of v"
  by (simp add: status_at_def result_of_def text_at_PObj map_of_update_dict_new)

definition not_pending :: "nat \<Rightarrow> runner \<Rightarrow> bool" where
  "not_pending i r \<longleftrightarrow> (i < length (run_results r) \<longrightarrow> status_at r i \<noteq> ''pending'')"

lemma not_pending_progress: "not_pending i r \<Longrightarrow> progress r t \<Longrightarrow> not_pending i t"
  by (auto simp: not_pending_def progress_but_def)

lemma keeps_not_pending: "keeps progress m \<Longrightarrow> triple (not_pending i) m (\<lambda>_. not_pending i) (\<lambda>_ _. True)"
  by (rule triple_keeps [where R = progress]) (auto intro: not_pending_progress)

lemma update_not_pending:
  "distinct (map fst new) \<Longrightarrow> map_of new ''status'' = Some v \<Longrightarrow> text_of v \<noteq> ''pending'' \<Longrightarrow>
   triple P (update_result i new) (\<lambda>_. not_pending i) (\<lambda>_ _. True)"
  unfolding update_result_def by (rule triple_modify) (simp add: not_pending_def status_update_result)

lemma case_failed_settles: "triple P (case_failed i e) (\<lambda>_. not_pending i) (\<lambda>_ _. True)"
  unfolding case_failed_def
  by (rule triple_then [where R = "not_pending i"], rule update_not_pending [where v = "PStr (failure_status e)"])
    (simp_all add: keeps_not_pending progresses)

lemma case_body_settles:
  "triple P (case_body S X kind client behavior i) (\<lambda>_. not_pending i) (\<lambda>_ _. True)"
  unfolding case_body_def
proof (rule triple_bind)
  show "triple P (case_setup S X kind client i) (\<lambda>_ _. True) (\<lambda>_ _. True)" by (rule tripleI) simp_all
  fix x
  have true: "triple (\<lambda>_. True) m (\<lambda>_ _. True) (\<lambda>_ _. True)" for m :: "unit run" by (rule tripleI) simp_all
  show "triple (\<lambda>_. True) (case x of (d, url) \<Rightarrow> thenP start_execution
      (thenP (inner (call_handler S behavior d url (subj_fixture X))) (update_result i [(''status'', PStr ''passed'')])))
      (\<lambda>_. not_pending i) (\<lambda>_ _. True)"
    by (cases x) (auto intro!: triple_then [OF true] update_not_pending [where v = "PStr ''passed''"])
qed

lemma run_case_settles: "triple P (run_case S X kind client behavior i) (\<lambda>_. not_pending i) (\<lambda>_ _. True)"
  unfolding run_case_def
proof (rule triple_bind)
  show "triple P (inner read_clock) (\<lambda>_ _. True) (\<lambda>_ _. True)" by (rule tripleI) simp_all
  fix started
  have true: "triple (\<lambda>_. True) m (\<lambda>_ _. True) (\<lambda>_ _. True)" for m :: "unit run" by (rule tripleI) simp_all
  have last: "triple Q m (\<lambda>_ _. True) (\<lambda>_ _. True)" for m :: "unit run" and Q by (rule tripleI) simp_all
  show "triple (\<lambda>_. True) (thenP open_case (thenP (finallyP
      (exceptP (case_body S X kind client behavior i) survived (case_failed i))
      (thenP begin_cleanup (thenP (finallyP (case_cleanup X kind (text_at behavior ''scenario'') i)
        (thenP (record_timings i started) (close_case i))) (save_report S (subj_output X)))))
      (report_case i))) (\<lambda>_. not_pending i) (\<lambda>_ _. True)"
  proof (rule triple_then [OF true], rule triple_then [where R = "not_pending i"])
    show "triple (\<lambda>_. True) (finallyP (exceptP (case_body S X kind client behavior i) survived (case_failed i))
        (thenP begin_cleanup (thenP (finallyP (case_cleanup X kind (text_at behavior ''scenario'') i)
        (thenP (record_timings i started) (close_case i))) (save_report S (subj_output X)))))
        (\<lambda>_. not_pending i) (\<lambda>_ _. True)"
    proof (rule triple_finally)
      show "triple (\<lambda>_. True) (exceptP (case_body S X kind client behavior i) survived (case_failed i))
          (\<lambda>_. not_pending i) (\<lambda>_ _. True)"
        by (rule triple_except [where F = "\<lambda>_ _. True"]) (simp_all add: case_body_settles case_failed_settles)
      show "triple (not_pending i) (thenP begin_cleanup (thenP (finallyP (case_cleanup X kind (text_at behavior ''scenario'') i)
          (thenP (record_timings i started) (close_case i))) (save_report S (subj_output X))))
          (\<lambda>_. not_pending i) (\<lambda>_ _. True)"
        by (rule keeps_not_pending) (intro progresses)
    qed (rule last)
    show "triple (not_pending i) (report_case i) (\<lambda>_. not_pending i) (\<lambda>_ _. True)"
      by (intro keeps_not_pending progresses)
  qed
qed

text \<open>One turn of the loop settles its case; the loop settles the cases of its driver.\<close>

lemma run_behavior_settles:
  "triple P (run_behavior S X kind client b) (\<lambda>_. settled (behavior_key kind b)) (\<lambda>_ _. True)"
  unfolding triple_wp
proof (intro allI impI)
  fix r
  assume "P r"
  define k where "k = behavior_key kind b"
  have "wp (run_behavior S X kind client b) (\<lambda>_. settled k) (\<lambda>_ _. True) r"
  proof (cases "map_of (run_cases r) k")
    case None
    then show ?thesis by (simp add: run_behavior_def wps flip: k_def)
  next
    case (Some i)
    have lift: "wp m (\<lambda>_. settled k) (\<lambda>_ _. True) r"
      if "triple (\<lambda>_. True) m (\<lambda>_. not_pending i) (\<lambda>_ _. True)" "keeps progress m" for m
    proof -
      have a: "wp m (\<lambda>_. not_pending i) (\<lambda>_ _. True) r" using that(1) by (simp add: triple_wp)
      have b: "wp m (\<lambda>_. progress r) (\<lambda>_ _. True) r" using that(2) by (rule wp_keeps) simp_all
      have "wp m (\<lambda>_ t. not_pending i t \<and> progress r t) (\<lambda>_ _. True) r"
        using a b by (simp add: wp_def split: prod.splits sum.splits)
      then show ?thesis
        by (rule wp_mono) (use Some in \<open>auto simp: settled_def not_pending_def progress_but_def\<close>)
    qed
    have then_report: "triple (\<lambda>_. True) (thenP (case_failed i e) (report_case i)) (\<lambda>_. not_pending i) (\<lambda>_ _. True)" for e
      by (rule triple_then [where R = "not_pending i"]) (simp_all add: case_failed_settles keeps_not_pending progresses)
    have no_api: "triple (\<lambda>_. True) (unavailable_case i apis) (\<lambda>_. not_pending i) (\<lambda>_ _. True)" for apis
      unfolding unavailable_case_def
      by (rule triple_then [where R = "not_pending i"], rule update_not_pending [where v = "PStr ''unsupported''"])
        (simp_all add: keeps_not_pending progresses)
    have "settled k r" if "\<not> is_pending r i"
      using that Some by (auto simp: settled_def is_pending_def status_at_def)
    then show ?thesis
      using lift [OF then_report] lift [OF no_api] lift [OF run_case_settles]
      by (simp add: run_behavior_def wps Some Let_def progresses split: option.split flip: k_def)
  qed
  then show "wp (run_behavior S X kind client b) (\<lambda>_. settled (behavior_key kind b)) (\<lambda>_ _. True) r"
    by (simp add: k_def)
qed

section \<open>The loop over drivers and cases\<close>

text \<open>The table of cases refers to results with those keys.\<close>

definition wf_cases :: "runner \<Rightarrow> bool" where
  "wf_cases r \<longleftrightarrow> (\<forall>k i. map_of (run_cases r) k = Some i \<longrightarrow> i < length (run_results r) \<and> case_key (result_of r i) = k)"

lemma wf_cases_progress: "wf_cases r \<Longrightarrow> progress r t \<Longrightarrow> wf_cases t"
  by (auto simp: wf_cases_def progress_but_def)

definition kind_settled :: "pyval list \<Rightarrow> string \<Rightarrow> runner \<Rightarrow> bool" where
  "kind_settled inventory kind r \<longleftrightarrow> (\<forall>b\<in>set (runs_with kind inventory). settled (behavior_key kind b) r)"

lemma kind_settled_progress: "kind_settled inventory kind r \<Longrightarrow> progress r t \<Longrightarrow> kind_settled inventory kind t"
  by (auto simp: kind_settled_def intro: settled_progress)

text \<open>A property that progress keeps survives an action that makes progress, beside what the action establishes.\<close>

lemma triple_stable:
  assumes "triple P m Q (\<lambda>_ _. True)" "keeps progress m" "\<And>r t. I r \<Longrightarrow> progress r t \<Longrightarrow> I t"
  shows "triple (\<lambda>r. P r \<and> I r) m (\<lambda>x r. Q x r \<and> I r) (\<lambda>_ _. True)"
proof (rule tripleI)
  fix s x t
  assume s: "P s \<and> I s" and m: "m s = (Inr x, t)"
  then have "progress s t" using assms(2) by (metis keeps_def snd_conv)
  with assms(3) s triple_Inr [OF assms(1)] m show "Q x t \<and> I t" by blast
qed simp

lemma loop_settles:
  "triple (\<lambda>_. True) (forP bs (run_behavior S X kind client)) (\<lambda>_ r. \<forall>b\<in>set bs. settled (behavior_key kind b) r) (\<lambda>_ _. True)"
proof -
  have "triple (\<lambda>r. \<forall>b\<in>set []. settled (behavior_key kind b) r) (forP bs (run_behavior S X kind client))
      (\<lambda>_ r. \<forall>b\<in>set bs. settled (behavior_key kind b) r) (\<lambda>_ _. True)"
  proof (rule triple_for_done)
    fix ys b zs
    have "triple (\<lambda>r. True \<and> (\<forall>b\<in>set ys. settled (behavior_key kind b) r)) (run_behavior S X kind client b)
        (\<lambda>_ r. settled (behavior_key kind b) r \<and> (\<forall>b\<in>set ys. settled (behavior_key kind b) r)) (\<lambda>_ _. True)"
      by (rule triple_stable [OF run_behavior_settles]) (auto intro: progresses settled_progress)
    then show "triple (\<lambda>r. \<forall>b\<in>set ys. settled (behavior_key kind b) r) (run_behavior S X kind client b)
        (\<lambda>_ r. \<forall>b\<in>set (ys @ [b]). settled (behavior_key kind b) r) (\<lambda>_ _. True)"
      by (rule triple_weaken) auto
  qed
  then show ?thesis by simp
qed

lemma quiet_kind_settled:
  assumes "wf_cases r" "\<not> list_ex (\<lambda>i. text_at (result_of r i) ''driver'' = kind \<and> is_pending r i) (case_indices r)"
  shows "kind_settled inventory kind r"
  unfolding kind_settled_def settled_def
proof (intro ballI allI impI)
  fix b i
  assume i: "i < length (run_results r)" "map_of (run_cases r) (behavior_key kind b) = Some i"
  with assms(1) have "case_key (result_of r i) = behavior_key kind b" unfolding wf_cases_def by blast
  then have "text_at (result_of r i) ''driver'' = kind" by (simp add: case_key_def behavior_key_def)
  moreover from i have "i \<in> set (case_indices r)" by (force simp: case_indices_def dest: map_of_SomeD)
  ultimately have "\<not> is_pending r i" using assms(2) by (auto simp: list_ex_iff)
  then show "status_at r i \<noteq> ''pending''" by (simp add: is_pending_def status_at_def)
qed

lemma wp_any: "(\<And>x. triple (\<lambda>_. True) (f x) Q (\<lambda>_ _. True)) \<Longrightarrow> wp m (\<lambda>x. wp (f x) Q (\<lambda>_ _. True)) (\<lambda>_ _. True) r"
  by (simp add: wp_def triple_wp split: prod.split sum.split)

lemma triple_wf: "keeps progress n \<Longrightarrow> triple wf_cases n (\<lambda>_. wf_cases) (\<lambda>_ _. True)"
  by (erule triple_keeps) (rule wf_cases_progress)

lemma run_driver_settles:
  "triple wf_cases (run_driver S X inventory kind) (\<lambda>_. kind_settled inventory kind) (\<lambda>_ _. True)"
  unfolding triple_wp
proof (intro allI impI)
  fix r
  assume wf: "wf_cases r"
  have "triple (\<lambda>_. True) (forP (runs_with kind inventory) (run_behavior S X kind client))
      (\<lambda>_. kind_settled inventory kind) (\<lambda>_ _. True)" for client
    using loop_settles by (rule triple_weaken) (simp_all add: kind_settled_def)
  then have "wp (client_for S (subj_target X) (subj_output X) (subj_limit X) kind)
      (\<lambda>client. wp (forP (runs_with kind inventory) (run_behavior S X kind client))
        (\<lambda>_. kind_settled inventory kind) (\<lambda>_ _. True)) (\<lambda>_ _. True) r"
    by (rule wp_any)
  then show "wp (run_driver S X inventory kind) (\<lambda>_. kind_settled inventory kind) (\<lambda>_ _. True) r"
    using quiet_kind_settled [OF wf, of kind inventory] by (simp add: run_driver_def wps)
qed

lemma run_cases_settles:
  "triple wf_cases (run_cases_of S A m inventory target_path fixtures out)
     (\<lambda>_ r. \<forall>kind\<in>set (if arg_driver A = ''all'' then interfaces else [arg_driver A]). kind_settled inventory kind r) (\<lambda>_ _. True)"
proof -
  let ?ks = "if arg_driver A = ''all'' then interfaces else [arg_driver A]"

  have loop: "triple wf_cases (forP ks (run_driver S X inventory)) (\<lambda>_ r. \<forall>kind\<in>set ks. kind_settled inventory kind r) (\<lambda>_ _. True)"
    for ks X
  proof -
    have "triple (\<lambda>r. wf_cases r \<and> (\<forall>kind\<in>set []. kind_settled inventory kind r)) (forP ks (run_driver S X inventory))
        (\<lambda>_ r. wf_cases r \<and> (\<forall>kind\<in>set ks. kind_settled inventory kind r)) (\<lambda>_ _. True)"
    proof (rule triple_for_done)
      fix ys kind zs
      have "triple (\<lambda>r. wf_cases r \<and> (wf_cases r \<and> (\<forall>k\<in>set ys. kind_settled inventory k r))) (run_driver S X inventory kind)
          (\<lambda>_ r. kind_settled inventory kind r \<and> (wf_cases r \<and> (\<forall>k\<in>set ys. kind_settled inventory k r))) (\<lambda>_ _. True)"
        by (rule triple_stable [OF run_driver_settles])
          (auto intro: progresses kind_settled_progress wf_cases_progress)
      then show "triple (\<lambda>r. wf_cases r \<and> (\<forall>k\<in>set ys. kind_settled inventory k r)) (run_driver S X inventory kind)
          (\<lambda>_ r. wf_cases r \<and> (\<forall>k\<in>set (ys @ [kind]). kind_settled inventory k r)) (\<lambda>_ _. True)"
        by (rule triple_weaken) auto
    qed
    then show ?thesis by (rule triple_weaken) auto
  qed
  show ?thesis
    unfolding run_cases_of_def Let_def
    by (rule triple_bind [OF triple_wf [OF progress_selection(4)]], simp only: split_paired_all prod.case,
        rule triple_bind [OF triple_wf [OF progress_selection(5)]],
        rule triple_bind [OF triple_wf [OF progress_selection(6)]], simp only: split_paired_all prod.case,
        rule triple_then [OF triple_wf [OF progress_selection(7)]], rule loop)
qed

lemma setup_failed_settles:
  "triple (\<lambda>_. True) (setup_failed e) (\<lambda>_ r. run_status r \<noteq> 0 \<and> (\<forall>i\<in>set (case_indices r). not_pending i r)) (\<lambda>_ _. True)"
proof -
  let ?all = "\<lambda>is r. case_indices r = is \<and> (\<forall>i\<in>set is. not_pending i r)"
  have stable: "case_indices r = is \<and> (\<forall>i\<in>set js. not_pending i r) \<Longrightarrow> progress r t \<Longrightarrow>
      case_indices t = is \<and> (\<forall>i\<in>set js. not_pending i t)" for r t and "is" js :: "nat list"
    by (auto simp: case_indices_def progress_but_def intro: not_pending_progress [unfolded progress_but_def])
  have one: "triple (\<lambda>_. True) (fail_pending e i) (\<lambda>_. not_pending i) (\<lambda>_ _. True)" for i
  proof -
    have "triple (\<lambda>_. True) (thenP (update_result i [(''status'', PStr (failure_status e)), (''error'', PStr (exn_msg e))]) (report_case i))
        (\<lambda>_. not_pending i) (\<lambda>_ _. True)"
      by (rule triple_then [where R = "not_pending i"], rule update_not_pending [where v = "PStr (failure_status e)"])
        (simp_all add: keeps_not_pending progresses)
    then show ?thesis
      by (auto simp: fail_pending_def triple_wp wps not_pending_def is_pending_def status_at_def)
  qed
  have loop: "triple (\<lambda>r. case_indices r = is) (forP is (fail_pending e)) (\<lambda>_. ?all is) (\<lambda>_ _. True)" for "is"
  proof -
    have "triple (\<lambda>r. case_indices r = is \<and> (\<forall>i\<in>set []. not_pending i r)) (forP is (fail_pending e)) (\<lambda>_. ?all is) (\<lambda>_ _. True)"
    proof (rule triple_for_done)
      fix ys i zs
      have "triple (\<lambda>r. True \<and> (case_indices r = is \<and> (\<forall>i\<in>set ys. not_pending i r))) (fail_pending e i)
          (\<lambda>_ r. not_pending i r \<and> (case_indices r = is \<and> (\<forall>i\<in>set ys. not_pending i r))) (\<lambda>_ _. True)"
        by (rule triple_stable [OF one progress_completion(1)]) (rule stable)
      then show "triple (\<lambda>r. case_indices r = is \<and> (\<forall>i\<in>set ys. not_pending i r)) (fail_pending e i)
          (\<lambda>_ r. case_indices r = is \<and> (\<forall>i\<in>set (ys @ [i]). not_pending i r)) (\<lambda>_ _. True)"
        by (rule triple_weaken) auto
    qed
    then show ?thesis by simp
  qed
  have each: "triple (\<lambda>_. True) (for_cases (fail_pending e)) (\<lambda>_ r. \<forall>i\<in>set (case_indices r). not_pending i r) (\<lambda>_ _. True)"
    unfolding triple_wp for_cases_def wp_bind wp_read
  proof (intro allI impI)
    fix s
    have "wp (forP (case_indices s) (fail_pending e)) (\<lambda>_. ?all (case_indices s)) (\<lambda>_ _. True) s"
      using loop [of "case_indices s"] by (simp add: triple_wp)
    then show "wp (forP (case_indices s) (fail_pending e)) (\<lambda>_ r. \<forall>i\<in>set (case_indices r). not_pending i r) (\<lambda>_ _. True) s"
      by (rule wp_mono) auto
  qed
  show ?thesis
    unfolding setup_failed_def
  proof (rule triple_then [where R = "\<lambda>_. True"])
    show "triple (\<lambda>_. True) (thenP (for_cases (fail_pending e)) (thenP fail_run
        (on_screen (console_setup_error (failure_status e) (exn_msg e)))))
        (\<lambda>_ r. run_status r \<noteq> 0 \<and> (\<forall>i\<in>set (case_indices r). not_pending i r)) (\<lambda>_ _. True)"
      by (rule triple_then [OF each])
        (simp add: triple_wp wps fail_run_def not_pending_def status_at_def result_of_def case_indices_def wp_screen)
  qed (rule tripleI, simp_all)
qed

section \<open>The table at the start\<close>

lemma update_absent: "k \<notin> fst ` set al \<Longrightarrow> AList.update k v al = al @ [(k, v)]"
  by (induction al) auto

lemma index_cases_acc:
  "distinct (map fst m @ map (\<lambda>d. case_key (PObj d)) rs) \<Longrightarrow> length js = length rs \<Longrightarrow>
   foldl (\<lambda>m (i, d). AList.update (case_key (PObj d)) i m) m (zip js rs) = m @ zip (map (\<lambda>d. case_key (PObj d)) rs) js"
proof (induction rs arbitrary: m js)
  case (Cons d rs)
  then obtain j ks where js: "js = j # ks" by (cases js) auto
  from Cons.prems have new: "case_key (PObj d) \<notin> fst ` set m" by auto
  from Cons.prems have "distinct (map fst (m @ [(case_key (PObj d), j)]) @ map (\<lambda>d. case_key (PObj d)) rs)" by auto
  from Cons.IH [OF this, of ks] Cons.prems(2) show ?case by (simp add: js update_absent [OF new])
qed simp

lemma index_cases_zip:
  "distinct (map (\<lambda>d. case_key (PObj d)) rs) \<Longrightarrow> index_cases rs = zip (map (\<lambda>d. case_key (PObj d)) rs) [0..<length rs]"
  using index_cases_acc [of "[]" rs "[0..<length rs]"] by (simp add: index_cases_def enumerate_list_def)

lemma identified_distinct: "identified items \<Longrightarrow> distinct (map (\<lambda>b. text_at b ''id'') items)"
proof -
  assume "identified items"
  then obtain ids where ids: "length ids = length items" "distinct ids"
    "\<forall>i<length items. getitem (items ! i) ''id'' = Inr (PStr (ids ! i))" by (auto simp: identified_def)
  have "map (\<lambda>b. text_at b ''id'') items = ids"
    by (rule nth_equalityI) (use ids in \<open>simp_all add: text_at_def fld_def get_or_def\<close>)
  with ids show ?thesis by simp
qed

lemma case_table_keys:
  assumes "identified inventory"
  shows "distinct (map (\<lambda>(kind, b). behavior_key kind b) (case_table inventory))"
proof -
  have one: "distinct (map (behavior_key kind) (runs_with kind inventory))" for kind
  proof -
    have "distinct (map (\<lambda>b. text_at b ''id'') (runs_with kind inventory))"
      using identified_distinct [OF assms] by (simp add: runs_with_def distinct_map inj_on_def)
    then show ?thesis by (auto simp: distinct_map behavior_key_def inj_on_def)
  qed
  have "map (\<lambda>(kind, b). behavior_key kind b) (case_table inventory) =
      map (behavior_key ''cli'') (runs_with ''cli'' inventory) @ map (behavior_key ''library'') (runs_with ''library'' inventory)"
    by (simp add: case_table_def interfaces_def comp_def)
  then show ?thesis using one by (auto simp: behavior_key_def)
qed

lemma new_case_fields:
  assumes "new_case m A (kind, b) = Inr d"
  shows "case_key (PObj d) = behavior_key kind b"
    and "text_at (PObj d) ''status'' = (if is_selected A kind b then ''pending'' else ''not-selected'')"
    and "partitioned d"
  using assms
  by (auto simp: new_case_def bindE_Inr_iff case_key_def behavior_key_def text_at_PObj partitioned_def)

text \<open>What holds of the runner's state when the first report is written.\<close>

definition started_ok :: "arguments \<Rightarrow> pyval list \<Rightarrow> runner \<Rightarrow> bool" where
  "started_ok A inventory r \<longleftrightarrow> wf_cases r \<and> run_status r = 0 \<and> map_of (run_report r) ''setup_error'' = None \<and>
     set (case_indices r) \<subseteq> {..<length (run_results r)} \<and> length (run_results r) = length (case_table inventory) \<and>
     (\<forall>i<length (run_results r). case case_table inventory ! i of (kind, b) \<Rightarrow>
        case_key (result_of r i) = behavior_key kind b \<and> map_of (run_cases r) (behavior_key kind b) = Some i \<and>
        status_at r i = (if is_selected A kind b then ''pending'' else ''not-selected'') \<and> partitioned (run_results r ! i))"

lemma started_ok_initial:
  assumes inv: "identified inventory" and rs: "mapE (new_case m A) (case_table inventory) = Inr rs"
    and report: "map_of report ''setup_error'' = None"
  shows "started_ok A inventory (initial_runner S A report rs s)"
proof -
  let ?r = "initial_runner S A report rs s" and ?key = "\<lambda>d. case_key (PObj d)"
  have all: "list_all2 (\<lambda>x y. new_case m A x = Inr y) (case_table inventory) rs" using rs by (simp add: mapE_Inr_iff)
  then have len: "length rs = length (case_table inventory)" by (simp add: list_all2_lengthD)
  have each: "new_case m A (fst (case_table inventory ! i), snd (case_table inventory ! i)) = Inr (rs ! i)" if "i < length rs" for i
    using all that by (simp add: list_all2_conv_all_nth)
  note parts = new_case_fields [OF each]
  have keys: "map ?key rs = map (\<lambda>(kind, b). behavior_key kind b) (case_table inventory)"
    by (rule nth_equalityI) (simp_all add: len parts case_prod_beta)
  then have dist: "distinct (map ?key rs)" using case_table_keys [OF inv] by simp
  then have cs: "run_cases ?r = zip (map ?key rs) [0..<length rs]"
    by (simp add: initial_runner_def index_cases_zip)
  have look: "map_of (run_cases ?r) k = Some i \<longleftrightarrow> i < length rs \<and> ?key (rs ! i) = k" for k i
    unfolding cs using dist by (auto simp: map_of_eq_Some_iff in_set_zip intro: exI [of _ i])
  have "run_results ?r = rs" "run_status ?r = 0" "run_report ?r = report" by (simp_all add: initial_runner_def)
  then show ?thesis
    using parts look len report
    by (auto simp: started_ok_def wf_cases_def result_of_def status_at_def case_prod_beta case_indices_def cs)
qed

section \<open>A run that returns has settled every case\<close>

definition all_settled :: "runner \<Rightarrow> bool" where
  "all_settled r \<longleftrightarrow> (\<forall>i<length (run_results r). status_at r i \<noteq> ''pending'')"

lemma all_settled_progress: "all_settled r \<Longrightarrow> progress r t \<Longrightarrow> all_settled t"
  by (auto simp: all_settled_def progress_but_def)

lemma all_settled_loop:
  assumes st: "started_ok A inventory r0" and prog: "progress r0 r"
    and fin: "\<forall>kind\<in>set (if arg_driver A = ''all'' then interfaces else [arg_driver A]). kind_settled inventory kind r"
  shows "all_settled r"
  unfolding all_settled_def
proof (intro allI impI)
  fix i
  assume "i < length (run_results r)"
  with prog have i: "i < length (run_results r0)" by (simp add: progress_but_def)
  obtain kind b where kb: "case_table inventory ! i = (kind, b)" by force
  with st i have at: "map_of (run_cases r0) (behavior_key kind b) = Some i"
    "status_at r0 i = (if is_selected A kind b then ''pending'' else ''not-selected'')"
    by (auto simp: started_ok_def)
  have mem: "(kind, b) \<in> set (case_table inventory)" using st i kb by (metis nth_mem started_ok_def)
  show "status_at r i \<noteq> ''pending''"
  proof (cases "is_selected A kind b")
    case True
    with mem have "kind \<in> set (if arg_driver A = ''all'' then interfaces else [arg_driver A])" "b \<in> set (runs_with kind inventory)"
      by (auto simp: is_selected_def case_table_def)
    with fin have "settled (behavior_key kind b) r" by (auto simp: kind_settled_def)
    with at i prog show ?thesis by (simp add: settled_def progress_but_def)
  next
    case False
    with at i prog show ?thesis by (simp add: progress_but_def)
  qed
qed

lemma all_settled_failed:
  assumes st: "started_ok A inventory r0" and prog: "progress r0 r" and fin: "\<forall>i\<in>set (case_indices r). not_pending i r"
  shows "all_settled r"
  unfolding all_settled_def
proof (intro allI impI)
  fix i
  assume i: "i < length (run_results r)"
  with prog have i0: "i < length (run_results r0)" by (simp add: progress_but_def)
  obtain kind b where "case_table inventory ! i = (kind, b)" by force
  with st i0 prog have "map_of (run_cases r) (behavior_key kind b) = Some i" by (auto simp: started_ok_def progress_but_def)
  then have "i \<in> set (case_indices r)" by (force simp: case_indices_def dest: map_of_SomeD)
  with fin i show "status_at r i \<noteq> ''pending''" by (simp add: not_pending_def)
qed

lemma guarded_run_settles:
  assumes st: "started_ok A inventory r0"
  shows "triple (progress r0) (exceptP (run_cases_of S A m inventory target_path fixtures out) cs setup_failed)
    (\<lambda>_. all_settled) (\<lambda>_ _. True)"
proof (rule triple_except)
  have wf: "progress r0 r \<Longrightarrow> wf_cases r" for r using st wf_cases_progress by (auto simp: started_ok_def)
  have tr: "progress r0 r \<Longrightarrow> progress r t \<Longrightarrow> progress r0 t" for r t by (rule progress_run.trans)
  have "triple (\<lambda>r. wf_cases r \<and> progress r0 r) (run_cases_of S A m inventory target_path fixtures out)
      (\<lambda>_ r. (\<forall>kind\<in>set (if arg_driver A = ''all'' then interfaces else [arg_driver A]). kind_settled inventory kind r) \<and> progress r0 r)
      (\<lambda>_ _. True)"
    by (rule triple_stable [OF run_cases_settles progress_loop(5)]) (rule tr)
  moreover have "triple (progress r0) (run_cases_of S A m inventory target_path fixtures out) (\<lambda>_. progress r0) (\<lambda>_. progress r0)"
    unfolding triple_wp by (blast intro: wp_keeps [OF progress_loop(5)] tr)
  ultimately show "triple (progress r0) (run_cases_of S A m inventory target_path fixtures out) (\<lambda>_. all_settled) (\<lambda>_. progress r0)"
    using all_settled_loop [OF st] wf by (fastforce simp: triple_wp wp_def split: prod.splits sum.splits)
  have "triple (\<lambda>r. True \<and> progress r0 r) (setup_failed e)
      (\<lambda>_ r. (run_status r \<noteq> 0 \<and> (\<forall>i\<in>set (case_indices r). not_pending i r)) \<and> progress r0 r) (\<lambda>_ _. True)" for e
    by (rule triple_stable [OF setup_failed_settles progress_completion(2)]) (rule tr)
  then show "triple (progress r0) (setup_failed e) (\<lambda>_. all_settled) (\<lambda>_ _. True)" for e
    by (rule triple_weaken) (auto intro: all_settled_failed [OF st])
qed simp

end
