(* ===== verification/Run_Exit.thy ===== *)
theory Run_Exit
  imports Run_Verdict
begin

text \<open>
  The exit status. \<open>calm\<close> steps leave the statuses of all results alone; a run that has not failed is
  \<open>clean\<close>: its settled cases passed and were cleaned up.
\<close>

section \<open>Steps that settle nothing\<close>

definition cleaned :: "runner \<Rightarrow> nat \<Rightarrow> bool" where
  "cleaned r i \<longleftrightarrow> get_or (result_of r i) ''cleanup_complete'' PNone = PBool True"

text \<open>The setup of the run has not failed.\<close>

definition set_up :: "runner \<Rightarrow> bool" where
  "set_up r \<longleftrightarrow> map_of (run_report r) ''setup_error'' = None"

definition calm :: "runner \<Rightarrow> runner \<Rightarrow> bool" where
  "calm r t \<longleftrightarrow> (set_up r \<longrightarrow> set_up t) \<and> length (run_results t) = length (run_results r) \<and> (run_status r \<noteq> 0 \<longrightarrow> run_status t \<noteq> 0) \<and>
     (\<forall>i<length (run_results r). status_at t i = status_at r i \<and> cleaned t i = cleaned r i)"

interpretation calm_run: run_relation calm
  by unfold_locales (auto simp: calm_def)

named_theorems calms \<comment> \<open>actions that settle nothing\<close>

declare calm_run.combinators [calms]

lemma calm_same: "run_report t = run_report r \<Longrightarrow> run_results t = run_results r \<Longrightarrow> run_status t \<in> {run_status r, 1} \<Longrightarrow> calm r t"
  by (auto simp: calm_def result_of_def status_at_def cleaned_def set_up_def)

lemma calm_modify: "(\<And>r. calm r (f r)) \<Longrightarrow> keeps calm (modifyP f)"
  by (simp add: keeps_def modifyP_def)

lemma calm_inner [calms]: "keeps calm (inner m)" "keeps calm (on_screen m')"
  unfolding keeps_def inner_def on_screen_def by (auto intro: calm_same split: prod.split)

lemma calm_sets [calms]: "keeps calm fail_run" "keeps calm (push c)" "keeps calm open_case"
  "keeps calm (modifyP (\<lambda>r. r\<lparr>case_root := base\<rparr>))" "keeps calm (modifyP (\<lambda>r. r\<lparr>cleanup_started := v\<rparr>))"
  "keeps calm (modifyP (\<lambda>r. r\<lparr>execution_started := v\<rparr>))" "keeps calm (modifyP (\<lambda>r. r\<lparr>opened := cs\<rparr>))"
  "keeps calm (modifyP (\<lambda>r. r\<lparr>machine := f r, case_server := b\<rparr>))" "keeps calm (modifyP (\<lambda>r. r\<lparr>machine := f r\<rparr>))"
  "keeps calm (modifyP (\<lambda>r. r\<lparr>run_coverage := v'\<rparr>))"
  unfolding fail_run_def push_def open_case_def by (intro calm_modify calm_same; simp)+

lemma calm_report [calms]: "map_of new ''setup_error'' = None \<Longrightarrow> distinct (map fst new) \<Longrightarrow> keeps calm (set_report new)"
  unfolding set_report_def
  by (rule calm_modify) (simp add: calm_def set_up_def map_of_update_dict_new result_of_def status_at_def cleaned_def)

lemma calm_update:
  assumes "distinct (map fst new)" "map_of new ''status'' = None" "map_of new ''cleanup_complete'' = None"
  shows "keeps calm (update_result i new)"
  unfolding update_result_def
proof (rule calm_modify)
  fix r :: runner
  show "calm r (r\<lparr>run_results := (run_results r)[i := update_dict (run_results r ! i) new]\<rparr>)"
    using assms
    by (cases "i < length (run_results r)")
      (auto simp: calm_def set_up_def result_of_def status_at_def cleaned_def nth_list_update text_at_PObj get_or_PObj map_of_update_dict_new)
qed

lemma calm_updates [calms]:
  "keeps calm (update_result i [(''state_directory'', v)])" "keeps calm (update_result i [(''target_version'', v)])"
  "keeps calm (update_result i [(''repository_requests'', v)])" "keeps calm (update_result i [(''evidence'', v)])"
  "keeps calm (update_result i [(''duration_seconds'', v), (''timings'', w)])"
  by (rule calm_update; simp)+

lemma calm_contexts [calms]: "keeps calm begin_cleanup" "keeps calm (leave_bus argv)"
  "keeps calm (enter_bus env base)" "keeps calm (leave_server b)" "keeps calm enter_server"
  unfolding enter_server_def leave_server_def enter_bus_def leave_bus_def begin_cleanup_def Let_def
  by (intro calms)+

lemma calm_leave [calms]: "keeps calm (leave c)"
  by (cases c) (simp_all add: leave_def calms)

lemma calm_close_all [calms]: "keeps calm (close_all cs)"
  by (induction cs) (simp_all add: calms)

lemma calm_steps [calms]:
  "keeps calm (report_case i)" "keeps calm (save_report S out)" "keeps calm close_contexts"
  "keeps calm (case_setup S X kind client i)" "keeps calm start_execution" "keeps calm (release_root X kind name)"
  "keeps calm (record_requests i)" "keeps calm (record_timings i started)" "keeps calm (close_case i)"
  "keeps calm (client_for S target out limit kind)"
  unfolding report_case_def save_report_def close_contexts_def case_setup_def start_execution_def release_root_def
    record_requests_def record_timings_def close_case_def client_for_def
  by (intro calms)+

lemma calm_for_cases [calms]: "(\<And>i. keeps calm (f i)) \<Longrightarrow> keeps calm (for_cases f)"
  unfolding for_cases_def by (intro calms)

lemma calm_selection [calms]:
  "keeps calm (select_fixture S fixtures)" "keeps calm (select_programs S target configuration directory out)"
  "keeps calm (query_versions fixture cli env out limit)" "keeps calm (complete_run S m started out)"
  unfolding select_fixture_def select_programs_def query_versions_def complete_run_def Let_def
  by (intro calms; simp)+

section \<open>Clean runs\<close>

definition fine :: "runner \<Rightarrow> nat \<Rightarrow> bool" where
  "fine r i \<longleftrightarrow> status_at r i \<in> {''pending'', ''not-selected''} \<or> status_at r i = ''passed'' \<and> cleaned r i"

definition clean_run :: "runner \<Rightarrow> bool" where
  "clean_run r \<longleftrightarrow> (run_status r = 0 \<longrightarrow> set_up r \<and> (\<forall>i<length (run_results r). fine r i))"

lemma clean_calm: "clean_run r \<Longrightarrow> calm r t \<Longrightarrow> clean_run t"
  by (auto simp: clean_run_def calm_def fine_def)

lemma triple_calm: "keeps calm m \<Longrightarrow> triple clean_run m (\<lambda>_. clean_run) (\<lambda>_ _. True)"
  by (erule triple_keeps) (rule clean_calm)

lemma failed_clean: "run_status r \<noteq> 0 \<Longrightarrow> clean_run r"
  by (simp add: clean_run_def)

text \<open>An update followed by failing the run.\<close>

lemma update_fail: "triple P (thenP (update_result i new) fail_run) (\<lambda>_ r. run_status r \<noteq> 0) (\<lambda>_ _. True)"
  by (simp add: triple_wp wps update_result_def fail_run_def)

lemma update_fail_clean: "triple P (thenP (update_result i new) fail_run) (\<lambda>_. clean_run) (\<lambda>_ _. True)"
  using update_fail by (rule triple_weaken) (simp_all add: failed_clean)

lemma block_clean: "triple clean_run (block_case m unsupported i) (\<lambda>_. clean_run) (\<lambda>_ _. True)"
proof -
  have missing: "triple clean_run (block_missing unsupported i) (\<lambda>_. clean_run) (\<lambda>_ _. True)"
    using update_fail_clean [of "\<lambda>_. True" i] by (auto simp: block_missing_def triple_wp wp_bind wp_read wp_when Let_def)
  have profile: "triple clean_run (block_profile m i) (\<lambda>_. clean_run) (\<lambda>_ _. True)"
    using update_fail_clean [of "\<lambda>_. True" i]
    by (auto simp: block_profile_def triple_wp wp_bind wp_read wp_when wp_lift raise_def split: option.split)
  have rest: "triple clean_run (bindP (readP (\<lambda>r. result_of r i)) (\<lambda>c. whenP (text_at c ''status'' = ''unsupported'') (report_case i)))
      (\<lambda>_. clean_run) (\<lambda>_ _. True)"
    by (intro triple_calm calms)
  show ?thesis
    unfolding block_case_def by (rule triple_then [OF missing triple_then [OF profile rest]])
qed

lemma for_cases_clean:
  assumes "\<And>i. triple clean_run (f i) (\<lambda>_. clean_run) (\<lambda>_ _. True)"
  shows "triple clean_run (for_cases f) (\<lambda>_. clean_run) (\<lambda>_ _. True)"
proof -
  have "triple clean_run (forP is f) (\<lambda>_. clean_run) (\<lambda>_ _. True)" for "is" by (rule triple_for) (rule assms)
  then show ?thesis by (simp add: for_cases_def triple_wp wps)
qed

lemma select_target_clean: "triple clean_run (select_target S m path) (\<lambda>_. clean_run) (\<lambda>_ _. True)"
proof -
  have calm: "triple clean_run n (\<lambda>_. clean_run) (\<lambda>_ _. True)" if "keeps calm n" for n :: "unit run"
    using that by (rule triple_calm)
  show ?thesis
    unfolding select_target_def
    by (rule triple_bind [OF triple_calm [OF calm_inner(1)]], rule triple_bind [OF triple_calm [OF calm_inner(1)]],
        rule triple_then [OF calm [OF calm_report]], simp, simp, rule triple_bind [OF triple_calm [OF calm_run.keeps_read]],
        rule triple_then [OF calm [OF calm_run.keeps_guard]], rule triple_then [OF calm [OF calm_report]], simp, simp,
        rule triple_then [OF for_cases_clean [OF block_clean]], rule triple_calm, intro calms)
qed

text \<open>Between the end of a scenario and the end of its cleanup its case has passed but is not clean.\<close>

definition passing_case :: "nat \<Rightarrow> runner \<Rightarrow> bool" where
  "passing_case i r \<longleftrightarrow> (run_status r = 0 \<longrightarrow> set_up r \<and> (\<forall>j<length (run_results r). j \<noteq> i \<longrightarrow> fine r j) \<and>
     (i < length (run_results r) \<longrightarrow> status_at r i = ''passed''))"

lemma passing_calm: "passing_case i r \<Longrightarrow> calm r t \<Longrightarrow> passing_case i t"
  by (auto simp: passing_case_def calm_def fine_def)

lemma triple_passing: "keeps calm m \<Longrightarrow> triple (passing_case i) m (\<lambda>_. passing_case i) (\<lambda>_ _. True)"
  by (erule triple_keeps) (rule passing_calm)

lemma other_update:
  "j \<noteq> i \<Longrightarrow> status_at (r\<lparr>run_results := (run_results r)[i := d]\<rparr>) j = status_at r j"
  "j \<noteq> i \<Longrightarrow> cleaned (r\<lparr>run_results := (run_results r)[i := d]\<rparr>) j = cleaned r j"
  by (simp_all add: status_at_def cleaned_def result_of_def)

lemma set_up_update: "set_up (r\<lparr>run_results := rs\<rparr>) = set_up r"
  by (simp add: set_up_def)

lemma body_passes: "triple clean_run (case_body S X kind client behavior i) (\<lambda>_. passing_case i) (\<lambda>_ _. True)"
proof -
  have set: "triple clean_run (update_result i [(''status'', PStr ''passed'')]) (\<lambda>_. passing_case i) (\<lambda>_ _. True)"
    by (auto simp: triple_wp wps update_result_def passing_case_def clean_run_def fine_def other_update status_update_result set_up_update)
  have tail: "triple clean_run (thenP start_execution (thenP (inner h) (update_result i [(''status'', PStr ''passed'')])))
      (\<lambda>_. passing_case i) (\<lambda>_ _. True)" for h
    by (rule triple_then [OF triple_calm [OF calm_steps(5)] triple_then [OF triple_calm [OF calm_inner(1)] set]])
  show ?thesis
    unfolding case_body_def
    by (rule triple_bind [OF triple_calm [OF calm_steps(4)]]) (simp only: split_paired_all prod.case, rule tail)
qed

lemma cleanup_cleans: "triple (passing_case i) (case_cleanup X kind name i) (\<lambda>_. clean_run) (\<lambda>_ _. True)"
  unfolding case_cleanup_def
proof (rule triple_except [where F = "\<lambda>_ _. True"])
  have set: "triple (passing_case i) (update_result i [(''cleanup_complete'', PBool True)]) (\<lambda>_. clean_run) (\<lambda>_ _. True)"
  proof -
    have one: "clean_run (r\<lparr>run_results := (run_results r)[i := update_dict (run_results r ! i) [(''cleanup_complete'', PBool True)]]\<rparr>)"
      (is "clean_run ?t") if "passing_case i r" for r
      unfolding clean_run_def
    proof (intro impI conjI allI)
      assume "run_status ?t = 0"
      with that show "set_up ?t" by (simp add: passing_case_def set_up_update)
    next
      fix j
      assume st: "run_status ?t = 0" and j: "j < length (run_results ?t)"
      show "fine ?t j"
      proof (cases "j = i")
        case True
        with j have i: "i < length (run_results r)" by simp
        then have "status_at ?t i = status_at r i" "cleaned ?t i"
          by (simp_all add: status_at_def cleaned_def result_of_def text_at_PObj get_or_PObj map_of_update_dict_new)
        with that st i True show ?thesis by (simp add: fine_def passing_case_def)
      next
        case False
        with that st j show ?thesis by (simp add: fine_def passing_case_def other_update)
      qed
    qed
    then show ?thesis by (simp add: triple_wp wps update_result_def)
  qed
  show "triple (passing_case i) (thenP (finallyP close_contexts (thenP (record_requests i) (release_root X kind name)))
      (update_result i [(''cleanup_complete'', PBool True)])) (\<lambda>_. clean_run) (\<lambda>_ _. True)"
    by (rule triple_then [OF triple_passing set]) (intro calms)
qed (simp_all add: update_fail_clean)

lemma run_case_clean: "triple clean_run (run_case S X kind client behavior i) (\<lambda>_. clean_run) (\<lambda>_ _. True)"
proof -
  have last: "triple P n (\<lambda>_ _. True) (\<lambda>_ _. True)" for P and n :: "unit run" by (rule tripleI) simp_all
  have fin: "triple (passing_case i) (thenP begin_cleanup (thenP (finallyP (case_cleanup X kind name i)
      (thenP (record_timings i started) (close_case i))) (save_report S out))) (\<lambda>_. clean_run) (\<lambda>_ _. True)" for name started out
  proof (rule triple_then [OF triple_passing [OF calm_contexts(1)]], rule triple_then)
    show "triple (passing_case i) (finallyP (case_cleanup X kind name i) (thenP (record_timings i started) (close_case i)))
        (\<lambda>_. clean_run) (\<lambda>_ _. True)"
      by (rule triple_finally [OF cleanup_cleans]) (rule triple_calm, intro calms, rule last)
    show "triple clean_run (save_report S out) (\<lambda>_. clean_run) (\<lambda>_ _. True)" by (intro triple_calm calms)
  qed
  have body: "triple clean_run (exceptP (case_body S X kind client behavior i) survived (case_failed i))
      (\<lambda>_. passing_case i) (\<lambda>_ _. True)"
  proof (rule triple_except [OF body_passes])
    show "triple (\<lambda>_. True) (case_failed i e) (\<lambda>_. passing_case i) (\<lambda>_ _. True)" for e
      unfolding case_failed_def using update_fail by (rule triple_weaken) (simp_all add: passing_case_def)
  qed simp
  show ?thesis
    unfolding run_case_def
    by (rule triple_bind [OF triple_calm [OF calm_inner(1)]], rule triple_then [OF triple_calm [OF calm_sets(3)]],
        rule triple_then [OF triple_finally [OF body fin last] triple_calm [OF calm_steps(1)]])
qed

lemma run_behavior_clean: "triple clean_run (run_behavior S X kind client b) (\<lambda>_. clean_run) (\<lambda>_ _. True)"
proof -
  have failed: "triple clean_run (thenP (case_failed i e) (report_case i)) (\<lambda>_. clean_run) (\<lambda>_ _. True)" for i e
    unfolding case_failed_def by (rule triple_then [OF update_fail_clean triple_calm [OF calm_steps(1)]])
  have no_api: "triple clean_run (unavailable_case i apis) (\<lambda>_. clean_run) (\<lambda>_ _. True)" for i apis
  proof -
    have "triple (\<lambda>_. True) fail_run (\<lambda>_. clean_run) (\<lambda>_ _. True)"
      by (simp add: fail_run_def triple_wp wps failed_clean)
    then have "triple (\<lambda>_. True) (thenP fail_run (report_case i)) (\<lambda>_. clean_run) (\<lambda>_ _. True)"
      by (rule triple_then [OF _ triple_calm [OF calm_steps(1)]])
    then show ?thesis
      unfolding unavailable_case_def by (rule triple_then [rotated]) (rule tripleI, simp_all)
  qed
  show ?thesis
    using run_case_clean failed no_api
    by (auto simp: run_behavior_def triple_wp wp_bind wp_read wp_ret wp_raise Let_def split: option.split)
qed

lemma run_cases_clean: "triple clean_run (run_cases_of S A m inventory target_path fixtures out) (\<lambda>_. clean_run) (\<lambda>_ _. True)"
proof -
  have loop: "triple clean_run (forP bs (run_behavior S X kind client)) (\<lambda>_. clean_run) (\<lambda>_ _. True)" for bs X kind client
    by (rule triple_for) (rule run_behavior_clean)
  have driver: "triple clean_run (run_driver S X inventory kind) (\<lambda>_. clean_run) (\<lambda>_ _. True)" for X kind
  proof -
    have "triple clean_run (bindP (client_for S (subj_target X) (subj_output X) (subj_limit X) kind)
        (\<lambda>client. forP (runs_with kind inventory) (run_behavior S X kind client))) (\<lambda>_. clean_run) (\<lambda>_ _. True)"
      by (rule triple_bind [OF triple_calm [OF calm_steps(10)] loop])
    then show ?thesis by (simp add: run_driver_def triple_wp wp_read wp_when wp_bind)
  qed
  have drivers: "triple clean_run (forP kinds (run_driver S X inventory)) (\<lambda>_. clean_run) (\<lambda>_ _. True)" for kinds X
    by (rule triple_for) (rule driver)
  show ?thesis
    unfolding run_cases_of_def Let_def
    by (rule triple_bind [OF select_target_clean], simp only: split_paired_all prod.case,
        rule triple_bind [OF triple_calm [OF calm_selection(1)]],
        rule triple_bind [OF triple_calm [OF calm_selection(2)]], simp only: split_paired_all prod.case,
        rule triple_then [OF triple_calm [OF calm_selection(3)]], rule drivers)
qed

section \<open>The completed report\<close>

lemma report_value_get:
  "k \<notin> {''results'', ''setup_evidence'', ''library_provenance''} \<Longrightarrow>
   get_or (report_value r) k x = (case map_of (run_report r) k of Some v \<Rightarrow> v | None \<Rightarrow> x)"
proof -
  assume k: "k \<notin> {''results'', ''setup_evidence'', ''library_provenance''}"
  let ?f = "\<lambda>(k, v). if k = ''results'' then (k, PList (map PObj (run_results r)))
     else if k = ''setup_evidence'' then (k, PList (map PObj (setup_evidence r)))
     else if k = ''library_provenance'' then (k, PObj (library_provenance (machine r))) else (k, v)"
  have "map_of (map ?f d) k = map_of d k" for d :: dict using k by (induction d) auto
  then show ?thesis by (simp add: report_value_def get_or_PObj)
qed

lemma has_setup_error: "has (report_value r) ''setup_error'' \<longleftrightarrow> map_of (run_report r) ''setup_error'' \<noteq> None"
proof -
  let ?f = "\<lambda>(k, v). if k = ''results'' then (k, PList (map PObj (run_results r)))
     else if k = ''setup_evidence'' then (k, PList (map PObj (setup_evidence r)))
     else if k = ''library_provenance'' then (k, PObj (library_provenance (machine r))) else (k, v)"
  have "map_of (map ?f d) ''setup_error'' = map_of d ''setup_error''" for d :: dict by (induction d) auto
  moreover have "has (PObj d) k \<longleftrightarrow> map_of d k \<noteq> None" for d :: dict and k
    by (induction d) (auto simp: has_def PObj_def has_key_def)
  ultimately show ?thesis by (simp add: report_value_def)
qed

text \<open>What completion establishes of a settled run.\<close>

definition accounted_for :: "runner \<Rightarrow> bool" where
  "accounted_for r \<longleftrightarrow> get_or (report_value r) ''complete'' PNone = PBool True \<and>
     (run_status r = 0 \<longrightarrow> report_verified (report_value r) (run_coverage r))"

definition complete_at :: "runner \<Rightarrow> bool" where
  "complete_at r \<longleftrightarrow> map_of (run_report r) ''complete'' = Some (PBool True)"

definition integrity_at :: "runner \<Rightarrow> bool" where
  "integrity_at r \<longleftrightarrow> (run_status r = 0 \<longrightarrow> (\<exists>d. map_of (run_report r) ''artifact_integrity'' = Some (PObj d) \<and>
     get_default d ''status'' PNone = PStr ''verified''))"

definition coverage_at :: "runner \<Rightarrow> bool" where
  "coverage_at r \<longleftrightarrow> (run_status r = 0 \<longrightarrow> (\<exists>c. run_coverage r = Some c \<and> v_status (s_verification c) = ''current''))"

lemma accounted_forI: "complete_at r \<Longrightarrow> integrity_at r \<Longrightarrow> coverage_at r \<Longrightarrow> accounted_for r"
  by (auto simp: accounted_for_def complete_at_def integrity_at_def coverage_at_def report_value_get report_verified_def
      coverage_status_def integrity_status_def get_or_PObj get_default_def split: option.splits)

lemmas report_at_defs = complete_at_def integrity_at_def coverage_at_def

lemma map_of_set_report: "distinct (map fst new) \<Longrightarrow> map_of (run_report (r\<lparr>run_report := update_dict (run_report r) new\<rparr>)) k =
    (case map_of new k of Some v \<Rightarrow> Some v | None \<Rightarrow> map_of (run_report r) k)"
  by (simp add: map_of_update_dict_new)

lemma complete_run_accounts:
  assumes "set (case_indices r) \<subseteq> {..<length (run_results r)}" "all_settled r"
  shows "wp (complete_run S m started out) (\<lambda>_. accounted_for) (\<lambda>_ _. True) r"
proof -
  have "list_all (\<lambda>i. \<not> is_pending r i) (case_indices r)"
    using assms by (auto simp: list_all_iff all_settled_def is_pending_def status_at_def)
  then have "wp (complete_run S m started out) (\<lambda>_ t. complete_at t \<and> integrity_at t \<and> coverage_at t) (\<lambda>_ _. True) r"
    by (auto simp: complete_run_def save_report_def set_report_def fail_run_def wps report_at_defs map_of_update_dict_new
        split: sum.split intro!: wp_inner)
  then show ?thesis by (rule wp_mono) (auto intro: accounted_forI)
qed

section \<open>After the report\<close>

lemma triple_both: "triple P m Q (\<lambda>_ _. True) \<Longrightarrow> triple P' m Q' (\<lambda>_ _. True) \<Longrightarrow>
    triple (\<lambda>r. P r \<and> P' r) m (\<lambda>x r. Q x r \<and> Q' x r) (\<lambda>_ _. True)"
  by (rule tripleI) (auto dest: triple_Inr)

lemma wp_both: "wp m Q (\<lambda>_ _. True) r \<Longrightarrow> wp m Q' (\<lambda>_ _. True) r \<Longrightarrow> wp m (\<lambda>x r. Q x r \<and> Q' x r) (\<lambda>_ _. True) r"
  by (simp add: wp_def split: prod.splits sum.splits)


text \<open>Printing and delivering the summary leave the report alone.\<close>

definition aside :: "runner \<Rightarrow> runner \<Rightarrow> bool" where
  "aside r t \<longleftrightarrow> run_report t = run_report r \<and> run_results t = run_results r \<and> run_coverage t = run_coverage r \<and>
     (run_status r \<noteq> 0 \<longrightarrow> run_status t \<noteq> 0)"

interpretation aside_run: run_relation aside
  by unfold_locales (auto simp: aside_def)

lemma aside_steps: "keeps aside (inner m)" "keeps aside (on_screen m')" "keeps aside fail_run"
  by (auto simp: keeps_def inner_def on_screen_def fail_run_def modifyP_def aside_def split: prod.split)

lemma aside_deliver: "keeps aside (deliver_summary S out)"
  unfolding deliver_summary_def
  by (cases "get_default (host_environ S) ''GITHUB_STEP_SUMMARY'' []")
    (simp_all add: aside_run.combinators aside_steps)

text \<open>What the final state of a run that returns satisfies, given the state it started from.\<close>

definition finished_ok :: "runner \<Rightarrow> runner \<Rightarrow> bool" where
  "finished_ok r0 r \<longleftrightarrow> progress r0 r \<and> all_settled r \<and> clean_run r \<and> accounted_for r"

lemma finished_aside:
  assumes "finished_ok r0 r" "aside r t" "run_cases t = run_cases r"
  shows "finished_ok r0 t"
proof -
  have same: "run_report t = run_report r" "run_results t = run_results r" "run_coverage t = run_coverage r"
    and status: "run_status t = 0 \<Longrightarrow> run_status r = 0"
    using assms(2) by (auto simp: aside_def)
  have at: "result_of t = result_of r" "status_at t = status_at r" "cleaned t = cleaned r" "fine t = fine r"
    "recorded_at t = recorded_at r"
    by (simp_all add: fun_eq_iff result_of_def status_at_def cleaned_def fine_def recorded_at_def same)
  have get: "get_or (report_value t) k x = get_or (report_value r) k x"
    if "k \<notin> {''results'', ''setup_evidence'', ''library_provenance''}" for k x
    using that by (simp add: report_value_get same)
  have "progress r0 t"
    using assms(1,3) status by (simp add: finished_ok_def progress_but_def at same, blast)
  moreover have "all_settled t" using assms(1) by (simp add: finished_ok_def all_settled_def at same)
  moreover have "clean_run t" using assms(1) status by (simp add: finished_ok_def clean_run_def set_up_def at same)
  moreover have "accounted_for t"
    using assms(1) status
    by (simp add: finished_ok_def accounted_for_def report_verified_def integrity_status_def get same)
  ultimately show ?thesis by (simp add: finished_ok_def)
qed

lemma run_suite_finishes:
  assumes st: "started_ok A inventory r0"
  shows "wp (run_suite S A m inventory started target_path fixtures out)
    (\<lambda>code r. finished_ok r0 r \<and> (\<exists>delivered. code = exit_status A delivered r)) (\<lambda>_ _. True) r0"
proof -
  have clean0: "clean_run r0"
    unfolding clean_run_def
  proof (intro impI conjI allI)
    show "set_up r0" using st by (simp add: started_ok_def set_up_def)
    fix i
    assume "i < length (run_results r0)"
    then show "fine r0 i"
      using st by (cases "case_table inventory ! i") (auto simp: started_ok_def fine_def split: prod.splits)
  qed
  have prog: "progress r0 r \<Longrightarrow> progress r t \<Longrightarrow> progress r0 t" for r t by (rule progress_run.trans)
  let ?G = "exceptP (run_cases_of S A m inventory target_path fixtures out)
    [OSError, ValueError, KeyError, TypeError, PrerequisiteError, ContractFailure, UnsupportedCapability] setup_failed"
  have clean: "triple clean_run ?G (\<lambda>_. clean_run) (\<lambda>_ _. True)"
  proof (rule triple_except [OF run_cases_clean])
    show "triple (\<lambda>_. True) (setup_failed e) (\<lambda>_. clean_run) (\<lambda>_ _. True)" for e
      using setup_failed_settles by (rule triple_weaken) (simp_all add: failed_clean)
  qed simp
  have "triple (\<lambda>r. clean_run r \<and> progress r0 r) ?G (\<lambda>_ r. clean_run r \<and> progress r0 r) (\<lambda>_ _. True)"
    by (rule triple_stable [OF clean]) (intro progresses, rule prog)
  with guarded_run_settles [OF st, where S = S and m = m and target_path = target_path and fixtures = fixtures and out = out]
  have G: "triple (\<lambda>r. clean_run r \<and> progress r0 r) ?G (\<lambda>_ r. clean_run r \<and> progress r0 r \<and> all_settled r) (\<lambda>_ _. True)"
    by (rule triple_weaken [OF triple_both]) auto
  have complete: "triple (\<lambda>r. clean_run r \<and> progress r0 r \<and> all_settled r) (complete_run S m started out)
      (\<lambda>_. finished_ok r0) (\<lambda>_ _. True)"
    unfolding triple_wp
  proof (intro allI impI)
    fix r
    assume r: "clean_run r \<and> progress r0 r \<and> all_settled r"
    have "set (case_indices r) \<subseteq> {..<length (run_results r)}"
      using r st by (auto simp: started_ok_def progress_but_def case_indices_def)
    with r have acc: "wp (complete_run S m started out) (\<lambda>_. accounted_for) (\<lambda>_ _. True) r"
      by (intro complete_run_accounts) simp_all
    have "wp (complete_run S m started out) (\<lambda>_ t. progress r0 t \<and> all_settled t) (\<lambda>_ _. True) r"
      by (rule wp_keeps [OF progress_completion(3)]) (use r prog all_settled_progress in blast)+
    moreover have "wp (complete_run S m started out) (\<lambda>_. clean_run) (\<lambda>_ _. True) r"
      by (rule wp_keeps [OF calm_selection(4)]) (use r clean_calm in blast)+
    ultimately show "wp (complete_run S m started out) (\<lambda>_. finished_ok r0) (\<lambda>_ _. True) r"
      by (rule wp_mono [OF wp_both [OF acc wp_both]]) (simp_all add: finished_ok_def)
  qed
  have aside_same: "finished_ok r0 r \<Longrightarrow> aside r t \<Longrightarrow> progress r t \<Longrightarrow> finished_ok r0 t" for r t
    using finished_aside by (simp add: progress_but_def)
  have quiet: "triple (finished_ok r0) n (\<lambda>_. finished_ok r0) (\<lambda>_ _. True)"
    if "keeps (\<lambda>r t. aside r t \<and> progress r t) n" for n :: "bool run"
    using that by (rule triple_keeps) (use aside_same in blast)
  have quiet': "triple (finished_ok r0) n (\<lambda>_. finished_ok r0) (\<lambda>_ _. True)"
    if "keeps (\<lambda>r t. aside r t \<and> progress r t) n" for n :: "unit run"
    using that by (rule triple_keeps) (use aside_same in blast)
  have deliver: "keeps (\<lambda>r t. aside r t \<and> progress r t) (deliver_summary S out)"
    using aside_deliver progress_deliver by (simp add: keeps_def)
  let ?print = "bindP (readP (\<lambda>r. (report_value r, run_coverage r, run_status r)))
      (\<lambda>(v, coverage, status). on_screen (console_summary v coverage out status))"
  have "keeps aside ?print" by (intro aside_run.combinators aside_steps)
  moreover have "keeps progress ?print" by (intro progresses)
  ultimately have screen: "keeps (\<lambda>r t. aside r t \<and> progress r t) ?print" by (simp add: keeps_def)
  have save: "triple (\<lambda>r. clean_run r \<and> progress r0 r) (save_report S out) (\<lambda>_ r. clean_run r \<and> progress r0 r) (\<lambda>_ _. True)"
    by (rule triple_stable [OF triple_calm [OF calm_steps(2)] progress_save]) (rule prog)
  have fin: "triple (\<lambda>r. clean_run r \<and> progress r0 r) (finallyP ?G (complete_run S m started out))
      (\<lambda>_. finished_ok r0) (\<lambda>_ _. True)"
    by (rule triple_finally [OF G complete]) (rule tripleI, simp_all)
  have exit: "triple (finished_ok r0) (readP (exit_status A d))
      (\<lambda>n r. finished_ok r0 r \<and> (\<exists>delivered. n = exit_status A delivered r)) (\<lambda>_ _. True)" for d
    by (rule triple_read) blast
  have "triple (\<lambda>r. clean_run r \<and> progress r0 r) (run_suite S A m inventory started target_path fixtures out)
      (\<lambda>n r. finished_ok r0 r \<and> (\<exists>delivered. n = exit_status A delivered r)) (\<lambda>_ _. True)"
    unfolding run_suite_def
    by (rule triple_then [OF save], rule triple_then [OF fin], rule triple_then [OF quiet' [OF screen]],
        rule triple_bind [OF quiet [OF deliver]], rule exit)
  then show ?thesis using clean0 by (simp add: triple_wp progress_run.refl)
qed

text \<open>The run as \<open>main\<close> starts it.\<close>

lemma main_finishes:
  assumes "main S A s = (Inr n, r)" and "inventory_of S = Inr inventory"
  shows "\<exists>r0 delivered. started_ok A inventory r0 \<and> finished_ok r0 r \<and> n = exit_status A delivered r"
proof -
  obtain p t where prep: "prepare_run S A s = (Inr p, t)"
    and run: "run_suite S A (prep_model p) (prep_inventory p) (prep_started p) (prep_target p) (prep_fixtures p)
       (prep_output p) (initial_runner S A (prep_report p) (prep_results p) t) = (Inr n, r)"
    using assms(1) by (auto simp: main_def split: prod.splits sum.splits)
  from prep have report: "map_of (prep_report p) ''setup_error'' = None"
    by (auto simp: prepare_run_def initial_report_def bind_Inr_iff then_Inr_iff liftP_def ret_def definitions_or_usage_def usage_error_def
        split: sum.splits if_splits)
  from prep assms(2) have inv: "prep_inventory p = inventory"
    and rs: "mapE (new_case (prep_model p) A) (case_table inventory) = Inr (prep_results p)"
    by (auto simp: prepare_run_def bind_Inr_iff then_Inr_iff liftP_def ret_def definitions_or_usage_def usage_error_def
        split: sum.splits if_splits)
  have "identified inventory" using assms(2) load_behaviors_ok unfolding inventory_of_def by blast
  from started_ok_initial [OF this rs report] have st: "started_ok A inventory (initial_runner S A (prep_report p) (prep_results p) t)" .
  have "finished_ok (initial_runner S A (prep_report p) (prep_results p) t) r \<and> (\<exists>delivered. n = exit_status A delivered r)"
    using run_suite_finishes [OF st, where S = S and m = "prep_model p" and started = "prep_started p" and
        target_path = "prep_target p" and fixtures = "prep_fixtures p" and out = "prep_output p"] run inv
    by (simp add: wp_def)
  with st show ?thesis by blast
qed

section \<open>What exit status 0 means\<close>

text \<open>Exit status 0, when expected failures are not allowed, means that every selected case passed: its
  scenario returned and its cleanup completed, no artifact under test changed during the run, and the
  coverage verification is current.\<close>

lemma zero_passed:
  assumes "main S A s = (Inr 0, r)" and "\<not> arg_allow A" and "inventory_of S = Inr inventory"
  shows "report_verified (report_value r) (run_coverage r) \<and>
    (\<forall>(kind, b)\<in>set (case_table inventory). is_selected A kind b \<longrightarrow> (\<exists>d\<in>set (run_results r).
       case_key (PObj d) = behavior_key kind b \<and> text_at (PObj d) ''status'' = ''passed'' \<and>
       get_or (PObj d) ''cleanup_complete'' PNone = PBool True))"
proof -
  obtain r0 delivered where st: "started_ok A inventory r0" and fin: "finished_ok r0 r"
    and n: "0 = exit_status A delivered r"
    using main_finishes [OF assms(1,3)] by blast
  with assms(2) have zero: "run_status r = 0" by (simp add: exit_status_def)
  have "\<exists>d\<in>set (run_results r). case_key (PObj d) = behavior_key kind b \<and> text_at (PObj d) ''status'' = ''passed'' \<and>
       get_or (PObj d) ''cleanup_complete'' PNone = PBool True"
    if mem: "(kind, b) \<in> set (case_table inventory)" and sel: "is_selected A kind b" for kind b
  proof -
    obtain i where i: "i < length (case_table inventory)" "case_table inventory ! i = (kind, b)"
      using mem by (metis in_set_conv_nth)
    have len: "length (run_results r0) = length (case_table inventory)" "length (run_results r) = length (run_results r0)"
      using st fin by (simp_all add: started_ok_def finished_ok_def progress_but_def)
    have "status_at r0 i = ''pending''" "case_key (result_of r0 i) = behavior_key kind b"
      using st i sel by (auto simp: started_ok_def)
    then have "status_at r i \<noteq> ''not-selected''" "case_key (result_of r i) = behavior_key kind b"
      using fin i len by (simp_all add: finished_ok_def progress_but_def)
    moreover have "status_at r i \<noteq> ''pending''" "fine r i"
      using fin i len zero by (simp_all add: finished_ok_def all_settled_def clean_run_def)
    ultimately have "case_key (result_of r i) = behavior_key kind b \<and> status_at r i = ''passed'' \<and> cleaned r i"
      by (simp add: fine_def)
    with i len show ?thesis
      by (intro bexI [of _ "run_results r ! i"]) (simp_all add: result_of_def status_at_def cleaned_def)
  qed
  then show ?thesis using fin zero by (auto simp: finished_ok_def accounted_for_def)
qed

text \<open>With expected failures allowed, exit status 0 means that every case passed, failed an assertion or
  was not selected, that no failed case is security sensitive, and that the report is verified: no
  setup error, unmet prerequisite or unsupported case is ever hidden.\<close>

lemma zero_expected:
  assumes "main S A s = (Inr 0, r)" and "inventory_of S = Inr inventory"
  shows "report_verified (report_value r) (run_coverage r) \<and>
    \<not> has (report_value r) ''setup_error'' \<and>
    (\<forall>d\<in>set (run_results r). text_at (PObj d) ''status'' \<in> {''passed'', ''failed'', ''not-selected''} \<and>
       \<not> security_failure (PObj d))"
proof -
  obtain r0 delivered where st: "started_ok A inventory r0" and fin: "finished_ok r0 r"
    and n: "0 = exit_status A delivered r"
    using main_finishes [OF assms] by blast
  show ?thesis
  proof (cases "run_status r = 0")
    case True
    have "text_at (PObj d) ''status'' \<in> {''passed'', ''not-selected''}" if "d \<in> set (run_results r)" for d
    proof -
      from that obtain i where "i < length (run_results r)" "d = run_results r ! i" by (auto simp: in_set_conv_nth)
      with fin True show ?thesis
        by (auto simp: finished_ok_def clean_run_def all_settled_def fine_def status_at_def result_of_def)
    qed
    moreover have "\<not> has (report_value r) ''setup_error''"
      using fin True by (simp add: finished_ok_def clean_run_def set_up_def has_setup_error)
    ultimately show ?thesis using fin True by (force simp: finished_ok_def accounted_for_def security_failure_def)
  next
    case False
    with n have exp: "expected_scenario_failures_only (report_value r) (run_coverage r) (run_status r) delivered"
      by (auto simp: exit_status_def split: if_splits)
    have items: "items_at (report_value r) ''results'' = map PObj (run_results r)"
      if "items_at (report_value r) ''results'' \<noteq> []"
    proof -
      let ?f = "\<lambda>(k, v). if k = ''results'' then (k, PList (map PObj (run_results r)))
        else if k = ''setup_evidence'' then (k, PList (map PObj (setup_evidence r)))
        else if k = ''library_provenance'' then (k, PObj (library_provenance (machine r))) else (k, v)"
      have "map_of (map ?f d) ''results'' = map_option (\<lambda>_. PList (map PObj (run_results r))) (map_of d ''results'')" for d :: dict
        by (induction d) auto
      then have "get_or (report_value r) ''results'' (PList []) \<in> {PList [], PList (map PObj (run_results r))}"
        by (auto simp: report_value_def get_or_PObj split: option.split)
      with that show ?thesis by (auto simp: items_at_def)
    qed
    from exp have "items_at (report_value r) ''results'' \<noteq> []"
      by (auto simp: expected_scenario_failures_only_def Let_def)
    with items have res: "items_at (report_value r) ''results'' = map PObj (run_results r)" by blast
    from exp have "report_verified (report_value r) (run_coverage r)"
      by (auto simp: expected_scenario_failures_only_def Let_def report_verified_def coverage_status_def
          integrity_status_def split: option.splits)
    with exp res show ?thesis
      by (auto simp: expected_scenario_failures_only_def Let_def list_ex_iff)
  qed
qed

end
