(* ===== verification/Run_Outcome.thy ===== *)
theory Run_Outcome
  imports Run_Exit
begin

text \<open>
  The properties of \<open>main\<close>, and a run they apply to: a suite of one scenario whose target
  configuration cannot be read. The run is computed step by step with the preconditions of its actions.
\<close>

section \<open>A run whose target cannot be read\<close>

definition one_behavior :: pyval where
  "one_behavior = PObj [(''id'', PStr ''b''), (''scenario'', PStr ''lifecycle''), (''profile'', PStr ''user''),
     (''drivers'', pstr_list [''cli'']), (''required_capabilities'', PList [])]"

definition one_mapping :: pyval where
  "one_mapping = PObj [(''behavior_id'', PStr ''b''), (''driver'', PStr ''cli''), (''profile'', PStr ''user''),
     (''requirements'', PList []), (''rationale'', PStr ''none'')]"

definition no_requirements :: "string \<Rightarrow> pyval" where
  "no_requirements interface = PObj [(''schema'', PInt 1), (''scope'', PStr interface), (''limitations'', PList []),
     (''requirements'', PList [])]"

definition one_files :: "path \<Rightarrow> pyval result" where
  "one_files q = (let name = path_name q in
     if name = ''inventory.json'' then Inr (PObj [(''schema'', PInt 1), (''behaviors'', PList [one_behavior])])
     else if name = ''mapping.json'' then Inr (PObj [(''schema'', PInt 1), (''cases'', PList [one_mapping])])
     else if name = ''surfaces.json'' then Inr (PObj [(''schema'', PInt 1),
       (''reference'', PObj [(''commit'', PStr ''c''), (''sources'', PObj [])]), (''limitations'', PList []),
       (''surfaces'', PList [])])
     else Inr (no_requirements (if name = ''cli-requirements.json'' then ''cli'' else ''library'')))"

definition one_definition :: pyval where
  "one_definition = PObj [(''schema'', PInt 1), (''fingerprint'', PStr ''x''), (''files'', PObj []),
     (''policy_sha256'', PStr ''x''), (''loader_sha256'', PStr ''x''), (''reference_commit'', PStr ''c'')]"

definition one_suite :: suite where
  "one_suite = \<lparr>host_path = ''/usr/bin'', host_environ = [], suite_loads = (\<lambda>_ _. Inr (PObj [])),
     suite_dumps = (\<lambda>_ _. []), suite_digest = (\<lambda>_. []), suite_here = ''/s'',
     suite_files = one_files, suite_listing = [], suite_resolve = id, suite_source = (\<lambda>_. True),
     suite_snapshot = (\<lambda>_. one_definition), suite_now = one_definition, suite_tty = False,
     suite_handlers = (\<lambda>_ _. raise KeyError [])\<rparr>"

definition one_arguments :: "bool \<Rightarrow> arguments" where
  "one_arguments allow = \<lparr>arg_target = ''/t'', arg_fixtures = ''/f'', arg_output = ''/o'', arg_driver = ''all'',
     arg_scenario = ''all'', arg_allow = allow, arg_color = ''never'', arg_timeout = 60, arg_limit = ''60''\<rparr>"

text \<open>A world in which no file can be read and every other answer is empty.\<close>

definition unreadable :: world where
  "unreadable = \<lparr>commands = (\<lambda>_. (Exited 0 [] [], [])),
     texts = (\<lambda>tr. case last tr of Read path \<Rightarrow> raise FileNotFoundError path | _ \<Rightarrow> Inr ''/x''),
     path_tests = (\<lambda>_. Inr True), effects = (\<lambda>_. Inr ()), clock = (\<lambda>_. 0)\<rparr>"

definition one_model :: coverage_model where
  "one_model = \<lparr>surfaces = [], limitations = policy, requirements = [], cases = [((''b'',''cli'',''user''), one_behavior)],
   mapping = [((''b'',''cli'',''user''), [])], surface_assertions = [((''b'',''cli'',''user''), [])],
   equivalent_options = [((''b'',''cli'',''user''), [])], coverage_definition = one_definition\<rparr>"

lemma one_inventory: "inventory_of one_suite = Inr [one_behavior]" by code_simp

lemma one_case: "mapE (new_case one_model (one_arguments allow)) (case_table [one_behavior]) = Inr [[
    (''behavior_id'', PStr ''b''), (''driver'', PStr ''cli''), (''profile'', PStr ''user''), (''target_version'', PNone),
    (''status'', PStr ''pending''), (''evidence'', PList []), (''required_capabilities'', pstr_list [''cli''])]]"
  by code_simp

lemma one_choice: "check_arguments (one_arguments allow) [one_behavior] = Inr ()" by code_simp

lemma one_model_of: "model_of one_suite = Inr one_model" by code_simp

lemma wp_inner_exact: "wp (inner m) Q E r = wp m (\<lambda>x s. Q x (r\<lparr>machine := s\<rparr>)) (\<lambda>e s. E e (r\<lparr>machine := s\<rparr>)) (machine r)"
  by (simp add: wp_def inner_def split: prod.split sum.split)

lemma wp_screen_exact: "wp (on_screen m) Q E r = wp m (\<lambda>x s. Q x (r\<lparr>screen := s\<rparr>)) (\<lambda>e s. E e (r\<lparr>screen := s\<rparr>)) (screen r)"
  by (simp add: wp_def on_screen_def split: prod.split sum.split)

text \<open>In this world.\<close>

lemma unreadable_texts:
  "world s = unreadable \<Longrightarrow> wp (read_text path) Q E s = E (Exn FileNotFoundError path) (s\<lparr>trace := trace s @ [Read path]\<rparr>)"
  "world s = unreadable \<Longrightarrow> wp (lookup_path what path) Q E s = Q ''/x'' (s\<lparr>trace := trace s @ [Lookup what path]\<rparr>)"
  by (simp_all add: wp_def read_text_def lookup_path_def ask_def unreadable_def Let_def raise_def)

lemma unreadable_clock:
  "world s = unreadable \<Longrightarrow> wp read_clock Q E s = Q 0 (s\<lparr>trace := trace s @ [Tick]\<rparr>)"
  by (simp add: wp_def read_clock_def ask_def unreadable_def Let_def)

lemma unreadable_effects:
  "world s = unreadable \<Longrightarrow> wp (write_text path txt) Q E s = Q () (s\<lparr>trace := trace s @ [Write path txt]\<rparr>)"
  "world s = unreadable \<Longrightarrow> wp (move_file path path') Q E s = Q () (s\<lparr>trace := trace s @ [Move path path']\<rparr>)"
  "world s = unreadable \<Longrightarrow> wp (make_directory path) Q E s = Q () (s\<lparr>trace := trace s @ [MakeDirectory path]\<rparr>)"
  by (simp_all add: wp_def write_text_def move_file_def make_directory_def ask_def unreadable_def Let_def)

lemmas unreadable_wps = unreadable_texts unreadable_clock unreadable_effects

lemma one_suite_parts [simp]:
  "suite_digest one_suite = (\<lambda>_. [])" "host_environ one_suite = []" "suite_now one_suite = one_definition"
  "suite_loads one_suite = (\<lambda>_ _. Inr (PObj []))"
  by (simp_all add: one_suite_def)

definition one_prepared :: prepared where
  "one_prepared = \<lparr>prep_model = one_model, prep_inventory = [one_behavior], prep_started = 0, prep_target = ''/x'',
     prep_fixtures = ''/x'', prep_output = ''/x'', prep_report = initial_report one_model ''/x'' [] ''/x'',
     prep_results = [[(''behavior_id'', PStr ''b''), (''driver'', PStr ''cli''), (''profile'', PStr ''user''),
       (''target_version'', PNone), (''status'', PStr ''pending''), (''evidence'', PList []),
       (''required_capabilities'', pstr_list [''cli''])]]\<rparr>"

lemma one_gap: "\<not> has one_behavior ''gap''"
  by code_simp

lemma one_prepare: "wp (prepare_run one_suite (one_arguments allow)) (\<lambda>p t. p = one_prepared \<and> world t = unreadable \<and> artifacts t = [] \<and> library_provenance t = []) (\<lambda>_ _. False)
    (fresh_session unreadable)"
  by (simp add: prepare_run_def wps one_inventory one_choice one_model_of one_case unreadable_wps definitions_or_usage_def
    one_prepared_def fresh_session_def one_gap)

definition one_report :: "string \<Rightarrow> dict \<Rightarrow> bool \<Rightarrow> dict \<Rightarrow> pyval" where
  "one_report status failure finished rest = PObj ([(''schema'', PInt 1), (''target_configuration'', PStr ''/x''),
     (''results'', PList [PObj ([(''behavior_id'', PStr ''b''), (''driver'', PStr ''cli''), (''profile'', PStr ''user''),
       (''target_version'', PNone), (''status'', PStr status), (''evidence'', PList []),
       (''required_capabilities'', pstr_list [''cli''])] @ failure)]),
     (''gaps'', PList []), (''full_compatibility'', PBool False), (''setup_evidence'', PList []),
     (''complete'', PBool finished), (''coverage_definition'', one_definition), (''started_at'', PStr ''/x''),
     (''library_provenance'', PObj [])] @ rest)"

abbreviation one_failure :: dict where
  "one_failure \<equiv> [(''error'', PStr ''/x'')]"

abbreviation one_unset :: dict where
  "one_unset \<equiv> [(''setup_error'', PStr ''/x''), (''setup_status'', PStr ''setup-error'')]"

abbreviation one_setup :: dict where
  "one_setup \<equiv> [(''setup_error'', PStr ''/x''), (''setup_status'', PStr ''setup-error''), (''finished_at'', PStr ''/x''),
     (''artifact_integrity'', PObj [(''status'', PStr ''verified''), (''changed_paths'', PList [])])]"

lemma one_first_json: "\<not> isl (json_value (one_report ''pending'' [] False []) ''JSON'')" by code_simp

lemma one_last_json: "\<not> isl (json_value (one_report ''setup-error'' one_failure True (one_setup @ [(''duration_seconds'', PFloat (Fin 0))])) ''JSON'')"
  by code_simp

lemma one_summary: "\<not> isl (summarize one_model one_definition (Some (one_report ''setup-error'' one_failure True one_setup)))"
  by code_simp


lemma wp_lift_ok: "\<not> isl x \<Longrightarrow> wp (liftP x) Q E s = Q (projr x) s"
  by (cases x) (simp_all add: wps)

lemma wp_put_line: "wp (put_line l) Q E c = Q () (c\<lparr>con_lines := con_lines c @ [l]\<rparr>)"
  by (simp add: put_line_def wps)

definition one_document :: "bool \<Rightarrow> dict \<Rightarrow> dict" where
  "one_document finished rest = [(''schema'', PInt 1), (''target_configuration'', PStr ''/x''), (''results'', PList []),
     (''gaps'', PList []), (''full_compatibility'', PBool False), (''setup_evidence'', PList []),
     (''complete'', PBool finished), (''coverage_definition'', one_definition), (''started_at'', PStr ''/x''),
     (''library_provenance'', PObj [])] @ rest"

definition one_runner :: "string \<Rightarrow> dict \<Rightarrow> bool \<Rightarrow> dict \<Rightarrow> runner \<Rightarrow> bool" where
  "one_runner status failure finished rest r \<longleftrightarrow> world (machine r) = unreadable \<and> artifacts (machine r) = [] \<and>
     library_provenance (machine r) = [] \<and> setup_evidence r = [] \<and> run_cases r = [((''b'', ''cli'', ''user''), 0)] \<and>
     run_results r = [[(''behavior_id'', PStr ''b''), (''driver'', PStr ''cli''), (''profile'', PStr ''user''),
       (''target_version'', PNone), (''status'', PStr status), (''evidence'', PList []),
       (''required_capabilities'', pstr_list [''cli''])] @ failure] \<and> run_report r = one_document finished rest"

lemma one_runner_report: "one_runner status failure finished [] r \<Longrightarrow> report_value r = one_report status failure finished []"
  "one_runner status failure finished one_setup r \<Longrightarrow> report_value r = one_report status failure finished one_setup"
  "one_runner status failure finished (one_setup @ [(''duration_seconds'', d)]) r \<Longrightarrow>
     report_value r = one_report status failure finished (one_setup @ [(''duration_seconds'', d)])"
  by (simp_all add: one_runner_def report_value_def one_report_def one_document_def)

lemma one_start: "world t = unreadable \<Longrightarrow> artifacts t = [] \<Longrightarrow> library_provenance t = [] \<Longrightarrow>
    one_runner ''pending'' [] False [] (initial_runner one_suite (one_arguments allow) (prep_report one_prepared) (prep_results one_prepared) t)"
  by (simp add: one_runner_def initial_runner_def one_prepared_def initial_report_def one_document_def
    index_cases_def enumerate_list_def case_key_def text_at_def fld_def get_or_def one_model_def)

lemma one_fails: "one_runner ''pending'' [] False [] r \<Longrightarrow>
    wp (run_cases_of one_suite (one_arguments allow) one_model [one_behavior] ''/x'' ''/x'' ''/x'')
     (\<lambda>_ _. False) (\<lambda>e t. e = Exn FileNotFoundError ''/x'' \<and> one_runner ''pending'' [] False [] t) r"
  by (simp add: run_cases_of_def select_target_def read_target_def wps wp_inner_exact unreadable_wps one_runner_def Let_def)

lemma one_settles: "one_runner ''pending'' [] False [] r \<Longrightarrow>
    wp (setup_failed (Exn FileNotFoundError ''/x''))
     (\<lambda>_ t. one_runner ''setup-error'' one_failure False one_unset t) (\<lambda>e t. False) r"
  by (simp add: setup_failed_def set_report_def for_cases_def case_indices_def fail_pending_def report_case_def
   wps wp_screen_exact wp_put_line console_setup_error_def case_finished_def one_runner_def one_document_def
   update_result_def fail_run_def failure_status_def instance_of_def update_dict_def is_pending_def result_of_def
   text_at_PObj get_or_PObj item_def status_labels_def Let_def)




lemma not_isl: "\<not> isl x \<Longrightarrow> \<exists>y. x = Inr y"
  by (cases x) simp_all

lemma one_completes: "one_runner ''setup-error'' one_failure False one_unset r \<Longrightarrow>
    wp (complete_run one_suite one_model 0 ''/x'')
     (\<lambda>_ t. one_runner ''setup-error'' one_failure True (one_setup @ [(''duration_seconds'', PFloat (Fin 0))]) t) (\<lambda>e t. False) r"
   using not_isl [OF one_last_json] not_isl [OF one_summary]
   by (elim exE) (simp add: complete_run_def save_report_def write_json_def wps wp_inner_exact unreadable_wps one_runner_def one_document_def
     one_report_def update_dict_def integrity_of_def set_report_def check_artifacts_def fail_run_def report_value_def Let_def
     case_indices_def is_pending_def result_of_def text_at_PObj get_default_def seconds_between_def float_minus_def)



lemma lines_run: "steps (map put_line ls) c = (Inr (), c\<lparr>con_lines := con_lines c @ ls\<rparr>)"
  by (induction ls arbitrary: c) (simp_all add: prog_defs put_line_def)

lemma console_summary_returns: "\<exists>ls. console_summary report coverage out status c = (Inr (), c\<lparr>con_lines := con_lines c @ ls\<rparr>)"
  unfolding console_summary_def bindP_def readP_def Let_def id_def prod.case sum.case
  by (rule exI, rule lines_run)

lemma one_delivers: "wp (thenP (bindP (readP (\<lambda>r. (report_value r, run_coverage r, run_status r)))
      (\<lambda>(v, coverage, status). on_screen (console_summary v coverage ''/x'' status)))
    (bindP (deliver_summary one_suite ''/x'') (\<lambda>delivered. readP (exit_status (one_arguments allow) delivered))))
    (\<lambda>_ t. \<exists>c. t = r\<lparr>screen := c\<rparr>) (\<lambda>_ _. False) r"
proof -
  obtain ls where "console_summary (report_value r) (run_coverage r) ''/x'' (run_status r) (screen r) =
      (Inr (), (screen r)\<lparr>con_lines := con_lines (screen r) @ ls\<rparr>)"
    using console_summary_returns by blast
  then show ?thesis
    by (auto simp: wps wp_screen_exact wp_Inr deliver_summary_def get_default_def)
qed

lemma one_main: "\<exists>n r. main one_suite (one_arguments allow) (fresh_session unreadable) = (Inr n, r) \<and>
    one_runner ''setup-error'' one_failure True (one_setup @ [(''duration_seconds'', PFloat (Fin 0))]) r"
proof -
  let ?final = "one_runner ''setup-error'' one_failure True (one_setup @ [(''duration_seconds'', PFloat (Fin 0))])"
  have same: "one_runner a b c d (r\<lparr>screen := x\<rparr>) = one_runner a b c d r" for a b c d r x
    by (simp add: one_runner_def)
  have saves: "wp (save_report one_suite ''/x'') (\<lambda>_. one_runner ''pending'' [] False []) (\<lambda>_ _. False) r"
    if "one_runner ''pending'' [] False [] r" for r
    using that not_isl [OF one_first_json]
    by (elim exE) (simp add: save_report_def write_json_def wps wp_inner_exact unreadable_wps Let_def one_runner_report one_runner_def)
  let ?guarded = "exceptP (run_cases_of one_suite (one_arguments allow) one_model [one_behavior] ''/x'' ''/x'' ''/x'')
      [OSError, ValueError, KeyError, TypeError, PrerequisiteError, ContractFailure, UnsupportedCapability] setup_failed"
  have guarded: "wp ?guarded (\<lambda>_. one_runner ''setup-error'' one_failure False one_unset) (\<lambda>_ _. False) t"
    if "one_runner ''pending'' [] False [] t" for t
    unfolding wp_except
    by (rule wp_mono [OF one_fails [OF that]]) (auto simp: instance_of_any_def instance_of_def intro: one_settles)
  have whole: "wp (finallyP ?guarded (complete_run one_suite one_model 0 ''/x'')) (\<lambda>_. ?final) (\<lambda>_ _. False) t"
    if "one_runner ''pending'' [] False [] t" for t
    unfolding wp_finally by (rule wp_mono [OF guarded [OF that]]) (erule one_completes, simp)
  have delivers: "wp (thenP (finallyP ?guarded (complete_run one_suite one_model 0 ''/x''))
      (thenP (bindP (readP (\<lambda>r. (report_value r, run_coverage r, run_status r)))
        (\<lambda>(v, coverage, status). on_screen (console_summary v coverage ''/x'' status)))
      (bindP (deliver_summary one_suite ''/x'') (\<lambda>delivered. readP (exit_status (one_arguments allow) delivered)))))
      (\<lambda>_. ?final) (\<lambda>_ _. False) t"
    if "one_runner ''pending'' [] False [] t" for t
    unfolding wp_then [of "finallyP _ _"]
    by (rule wp_mono [OF whole [OF that]]) (rule wp_mono [OF one_delivers], auto simp: same)
  have run: "wp (run_suite one_suite (one_arguments allow) one_model [one_behavior] 0 ''/x'' ''/x'' ''/x'') (\<lambda>_. ?final) (\<lambda>_ _. False) r"
    if "one_runner ''pending'' [] False [] r" for r
    unfolding run_suite_def wp_then [of "save_report _ _"]
    by (rule wp_mono [OF saves [OF that]]) (erule delivers, simp)
  show ?thesis
  proof (cases "prepare_run one_suite (one_arguments allow) (fresh_session unreadable)")
    case (Pair x t)
    with one_prepare [of allow] have x: "x = Inr one_prepared" and t: "world t = unreadable \<and> artifacts t = [] \<and> library_provenance t = []"
      by (auto simp: wp_def split: sum.splits)
    from t have "one_runner ''pending'' [] False [] (initial_runner one_suite (one_arguments allow) (prep_report one_prepared) (prep_results one_prepared) t)"
      by (intro one_start) simp_all
    from run [OF this] show ?thesis 
    by (auto simp: main_def Pair x one_prepared_def wp_def split: prod.splits sum.splits)
  qed
qed
section \<open>Properties of a run\<close>

text \<open>C10: A run that returns has accounted for every case, whatever the tested program, the file system
  and the clock did: the report has one result for each case of the inventory, in order; each of them is
  settled; a case that passed has its duration and its phases recorded; wherever phases are recorded,
  the setup, execution and cleanup seconds add up to the duration, up to the rounding of the four
  subtractions of floats; and the report is marked complete.\<close>

theorem run_completes:
  assumes "main S A s = (Inr n, r)" and "inventory_of S = Inr inventory"
  shows "map (\<lambda>d. case_key (PObj d)) (run_results r) = map (\<lambda>(kind, b). behavior_key kind b) (case_table inventory) \<and>
    (\<forall>d\<in>set (run_results r). text_at (PObj d) ''status'' \<noteq> ''pending'' \<and> partitioned d \<and>
       (text_at (PObj d) ''status'' = ''passed'' \<longrightarrow> recorded d)) \<and>
    get_or (report_value r) ''complete'' PNone = PBool True"
proof -
  obtain r0 where st: "started_ok A inventory r0" and fin: "finished_ok r0 r"
    using main_finishes [OF assms] by blast
  then have len: "length (run_results r) = length (case_table inventory)"
    by (simp add: started_ok_def finished_ok_def progress_but_def)
  have at: "case_key (PObj (run_results r ! i)) = (case case_table inventory ! i of (kind, b) \<Rightarrow> behavior_key kind b)"
    "text_at (PObj (run_results r ! i)) ''status'' \<noteq> ''pending''" "partitioned (run_results r ! i)"
    if "i < length (case_table inventory)" for i
    using that st fin
    by (cases "case_table inventory ! i";
        force simp: started_ok_def finished_ok_def progress_but_def all_settled_def status_at_def result_of_def)+
  have times: "text_at (PObj (run_results r ! i)) ''status'' = ''passed'' \<longrightarrow> recorded (run_results r ! i)"
    if i: "i < length (case_table inventory)" for i
  proof -
    obtain kind b where kb: "case_table inventory ! i = (kind, b)" by force
    from st i have len0: "i < length (run_results r0)" by (simp add: started_ok_def)
    with st kb have "status_at r0 i = (if is_selected A kind b then ''pending'' else ''not-selected'')"
      by (auto simp: started_ok_def)
    with len0 have "i < length (run_results r0)" "status_at r0 i \<noteq> ''passed''" by simp_all
    with fin have "status_at r i = ''passed'' \<longrightarrow> recorded_at r i"
      unfolding finished_ok_def progress_but_def by blast
    then show ?thesis by (simp add: status_at_def result_of_def recorded_at_def)
  qed
  have "map (\<lambda>d. case_key (PObj d)) (run_results r) = map (\<lambda>(kind, b). behavior_key kind b) (case_table inventory)"
    by (rule nth_equalityI) (simp_all add: len at)
  moreover have "\<forall>d\<in>set (run_results r). text_at (PObj d) ''status'' \<noteq> ''pending'' \<and> partitioned d \<and>
      (text_at (PObj d) ''status'' = ''passed'' \<longrightarrow> recorded d)"
    using at times len by (fastforce simp: in_set_conv_nth)
  ultimately show ?thesis using fin by (simp add: finished_ok_def accounted_for_def)
qed

theorem run_completes_witness:
  "\<exists>n r. main one_suite (one_arguments False) (fresh_session unreadable) = (Inr n, r) \<and>
    map (\<lambda>d. case_key (PObj d)) (run_results r) = [(''b'', ''cli'', ''user'')] \<and>
    get_or (report_value r) ''complete'' PNone = PBool True"
proof -
  obtain n r where main: "main one_suite (one_arguments False) (fresh_session unreadable) = (Inr n, r)" using one_main by blast
  have "map (\<lambda>(kind, b). behavior_key kind b) (case_table [one_behavior]) = [(''b'', ''cli'', ''user'')]" by code_simp
  with run_completes [OF main one_inventory] main show ?thesis by auto
qed

text \<open>C8: When expected failures are not allowed, a run whose report is not verified (an artifact under
  test changed, or the coverage is not current), or that leaves a selected case without a result that both
  passed and was cleaned up, does not exit with 0.\<close>

theorem failure_exits_nonzero:
  assumes "main S A s = (Inr n, r)" and "\<not> arg_allow A" and "inventory_of S = Inr inventory"
    and "\<not> report_verified (report_value r) (run_coverage r) \<or>
      (\<exists>(kind, b)\<in>set (case_table inventory). is_selected A kind b \<and> (\<forall>d\<in>set (run_results r).
         \<not> (case_key (PObj d) = behavior_key kind b \<and> text_at (PObj d) ''status'' = ''passed'' \<and>
            get_or (PObj d) ''cleanup_complete'' PNone = PBool True)))"
  shows "n \<noteq> 0"
  using zero_passed [OF _ assms(2,3), of s r] assms(1,4) by fastforce

theorem failure_exits_nonzero_witness:
  "\<exists>n r. main one_suite (one_arguments False) (fresh_session unreadable) = (Inr n, r) \<and> n \<noteq> 0"
proof -
  obtain n r where main: "main one_suite (one_arguments False) (fresh_session unreadable) = (Inr n, r)"
    and r: "one_runner ''setup-error'' one_failure True (one_setup @ [(''duration_seconds'', PFloat (Fin 0))]) r"
    using one_main by blast
  have mem: "(''cli'', one_behavior) \<in> set (case_table [one_behavior])" "is_selected (one_arguments False) ''cli'' one_behavior" by code_simp+
  have "\<forall>d\<in>set (run_results r). text_at (PObj d) ''status'' \<noteq> ''passed''"
    using r by (simp add: one_runner_def text_at_PObj)
  with mem have "\<exists>(kind, b)\<in>set (case_table [one_behavior]). is_selected (one_arguments False) kind b \<and> (\<forall>d\<in>set (run_results r).
       \<not> (case_key (PObj d) = behavior_key kind b \<and> text_at (PObj d) ''status'' = ''passed'' \<and>
          get_or (PObj d) ''cleanup_complete'' PNone = PBool True))" by blast
  with failure_exits_nonzero [OF main _ one_inventory] main show ?thesis by (auto simp: one_arguments_def)
qed

text \<open>C9: Allowing expected failures excuses failed assertions only: with or without it, a run whose setup
  failed (whatever its cases were then marked as), in which some case ended in a setup error, an unmet
  prerequisite or an unsupported capability, or in which a security-sensitive case failed, does not exit
  with 0, and neither does one whose report is not verified.\<close>

theorem only_failures_excused:
  assumes "main S A s = (Inr n, r)" and "inventory_of S = Inr inventory"
    and "\<not> report_verified (report_value r) (run_coverage r) \<or> has (report_value r) ''setup_error'' \<or>
      (\<exists>d\<in>set (run_results r). text_at (PObj d) ''status'' \<notin> {''passed'', ''failed'', ''not-selected''} \<or>
         security_failure (PObj d))"
  shows "n \<noteq> 0"
  using zero_expected [OF _ assms(2), of A s r] assms(1,3) by blast

theorem only_failures_excused_witness:
  "\<exists>n r. main one_suite (one_arguments True) (fresh_session unreadable) = (Inr n, r) \<and> n \<noteq> 0"
proof -
  obtain n r where main: "main one_suite (one_arguments True) (fresh_session unreadable) = (Inr n, r)"
    and r: "one_runner ''setup-error'' one_failure True (one_setup @ [(''duration_seconds'', PFloat (Fin 0))]) r"
    using one_main by blast
  have "\<exists>d\<in>set (run_results r). text_at (PObj d) ''status'' \<notin> {''passed'', ''failed'', ''not-selected''}"
    using r by (simp add: one_runner_def text_at_PObj)
  with only_failures_excused [OF main one_inventory] main show ?thesis by blast
qed

end
