(* ===== verification/Py_Regex.thy ===== *)
theory Py_Regex
  imports Py_Str
begin

text \<open>
  The part of Python's \<open>re\<close> the sources use: a pattern is a datatype, and matching it at a place
  of the text yields every way to match, in the order the backtracking engine tries them. The engine's
  match is the first. Patterns of the sources are written out with these constructors.
\<close>

section \<open>Patterns\<close>

datatype regex =
    Nothing
  | One "char \<Rightarrow> bool"
  | Seq regex regex
  | Alt regex regex
  | Star bool regex
  | Group nat regex
  | Backref nat
  | Ahead regex
  | Text_Start
  | Line_Start
  | Line_End
  | Text_End
  | Boundary

text \<open>A place: the text before it, reversed, the text after it, and the groups captured so far.\<close>

datatype place = Place (behind: string) (rest: string) (captured: "(nat \<times> string) list")

text \<open>\<open>\w\<close>: letters, digits, numbers and the underscore, below 256.\<close>

definition word_char :: "char \<Rightarrow> bool" where
  "word_char c \<longleftrightarrow> ident_start c \<or> isdigit c \<or> code c \<in> {178, 179, 185, 188, 189, 190}"

definition starts_word :: "string \<Rightarrow> bool" where
  "starts_word s = (case s of [] \<Rightarrow> False | c # _ \<Rightarrow> word_char c)"

text \<open>\<open>str.lower\<close> below 256.\<close>

definition lower_char :: "char \<Rightarrow> char" where
  "lower_char c = (if is_upper c \<or> 192 \<le> code c \<and> code c \<le> 222 \<and> code c \<noteq> 215 then char_of (code c + 32) else c)"

definition lower :: "string \<Rightarrow> string" where
  "lower s = map lower_char s"

section \<open>Matching\<close>

definition one :: "(char \<Rightarrow> bool) \<Rightarrow> place \<Rightarrow> place list" where
  "one P p = (case rest p of [] \<Rightarrow> [] | c # s \<Rightarrow> if P c then [Place (c # behind p) s (captured p)] else [])"

definition word_between :: "place \<Rightarrow> place \<Rightarrow> string" where
  "word_between p q = rev (take (length (behind q) - length (behind p)) (behind q))"

definition capture :: "nat \<Rightarrow> place \<Rightarrow> place \<Rightarrow> place" where
  "capture n p q = Place (behind q) (rest q) (AList.update n (word_between p q) (captured q))"

definition backref :: "nat \<Rightarrow> place \<Rightarrow> place list" where
  "backref n p = (case map_of (captured p) n of None \<Rightarrow> []
     | Some w \<Rightarrow> if startswith (rest p) w then [Place (rev w @ behind p) (drop (length w) (rest p)) (captured p)] else [])"

definition here_if :: "bool \<Rightarrow> place \<Rightarrow> place list" where
  "here_if b p = (if b then [p] else [])"

text \<open>Repetition goes on as long as an iteration consumes something.\<close>

function star :: "bool \<Rightarrow> (place \<Rightarrow> place list) \<Rightarrow> place \<Rightarrow> place list" where
  "star greedy f p =
     (let more = concat (map (\<lambda>q. if length (rest q) < length (rest p) then star greedy f q else []) (f p)) in
      if greedy then more @ [p] else p # more)"
  by pat_completeness auto
termination
  by (relation "measure (\<lambda>(_, _, p). length (rest p))") auto

declare star.simps [simp del]

primrec run_regex :: "regex \<Rightarrow> place \<Rightarrow> place list" where
  "run_regex Nothing p = [p]"
| "run_regex (One P) p = one P p"
| "run_regex (Seq r s) p = concat (map (run_regex s) (run_regex r p))"
| "run_regex (Alt r s) p = run_regex r p @ run_regex s p"
| "run_regex (Star greedy r) p = star greedy (run_regex r) p"
| "run_regex (Group n r) p = map (capture n p) (run_regex r p)"
| "run_regex (Backref n) p = backref n p"
| "run_regex (Ahead r) p = (case run_regex r p of [] \<Rightarrow> [] | q # _ \<Rightarrow> [Place (behind p) (rest p) (captured q)])"
| "run_regex Text_Start p = here_if (behind p = []) p"
| "run_regex Line_Start p = here_if (behind p = [] \<or> hd (behind p) = CHR 0x0A) p"
| "run_regex Line_End p = here_if (rest p = [] \<or> hd (rest p) = CHR 0x0A) p"
| "run_regex Text_End p = here_if (rest p = [] \<or> rest p = [CHR 0x0A]) p"
| "run_regex Boundary p = here_if (starts_word (behind p) \<noteq> starts_word (rest p)) p"

section \<open>The module's functions\<close>

record found =
  match_start :: nat
  match_stop :: nat
  match_text :: string
  match_groups :: "(nat \<times> string) list"

definition found_at :: "place \<Rightarrow> place \<Rightarrow> found" where
  "found_at p q = \<lparr>match_start = length (behind p), match_stop = length (behind q), match_text = word_between p q,
     match_groups = captured q\<rparr>"

definition group_text :: "found \<Rightarrow> nat \<Rightarrow> string" where
  "group_text m n = (case map_of (match_groups m) n of Some w \<Rightarrow> w | None \<Rightarrow> [])"

definition participates :: "found \<Rightarrow> nat \<Rightarrow> bool" where
  "participates m n = (map_of (match_groups m) n \<noteq> None)"

definition first_found :: "place \<Rightarrow> place list \<Rightarrow> found option" where
  "first_found p qs = (case qs of [] \<Rightarrow> None | q # _ \<Rightarrow> Some (found_at p q))"

definition re_match :: "regex \<Rightarrow> string \<Rightarrow> found option" where
  "re_match r s = first_found (Place [] s []) (run_regex r (Place [] s []))"

definition re_fullmatch :: "regex \<Rightarrow> string \<Rightarrow> found option" where
  "re_fullmatch r s = first_found (Place [] s []) (filter (\<lambda>q. rest q = []) (run_regex r (Place [] s [])))"

text \<open>The places at which a search tries to match, and what the scanner makes of the text: the
  characters it passes over and the matches. After an empty match one that consumes is tried at the
  same place.\<close>

fun search_from :: "regex \<Rightarrow> string \<Rightarrow> string \<Rightarrow> found option" where
  "search_from r b s = (case first_found (Place b s []) (run_regex r (Place b s [])) of Some m \<Rightarrow> Some m
     | None \<Rightarrow> (case s of [] \<Rightarrow> None | c # s' \<Rightarrow> search_from r (c # b) s'))"

declare search_from.simps [simp del]

definition re_search :: "regex \<Rightarrow> string \<Rightarrow> found option" where
  "re_search r s = search_from r [] s"

datatype piece = Passed char | Matched found

definition moving :: "place \<Rightarrow> place list \<Rightarrow> place list" where
  "moving p qs = filter (\<lambda>q. length (rest q) < length (rest p)) qs"

definition empty_match :: "place \<Rightarrow> place list \<Rightarrow> piece list" where
  "empty_match p qs = (case qs of q # _ \<Rightarrow> if length (rest q) < length (rest p) then [] else [Matched (found_at p q)] | [] \<Rightarrow> [])"

function scan :: "regex \<Rightarrow> string \<Rightarrow> string \<Rightarrow> piece list" where
  "scan r b s = (let p = (Place b s []); qs = run_regex r p in empty_match p qs @
     (case moving p qs of q # _ \<Rightarrow> Matched (found_at p q) # scan r (behind q) (rest q)
      | [] \<Rightarrow> (case s of [] \<Rightarrow> [] | c # s' \<Rightarrow> Passed c # scan r (c # b) s')))"
  by pat_completeness auto
termination
proof (relation "measure (\<lambda>(_, _, s). length s)", simp)
  fix r b s p qs q qs'
  assume "p = (Place b s [])" and "moving p qs = q # qs'"
  then have "q \<in> set (moving p qs)" by simp
  then show "((r, behind q, rest q), r, b, s) \<in> measure (\<lambda>(_, _, s). length s)"
    using \<open>p = (Place b s [])\<close> by (simp add: moving_def)
qed simp

declare scan.simps [simp del]

fun matches_of :: "piece list \<Rightarrow> found list" where
  "matches_of [] = []"
| "matches_of (Passed _ # ps) = matches_of ps"
| "matches_of (Matched m # ps) = m # matches_of ps"

definition re_finditer :: "regex \<Rightarrow> string \<Rightarrow> found list" where
  "re_finditer r s = matches_of (scan r [] s)"

fun replaced :: "(found \<Rightarrow> string) \<Rightarrow> piece list \<Rightarrow> string" where
  "replaced f [] = []"
| "replaced f (Passed c # ps) = c # replaced f ps"
| "replaced f (Matched m # ps) = f m @ replaced f ps"

definition re_sub :: "regex \<Rightarrow> (found \<Rightarrow> string) \<Rightarrow> string \<Rightarrow> string" where
  "re_sub r f s = replaced f (scan r [] s)"

section \<open>Classes of characters by their bits\<close>

text \<open>Code equations, so that matching a concrete text evaluates quickly.\<close>

lemma isspace_bits [code]: "isspace (Char b0 b1 b2 b3 b4 b5 b6 b7) \<longleftrightarrow> \<not> b6 \<and>
    (if b7 then \<not> b4 \<and> \<not> b3 \<and> \<not> b1 \<and> (if b5 then \<not> b2 \<and> \<not> b0 else b2 \<and> b0)
     else if b5 then \<not> b4 \<and> \<not> b3 \<and> \<not> b2 \<and> \<not> b1 \<and> \<not> b0
     else b3 \<and> (if b2 then b4 \<or> \<not> b1 else \<not> b4 \<and> (b1 \<or> b0)))"
  by (cases b0; cases b1; cases b2; cases b3; cases b4; cases b5; cases b6; cases b7; simp add: isspace_def code_def)

lemma isdigit_bits [code]:
  "isdigit (Char b0 b1 b2 b3 b4 b5 b6 b7) \<longleftrightarrow> \<not> b7 \<and> \<not> b6 \<and> b5 \<and> b4 \<and> \<not> (b3 \<and> (b2 \<or> b1))"
  by (cases b0; cases b1; cases b2; cases b3; cases b4; cases b5; cases b6; cases b7; simp add: isdigit_def code_def)

definition letter_bits :: "bool \<Rightarrow> bool \<Rightarrow> bool \<Rightarrow> bool \<Rightarrow> bool \<Rightarrow> bool" where
  "letter_bits b0 b1 b2 b3 b4 \<longleftrightarrow> (b4 \<or> b3 \<or> b2 \<or> b1 \<or> b0) \<and> \<not> (b4 \<and> b3 \<and> (b2 \<or> b1 \<and> b0))"

lemma is_lower_bits [code]:
  "is_lower (Char b0 b1 b2 b3 b4 b5 b6 b7) \<longleftrightarrow> \<not> b7 \<and> b6 \<and> b5 \<and> letter_bits b0 b1 b2 b3 b4"
  by (cases b0; cases b1; cases b2; cases b3; cases b4; cases b5; cases b6; cases b7;
      simp add: is_lower_def code_def letter_bits_def)

lemma is_upper_bits [code]:
  "is_upper (Char b0 b1 b2 b3 b4 b5 b6 b7) \<longleftrightarrow> \<not> b7 \<and> b6 \<and> \<not> b5 \<and> letter_bits b0 b1 b2 b3 b4"
  by (cases b0; cases b1; cases b2; cases b3; cases b4; cases b5; cases b6; cases b7;
      simp add: is_upper_def code_def letter_bits_def)

lemma word_char_bits [code]: "word_char (Char b0 b1 b2 b3 b4 b5 b6 b7) \<longleftrightarrow>
    (if b7 then if b6 then \<not> (b4 \<and> \<not> b3 \<and> b2 \<and> b1 \<and> b0)
       else b5 \<and> (if b4 then if b3 then if b2 then \<not> (b1 \<and> b0) else b1 \<noteq> b0 else if b2 then \<not> b1 \<and> b0 else b1
         else b3 \<and> \<not> b2 \<and> b1 \<and> \<not> b0)
     else if b6 then letter_bits b0 b1 b2 b3 b4 \<or> \<not> b5 \<and> b4 \<and> b3 \<and> b2 \<and> b1 \<and> b0
     else b5 \<and> b4 \<and> \<not> (b3 \<and> (b2 \<or> b1)))"
  by (cases b0; cases b1; cases b2; cases b3; cases b4; cases b5; cases b6; cases b7;
      simp add: word_char_def ident_start_def isdigit_def is_lower_def is_upper_def code_def letter_bits_def)

section \<open>Writing patterns\<close>

primrec lit :: "string \<Rightarrow> regex" where
  "lit [] = Nothing"
| "lit (c # cs) = Seq (One ((=) c)) (lit cs)"

fun seqs :: "regex list \<Rightarrow> regex" where
  "seqs [] = Nothing"
| "seqs [r] = r"
| "seqs (r # rs) = Seq r (seqs rs)"

definition many :: "(char \<Rightarrow> bool) \<Rightarrow> regex" where
  "many P = Star True (One P)"

definition few :: "(char \<Rightarrow> bool) \<Rightarrow> regex" where
  "few P = Star False (One P)"

definition some :: "(char \<Rightarrow> bool) \<Rightarrow> regex" where
  "some P = Seq (One P) (many P)"

definition opt :: "regex \<Rightarrow> regex" where
  "opt r = Alt r Nothing"

text \<open>\<open>[...]\<close> and \<open>[^...]\<close>.\<close>

definition among :: "string \<Rightarrow> char \<Rightarrow> bool" where
  "among cs c \<longleftrightarrow> c \<in> set cs"

definition beyond :: "string \<Rightarrow> char \<Rightarrow> bool" where
  "beyond cs c \<longleftrightarrow> c \<notin> set cs"

definition alphanumeric :: "char \<Rightarrow> bool" where
  "alphanumeric c \<longleftrightarrow> is_lower c \<or> is_upper c \<or> isdigit c"

section \<open>Laws of matching\<close>

text \<open>A way to match leads from a place to a later place of the same text.\<close>

definition leads :: "place \<Rightarrow> string \<Rightarrow> place \<Rightarrow> bool" where
  "leads p w q \<longleftrightarrow> rest p = w @ rest q \<and> behind q = rev w @ behind p"

lemma leads_refl: "leads p [] p"
  by (simp add: leads_def)

lemma leads_here: "\<exists>w. leads p w p"
  by (rule exI, rule leads_refl)

lemma leads_trans: "leads p v q \<Longrightarrow> leads q w r \<Longrightarrow> leads p (v @ w) r"
  by (simp add: leads_def)

lemma leads_one: "q \<in> set (one P p) \<Longrightarrow> \<exists>c. P c \<and> leads p [c] q"
  by (cases "rest p") (auto simp: one_def leads_def split: if_splits)

lemma leads_some: "leads p w q \<Longrightarrow> length (rest q) \<le> length (rest p)"
  by (simp add: leads_def)

text \<open>Both kinds of repetition reach the same places, in opposite orders.\<close>

inductive iterates :: "(place \<Rightarrow> place list) \<Rightarrow> place \<Rightarrow> place \<Rightarrow> bool" for f where
  stop: "iterates f p p"
| more: "m \<in> set (f p) \<Longrightarrow> length (rest m) < length (rest p) \<Longrightarrow> iterates f m q \<Longrightarrow> iterates f p q"

lemma star_iterates: "q \<in> set (star g f p) \<longleftrightarrow> iterates f p q"
proof
  show "q \<in> set (star g f p) \<Longrightarrow> iterates f p q"
  proof (induction g f p rule: star.induct)
    case (1 g f p)
    from 1(2) consider "q = p"
      | m where "m \<in> set (f p)" "length (rest m) < length (rest p)" "q \<in> set (star g f m)"
      by (subst (asm) star.simps) (auto simp: Let_def split: if_splits)
    then show ?case
      by cases (auto intro: iterates.intros 1(1))
  qed
next
  show "iterates f p q \<Longrightarrow> q \<in> set (star g f p)"
    by (induction rule: iterates.induct) (subst star.simps, force simp: Let_def)+
qed

lemma iterates_leads:
  assumes "iterates f p q" and f: "\<And>p q. q \<in> set (f p) \<Longrightarrow> \<exists>w. leads p w q"
  shows "\<exists>w. leads p w q"
  using assms(1) by induction (use f leads_refl leads_trans in blast)+

lemma run_leads: "q \<in> set (run_regex r p) \<Longrightarrow> \<exists>w. leads p w q"
proof (induction r arbitrary: p q)
  case (Star g r)
  then show ?case by (auto simp: star_iterates intro: iterates_leads)
next
  case (Seq r s)
  then show ?case by (auto, blast intro: leads_trans)
next
  case (Group n r)
  then obtain m where "m \<in> set (run_regex r p)" "q = capture n p m" by auto
  with Group.IH [OF this(1)] show ?case by (auto simp: capture_def leads_def)
next
  case (Backref n)
  then show ?case by (auto simp: backref_def leads_def startswith_iff split: option.splits if_splits)
next
  case (Ahead r)
  then show ?case by (auto simp: leads_def split: list.splits)
qed (auto simp: here_if_def leads_here dest: leads_one split: if_splits intro: leads_here)

text \<open>The text of a match is what it consumes.\<close>

lemma word_between_leads: "leads p w q \<Longrightarrow> word_between p q = w"
  by (simp add: leads_def word_between_def)

lemma found_text:
  assumes "q \<in> set (run_regex r p)"
  shows "leads p (match_text (found_at p q)) q"
  using run_leads [OF assms] by (auto simp: found_at_def word_between_leads)

section \<open>Laws of scanning\<close>

fun piece_text :: "piece \<Rightarrow> string" where
  "piece_text (Passed c) = [c]"
| "piece_text (Matched m) = match_text m"

lemma empty_match_text: "concat (map piece_text (empty_match p (run_regex r p))) = []"
proof (cases "run_regex r p")
  case (Cons q qs)
  then have "q \<in> set (run_regex r p)" by simp
  from found_text [OF this] have "leads p (match_text (found_at p q)) q" .
  with Cons show ?thesis by (auto simp: empty_match_def leads_def)
qed (simp add: empty_match_def)

text \<open>The pieces make up the text.\<close>

lemma scan_text: "concat (map piece_text (scan r b s)) = s"
proof (induction r b s rule: scan.induct)
  case (1 r b s)
  show ?case
  proof (cases "moving (Place b s []) (run_regex r (Place b s []))")
    case Nil
    with 1(1) [OF refl refl Nil] show ?thesis
      by (subst scan.simps) (cases s; simp add: Let_def empty_match_text)
  next
    case (Cons q qs)
    then have "q \<in> set (moving (Place b s []) (run_regex r (Place b s [])))" by simp
    then have q: "q \<in> set (run_regex r (Place b s []))" by (simp add: moving_def)
    from 1(2) [OF refl refl Cons] found_text [OF q] Cons show ?thesis
      by (subst scan.simps) (simp add: Let_def empty_match_text leads_def)
  qed
qed

lemma replaced_concat: "replaced f ps = concat (map (\<lambda>p. case p of Passed c \<Rightarrow> [c] | Matched m \<Rightarrow> f m) ps)"
  by (induction ps rule: matches_of.induct) auto

section \<open>Lengths, groups and literals\<close>

lemma in_ahead:
  "q \<in> set (run_regex (Ahead r) p) \<Longrightarrow> \<exists>m\<in>set (run_regex r p). q = Place (behind p) (rest p) (captured m)"
  by (cases "run_regex r p") auto

primrec min_len :: "regex \<Rightarrow> nat" where
  "min_len Nothing = 0"
| "min_len (One P) = 1"
| "min_len (Seq r s) = min_len r + min_len s"
| "min_len (Alt r s) = min (min_len r) (min_len s)"
| "min_len (Star g r) = 0"
| "min_len (Group n r) = min_len r"
| "min_len (Backref n) = 0"
| "min_len (Ahead r) = 0"
| "min_len Text_Start = 0"
| "min_len Line_Start = 0"
| "min_len Line_End = 0"
| "min_len Text_End = 0"
| "min_len Boundary = 0"

lemma run_min_len: "q \<in> set (run_regex r p) \<Longrightarrow> leads p w q \<Longrightarrow> min_len r \<le> length w"
proof (induction r arbitrary: p q w)
  case (Seq r s)
  then obtain m where m: "m \<in> set (run_regex r p)" "q \<in> set (run_regex s m)" by auto
  with run_leads obtain u v where uv: "leads p u m" "leads m v q" by blast
  with Seq.prems(2) have "length w = length u + length v" by (auto simp: leads_def)
  with Seq.IH(1) [OF m(1) uv(1)] Seq.IH(2) [OF m(2) uv(2)] show ?case by simp
next
  case (Alt r s)
  then show ?case by (auto intro: min.coboundedI1 min.coboundedI2)
next
  case (Group n r)
  then obtain m where m: "m \<in> set (run_regex r p)" "q = capture n p m" by auto
  with Group.prems(2) have "leads p w m" by (simp add: leads_def capture_def)
  with Group.IH m(1) show ?case by simp
qed (auto simp: one_def leads_def min_def split: list.splits if_splits dest: le_trans)

text \<open>A pattern none of whose characters is \<open>c\<close>.\<close>

primrec avoids :: "char \<Rightarrow> regex \<Rightarrow> bool" where
  "avoids c Nothing = True"
| "avoids c (One P) = (\<not> P c)"
| "avoids c (Seq r s) = (avoids c r \<and> avoids c s)"
| "avoids c (Alt r s) = (avoids c r \<and> avoids c s)"
| "avoids c (Star g r) = avoids c r"
| "avoids c (Group n r) = avoids c r"
| "avoids c (Backref n) = False"
| "avoids c (Ahead r) = True"
| "avoids c Text_Start = True"
| "avoids c Line_Start = True"
| "avoids c Line_End = True"
| "avoids c Text_End = True"
| "avoids c Boundary = True"

lemma run_avoids: "q \<in> set (run_regex r p) \<Longrightarrow> leads p w q \<Longrightarrow> avoids c r \<Longrightarrow> c \<notin> set w"
proof (induction r arbitrary: p q w)
  case (Seq r s)
  then obtain m where m: "m \<in> set (run_regex r p)" "q \<in> set (run_regex s m)" by auto
  with run_leads obtain u v where uv: "leads p u m" "leads m v q" by blast
  with Seq.prems(2) have "w = u @ v" by (auto simp: leads_def)
  with Seq.IH(1) [OF m(1) uv(1)] Seq.IH(2) [OF m(2) uv(2)] Seq.prems(3) show ?case by simp
next
  case (Star g r)
  then have "iterates (run_regex r) p q" by (simp add: star_iterates)
  then show ?case using Star.prems(2)
  proof (induction arbitrary: w)
    case (more m p q)
    obtain u where u: "leads p u m" using run_leads [OF more(1)] by blast
    obtain v where v: "leads m v q" using iterates_leads [OF more(3)] run_leads by blast
    with u more(5) have "w = u @ v" by (auto simp: leads_def)
    with Star.IH [OF more(1) u] Star.prems(3) more(4) [OF v] show ?case by simp
  qed (simp add: leads_def)
next
  case (Group n r)
  then obtain m where m: "m \<in> set (run_regex r p)" "q = capture n p m" by auto
  with Group.prems(2) have "leads p w m" by (simp add: leads_def capture_def)
  with Group.IH m(1) Group.prems(3) show ?case by simp
next
  case (Ahead r)
  from in_ahead [OF Ahead.prems(1)] obtain m where "q = Place (behind p) (rest p) (captured m)" by blast
  with Ahead.prems(2) have "w = []" by (simp add: leads_def)
  then show ?case by simp
qed (auto simp: one_def leads_def here_if_def split: list.splits if_splits)

text \<open>What a group has captured: the text consumed by one of its bodies.\<close>

primrec bodies :: "nat \<Rightarrow> regex \<Rightarrow> regex list" where
  "bodies n Nothing = []"
| "bodies n (One P) = []"
| "bodies n (Seq r s) = bodies n r @ bodies n s"
| "bodies n (Alt r s) = bodies n r @ bodies n s"
| "bodies n (Star g r) = bodies n r"
| "bodies n (Group m r) = (if m = n then [r] else []) @ bodies n r"
| "bodies n (Backref m) = []"
| "bodies n (Ahead r) = bodies n r"
| "bodies n Text_Start = []"
| "bodies n Line_Start = []"
| "bodies n Line_End = []"
| "bodies n Text_End = []"
| "bodies n Boundary = []"

definition consumed_by :: "regex list \<Rightarrow> string \<Rightarrow> bool" where
  "consumed_by rs w \<longleftrightarrow> (\<exists>r\<in>set rs. \<exists>p q. q \<in> set (run_regex r p) \<and> leads p w q)"

lemma consumed_mono: "consumed_by rs w \<Longrightarrow> set rs \<subseteq> set ss \<Longrightarrow> consumed_by ss w"
  unfolding consumed_by_def by blast


lemma run_group:
  "q \<in> set (run_regex r p) \<Longrightarrow> map_of (captured q) n = Some w \<Longrightarrow>
     map_of (captured p) n = Some w \<or> consumed_by (bodies n r) w"
proof (induction r arbitrary: p q)
  case (Seq r s)
  then obtain m where m: "m \<in> set (run_regex r p)" "q \<in> set (run_regex s m)" by auto
  show ?case
    using Seq.IH(2) [OF m(2) Seq.prems(2)]
  proof
    assume "map_of (captured m) n = Some w"
    from Seq.IH(1) [OF m(1) this] show ?thesis by (auto intro: consumed_mono)
  qed (auto intro: consumed_mono)
next
  case (Alt r s)
  then have "map_of (captured p) n = Some w \<or> consumed_by (bodies n r) w \<or> consumed_by (bodies n s) w" by auto
  then show ?case by (auto intro: consumed_mono)
next
  case (Star g r)
  have "iterates (run_regex r) p q" using Star.prems(1) by (simp add: star_iterates)
  then show ?case using Star.prems(2)
    by induction (use Star.IH in \<open>fastforce\<close>)+
next
  case (Group k r)
  then obtain m where m: "m \<in> set (run_regex r p)" "q = capture k p m" by auto
  show ?case
  proof (cases "k = n")
    case True
    obtain u where u: "leads p u m" using run_leads [OF m(1)] by blast
    with Group.prems(2) m(2) True have "w = u"
      by (simp add: capture_def update_conv' word_between_leads)
    with u m(1) have "consumed_by [r] w" by (auto simp: consumed_by_def)
    with True show ?thesis by (auto intro: consumed_mono)
  next
    case False
    with Group.prems(2) m(2) have "map_of (captured m) n = Some w" by (simp add: capture_def update_conv')
    from Group.IH [OF m(1) this] show ?thesis by (auto intro: consumed_mono)
  qed
next
  case (Ahead r)
  from in_ahead [OF Ahead.prems(1)] obtain m where m: "m \<in> set (run_regex r p)" "captured q = captured m" by auto
  with Ahead.IH [OF m(1)] Ahead.prems(2) show ?case by simp
qed (auto simp: one_def backref_def here_if_def split: list.splits if_splits option.splits)

text \<open>A group every way to match goes through has captured something.\<close>

primrec binds :: "nat \<Rightarrow> regex \<Rightarrow> bool" where
  "binds n Nothing = False"
| "binds n (One P) = False"
| "binds n (Seq r s) = (binds n r \<or> binds n s)"
| "binds n (Alt r s) = (binds n r \<and> binds n s)"
| "binds n (Star g r) = False"
| "binds n (Group m r) = (m = n \<or> binds n r)"
| "binds n (Backref m) = False"
| "binds n (Ahead r) = binds n r"
| "binds n Text_Start = False"
| "binds n Line_Start = False"
| "binds n Line_End = False"
| "binds n Text_End = False"
| "binds n Boundary = False"

lemma run_binds:
  "q \<in> set (run_regex r p) \<Longrightarrow> binds n r \<or> map_of (captured p) n \<noteq> None \<Longrightarrow> map_of (captured q) n \<noteq> None"
proof (induction r arbitrary: p q)
  case (Seq r s)
  then obtain m where m: "m \<in> set (run_regex r p)" "q \<in> set (run_regex s m)" by auto
  from Seq.IH(2) [OF m(2)] Seq.IH(1) [OF m(1)] Seq.prems(2) show ?case by auto
next
  case (Star g r)
  have "iterates (run_regex r) p q" using Star.prems(1) by (simp add: star_iterates)
  then show ?case using Star.prems(2)
    by induction (use Star.IH in \<open>fastforce\<close>)+
next
  case (Group k r)
  then obtain m where m: "m \<in> set (run_regex r p)" "q = capture k p m" by auto
  with Group.IH [OF m(1)] Group.prems(2) show ?case by (auto simp: capture_def update_conv')
next
  case (Ahead r)
  from in_ahead [OF Ahead.prems(1)] obtain m where m: "m \<in> set (run_regex r p)" "captured q = captured m" by auto
  with Ahead.IH [OF m(1)] Ahead.prems(2) show ?case by simp
qed (auto simp: one_def backref_def here_if_def split: list.splits if_splits option.splits)

lemma run_lit: "q \<in> set (run_regex (lit w) p) \<Longrightarrow> leads p w q"
proof (induction w arbitrary: p)
  case (Cons c w)
  then obtain m where "m \<in> set (one ((=) c) p)" "q \<in> set (run_regex (lit w) m)" by auto
  with Cons.IH [of m] leads_one [of m "(=) c" p] show ?case by (auto simp: leads_def)
qed (simp add: leads_def)

lemma run_many: "q \<in> set (run_regex (many P) p) \<Longrightarrow> leads p w q \<Longrightarrow> \<forall>c\<in>set w. P c"
proof -
  assume "q \<in> set (run_regex (many P) p)"
  then have "iterates (run_regex (One P)) p q" by (simp add: many_def star_iterates)
  moreover have "run_regex (One P) = one P" by auto
  ultimately have "iterates (one P) p q" by simp
  then show "leads p w q \<Longrightarrow> \<forall>c\<in>set w. P c"
  proof (induction arbitrary: w)
    case (more m p q)
    then obtain c u where c: "P c" "leads p [c] m" using leads_one by blast
    obtain v where v: "leads m v q" using iterates_leads [OF more(3)] leads_one by blast
    with c more(5) have "w = c # v" by (auto simp: leads_def)
    with c v more(4) [OF v] show ?case by auto
  qed (simp add: leads_def)
qed

section \<open>What is found\<close>

definition found_by :: "regex \<Rightarrow> found \<Rightarrow> bool" where
  "found_by r m \<longleftrightarrow> (\<exists>p q. captured p = [] \<and> q \<in> set (run_regex r p) \<and> m = found_at p q)"

lemma first_found_by:
  "first_found (Place b s []) qs = Some m \<Longrightarrow> set qs \<subseteq> set (run_regex r (Place b s [])) \<Longrightarrow> found_by r m"
  unfolding found_by_def first_found_def
  by (rule exI [of _ "Place b s []"]) (cases qs; auto)

lemma search_from_by: "search_from r b s = Some m \<Longrightarrow> found_by r m"
proof (induction r b s rule: search_from.induct)
  case (1 r b s)
  show ?case
  proof (cases "first_found (Place b s []) (run_regex r (Place b s []))")
    case None
    with 1 show ?thesis by (subst (asm) (2) search_from.simps) (auto split: list.splits)
  next
    case (Some x)
    with 1(2) first_found_by [OF Some] show ?thesis by (subst (asm) search_from.simps) auto
  qed
qed

lemma scan_by: "m \<in> set (matches_of (scan r b s)) \<Longrightarrow> found_by r m"
proof (induction r b s rule: scan.induct)
  case (1 r b s)
  let ?p = "(Place b s [])"
  have pieces: "matches_of (ps @ qs) = matches_of ps @ matches_of qs" for ps qs
    by (induction ps rule: matches_of.induct) auto
  have here: "found_by r (found_at ?p q)" if "q \<in> set (run_regex r ?p)" for q
    using that unfolding found_by_def by (metis place.sel(3))
  have empty: "found_by r m" if "m \<in> set (matches_of (empty_match ?p (run_regex r ?p)))"
    using that here by (auto simp: empty_match_def split: list.splits if_splits)
  show ?case
  proof (cases "moving ?p (run_regex r ?p)")
    case Nil
    show ?thesis
    proof (cases s)
      case Nil
      with \<open>moving ?p (run_regex r ?p) = []\<close> 1(3) empty show ?thesis
        by (subst (asm) scan.simps) (auto simp: pieces Let_def)
    next
      case (Cons c t)
      with 1(1) [OF refl refl \<open>moving ?p (run_regex r ?p) = []\<close> Cons] \<open>moving ?p (run_regex r ?p) = []\<close> 1(3) empty
      show ?thesis by (subst (asm) (2) scan.simps) (auto simp: pieces Let_def)
    qed
  next
    case (Cons q qs)
    then have "q \<in> set (moving ?p (run_regex r ?p))" by simp
    then have q: "q \<in> set (run_regex r ?p)" by (simp add: moving_def)
    with 1(2) [OF refl refl Cons] 1(3) empty here Cons show ?thesis
      by (subst (asm) (2) scan.simps) (auto simp: pieces Let_def)
  qed
qed

lemma re_found_by:
  "re_match r s = Some m \<Longrightarrow> found_by r m" "re_fullmatch r s = Some m \<Longrightarrow> found_by r m"
  "re_search r s = Some m \<Longrightarrow> found_by r m" "m \<in> set (re_finditer r s) \<Longrightarrow> found_by r m"
  unfolding re_match_def re_fullmatch_def re_search_def re_finditer_def
  by (erule first_found_by, force)+ (erule search_from_by, erule scan_by)

lemma group_consumed: "found_by r m \<Longrightarrow> binds n r \<Longrightarrow> consumed_by (bodies n r) (group_text m n)"
  unfolding found_by_def group_text_def using run_binds [of _ r _ n] run_group [of _ r _ n]
  by (fastforce simp: found_at_def)

lemma group_nonempty:
  assumes "found_by r m" "binds n r" "\<forall>b\<in>set (bodies n r). 0 < min_len b"
  shows "group_text m n \<noteq> []"
  using group_consumed [OF assms(1, 2)] assms(3) run_min_len unfolding consumed_by_def by fastforce

lemma group_avoids:
  assumes "found_by r m" "binds n r" "\<forall>b\<in>set (bodies n r). avoids c b"
  shows "c \<notin> set (group_text m n)"
  using group_consumed [OF assms(1, 2)] assms(3) run_avoids unfolding consumed_by_def by fast

lemma re_fullmatch_by:
  assumes "re_fullmatch r s = Some m"
  obtains q where "q \<in> set (run_regex r (Place [] s []))" "rest q = []" "m = found_at (Place [] s []) q"
proof (cases "filter (\<lambda>q. rest q = []) (run_regex r (Place [] s []))")
  case (Cons q qs)
  then have "q \<in> set (filter (\<lambda>q. rest q = []) (run_regex r (Place [] s [])))" by simp
  then have "q \<in> set (run_regex r (Place [] s []))" "rest q = []" by simp_all
  with that [of q] Cons assms show ?thesis by (simp add: re_fullmatch_def first_found_def)
qed (use assms in \<open>simp add: re_fullmatch_def first_found_def\<close>)

lemma re_fullmatch_text: "re_fullmatch r s = Some m \<Longrightarrow> match_text m = s"
  by (erule re_fullmatch_by, drule found_text) (simp add: leads_def)

text \<open>Substituting each match by a text related to it character by character relates the results so.\<close>

lemma sub_related_found:
  assumes same: "\<And>c. R c c" and m: "\<And>m. found_by r m \<Longrightarrow> list_all2 R (match_text m) (f m)"
  shows "list_all2 R s (re_sub r f s)"
proof -
  have "list_all2 R (concat (map piece_text ps)) (replaced f ps)" if "\<forall>m\<in>set (matches_of ps). found_by r m" for ps
    using that by (induction ps rule: matches_of.induct) (auto simp: same m intro: list_all2_appendI)
  from this [of "scan r [] s"] show ?thesis by (simp add: scan_text re_sub_def scan_by)
qed

text \<open>The matches of a scan lie where their texts are.\<close>

fun positioned :: "nat \<Rightarrow> piece list \<Rightarrow> bool" where
  "positioned n [] = True"
| "positioned n (Passed _ # ps) = positioned (Suc n) ps"
| "positioned n (Matched m # ps) =
     (match_start m = n \<and> match_stop m = n + length (match_text m) \<and> positioned (match_stop m) ps)"

lemma positioned_append:
  "positioned n (ps @ qs) \<longleftrightarrow> positioned n ps \<and> positioned (n + length (concat (map piece_text ps))) qs"
  by (induction n ps rule: positioned.induct) (auto simp: add.assoc)

lemma found_at_span: "q \<in> set (run_regex r p) \<Longrightarrow> match_start (found_at p q) = length (behind p) \<and>
    match_stop (found_at p q) = length (behind p) + length (match_text (found_at p q))"
  using found_text [of q r p] by (simp add: found_at_def leads_def)

lemma scan_positioned: "positioned (length b) (scan r b s)"
proof (induction r b s rule: scan.induct)
  case (1 r b s)
  let ?p = "Place b s []"
  have empty: "positioned (length b) (empty_match ?p (run_regex r ?p))"
  proof (cases "run_regex r ?p")
    case (Cons q qs)
    then have "q \<in> set (run_regex r ?p)" by simp
    from found_at_span [OF this] Cons show ?thesis by (simp add: empty_match_def)
  qed (simp add: empty_match_def)
  show ?case
  proof (cases "moving ?p (run_regex r ?p)")
    case Nil
    with 1(1) [OF refl refl Nil] empty show ?thesis
      by (subst scan.simps) (cases s; simp add: Let_def positioned_append empty_match_text)
  next
    case (Cons q qs)
    then have "q \<in> set (moving ?p (run_regex r ?p))" by simp
    then have q: "q \<in> set (run_regex r ?p)" by (simp add: moving_def)
    from 1(2) [OF refl refl Cons] found_at_span [OF q] found_text [OF q] empty Cons show ?thesis
      by (subst scan.simps) (simp add: Let_def positioned_append empty_match_text leads_def add.commute)
  qed
qed

section \<open>The backtracking engine\<close>

text \<open>An engine that tries one way to match at a time, the rest of the pattern being a continuation: it
  finds the first of the ways enumerated above that the continuation accepts.\<close>

function engine :: "regex \<Rightarrow> place \<Rightarrow> (place \<Rightarrow> place option) \<Rightarrow> place option" where
  "engine Nothing p k = k p"
| "engine (One P) p k = (case rest p of [] \<Rightarrow> None | c # s \<Rightarrow> if P c then k (Place (c # behind p) s (captured p)) else None)"
| "engine (Seq r s) p k = engine r p (\<lambda>q. engine s q k)"
| "engine (Alt r s) p k = (case engine r p k of None \<Rightarrow> engine s p k | Some q \<Rightarrow> Some q)"
| "engine (Star greedy r) p k =
     (if greedy then
        (case engine r p (\<lambda>q. if length (rest q) < length (rest p) then engine (Star greedy r) q k else None) of
           None \<Rightarrow> k p | Some q \<Rightarrow> Some q)
      else
        (case k p of Some q \<Rightarrow> Some q
         | None \<Rightarrow> engine r p (\<lambda>q. if length (rest q) < length (rest p) then engine (Star greedy r) q k else None)))"
| "engine (Group n r) p k = engine r p (\<lambda>q. k (capture n p q))"
| "engine (Backref n) p k = (case backref n p of [] \<Rightarrow> None | q # _ \<Rightarrow> k q)"
| "engine (Ahead r) p k = (case engine r p Some of None \<Rightarrow> None | Some q \<Rightarrow> k (Place (behind p) (rest p) (captured q)))"
| "engine Text_Start p k = (if behind p = [] then k p else None)"
| "engine Line_Start p k = (if behind p = [] \<or> hd (behind p) = CHR 0x0A then k p else None)"
| "engine Line_End p k = (if rest p = [] \<or> hd (rest p) = CHR 0x0A then k p else None)"
| "engine Text_End p k = (if rest p = [] \<or> rest p = [CHR 0x0A] then k p else None)"
| "engine Boundary p k = (if starts_word (behind p) \<noteq> starts_word (rest p) then k p else None)"
  by pat_completeness auto
termination
  by (relation "measures [\<lambda>(r, _, _). size r, \<lambda>(_, p, _). length (rest p)]") auto

declare engine.simps(5) [simp del]

fun first_some :: "('a \<Rightarrow> 'b option) \<Rightarrow> 'a list \<Rightarrow> 'b option" where
  "first_some k [] = None"
| "first_some k (q # qs) = (case k q of None \<Rightarrow> first_some k qs | Some x \<Rightarrow> Some x)"

lemma first_some_append: "first_some k (xs @ ys) = (case first_some k xs of None \<Rightarrow> first_some k ys | Some x \<Rightarrow> Some x)"
  by (induction xs) (auto split: option.split)

lemma first_some_concat: "first_some k (concat (map f xs)) = first_some (\<lambda>x. first_some k (f x)) xs"
  by (induction xs) (auto simp: first_some_append split: option.split)

lemma first_some_map: "first_some k (map f xs) = first_some (\<lambda>x. k (f x)) xs"
  by (induction xs) (auto split: option.split)

lemma first_some_Some: "first_some Some xs = (case xs of [] \<Rightarrow> None | x # _ \<Rightarrow> Some x)"
  by (cases xs) auto

lemma engine_run: "engine r p k = first_some k (run_regex r p)"
proof (induction r p k rule: engine.induct)
  case (3 r s p k)
  then show ?case by (simp add: first_some_concat)
next
  case (4 r s p k)
  then show ?case by (auto simp: first_some_append split: option.split)
next
  case (5 greedy r p k)
  have more: "engine r p (\<lambda>q. if length (rest q) < length (rest p) then engine (Star greedy r) q k else None) =
      first_some k (concat (map (\<lambda>q. if length (rest q) < length (rest p) then star greedy (run_regex r) q else []) (run_regex r p)))"
    if "greedy \<or> k p = None"
    using 5 that by (cases greedy) (auto simp: first_some_concat intro!: arg_cong [where f = "\<lambda>k. first_some k (run_regex r p)"])
  show ?case
  proof (cases greedy)
    case True
    then have greedy: "greedy = True" by simp
    show ?thesis using more unfolding greedy
      by (simp add: engine.simps(5) star.simps [of _ "run_regex r" p] first_some_append split: option.split)
  next
    case False
    then have greedy: "greedy = False" by simp
    show ?thesis using more unfolding greedy
      by (cases "k p") (simp_all add: engine.simps(5) star.simps [of _ "run_regex r" p])
  qed
next
  case (7 n p k)
  show ?case by (auto simp: backref_def split: option.split)
next
  case (8 r p k)
  then show ?case by (auto simp: first_some_Some split: list.split option.split)
qed (auto simp: one_def here_if_def first_some_map split: list.split option.split)

lemma first_found_engine: "first_found p (run_regex r p) = map_option (found_at p) (engine r p Some)"
  by (simp add: first_found_def engine_run first_some_Some split: list.split)

end
