(* ===== verification/Cli_Helpers.thy ===== *)
theory Cli_Helpers
  imports Lifecycle_Scenario Library_Features Py_Regex
begin

text \<open>
  The helpers the scenarios on the command line share: \<open>_equal\<close>, \<open>_commit\<close>, \<open>_refs\<close> and the others of
  \<open>cli_management_scenarios.py\<close>, \<open>_state\<close> and \<open>_clear\<close> of \<open>install_option_scenarios.py\<close>, and the values
  of the fixture the scenarios name. What returns has been observed: the last lemmas say which command
  printed it.
\<close>

section \<open>File URIs\<close>

text \<open>\<open>Path.as_uri\<close>: the path's UTF-8 bytes, all but the unreserved ones and the slash as \<open>%XX\<close>.\<close>

definition unreserved :: "char \<Rightarrow> bool" where
  "unreserved c \<longleftrightarrow> is_lower c \<or> is_upper c \<or> isdigit c \<or> c \<in> set ''_.-~/''"

definition upper_hex :: "nat \<Rightarrow> char" where
  "upper_hex n = (if n < 10 then char_of (48 + n) else char_of (55 + n))"

definition percent_byte :: "nat \<Rightarrow> string" where
  "percent_byte n = [CHR ''%'', upper_hex (n div 16), upper_hex (n mod 16)]"

definition quote_char :: "char \<Rightarrow> string" where
  "quote_char c = (if unreserved c then [c]
     else if code c < 128 then percent_byte (code c)
     else percent_byte (192 + code c div 64) @ percent_byte (128 + code c mod 64))"

definition as_uri :: "string \<Rightarrow> string result" where
  "as_uri path = (if is_absolute (path_of path)
     then Inr (''file://'' @ concat (map quote_char (path_str (path_of path))))
     else raise ValueError (''relative path can'' @ [CHR 0x27] @ ''t be expressed as a file URI''))"

section \<open>Values of the fixture\<close>

text \<open>\<open>fixture.get(key)\<close> of an optional part.\<close>

definition required_part :: "pyval \<Rightarrow> string \<Rightarrow> string \<Rightarrow> pyval prog" where
  "required_part fixture key message = (if has fixture key then ret (fld fixture key) else raiseP PrerequisiteError message)"

definition in_fixture :: "pyval \<Rightarrow> string \<Rightarrow> string prog" where
  "in_fixture fixture relative = bindP (text_item fixture [''directory'']) (\<lambda>root. ret (file_in root relative))"

definition uri_in_fixture :: "pyval \<Rightarrow> string \<Rightarrow> string prog" where
  "uri_in_fixture fixture relative = bindP (in_fixture fixture relative) (\<lambda>path. liftP (as_uri path))"

text \<open>\<open>versions[version]["repo"]\<close> as a URI, and \<open>versions[version]["refs"][ref]["commit"]\<close>.\<close>

definition query_source :: "pyval \<Rightarrow> pyval \<Rightarrow> string \<Rightarrow> string prog" where
  "query_source fixture queries version =
     bindP (text_item queries [''versions'', version, ''repo'']) (\<lambda>repo. uri_in_fixture fixture repo)"

definition query_commit :: "pyval \<Rightarrow> string \<Rightarrow> string \<Rightarrow> string prog" where
  "query_commit queries version ref = text_item queries [''versions'', version, ''refs'', ref, ''commit'']"

definition named_ref :: "string \<Rightarrow> string \<Rightarrow> string \<Rightarrow> string \<Rightarrow> string" where
  "named_ref kind identity arch branch = kind @ ''/'' @ identity @ ''/'' @ arch @ ''/'' @ branch"

text \<open>\<open>ref.split("/", 1)[1]\<close>.\<close>

definition short_ref :: "string \<Rightarrow> string prog" where
  "short_ref ref = (case split_first (CHR ''/'') ref of
     [_, tail] \<Rightarrow> ret tail | _ \<Rightarrow> raiseP IndexError ''list index out of range'')"

section \<open>Comparisons\<close>

text \<open>The order in which a set's representation lists its elements is unspecified; it is sorted here.\<close>

definition repr_set :: "string list \<Rightarrow> string" where
  "repr_set xs = (if xs = [] then ''set()'' else ''{'' @ join '', '' (map repr_str (sorted_set xs)) @ ''}'')"

definition differs :: "string \<Rightarrow> string \<Rightarrow> string \<Rightarrow> string" where
  "differs context expected actual = context @ '': expected '' @ expected @ '', got '' @ actual"

definition equal_text :: "driver \<Rightarrow> string \<Rightarrow> string \<Rightarrow> string \<Rightarrow> unit prog" where
  "equal_text d actual expected context = check d (actual = expected) (differs context (repr_str expected) (repr_str actual))"

definition equal_list :: "driver \<Rightarrow> string list \<Rightarrow> string list \<Rightarrow> string \<Rightarrow> unit prog" where
  "equal_list d actual expected context =
     check d (actual = expected) (differs context (repr_strings expected) (repr_strings actual))"

definition equal_set :: "driver \<Rightarrow> string list \<Rightarrow> string list \<Rightarrow> string \<Rightarrow> unit prog" where
  "equal_set d actual expected context =
     check d (set actual = set expected) (differs context (repr_set expected) (repr_set actual))"

definition repr_pairs :: "(string \<times> string) list \<Rightarrow> string" where
  "repr_pairs ps = ''{'' @ join '', '' (map (\<lambda>(k, v). repr_str k @ '': '' @ repr_str v) ps) @ ''}''"

section \<open>Commands\<close>

definition cli :: "driver \<Rightarrow> string list \<Rightarrow> unit prog" where
  "cli d arguments = ignore (cli_success d arguments)"

definition installed_commit :: "driver \<Rightarrow> string \<Rightarrow> string \<Rightarrow> unit prog" where
  "installed_commit d ref commit =
     bindP (cli_success d [''info'', ''--user'', ''--show-ref'', ''--show-commit'', ref]) (\<lambda>output.
     equal_list d (split_ws output) [ref, commit] ''installed ref and commit'')"

definition installed_refs :: "driver \<Rightarrow> string list \<Rightarrow> string list prog" where
  "installed_refs d options = bindP (cli_success d ([''list'', ''--user'', ''--columns=ref''] @ options))
     (\<lambda>output. ret (splitlines output))"

definition install_ref :: "driver \<Rightarrow> string \<Rightarrow> string list \<Rightarrow> unit prog" where
  "install_ref d ref options = cli d ([''install'', ''--user'', ''--noninteractive''] @ options @ [''fixture'', ref])"

definition update_refs :: "driver \<Rightarrow> string list \<Rightarrow> unit prog" where
  "update_refs d options = cli d ([''update'', ''--user'', ''--noninteractive''] @ options)"

definition uninstall_refs :: "driver \<Rightarrow> string list \<Rightarrow> unit prog" where
  "uninstall_refs d options = cli d ([''uninstall'', ''--user'', ''--noninteractive''] @ options)"

definition remote_refs :: "driver \<Rightarrow> string list \<Rightarrow> string list prog" where
  "remote_refs d options = bindP (cli_success d ([''remote-ls'', ''--user'', ''--columns=ref''] @ options @ [''fixture'']))
     (\<lambda>output. ret (splitlines output))"

definition refs_are :: "driver \<Rightarrow> string list \<Rightarrow> string list \<Rightarrow> string \<Rightarrow> unit prog" where
  "refs_are d options expected context = bindP (installed_refs d options) (\<lambda>rs. equal_set d rs expected context)"

definition remote_refs_are :: "driver \<Rightarrow> string list \<Rightarrow> string list \<Rightarrow> string \<Rightarrow> unit prog" where
  "remote_refs_are d options expected context = bindP (remote_refs d options) (\<lambda>rs. equal_set d rs expected context)"

definition prints :: "driver \<Rightarrow> string list \<Rightarrow> string \<Rightarrow> string \<Rightarrow> unit prog" where
  "prints d arguments expected context = bindP (cli_success d arguments) (\<lambda>output. equal_text d output expected context)"

definition fails :: "driver \<Rightarrow> string list \<Rightarrow> string \<Rightarrow> unit prog" where
  "fails d arguments message = bindP (cli_call d arguments) (\<lambda>c. check d (returncode c \<noteq> 0) message)"

section \<open>The exact state\<close>

text \<open>\<open>_state\<close>: the refs listed are the short forms of the expected ones, each once, and every one is
  queried at its commit.\<close>

definition expect_state :: "driver \<Rightarrow> (string \<times> string) list \<Rightarrow> unit prog" where
  "expect_state d expected =
     bindP (cli_success d [''list'', ''--user'', ''--all'', ''--columns=ref'']) (\<lambda>output.
     let rows = splitlines output in
     bindP (mapP short_ref (map fst expected)) (\<lambda>short. let short = sorted_set short in
     thenP (check d (length rows = length short \<and> set rows = set short)
       (''exact installed refs: expected '' @ repr_strings short @ '', got '' @ repr_strings rows))
     (forP (sort_key fst expected) (\<lambda>(ref, commit). ignore (query d ref (Some commit))))))"

definition clear_all :: "driver \<Rightarrow> unit prog" where
  "clear_all d = thenP (cli d [''uninstall'', ''--user'', ''--noninteractive'', ''--all'']) (expect_state d [])"

section \<open>The audit trail\<close>

lemma audited_part [audits]: "keeps audited (required_part fixture key message)"
  by (simp add: required_part_def audits)

lemma audited_short [audits]: "keeps audited (short_ref ref)"
  unfolding short_ref_def by (auto simp: audits split: list.split)

lemma audited_helpers [audits]:
  "keeps audited (in_fixture fixture relative)" "keeps audited (uri_in_fixture fixture relative)"
  "keeps audited (query_source fixture queries version)" "keeps audited (query_commit queries version ref)"
  "keeps audited (equal_text d a b context)" "keeps audited (equal_list d as bs context)"
  "keeps audited (equal_set d as bs context)" "keeps audited (cli d arguments)"
  "keeps audited (installed_commit d ref commit)" "keeps audited (installed_refs d options)"
  "keeps audited (install_ref d ref options)" "keeps audited (update_refs d options)"
  "keeps audited (uninstall_refs d options)" "keeps audited (remote_refs d options)"
  "keeps audited (refs_are d options expected context)" "keeps audited (remote_refs_are d options expected context)"
  "keeps audited (prints d arguments e context)" "keeps audited (fails d arguments e)"
  "keeps audited (expect_state d state)" "keeps audited (clear_all d)"
  unfolding in_fixture_def uri_in_fixture_def query_source_def query_commit_def equal_text_def equal_list_def equal_set_def
    cli_def installed_commit_def installed_refs_def install_ref_def update_refs_def uninstall_refs_def remote_refs_def
    refs_are_def remote_refs_are_def prints_def fails_def clear_all_def expect_state_def
  by (intro audits)+

end
