(* ===== verification/Management_Scenarios.thy ===== *)
theory Management_Scenarios
  imports Cli_Helpers
begin

text \<open>
  \<open>cli_management_scenarios.py\<close>: the contracts of the management commands, each observed by later
  queries of separate processes. Two things are arguments: \<open>ini\<close>, the standard library's
  \<open>ConfigParser.read_string\<close> as the sections with their options, and \<open>http\<close>, the variant of the
  description reinstall that runs a repository server of its own.
\<close>

section \<open>Competing architectures and branches\<close>

definition point_to :: "driver \<Rightarrow> pyval \<Rightarrow> pyval \<Rightarrow> string \<Rightarrow> unit prog" where
  "point_to d fixture queries version = bindP (query_source fixture queries version)
     (\<lambda>uri. cli d [''remote-modify'', ''--user'', ''--url='' @ uri, ''fixture''])"

definition at_version :: "driver \<Rightarrow> pyval \<Rightarrow> string \<Rightarrow> string \<Rightarrow> unit prog" where
  "at_version d queries version ref = bindP (query_commit queries version ref) (installed_commit d ref)"

definition distinct_commits :: "driver \<Rightarrow> pyval \<Rightarrow> string \<Rightarrow> string \<Rightarrow> unit prog" where
  "distinct_commits d queries fixture_name ref =
     bindP (query_commit queries ''A'' ref) (\<lambda>a. bindP (query_commit queries ''B'' ref) (\<lambda>b.
     check d (a \<noteq> b) (fixture_name @ '' fixture must have distinct A/B commits for '' @ ref)))"

definition shown_commits :: "driver \<Rightarrow> string list \<Rightarrow> (string \<times> string) list prog" where
  "shown_commits d refs = mapP (\<lambda>ref. bindP (cli_success d [''info'', ''--user'', ''--show-commit'', ref])
     (\<lambda>commit. ret (ref, commit))) refs"

definition commits_at :: "pyval \<Rightarrow> string \<Rightarrow> string list \<Rightarrow> (string \<times> string) list prog" where
  "commits_at queries version refs = mapP (\<lambda>ref. bindP (query_commit queries version ref) (\<lambda>c. ret (ref, c))) refs"

definition commits_are :: "driver \<Rightarrow> pyval \<Rightarrow> string \<Rightarrow> string list \<Rightarrow> (string \<times> string) list \<Rightarrow> string \<Rightarrow> unit prog" where
  "commits_are d queries version refs actual context = bindP (commits_at queries version refs) (\<lambda>expected.
     check d (actual = expected) (differs context (repr_pairs expected) (repr_pairs actual)))"

definition update_to_and_back :: "driver \<Rightarrow> pyval \<Rightarrow> string \<Rightarrow> unit prog" where
  "update_to_and_back d queries ref = steps [
     update_refs d [ref],
     at_version d queries ''B'' ref,
     bindP (query_commit queries ''A'' ref) (\<lambda>a. update_refs d [''--commit='' @ a, ref])]"

definition update_ambiguous :: "driver \<Rightarrow> pyval \<Rightarrow> pyval \<Rightarrow> unit prog" where
  "update_ambiguous d fixture queries =
     (let identity = text_at queries ''extension'';
          refs = map (named_ref ''runtime'' identity (text_at fixture ''arch'')) [''test'', ''next''] in
      steps [
        forP refs (\<lambda>ref. steps [distinct_commits d queries ''ambiguous update'' ref, install_ref d ref [],
          at_version d queries ''A'' ref]),
        point_to d fixture queries ''B'',
        forP refs (\<lambda>ref. bindP (cli_success d [''remote-info'', ''--user'', ''--show-commit'', ''fixture'', ref])
          (\<lambda>shown. bindP (query_commit queries ''B'' ref) (\<lambda>b. equal_text d shown b ''available update''))),
        forP refs (update_to_and_back d queries),
        forP refs (at_version d queries ''A''),
        bindP (cli_call d [''update'', ''--user'', ''--noninteractive'', identity]) (\<lambda>result.
          bindP (shown_commits d refs) (\<lambda>commits. steps [
            check d (returncode result \<noteq> 0) (''ambiguous update must fail: exit='' @ show_int (returncode result) @
              '', stdout='' @ repr_str (stdout result) @ '', stderr='' @ repr_str (stderr result) @
              '', commits='' @ repr_pairs commits),
            forP refs (\<lambda>ref. check d (contains (removeprefix ref ''runtime/'') (stderr result))
              (''ambiguity diagnostic must list '' @ ref)),
            commits_are d queries ''A'' refs commits ''ambiguous update preserves both installed commits''])),
        cli d [''update'', ''--user'', ''--noninteractive''],
        bindP (shown_commits d refs) (\<lambda>commits.
          commits_are d queries ''B'' refs commits ''update without a REF advances both eligible installed branches'')])"

definition update_everything :: "driver \<Rightarrow> pyval \<Rightarrow> pyval \<Rightarrow> string list \<Rightarrow> unit prog" where
  "update_everything d fixture queries refs = steps [
     forP refs (\<lambda>ref. steps [distinct_commits d queries ''update-all'' ref, install_ref d ref []]),
     forP refs (at_version d queries ''A''),
     installed_commit d (runtime_of fixture) (text_at fixture ''runtime_commit''),
     point_to d fixture queries ''B'',
     update_refs d [],
     forP refs (at_version d queries ''B''),
     installed_commit d (runtime_of fixture) (text_at fixture ''runtime_commit'')]"

definition query_fields :: "driver \<Rightarrow> pyval \<Rightarrow> pyval \<Rightarrow> string \<Rightarrow> unit prog" where
  "query_fields d fixture queries app = steps [
     install_ref d app [],
     prints d [''info'', ''--user'', ''--show-permissions'', app] ''[Context]\<newline>shared=network;'' ''declared permissions'',
     bindP (bindP (text_item queries [''versions'', ''A'', ''refs'', app, ''metadata'']) (in_fixture fixture)) (\<lambda>metadata.
       bindP (cli_success d [''remote-info'', ''--user'', ''--show-metadata'', ''fixture'', app]) (\<lambda>shown.
       bindP (read_text metadata) (\<lambda>content.
       equal_text d shown (strip content) ''remote metadata equals independent reference-exported bytes''))),
     point_to d fixture queries ''B'',
     bindP (cli_success d [''remote-info'', ''--user'', ''--show-parent'', ''fixture'', app]) (\<lambda>shown.
       bindP (query_commit queries ''A'' app) (\<lambda>a. equal_text d shown a ''B parent is reference A commit''))]"

definition shows_at :: "driver \<Rightarrow> pyval \<Rightarrow> string list \<Rightarrow> string \<Rightarrow> string \<Rightarrow> unit prog" where
  "shows_at d queries arguments ref context = bindP (cli_success d arguments) (\<lambda>output.
     bindP (query_commit queries ''A'' ref) (\<lambda>a. equal_list d (split_ws output) [ref, a] context))"

text \<open>The two copies of one application, of the native and of a foreign architecture.\<close>

record copies =
  native_ref :: string
  foreign_ref :: string
  foreign_arch :: string
  copy_id :: string

definition installed_copies :: "driver \<Rightarrow> pyval \<Rightarrow> pyval \<Rightarrow> copies \<Rightarrow> string \<Rightarrow> unit prog" where
  "installed_copies d fixture queries k name =
     (let short = (\<lambda>ref. removeprefix ref ''app/''); arch = text_at fixture ''arch'';
          extension = named_ref ''runtime'' (text_at queries ''extension'') arch ''test'' in
      if name = ''management-installed-arch'' then steps [
        refs_are d [''--arch='' @ foreign_arch k] [short (foreign_ref k)] ''foreign list excludes native'',
        refs_are d [''--arch='' @ arch] [short (native_ref k)] ''native list excludes foreign'',
        shows_at d queries [''info'', ''--user'', ''--arch='' @ foreign_arch k, ''--show-ref'', ''--show-commit'', copy_id k]
          (foreign_ref k) ''info chooses foreign copy over native default'']
      else if name = ''management-uninstall-arch'' then steps [
        uninstall_refs d [''--arch='' @ foreign_arch k, copy_id k],
        refs_are d [] [short (native_ref k)] ''architecture-limited uninstall retains native copy'',
        at_version d queries ''A'' (native_ref k)]
      else if name = ''management-update-arch'' then steps [
        point_to d fixture queries ''B'',
        update_refs d [''--no-deps'', ''--arch='' @ foreign_arch k, copy_id k],
        at_version d queries ''B'' (foreign_ref k),
        at_version d queries ''A'' (native_ref k)]
      else if name = ''management-update-kinds'' then steps [
        install_ref d extension [],
        point_to d fixture queries ''B'',
        update_refs d [''--runtime'', ''--no-deps''],
        at_version d queries ''B'' extension,
        at_version d queries ''A'' (native_ref k),
        bindP (query_commit queries ''A'' extension) (\<lambda>a. update_refs d [''--commit='' @ a, extension]),
        update_refs d [''--app'', ''--no-deps''],
        at_version d queries ''B'' (native_ref k),
        at_version d queries ''A'' extension]
      else if name = ''management-update-no-deps'' then steps [
        point_to d fixture queries ''B'',
        update_refs d [''--no-deps'', native_ref k],
        at_version d queries ''B'' (native_ref k),
        fails d [''info'', ''--user'', runtime_of fixture] ''update no-deps leaves required available runtime absent'']
      else raiseP ValueError (''unknown rich management case: '' @ name))"

definition rich :: "driver \<Rightarrow> pyval \<Rightarrow> string \<Rightarrow> unit prog" where
  "rich d fixture name =
     bindP (liftP (getitem fixture ''queries'')) (\<lambda>queries.
     bindP (query_source fixture queries ''A'') (\<lambda>url.
     thenP (cli d [''remote-add'', ''--user'', ''--no-gpg-verify'', ''fixture'', url])
    (let arch = text_at fixture ''arch''; foreign = text_at queries ''foreign_arch''; second = text_at queries ''second'';
         native = named_ref ''app'' second arch ''test''; other = named_ref ''app'' second foreign ''test'';
         app = named_ref ''app'' (text_at queries ''app'') arch ''test'' in
     if name = ''management-update-ambiguous'' then update_ambiguous d fixture queries
     else if name = ''management-update-all'' then update_everything d fixture queries
       [app, native, named_ref ''runtime'' (text_at queries ''extension'') arch ''next'']
     else if name = ''management-install-arch'' then steps [
       install_ref d second [''--no-deps'', ''--arch='' @ foreign],
       refs_are d [] [removeprefix other ''app/''] ''foreign architecture selected over available native app'',
       at_version d queries ''A'' other]
     else if name = ''management-query-fields'' then query_fields d fixture queries app
     else if name = ''management-remote-info-arch'' then
       shows_at d queries [''remote-info'', ''--user'', ''--arch='' @ foreign, ''--show-ref'', ''--show-commit'', ''fixture'', second]
         other ''foreign remote ref selected rather than native alternative''
     else steps [
       forP [native, other] (\<lambda>ref. steps [install_ref d ref [''--no-deps''], at_version d queries ''A'' ref]),
       installed_copies d fixture queries
         \<lparr>native_ref = native, foreign_ref = other, foreign_arch = foreign, copy_id = second\<rparr> name])))"

section \<open>Remote properties\<close>

definition property_fields :: "string list" where
  "property_fields = [''comment'', ''description'', ''homepage'', ''icon'']"

definition first_properties :: "string list" where
  "first_properties = [''First comment'', ''First description'', ''https://first.invalid/home'',
     ''https://first.invalid/icon.png'']"

definition second_properties :: "string list" where
  "second_properties = [''Revised comment'', ''Revised description'', ''https://second.invalid/home'',
     ''https://second.invalid/icon.png'']"

definition property_option :: "string \<times> string \<Rightarrow> string" where
  "property_option fv = ''--'' @ fst fv @ ''='' @ snd fv"

definition properties_are :: "driver \<Rightarrow> string list \<Rightarrow> string \<Rightarrow> unit prog" where
  "properties_are d expected context =
     bindP (cli_success d [''remotes'', ''--user'', ''--columns='' @ join '','' property_fields])
       (\<lambda>output. equal_list d (split_on tab output) expected context)"

definition options_mark :: "driver \<Rightarrow> bool \<Rightarrow> (string \<Rightarrow> string) \<Rightarrow> unit prog" where
  "options_mark d present message = bindP (cli_success d [''remotes'', ''--user'', ''--columns=options'']) (\<lambda>options.
     check d ((''no-enumerate'' \<in> set (split_on (CHR '','') options)) = present) (message (repr_str options)))"

definition remote_options :: "driver \<Rightarrow> string \<Rightarrow> string \<Rightarrow> unit prog" where
  "remote_options d url name = (if name = ''management-remote-properties'' then steps [
       cli d ([''remote-add'', ''--user'', ''--no-gpg-verify''] @
         map property_option (zip property_fields first_properties) @ [''fixture'', url]),
       properties_are d first_properties ''remote-add rich properties persist'',
       forP (zip property_fields second_properties) (\<lambda>fv.
         cli d [''remote-modify'', ''--user'', property_option fv, ''fixture'']),
       properties_are d second_properties ''remote-modify rich properties persist'']
     else steps [
       cli d [''remote-add'', ''--user'', ''--no-gpg-verify'', ''--no-enumerate'', ''fixture'', url],
       options_mark d True (\<lambda>v. ''added --no-enumerate absent from options '' @ v),
       cli d [''remote-modify'', ''--user'', ''--enumerate'', ''fixture''],
       options_mark d False (\<lambda>v. ''--enumerate did not clear '' @ v),
       cli d [''remote-modify'', ''--user'', ''--no-enumerate'', ''fixture''],
       options_mark d True (\<lambda>v. ''modified --no-enumerate absent from '' @ v)])"

section \<open>Reinstalling from a description\<close>

definition reinstall_step :: "driver \<Rightarrow> pyval \<Rightarrow> string \<Rightarrow> string \<Rightarrow> string list \<Rightarrow> string \<Rightarrow> string list prog" where
  "reinstall_step d fixture source origin failures version =
     (let app = app_of fixture ''''; runtime = runtime_of fixture in
      thenP (serve_version version)
     (bindP (cli_call d [''install'', ''--user'', ''--noninteractive'', ''--reinstall'', source]) (\<lambda>result.
      bindP (cli_success d [''info'', ''--user'', ''--show-commit'', app]) (\<lambda>shown.
      bindP (text_item fixture [''commits'', version]) (\<lambda>commit.
      thenP (installed_commit d runtime (text_at fixture ''runtime_commit''))
     (thenP (refs_are d [] [removeprefix app ''app/'', removeprefix runtime ''runtime/'']
        ''description reinstall preserves exact installed refs'')
     (thenP (prints d [''info'', ''--user'', ''--show-origin'', app] origin ''description reinstall preserves origin'')
       (ret (if returncode result \<noteq> 0 \<or> shown \<noteq> commit
         then failures @ [version @ '': exit='' @ show_int (returncode result) @ '', commit='' @ shown @
           '', stderr='' @ repr_str (strip (stderr result))]
         else failures)))))))))"

definition flatpakref_reinstall :: "driver \<Rightarrow> string \<Rightarrow> pyval \<Rightarrow> unit prog" where
  "flatpakref_reinstall d url fixture =
     (let app = app_of fixture ''''; path = file_in (driver_root d) ''descriptions/A/app.flatpakref'' in
      thenP (make_directory (file_in (driver_root d) ''descriptions/A''))
     (thenP (write_text path (''[Flatpak Ref]\<newline>Name='' @ text_at fixture ''app'' @ ''\<newline>Branch='' @ text_at fixture ''branch'' @
        ''\<newline>Url='' @ url @ ''\<newline>IsRuntime=false\<newline>''))
     (thenP (cli d [''install'', ''--user'', ''--noninteractive'', path])
     (bindP (text_item fixture [''commits'', ''A'']) (\<lambda>a.
      thenP (installed_commit d app a)
     (thenP (installed_commit d (runtime_of fixture) (text_at fixture ''runtime_commit''))
     (bindP (cli_success d [''info'', ''--user'', ''--show-origin'', app]) (\<lambda>origin.
      bindP (foldP (reinstall_step d fixture path origin) [] [''A'', ''B'']) (\<lambda>failures.
      check d (failures = []) (''flatpakref reinstall failed: '' @ join ''; '' failures))))))))))"

section \<open>Remotes without an installation\<close>

definition remote_dependencies :: "driver \<Rightarrow> string \<Rightarrow> pyval \<Rightarrow> string \<Rightarrow> unit prog" where
  "remote_dependencies d url fixture a =
     (let app = app_of fixture ''''; path = file_in (driver_root d) ''app-only.filter'' in steps [
        write_text path (''deny *\<newline>allow '' @ app @ ''\<newline>''),
        cli d [''remote-add'', ''--user'', ''--no-gpg-verify'', ''--filter='' @ path, ''fixture'', url],
        cli d [''remote-add'', ''--user'', ''--no-gpg-verify'', ''--no-use-for-deps'', ''dependency'', url],
        forP [''add'', ''modify''] (\<lambda>phase. steps [
          bindP (cli_call d [''install'', ''--user'', ''--noninteractive'', ''fixture'', app]) (\<lambda>failure.
            check d (returncode failure \<noteq> 0 \<and> contains (text_at fixture ''runtime'') (stderr failure))
              (phase @ '': excluded dependency remote must not resolve runtime'')),
          refs_are d [] [] ''dependency resolution failure is atomic'',
          cli d [''remote-modify'', ''--user'', ''--use-for-deps'', ''dependency''],
          install_ref d app [],
          installed_commit d app a,
          installed_commit d (runtime_of fixture) (text_at fixture ''runtime_commit''),
          uninstall_refs d [''--all''],
          cli d [''remote-modify'', ''--user'', ''--no-use-for-deps'', ''dependency'']])])"

definition persistent_languages :: "driver \<Rightarrow> unit prog" where
  "persistent_languages d = forP [''de;fr'', ''ja;en''] (\<lambda>value. steps [
     cli d [''config'', ''--user'', ''--set'', ''languages'', value],
     prints d [''config'', ''--user'', ''--get'', ''languages''] value ''languages persists across processes''])"

definition remote_columns :: "string list" where
  "remote_columns = [''remotes'', ''--user'', ''--columns=name,url,title,priority'']"

definition requested :: "string \<Rightarrow> dict \<Rightarrow> bool" where
  "requested path r \<longleftrightarrow> get_default r ''path'' PNone = PStr path"

definition duplicate_description :: "driver \<Rightarrow> string \<Rightarrow> unit prog" where
  "duplicate_description d url =
     (let missing = ''/unavailable.flatpakrepo''; count = readP (\<lambda>s. length (requests (repository s))) in
      bindP (cli_success d remote_columns) (\<lambda>before.
      bindP count (\<lambda>start.
      bindP (cli_call d [''remote-add'', ''--user'', ''--if-not-exists'', ''fresh'', url @ missing]) (\<lambda>control.
      bindP (requests_since start) (\<lambda>rs.
      thenP (check d (0 < returncode control \<and> list_ex (requested missing) rs)
        ''fresh remote control must fetch and reject the unavailable description'')
     (thenP (prints d remote_columns before ''failed description control leaves sentinel unchanged'')
     (bindP count (\<lambda>start.
      bindP (cli_call d [''remote-add'', ''--user'', ''--if-not-exists'', ''fixture'', url @ missing]) (\<lambda>result.
      bindP (requests_since start) (\<lambda>rs. let fetched = filter (requested missing) rs in
      bindP (cli_success d remote_columns) (\<lambda>after.
      thenP (equal_text d after before ''duplicate description preserves remote properties'')
        (check d (returncode result = 0 \<and> fetched = [])
          (''existing remote must not need its unavailable description: exit='' @ show_int (returncode result) @
           '', requests='' @ show_nat (length fetched) @ '', stderr='' @ repr_str (strip (stderr result)))))))))))))))"

definition excluded_kinds :: "driver \<Rightarrow> pyval \<Rightarrow> string \<Rightarrow> unit prog" where
  "excluded_kinds d fixture command =
     forP [(''--app'', text_at fixture ''runtime''), (''--runtime'', text_at fixture ''app'')] (\<lambda>(option, excluded). steps [
       bindP (cli_call d ([command, ''--user''] @ (if command = ''install'' then [''--noninteractive''] else [''--show-ref'']) @
           [option, ''fixture'', excluded])) (\<lambda>result.
         check d (returncode result \<noteq> 0 \<and> contains excluded (stderr result))
           (command @ '' '' @ option @ '' must exclude '' @ excluded @ '': '' @ stderr result)),
       refs_are d [] [] ''excluded kind cannot install refs''])"

definition unsigned_remote :: "driver \<Rightarrow> string \<Rightarrow> string \<Rightarrow> unit prog" where
  "unsigned_remote d app a = steps [
     cli d [''remote-modify'', ''--user'', ''--gpg-verify'', ''fixture''],
     bindP (cli_call d [''install'', ''--user'', ''--noninteractive'', ''fixture'', app]) (\<lambda>failure.
       check d (returncode failure \<noteq> 0 \<and> contains ''signature'' (lower (stderr failure)))
         (''unsigned source must fail verification: '' @ stderr failure)),
     refs_are d [] [] ''verification failure leaves no deployment'',
     cli d [''remote-modify'', ''--user'', ''--no-gpg-verify'', ''fixture''],
     install_ref d app [],
     installed_commit d app a]"

definition duplicate_remote :: "driver \<Rightarrow> string \<Rightarrow> unit prog" where
  "duplicate_remote d url = steps [
     cli d [''remote-add'', ''--user'', ''--if-not-exists'', ''--no-gpg-verify'', ''--title=Replacement title'', ''--prio=99'',
       ''fixture'', url @ ''/wrong''],
     bindP (cli_success d remote_columns) (\<lambda>output.
       equal_list d (split_on tab output) [''fixture'', url, ''Original title'', ''17''] ''duplicate preserves properties'')]"

definition repository_description :: "driver \<Rightarrow> string \<Rightarrow> unit prog" where
  "repository_description d url =
     (let path = file_in (driver_root d) ''management.flatpakrepo'' in steps [
        write_text path (''[Flatpak Repo]\<newline>Title=Description title\<newline>Url='' @ url @ ''/\<newline>''),
        cli d [''remote-add'', ''--user'', ''--no-gpg-verify'', ''--from'', ''description'', path],
        bindP (cli_success d [''remotes'', ''--user'', ''--columns=name,url,title'']) (\<lambda>output.
          let rows = splitlines output in
          check d (''description'' @ tab # url @ ''/'' @ tab # ''Description title'' \<in> set rows)
            (''description properties missing: '' @ repr_strings rows))])"

definition filtered_remote :: "driver \<Rightarrow> string \<Rightarrow> pyval \<Rightarrow> bool \<Rightarrow> unit prog" where
  "filtered_remote d url fixture replace =
     (let app = app_of fixture ''''; runtime = runtime_of fixture;
          path = file_in (driver_root d) ''management.filter'';
          replacement = file_in (driver_root d) ''replacement.filter'';
          description = file_in (driver_root d) ''replacement.flatpakrepo'';
          describe = cli d [''remote-add'', ''--user'', ''--if-not-exists'', ''--no-gpg-verify'', ''--from'', ''fixture'', description] in
      steps [
        write_text path (''deny *\<newline>allow '' @ runtime @ ''\<newline>''),
        cli d [''remote-modify'', ''--user'', ''--filter='' @ path, ''fixture''],
        remote_refs_are d [] [runtime] ''allow overrides deny while app stays hidden'',
        bindP (cli_call d [''install'', ''--user'', ''--noninteractive'', ''fixture'', app]) (\<lambda>denied.
          check d (returncode denied \<noteq> 0 \<and> contains (text_at fixture ''app'') (stderr denied))
            ''filtered application must not be installable''),
        refs_are d [] [] ''denied install leaves no deployments'',
        install_ref d runtime [],
        installed_commit d runtime (text_at fixture ''runtime_commit''),
        (if replace then steps [
           write_text replacement (''deny *\<newline>allow '' @ app @ ''\<newline>''),
           write_text description (''[Flatpak Repo]\<newline>Url='' @ url @ ''\<newline>Filter='' @ replacement @ ''\<newline>''),
           describe,
           remote_refs_are d [] [app] ''description replaces previous filter'',
           write_text description (''[Flatpak Repo]\<newline>Url='' @ url @ ''\<newline>''),
           describe]
         else cli d [''remote-modify'', ''--user'', ''--no-filter'', ''fixture'']),
        remote_refs_are d [] [app, runtime] ''clearing filter restores both refs''])"

definition available_refs :: "driver \<Rightarrow> pyval \<Rightarrow> unit prog" where
  "available_refs d fixture =
     (let app = app_of fixture ''''; runtime = runtime_of fixture in steps [
        refs_are d [] [] ''remote queries start without deployments'',
        remote_refs_are d [] [app, runtime] ''all available refs'',
        remote_refs_are d [''--app''] [app] ''remote app filter'',
        remote_refs_are d [''--runtime''] [runtime] ''remote runtime filter'',
        remote_refs_are d [''--arch='' @ text_at fixture ''arch''] [app, runtime] ''matching architecture'',
        remote_refs_are d [''--arch=nonexistent''] [] ''absent architecture''])"

definition flatpakref_install :: "driver \<Rightarrow> string \<Rightarrow> pyval \<Rightarrow> string \<Rightarrow> unit prog" where
  "flatpakref_install d url fixture a =
     (let path = file_in (driver_root d) ''management.flatpakref'' in steps [
        write_text path (''[Flatpak Ref]\<newline>Name='' @ text_at fixture ''app'' @ ''\<newline>Branch='' @ text_at fixture ''branch'' @
          ''\<newline>Url='' @ url @ ''\<newline>IsRuntime=false\<newline>''),
        cli d [''install'', ''--user'', ''--noninteractive'', ''--from'', path],
        installed_commit d (app_of fixture '''') a,
        installed_commit d (runtime_of fixture) (text_at fixture ''runtime_commit'')])"

definition local_install :: "driver \<Rightarrow> pyval \<Rightarrow> string \<Rightarrow> unit prog" where
  "local_install d fixture a =
     (let app = app_of fixture '''' in steps [
        install_ref d app [''--no-deploy''],
        refs_are d [] [] ''download does not deploy app or dependency'',
        fails d [''info'', ''--user'', app] ''downloaded application is not installed'',
        serve_version ''B'',
        install_ref d app [''--no-pull''],
        installed_commit d app a,
        installed_commit d (runtime_of fixture) (text_at fixture ''runtime_commit'')])"

definition install_alone :: "driver \<Rightarrow> pyval \<Rightarrow> string \<Rightarrow> unit prog" where
  "install_alone d fixture a =
     (let app = app_of fixture '''' in steps [
        install_ref d app [''--no-deps''],
        installed_commit d app a,
        refs_are d [] [removeprefix app ''app/''] ''no-deps deploys app without runtime''])"

section \<open>Scenarios on an installed application\<close>

text \<open>The variables of \<open>run\<close>: the two refs and the two commits of the application.\<close>

record managed =
  the_app :: string
  the_runtime :: string
  commit_a :: string
  commit_b :: string
  runtime_commit :: string
  app_id :: string
  runtime_id :: string

definition short_app :: "managed \<Rightarrow> string" where
  "short_app m = removeprefix (the_app m) ''app/''"

definition short_runtime :: "managed \<Rightarrow> string" where
  "short_runtime m = removeprefix (the_runtime m) ''runtime/''"

definition app_at :: "driver \<Rightarrow> managed \<Rightarrow> string \<Rightarrow> unit prog" where
  "app_at d m commit = installed_commit d (the_app m) commit"

definition runtime_kept :: "driver \<Rightarrow> managed \<Rightarrow> unit prog" where
  "runtime_kept d m = installed_commit d (the_runtime m) (runtime_commit m)"

definition kept_ref :: "driver \<Rightarrow> managed \<Rightarrow> unit prog" where
  "kept_ref d m = steps [
     uninstall_refs d [''--keep-ref'', the_app m],
     fails d [''info'', ''--user'', the_app m] ''keep-ref still removes deployment'',
     serve_version ''B'',
     install_ref d (the_app m) [''--no-pull''],
     app_at d m (commit_a m),
     uninstall_refs d [the_app m],
     fails d [''install'', ''--user'', ''--noninteractive'', ''--no-pull'', ''fixture'', the_app m]
       ''ordinary uninstall removes the ref needed for local reinstall'']"

definition uninstalled_kind :: "driver \<Rightarrow> managed \<Rightarrow> bool \<Rightarrow> unit prog" where
  "uninstalled_kind d m apps =
     (let option = (if apps then ''--app'' else ''--runtime''); excluded = (if apps then runtime_id m else app_id m) in
      steps [
        bindP (cli_call d [''uninstall'', ''--user'', ''--noninteractive'', option, excluded]) (\<lambda>failure.
          check d (returncode failure \<noteq> 0 \<and> contains excluded (stderr failure) \<and>
            contains ''no installed refs found'' (lower (stderr failure)))
            (option @ '' must refuse to uninstall opposite kind'')),
        app_at d m (commit_a m),
        runtime_kept d m,
        (if apps then steps [
          uninstall_refs d [''--app'', app_id m],
          refs_are d [] [short_runtime m] ''app-only uninstall preserves runtime'',
          runtime_kept d m]
        else steps [
          uninstall_refs d [app_id m],
          uninstall_refs d [''--runtime'', runtime_id m],
          refs_are d [] [] ''runtime-only uninstall accepts now-unused runtime''])])"

type_synonym ini_reader = "string \<Rightarrow> (string \<times> (string \<times> string) list) list result"

definition ini_is :: "driver \<Rightarrow> ini_reader \<Rightarrow> string \<Rightarrow> string \<Rightarrow> (string \<times> string) list \<Rightarrow> string \<Rightarrow> string \<Rightarrow> unit prog" where
  "ini_is d ini ref section options sections_context options_context =
     bindP (cli_success d [''info'', ''--user'', ''--show-metadata'', ref]) (\<lambda>output.
     bindP (liftP (ini output)) (\<lambda>document.
     thenP (equal_list d (map fst document) [section] sections_context)
    (bindP (liftP (item document section)) (\<lambda>found.
     check d (map_of found = map_of options) (differs options_context (repr_pairs options) (repr_pairs found))))))"

definition installed_queries :: "driver \<Rightarrow> ini_reader \<Rightarrow> managed \<Rightarrow> unit prog" where
  "installed_queries d ini m = steps [
     refs_are d [''--app''] [short_app m] ''apps only'',
     refs_are d [''--runtime''] [short_runtime m] ''runtimes only'',
     prints d [''info'', ''--user'', ''--show-origin'', the_app m] ''fixture'' ''installed origin'',
     prints d [''info'', ''--user'', ''--show-runtime'', the_app m] (short_runtime m) ''declared runtime'',
     prints d [''info'', ''--user'', ''--show-sdk'', the_app m] (short_runtime m) ''declared SDK'',
     ini_is d ini (the_app m) ''Application'' [(''name'', app_id m), (''runtime'', short_runtime m), (''sdk'', short_runtime m),
       (''command'', ''blackbox-probe'')] ''application sections'' ''application metadata fields'',
     ini_is d ini (the_runtime m) ''Runtime'' [(''name'', runtime_id m)] ''runtime metadata sections'' ''runtime metadata fields'']"

definition file_access :: "driver \<Rightarrow> managed \<Rightarrow> unit prog" where
  "file_access d m =
     (let path = file_in (driver_root d) ''access-probe'';
          access = (\<lambda>expected context. prints d [''info'', ''--user'', ''--file-access='' @ path, the_app m] expected context) in
      steps [
        write_text path ''access probe\<newline>'',
        access ''hidden'' ''ungranted host path'',
        cli d [''override'', ''--user'', ''--filesystem='' @ path @ '':ro'', app_id m],
        access ''read-only'' ''read-only grant'',
        cli d [''override'', ''--user'', ''--filesystem='' @ path, app_id m],
        access ''read-write'' ''writable grant''])"

definition forced_delete :: "driver \<Rightarrow> managed \<Rightarrow> unit prog" where
  "forced_delete d m = steps [
     fails d [''remote-delete'', ''--user'', ''--noninteractive'', ''fixture''] ''normal remote deletion rejects installed users'',
     cli d [''remote-delete'', ''--user'', ''--force'', ''fixture''],
     prints d [''remotes'', ''--user'', ''--show-disabled'', ''--columns=name''] '''' ''force removes origin'',
     app_at d m (commit_a m),
     runtime_kept d m]"

definition unused_runtime :: "driver \<Rightarrow> managed \<Rightarrow> bool \<Rightarrow> unit prog" where
  "unused_runtime d m pinned = steps [
     prints d [''pin'', ''--user''] '''' ''dependency is initially unpinned'',
     whenP pinned (steps [
       cli d [''pin'', ''--user'', the_runtime m],
       prints d [''pin'', ''--user''] (the_runtime m) ''pin persists'']),
     uninstall_refs d [the_app m],
     refs_are d [''--app''] [] ''app removal retains no apps'',
     runtime_kept d m,
     uninstall_refs d [''--unused''],
     whenP pinned (steps [
       runtime_kept d m,
       cli d [''pin'', ''--user'', ''--remove'', the_runtime m],
       prints d [''pin'', ''--user''] '''' ''pin removed'',
       uninstall_refs d [''--unused'']]),
     refs_are d [] [] ''unused unpinned dependency removed'']"

definition local_update :: "driver \<Rightarrow> managed \<Rightarrow> unit prog" where
  "local_update d m = steps [
     update_refs d [''--no-pull'', the_app m],
     app_at d m (commit_a m),
     update_refs d [''--no-deploy'', the_app m],
     app_at d m (commit_a m),
     block_payloads True,
     update_refs d [''--no-pull'', the_app m],
     app_at d m (commit_b m)]"

definition older_commit :: "driver \<Rightarrow> managed \<Rightarrow> unit prog" where
  "older_commit d m = steps [
     update_refs d [the_app m],
     app_at d m (commit_b m),
     update_refs d [''--commit='' @ commit_a m, the_app m],
     app_at d m (commit_a m),
     prints d [''remote-info'', ''--user'', ''--show-commit'', ''fixture'', the_app m] (commit_b m) ''remote tip remains B'']"

definition disabled_remote :: "driver \<Rightarrow> managed \<Rightarrow> unit prog" where
  "disabled_remote d m = steps [
     cli d [''remote-modify'', ''--user'', ''--disable'', ''fixture''],
     prints d [''remotes'', ''--user'', ''--columns=name''] '''' ''disabled remote omitted'',
     prints d [''remotes'', ''--user'', ''--show-disabled'', ''--columns=name''] ''fixture'' ''disabled remote included'',
     update_refs d [],
     app_at d m (commit_a m),
     cli d [''remote-modify'', ''--user'', ''--enable'', ''fixture''],
     update_refs d [],
     app_at d m (commit_b m)]"

definition masked_ref :: "driver \<Rightarrow> managed \<Rightarrow> unit prog" where
  "masked_ref d m = steps [
     cli d [''mask'', ''--user'', the_app m],
     prints d [''mask'', ''--user''] (the_app m) ''mask persists'',
     update_refs d [],
     app_at d m (commit_a m),
     cli d [''mask'', ''--user'', ''--remove'', the_app m],
     prints d [''mask'', ''--user''] '''' ''mask removed'',
     update_refs d [],
     app_at d m (commit_b m)]"

definition available_updates :: "driver \<Rightarrow> managed \<Rightarrow> unit prog" where
  "available_updates d m = steps [
     remote_refs_are d [''--updates''] [the_app m] ''update query excludes unchanged runtime'',
     update_refs d [],
     remote_refs_are d [''--updates''] [] ''no updates after deployment'']"

definition remote_commits :: "driver \<Rightarrow> managed \<Rightarrow> unit prog" where
  "remote_commits d m = steps [
     bindP (cli_success d [''remote-info'', ''--user'', ''--show-ref'', ''--show-commit'', ''fixture'', the_app m]) (\<lambda>output.
       equal_list d (split_ws output) [the_app m, commit_b m] ''remote B over local A''),
     prints d [''remote-info'', ''--user'', ''--commit='' @ commit_a m, ''--show-commit'', ''fixture'', the_app m] (commit_a m)
       ''explicit remote-info commit selects older A'',
     app_at d m (commit_a m)]"

definition remote_history :: "driver \<Rightarrow> managed \<Rightarrow> unit prog" where
  "remote_history d m = bindP (cli_success d [''remote-info'', ''--user'', ''--log'', ''fixture'', the_app m]) (\<lambda>output.
     check d (contains (commit_a m) output \<and> contains (commit_b m) output)
       (''history must include both commits: '' @ output))"

definition against_b :: "driver \<Rightarrow> managed \<Rightarrow> string \<Rightarrow> unit prog" where
  "against_b d m name = thenP (serve_version ''B'')
     (if name = ''management-or-update'' then steps [install_ref d (the_app m) [''--or-update''], app_at d m (commit_b m)]
      else if name = ''management-reinstall'' then steps [install_ref d (the_app m) [''--reinstall''], app_at d m (commit_b m)]
      else if name = ''management-update-local'' then local_update d m
      else if name = ''management-commit'' then older_commit d m
      else if name = ''management-disabled'' then disabled_remote d m
      else if name = ''management-mask'' then masked_ref d m
      else if name = ''management-remote-updates'' then available_updates d m
      else if name = ''management-remote-info'' then remote_commits d m
      else if name = ''management-remote-log'' then remote_history d m
      else raiseP ValueError (''unknown management scenario: '' @ name))"

definition with_application :: "driver \<Rightarrow> ini_reader \<Rightarrow> managed \<Rightarrow> string \<Rightarrow> unit prog" where
  "with_application d ini m name = steps [
     install_ref d (the_app m) [],
     app_at d m (commit_a m),
     runtime_kept d m,
     (if name = ''management-keep-ref'' then kept_ref d m
      else if name \<in> {''management-uninstall-apps'', ''management-uninstall-runtimes''}
        then uninstalled_kind d m (endswith name ''apps'')
      else if name = ''management-installed-queries'' then installed_queries d ini m
      else if name = ''management-file-access'' then file_access d m
      else if name = ''management-force-delete'' then forced_delete d m
      else if name \<in> {''management-unused'', ''management-pin''} then unused_runtime d m (name = ''management-pin'')
      else if name = ''management-uninstall-all'' then
        steps [uninstall_refs d [''--all''], refs_are d [] [] ''all removes both app and runtime'']
      else against_b d m name)]"

section \<open>The handler\<close>

definition rich_names :: "string list" where
  "rich_names = [''management-install-arch'', ''management-query-fields'', ''management-remote-info-arch'',
     ''management-installed-arch'', ''management-uninstall-arch'', ''management-update-arch'', ''management-update-kinds'',
     ''management-update-no-deps'', ''management-update-all'', ''management-update-ambiguous'']"

definition with_remote :: "driver \<Rightarrow> string \<Rightarrow> pyval \<Rightarrow> ini_reader \<Rightarrow> unit prog \<Rightarrow> managed \<Rightarrow> string \<Rightarrow> unit prog" where
  "with_remote d url fixture ini http m name =
     (if name = ''management-flatpakref-reinstall'' then flatpakref_reinstall d url fixture
      else if name = ''management-flatpakref-reinstall-http'' then http
      else if name = ''management-duplicate-remote-description'' then duplicate_description d url
      else if name \<in> {''management-install-kinds'', ''management-remote-info-kinds''} then
        excluded_kinds d fixture (if name = ''management-install-kinds'' then ''install'' else ''remote-info'')
      else if name = ''management-remote-gpg'' then unsigned_remote d (the_app m) (commit_a m)
      else if name = ''management-duplicate-remote'' then duplicate_remote d url
      else if name = ''management-flatpakrepo'' then repository_description d url
      else if name \<in> {''management-filter'', ''management-filter-replacement''} then
        filtered_remote d url fixture (name = ''management-filter-replacement'')
      else if name = ''management-remote-available'' then available_refs d fixture
      else if name = ''management-flatpakref'' then flatpakref_install d url fixture (commit_a m)
      else if name = ''management-install-local'' then local_install d fixture (commit_a m)
      else if name = ''management-install-no-deps'' then install_alone d fixture (commit_a m)
      else with_application d ini m name)"

definition management :: "ini_reader \<Rightarrow> unit prog \<Rightarrow> driver \<Rightarrow> string \<Rightarrow> pyval \<Rightarrow> string \<Rightarrow> unit prog" where
  "management ini http d url fixture name =
     bindP (text_item fixture [''commits'', ''A'']) (\<lambda>a. bindP (text_item fixture [''commits'', ''B'']) (\<lambda>b.
     thenP (serve_version ''A'')
    (let m = \<lparr>the_app = app_of fixture '''', the_runtime = runtime_of fixture, commit_a = a, commit_b = b,
         runtime_commit = text_at fixture ''runtime_commit'', app_id = text_at fixture ''app'',
         runtime_id = text_at fixture ''runtime''\<rparr> in
     if name \<in> set rich_names then rich d fixture name
     else if name \<in> {''management-remote-properties'', ''management-remote-enumerate''} then remote_options d url name
     else if name = ''management-remote-dependencies'' then remote_dependencies d url fixture a
     else if name = ''management-config'' then persistent_languages d
     else thenP (cli d [''remote-add'', ''--user'', ''--no-gpg-verify'', ''--title=Original title'', ''--prio=17'', ''fixture'', url])
       (with_remote d url fixture ini http m name))))"

section \<open>The audit trail\<close>

lemma audited_rich [audits]:
  "keeps audited (point_to d fixture queries version)" "keeps audited (at_version d queries version ref)"
  "keeps audited (distinct_commits d queries name ref)" "keeps audited (shown_commits d refs)"
  "keeps audited (commits_at queries version refs)" "keeps audited (commits_are d queries version refs actual context)"
  "keeps audited (update_to_and_back d queries ref)" "keeps audited (update_ambiguous d fixture queries)"
  "keeps audited (update_everything d fixture queries refs)" "keeps audited (query_fields d fixture queries ref)"
  "keeps audited (shows_at d queries arguments ref context)" "keeps audited (installed_copies d fixture queries k name)"
  "keeps audited (rich d fixture name)"
  unfolding point_to_def at_version_def distinct_commits_def shown_commits_def commits_at_def commits_are_def
    update_to_and_back_def update_ambiguous_def update_everything_def query_fields_def shows_at_def installed_copies_def rich_def
  by (intro audits)+

lemma audited_remote_options [audits]:
  "keeps audited (properties_are d expected context)" "keeps audited (options_mark d present message)"
  "keeps audited (remote_options d url name)"
  unfolding properties_are_def options_mark_def remote_options_def by (intro audits)+

lemma audited_unmanaged [audits]:
  "keeps audited (reinstall_step d fixture source origin failures version)" "keeps audited (flatpakref_reinstall d url fixture)"
  "keeps audited (remote_dependencies d url fixture a)" "keeps audited (persistent_languages d)"
  "keeps audited (duplicate_description d url)" "keeps audited (excluded_kinds d fixture command)"
  "keeps audited (unsigned_remote d app a)" "keeps audited (duplicate_remote d url)"
  "keeps audited (repository_description d url)" "keeps audited (filtered_remote d url fixture replace)"
  "keeps audited (available_refs d fixture)" "keeps audited (flatpakref_install d url fixture a)"
  "keeps audited (local_install d fixture a)" "keeps audited (install_alone d fixture a)"
  unfolding reinstall_step_def flatpakref_reinstall_def remote_dependencies_def persistent_languages_def duplicate_description_def
    excluded_kinds_def unsigned_remote_def duplicate_remote_def repository_description_def filtered_remote_def available_refs_def
    flatpakref_install_def local_install_def install_alone_def
  by (intro audits)+

lemma audited_managed [audits]:
  "keeps audited (app_at d m commit)" "keeps audited (runtime_kept d m)" "keeps audited (kept_ref d m)"
  "keeps audited (uninstalled_kind d m apps)" "keeps audited (ini_is d ini ref section options c c')"
  "keeps audited (installed_queries d ini m)" "keeps audited (file_access d m)" "keeps audited (forced_delete d m)"
  "keeps audited (unused_runtime d m pinned)" "keeps audited (local_update d m)" "keeps audited (older_commit d m)"
  "keeps audited (disabled_remote d m)" "keeps audited (masked_ref d m)" "keeps audited (available_updates d m)"
  "keeps audited (remote_commits d m)" "keeps audited (remote_history d m)" "keeps audited (against_b d m name)"
  "keeps audited (with_application d ini m name)"
  unfolding app_at_def runtime_kept_def kept_ref_def ini_is_def installed_queries_def file_access_def
    forced_delete_def unused_runtime_def local_update_def older_commit_def disabled_remote_def masked_ref_def
    available_updates_def remote_commits_def remote_history_def against_b_def with_application_def uninstalled_kind_def
  by (intro audits)+

lemma audited_management: "keeps audited http \<Longrightarrow> keeps audited (management ini http d url fixture name)"
  unfolding management_def with_remote_def by (intro audits)

end
