(* ===== verification/Option_Scenarios.thy ===== *)
theory Option_Scenarios
  imports Cli_Helpers
begin

text \<open>
  The scenario modules on the options of single commands: \<open>install_option_scenarios.py\<close>,
  \<open>remote_option_scenarios.py\<close>, \<open>related_option_scenarios.py\<close>, \<open>confirmation_option_scenarios.py\<close>,
  \<open>preinstall_option_scenarios.py\<close>, \<open>query_option_scenarios.py\<close> and the handler of
  \<open>search_kind_scenarios.py\<close>. A set of refs is the list of its elements; what the fixture's parser has
  checked to be present is read by \<open>text_at\<close>.
\<close>

section \<open>Observations\<close>

text \<open>A supplemental record of the evidence; \<open>observe_json\<close> normalises its data first.\<close>

definition observe :: "string \<Rightarrow> pyval \<Rightarrow> unit prog" where
  "observe name v = append_record [(''observation'', PStr name), (''data'', v)]"

definition observe_json :: "string \<Rightarrow> pyval \<Rightarrow> unit prog" where
  "observe_json name v = bindP (liftP (json_value v ''JSON'')) (observe name)"

lemma is_json_like: "is_json v \<Longrightarrow> json_like v"
  by (induction v rule: is_json.induct) auto

lemma audited_observe: "json_like v \<Longrightarrow> keeps audited (observe name v)"
  unfolding observe_def by (rule audited_append_record) (simp_all add: record_argv_def record_ok_iff)

lemma audited_observe_json [audits]: "keeps audited (observe_json name v)"
proof (cases "json_value v ''JSON''")
  case (Inr j)
  then have "keeps audited (observe name j)"
    by (intro audited_observe is_json_like) (rule json_value_is_json)
  with Inr show ?thesis by (simp add: observe_json_def keeps_def bindP_def liftP_def)
next
  case (Inl e)
  then show ?thesis
    by (simp add: observe_json_def keeps_def bindP_def liftP_def audit.refl)
qed

section \<open>\<open>install_option_scenarios.py\<close>\<close>

text \<open>The refs of the contract fixture by alias, and their commits in one of its repositories; both are
  complete in a parsed fixture.\<close>

definition contract_ref :: "pyval \<Rightarrow> string \<Rightarrow> string" where
  "contract_ref contracts alias = text_at (fld contracts ''refs'') alias"

definition contract_commit :: "pyval \<Rightarrow> string \<Rightarrow> string \<Rightarrow> string" where
  "contract_commit contracts version ref = text_at (fld (fld contracts ''commits'') version) ref"

definition contract_source :: "pyval \<Rightarrow> pyval \<Rightarrow> string \<Rightarrow> string prog" where
  "contract_source fixture contracts version = uri_in_fixture fixture (text_at (fld contracts ''repos'') version)"

definition contract_state :: "pyval \<Rightarrow> string \<Rightarrow> string list \<Rightarrow> (string \<times> string) list" where
  "contract_state contracts version refs = map (\<lambda>ref. (ref, contract_commit contracts version ref)) (remdups refs)"

definition base_refs :: "pyval \<Rightarrow> string \<Rightarrow> string list" where
  "base_refs contracts app = app # map (contract_ref contracts) [''platform'', ''extension'', ''shared'']"

definition variants :: "(bool \<times> bool) list" where
  "variants = [(False, False), (True, False), (False, True), (True, True)]"

definition inclusion_options :: "bool \<Rightarrow> bool \<Rightarrow> string list" where
  "inclusion_options sdk debug = (if sdk then [''--include-sdk''] else []) @ (if debug then [''--include-debug''] else [])"

definition included_refs :: "pyval \<Rightarrow> string \<Rightarrow> bool \<Rightarrow> bool \<Rightarrow> string list" where
  "included_refs contracts alias sdk debug = map (contract_ref contracts)
     ((if sdk then [''sdk''] else []) @
      (if debug then [alias @ ''_debug'', ''platform_debug''] @ (if sdk then [''sdk_debug''] else []) else []))"

definition selection_at :: "driver \<Rightarrow> string \<Rightarrow> unit prog" where
  "selection_at d uri = cli d [''remote-modify'', ''--user'', ''--url='' @ uri, ''selection'']"

definition installs :: "driver \<Rightarrow> string list \<Rightarrow> unit prog" where
  "installs d arguments = cli d ([''install'', ''--user'', ''--noninteractive''] @ arguments)"

definition variant_data :: "string \<Rightarrow> bool \<Rightarrow> bool \<Rightarrow> pyval" where
  "variant_data mode sdk debug = PObj [(''mode'', PStr mode), (''sdk'', PBool sdk), (''debug'', PBool debug)]"

definition include_variant :: "driver \<Rightarrow> pyval \<Rightarrow> pyval \<Rightarrow> string \<Rightarrow> bool \<times> bool \<Rightarrow> unit prog" where
  "include_variant d fixture contracts mode variant = (case variant of (sdk, debug) \<Rightarrow>
     let alias = (if mode = ''fresh'' then ''one'' else ''two''); app = contract_ref contracts alias;
         base = base_refs contracts app; options = inclusion_options sdk debug;
         expected = base @ included_refs contracts alias sdk debug in
     steps [
       expect_state d [],
       observe ''SDK/debug selection variant'' (variant_data mode sdk debug),
       whenP (mode \<noteq> ''fresh'') (steps [
         bindP (contract_source fixture contracts ''A'') (selection_at d),
         installs d [''selection'', app],
         expect_state d (contract_state contracts ''A'' base),
         whenP (mode = ''update'') (bindP (contract_source fixture contracts ''APP'') (selection_at d))]),
       installs d (options @ [''selection'', app]),
       expect_state d (contract_state contracts (if mode = ''update'' \<and> options \<noteq> [] then ''APP'' else ''A'') expected),
       clear_all d])"

definition inclusions :: "driver \<Rightarrow> pyval \<Rightarrow> pyval \<Rightarrow> string \<Rightarrow> unit prog" where
  "inclusions d fixture contracts mode =
     (let app = contract_ref contracts (if mode = ''fresh'' then ''one'' else ''two'') in steps [
        check d (contract_ref contracts ''sdk'' \<noteq> contract_ref contracts ''platform'') ''SDK must differ from runtime'',
        whenP (mode = ''update'') (check d (contract_commit contracts ''A'' app \<noteq> contract_commit contracts ''APP'' app)
          ''existing-app inclusion requires an independently updated app commit''),
        bindP (contract_source fixture contracts ''A'') (\<lambda>uri.
          cli d [''remote-add'', ''--user'', ''--no-gpg-verify'', ''selection'', uri]),
        forP variants (include_variant d fixture contracts mode)])"

definition payload_paths :: "string \<Rightarrow> (string \<times> string) list" where
  "payload_paths location = [(''bin'', file_in location ''files/bin/probe''),
     (''subset-control'', file_in location ''files/subset-control/payload'')]"

definition present_payload :: "string list \<Rightarrow> string \<times> string \<Rightarrow> string list prog" where
  "present_payload names np = bindP (path_test ''is_file'' (snd np)) (\<lambda>b. ret (if b then names @ [fst np] else names))"

definition payload_data :: "string \<Rightarrow> string \<Rightarrow> string \<Rightarrow> string list \<Rightarrow> string list \<Rightarrow> pyval" where
  "payload_data ref version location expected actual = PObj [(''ref'', PStr ref), (''version'', PStr version),
     (''location'', PStr location), (''expected'', PList (map PStr (sorted_set expected))),
     (''actual'', PList (map PStr (sorted_set actual)))]"

definition deployed_payloads :: "driver \<Rightarrow> pyval \<Rightarrow> string \<Rightarrow> string \<Rightarrow> string list \<Rightarrow> unit prog" where
  "deployed_payloads d queries ref version expected =
     bindP (query_commit queries version ref) (\<lambda>commit.
     thenP (expect_state d [(ref, commit)])
    (bindP (cli_success d [''info'', ''--user'', ''--show-location'', ref]) (\<lambda>output.
     let location = path_str (path_of output); candidates = payload_paths location in
     bindP (if is_absolute (path_of output) then bindP (lookup_path ''resolve'' location)
         (\<lambda>p. ret (is_relative_to (path_of p) (path_of (driver_root d)))) else ret False) (\<lambda>inside.
     thenP (check d inside ''public deployment location must be inside isolated state'')
    (bindP (foldP present_payload [] candidates) (\<lambda>actual.
     thenP (observe_json ''CLI deployed subpaths'' (payload_data ref version location expected actual))
    (thenP (check d (set actual = set expected) (''deployed payload selection: expected '' @
       repr_strings (sorted_set expected) @ '', got '' @ repr_strings (sorted_set actual)))
      (whenP (''subset-control'' \<in> set expected)
        (bindP (read_text (snd (candidates ! 1))) (\<lambda>content.
         check d (content = ''Independent full-install payload\<newline>'') ''independent marker bytes''))))))))))"

definition install_subsets :: "(string list \<times> string list) list" where
  "install_subsets = [([''--subpath=/bin''], [''bin'']), ([''--subpath=/subset-control''], [''subset-control'']),
     ([''--subpath=/bin'', ''--subpath=/subset-control''], [''bin'', ''subset-control'']), ([], [''bin'', ''subset-control''])]"

definition update_subsets :: "(string list \<times> string list) list" where
  "update_subsets = [([], [''bin'']), ([''--subpath=/subset-control''], [''subset-control'']),
     ([''--subpath=/bin'', ''--subpath=/subset-control''], [''bin'', ''subset-control''])]"

definition update_subset :: "driver \<Rightarrow> pyval \<Rightarrow> pyval \<Rightarrow> string \<Rightarrow> string list \<times> string list \<Rightarrow> unit prog" where
  "update_subset d fixture queries ref chosen = (case chosen of (options, expected) \<Rightarrow> steps [
     expect_state d [],
     bindP (query_source fixture queries ''A'') (selection_at d),
     installs d [''--subpath=/bin'', ''selection'', ref],
     deployed_payloads d queries ref ''A'' [''bin''],
     bindP (query_source fixture queries ''B'') (selection_at d),
     update_refs d (options @ [ref]),
     deployed_payloads d queries ref ''B'' expected,
     bindP (query_commit queries ''A'' ref) (\<lambda>a. update_refs d [''--commit='' @ a, ref]),
     deployed_payloads d queries ref ''A'' expected,
     clear_all d])"

definition subpaths :: "driver \<Rightarrow> pyval \<Rightarrow> pyval \<Rightarrow> bool \<Rightarrow> unit prog" where
  "subpaths d fixture queries updates =
     (let ref = named_ref ''runtime'' (text_at queries ''extension'') (text_at fixture ''arch'') ''test'' in
      thenP (bindP (query_source fixture queries ''A'') (\<lambda>uri.
        cli d [''remote-add'', ''--user'', ''--no-gpg-verify'', ''selection'', uri]))
     (if \<not> updates then forP install_subsets (\<lambda>(options, expected). steps [
        expect_state d [],
        installs d (options @ [''selection'', ref]),
        deployed_payloads d queries ref ''A'' expected,
        clear_all d])
      else bindP (query_commit queries ''A'' ref) (\<lambda>a. bindP (query_commit queries ''B'' ref) (\<lambda>b.
        thenP (check d (a \<noteq> b) ''subpath update requires distinct independently prepared A/B commits'')
          (forP update_subsets (update_subset d fixture queries ref))))))"

definition install_options :: "driver \<Rightarrow> string \<Rightarrow> pyval \<Rightarrow> string \<Rightarrow> unit prog" where
  "install_options d url fixture name =
     (if name \<in> {''install-options-sdk-debug'', ''install-options-sdk-debug-current'', ''install-options-sdk-debug-existing''} then
        bindP (required_part fixture ''contracts'' ''independent SDK and debug contract fixtures required'') (\<lambda>contracts.
        inclusions d fixture contracts (if endswith name ''-current'' then ''current''
          else if endswith name ''-existing'' then ''update'' else ''fresh''))
      else if name \<in> {''install-options-subpath'', ''update-options-subpath''} then
        bindP (required_part fixture ''queries'' ''independent query fixtures with subset-control required'') (\<lambda>queries.
        subpaths d fixture queries (name = ''update-options-subpath''))
      else raiseP ValueError (''unknown install option scenario: '' @ name))"

section \<open>\<open>remote_option_scenarios.py\<close>\<close>

definition fixture_state :: "pyval \<Rightarrow> string \<Rightarrow> (string \<times> string) list" where
  "fixture_state fixture version = [(app_of fixture '''', text_at (fld fixture ''commits'') version),
     (runtime_of fixture, text_at fixture ''runtime_commit'')]"

definition runtime_state :: "pyval \<Rightarrow> (string \<times> string) list" where
  "runtime_state fixture = [(runtime_of fixture, text_at fixture ''runtime_commit'')]"

definition rejects_source :: "driver \<Rightarrow> pyval \<Rightarrow> string \<Rightarrow> unit prog" where
  "rejects_source d fixture remote =
     bindP (cli_call d [''install'', ''--user'', ''--noninteractive'', remote, app_of fixture '''']) (\<lambda>result.
     thenP (expect_state d [])
       (check d (0 < returncode result \<and> mentions [''gpg'', ''signature'', ''public key''] (stderr result))
         (''untrusted source must reject installation: '' @ stderr result)))"

definition default_branch :: "driver \<Rightarrow> pyval \<Rightarrow> unit prog" where
  "default_branch d fixture =
     bindP (required_part fixture ''queries'' ''independent test/master query branches required'') (\<lambda>queries.
     bindP (query_source fixture queries ''A'') (\<lambda>source.
     thenP (cli d [''remote-add'', ''--user'', ''--no-gpg-verify'', ''--default-branch=test'', ''selection'', source])
       (forP [''test'', ''master''] (\<lambda>branch.
         let selected = named_ref ''app'' (text_at queries ''app'') (text_at fixture ''arch'') branch in steps [
           whenP (branch = ''master'') (cli d [''remote-modify'', ''--user'', ''--default-branch=master'', ''selection'']),
           installs d [''selection'', text_at queries ''app''],
           bindP (query_commit queries ''A'' selected) (\<lambda>commit. expect_state d ((selected, commit) # runtime_state fixture)),
           clear_all d]))))"

definition names_shown :: "driver \<Rightarrow> string list \<Rightarrow> string \<Rightarrow> string \<Rightarrow> unit prog" where
  "names_shown d arguments expected message = bindP (cli_success d arguments) (\<lambda>output. check d (output = expected) message)"

definition added_disabled :: "driver \<Rightarrow> string \<Rightarrow> pyval \<Rightarrow> unit prog" where
  "added_disabled d url fixture = steps [
     cli d [''remote-add'', ''--user'', ''--disable'', ''--no-gpg-verify'', ''selection'', url],
     names_shown d [''remotes'', ''--user'', ''--columns=name''] '''' ''disabled remote must be absent from ordinary enumeration'',
     names_shown d [''remotes'', ''--user'', ''--show-disabled'', ''--columns=name''] ''selection''
       ''disabled remote must remain configured'',
     bindP (cli_success d [''remotes'', ''--user'', ''--show-disabled'', ''--columns=options'']) (\<lambda>options.
       check d (''disabled'' \<in> set (split_on (CHR '','') options)) ''added remote must persist disabled state''),
     cli d [''remote-modify'', ''--user'', ''--enable'', ''selection''],
     installs d [''selection'', app_of fixture ''''],
     expect_state d (fixture_state fixture ''A'')]"

definition added_filter :: "driver \<Rightarrow> string \<Rightarrow> pyval \<Rightarrow> unit prog" where
  "added_filter d url fixture =
     (let app = app_of fixture ''''; runtime = runtime_of fixture; path = file_in (driver_root d) ''selection.filter'' in steps [
        write_text path (''deny *\<newline>allow '' @ runtime @ ''\<newline>''),
        cli d [''remote-add'', ''--user'', ''--no-gpg-verify'', ''--filter='' @ path, ''selection'', url],
        bindP (cli_success d [''remote-ls'', ''--user'', ''--columns=ref'', ''selection'']) (\<lambda>output.
          let rows = splitlines output in
          check d (rows = [runtime]) (''filter must expose only the runtime: '' @ repr_strings rows)),
        bindP (cli_call d [''install'', ''--user'', ''--noninteractive'', ''selection'', app]) (\<lambda>result.
          thenP (expect_state d [])
            (check d (0 < returncode result \<and> contains (text_at fixture ''app'') (stderr result) \<and>
                mentions [''no remote refs found'', ''nothing matches'', ''filtered''] (stderr result))
              (''filtered app must be rejected during ref resolution: '' @ stderr result))),
        installs d [''selection'', runtime],
        expect_state d (runtime_state fixture),
        cli d [''remote-modify'', ''--user'', ''--no-filter'', ''selection''],
        installs d [''selection'', app],
        expect_state d (fixture_state fixture ''A'')])"

definition added_unverified :: "driver \<Rightarrow> string \<Rightarrow> pyval \<Rightarrow> unit prog" where
  "added_unverified d url fixture = steps [
     bindP (cli_call d [''remote-add'', ''--user'', ''strict'', url]) (\<lambda>strict.
       if returncode strict = 0 then rejects_source d fixture ''strict''
       else thenP (check d (0 < returncode strict \<and> contains ''gpg'' (lower (stderr strict)))
           (''strict addition must fail for signature verification: '' @ stderr strict))
         (expect_state d [])),
     cli d [''remote-add'', ''--user'', ''--no-gpg-verify'', ''selection'', url],
     installs d [''selection'', app_of fixture ''''],
     expect_state d (fixture_state fixture ''A'')]"

definition imported_key :: "driver \<Rightarrow> string \<Rightarrow> pyval \<Rightarrow> bool \<Rightarrow> unit prog" where
  "imported_key d url fixture adding =
     bindP (required_part fixture ''build'' ''independently signed repository and public key required'') (\<lambda>build.
     bindP (uri_in_fixture fixture (text_at build ''usb_repo'')) (\<lambda>source.
     bindP (in_fixture fixture (text_at build ''public_key'')) (\<lambda>key.
     let selected = (if adding then ''selection'' else ''untrusted''); commits = fld build ''usb_commits'' in steps [
       cli d [''remote-add'', ''--user'', ''--no-gpg-verify'', ''untrusted'', source],
       cli d [''remote-modify'', ''--user'', ''--gpg-verify'', ''untrusted''],
       rejects_source d fixture ''untrusted'',
       (if adding then cli d [''remote-add'', ''--user'', ''--gpg-import='' @ key, ''selection'', source]
        else cli d [''remote-modify'', ''--user'', ''--gpg-import='' @ key, ''untrusted'']),
       installs d [selected, app_of fixture ''''],
       expect_state d [(app_of fixture '''', text_at commits ''app''), (runtime_of fixture, text_at commits ''runtime'')],
       clear_all d,
       cli d [''remote-modify'', ''--user'', ''--url='' @ url, selected],
       rejects_source d fixture selected])))"

definition remote_option :: "driver \<Rightarrow> string \<Rightarrow> pyval \<Rightarrow> string \<Rightarrow> unit prog" where
  "remote_option d url fixture name = thenP (serve_version ''A'')
     (if name = ''remote-options-default-branch'' then default_branch d fixture
      else if name = ''remote-options-add-disabled'' then added_disabled d url fixture
      else if name = ''remote-options-add-filter'' then added_filter d url fixture
      else if name = ''remote-options-add-no-gpg-verify'' then added_unverified d url fixture
      else if name \<in> {''remote-options-add-gpg-import'', ''remote-options-modify-gpg-import''} then
        imported_key d url fixture (name = ''remote-options-add-gpg-import'')
      else raiseP ValueError (''unknown remote option scenario: '' @ name))"

section \<open>\<open>related_option_scenarios.py\<close>\<close>

definition related_option :: "driver \<Rightarrow> string \<Rightarrow> pyval \<Rightarrow> string \<Rightarrow> unit prog" where
  "related_option d url fixture name =
     bindP (if has fixture ''queries'' \<and> has (fld fixture ''queries'') ''selection_repo'' then ret (fld fixture ''queries'')
       else raiseP PrerequisiteError ''independent selection and locale fixtures required'') (\<lambda>queries.
     let arch = text_at fixture ''arch''; app = named_ref ''app'' ''org.flatpak.Selection'' arch ''test'';
         locale_ref = named_ref ''runtime'' ''org.flatpak.Selection.Locale'' arch ''test'' in
     bindP (text_item queries [''selection_commits'', app]) (\<lambda>app_commit.
     bindP (text_item queries [''selection_commits'', locale_ref]) (\<lambda>locale_commit.
     let installed = (app, app_commit); related = (locale_ref, locale_commit); runtimes = runtime_state fixture;
         uninstall = (\<lambda>options. uninstall_refs d (options @ [app]));
         update = (\<lambda>options. update_refs d (options @ [app]));
         install = (\<lambda>options. installs d (options @ [''selection'', app])) in
     bindP (uri_in_fixture fixture (text_at queries ''selection_repo'')) (\<lambda>uri.
     thenP (cli d [''remote-add'', ''--user'', ''--no-gpg-verify'', ''selection'', uri])
    (thenP (cli d [''config'', ''--user'', ''--set'', ''languages'', ''de''])
    (if name = ''related-options-install'' then steps [
       install [''--no-related''], expect_state d (installed # runtimes),
       uninstall [], expect_state d runtimes,
       install [], expect_state d (installed # related # runtimes)]
     else if name = ''related-options-update'' then steps [
       install [''--no-related''], expect_state d (installed # runtimes),
       update [''--no-related''], expect_state d (installed # runtimes),
       update [], expect_state d (installed # related # runtimes)]
     else if name = ''related-options-uninstall'' then steps [
       install [], expect_state d (installed # related # runtimes),
       uninstall [''--no-related''], expect_state d (related # runtimes),
       install [], expect_state d (installed # related # runtimes),
       uninstall [], expect_state d runtimes]
     else raiseP ValueError (''unknown related option scenario: '' @ name)))))))"

section \<open>\<open>confirmation_option_scenarios.py\<close>\<close>

definition unanswered_prompt :: "completed \<Rightarrow> bool" where
  "unanswered_prompt c \<longleftrightarrow> contains ''[Y/n]'' (stdout c) \<or> contains ''[y/n]'' (stdout c)"

definition confirmed :: "driver \<Rightarrow> pyval \<Rightarrow> string \<Rightarrow> string \<Rightarrow> unit prog" where
  "confirmed d fixture command option =
     (let app = app_of fixture '''';
          before = (if command = ''install'' then [] else fixture_state fixture ''A'');
          after = (if command = ''uninstall'' then runtime_state fixture
            else fixture_state fixture (if command = ''update'' then ''B'' else ''A''));
          args = (if command = ''install'' then [''fixture'', app] else [app]) in
      steps [
        serve_version ''A'',
        whenP (command \<noteq> ''install'') (installs d [''fixture'', app]),
        whenP (command = ''update'') (serve_version ''B''),
        expect_state d before,
        bindP (cli_call d ([command, ''--user''] @ args)) (\<lambda>control. steps [
          expect_state d before,
          check d (returncode control \<noteq> 0) ''closed stdin must not approve the transaction'']),
        bindP (cli_call d ([command, ''--user'', option] @ args)) (\<lambda>result. steps [
          check d (returncode result = 0) (command @ '' '' @ option @ '' must proceed without input: '' @ stderr result),
          expect_state d after,
          check d (\<not> unanswered_prompt result) ''automatic confirmation must not print an unanswered confirmation prompt'']),
        cli d [''uninstall'', ''--user'', ''-y'', ''--all''],
        expect_state d []])"

definition confirmation_option :: "driver \<Rightarrow> string \<Rightarrow> pyval \<Rightarrow> string \<Rightarrow> unit prog" where
  "confirmation_option d url fixture name =
     (let command = removeprefix name ''confirmation-options-'' in
      thenP (guardP (command \<in> {''install'', ''update'', ''uninstall''}) ValueError (''unknown confirmation scenario: '' @ name))
     (thenP (cli d [''remote-add'', ''--user'', ''--no-gpg-verify'', ''fixture'', url])
       (forP [''--assumeyes'', ''--noninteractive''] (confirmed d fixture command))))"

section \<open>\<open>preinstall_option_scenarios.py\<close>\<close>

text \<open>The variables of \<open>run\<close>: the vendor definition's file and text, and the application.\<close>

record vendor =
  vendor_file :: string
  vendor_text :: string
  vendor_app :: string

definition preinstalls :: "driver \<Rightarrow> string list \<Rightarrow> unit prog" where
  "preinstalls d options = cli d ([''preinstall'', ''--user'', ''--noninteractive''] @ options)"

definition vendor_state :: "driver \<Rightarrow> pyval \<Rightarrow> string list \<Rightarrow> unit prog" where
  "vendor_state d contracts refs = expect_state d (contract_state contracts ''A'' refs)"

definition vendor_removed :: "driver \<Rightarrow> pyval \<Rightarrow> vendor \<Rightarrow> unit prog" where
  "vendor_removed d contracts v = steps [
     write_text (vendor_file v) (vendor_text v @ ''Install=false\<newline>''),
     cli d [''preinstall'', ''--user'', ''-y''],
     bindP (cli_success d [''list'', ''--user'', ''--all'', ''--columns=ref'']) (\<lambda>output.
       whenP (output \<noteq> '''') (uninstall_refs d [''--all''])),
     vendor_state d contracts [],
     write_text (vendor_file v) (vendor_text v)]"

definition vendor_includes :: "driver \<Rightarrow> pyval \<Rightarrow> vendor \<Rightarrow> unit prog" where
  "vendor_includes d contracts v = forP variants (\<lambda>(sdk, debug). steps [
     preinstalls d (inclusion_options sdk debug),
     vendor_state d contracts (base_refs contracts (vendor_app v) @ included_refs contracts ''one'' sdk debug),
     vendor_removed d contracts v])"

definition vendor_dependencies :: "driver \<Rightarrow> pyval \<Rightarrow> vendor \<Rightarrow> unit prog" where
  "vendor_dependencies d contracts v = steps [
     forP [(''--no-deps'', ''shared''), (''--no-related'', ''platform'')] (\<lambda>(option, alias). steps [
       preinstalls d [option],
       vendor_state d contracts [vendor_app v, contract_ref contracts alias],
       vendor_removed d contracts v]),
     preinstalls d [],
     vendor_state d contracts (base_refs contracts (vendor_app v))]"

definition vendor_confirmation :: "driver \<Rightarrow> pyval \<Rightarrow> vendor \<Rightarrow> unit prog" where
  "vendor_confirmation d contracts v = forP [''--assumeyes'', ''--noninteractive''] (\<lambda>option. steps [
     bindP (cli_call d [''preinstall'', ''--user'']) (\<lambda>control. steps [
       vendor_state d contracts [],
       check d (returncode control \<noteq> 0) ''preinstall must refuse without confirmation'']),
     bindP (cli_call d [''preinstall'', ''--user'', option]) (\<lambda>result. steps [
       check d (returncode result = 0) (''automatic preinstall: '' @ stderr result),
       check d (\<not> unanswered_prompt result) ''automatic preinstall must not leave an unanswered prompt'']),
     vendor_state d contracts (base_refs contracts (vendor_app v)),
     vendor_removed d contracts v])"

definition vendor_no_pull :: "driver \<Rightarrow> pyval \<Rightarrow> vendor \<Rightarrow> unit prog" where
  "vendor_no_pull d contracts v = steps [
     bindP (cli_call d [''preinstall'', ''--user'', ''--noninteractive'', ''--no-pull'']) (\<lambda>control. steps [
       vendor_state d contracts [],
       check d (returncode control = 0 \<or> stderr control \<noteq> '''')
         ''uncached no-pull must either find no local candidates or explain rejection'']),
     preinstalls d [],
     vendor_state d contracts (base_refs contracts (vendor_app v))]"

definition marker_is :: "driver \<Rightarrow> string \<Rightarrow> string \<Rightarrow> string \<Rightarrow> unit prog" where
  "marker_is d path expected message = bindP (read_text path) (\<lambda>content. check d (content = expected) message)"

definition vendor_reinstall :: "driver \<Rightarrow> pyval \<Rightarrow> vendor \<Rightarrow> unit prog" where
  "vendor_reinstall d contracts v =
     (let app = vendor_app v; state = vendor_state d contracts (base_refs contracts app);
          location = cli_success d [''info'', ''--user'', ''--show-location'', app] in steps [
        preinstalls d [],
        state,
        bindP location (\<lambda>output. let marker = file_in output ''files/contract-marker'' in steps [
          marker_is d marker ''one:A\<newline>'' ''original deployed marker'',
          remove_tree marker,
          write_text marker ''locally damaged deployment\<newline>'',
          preinstalls d [],
          marker_is d marker ''locally damaged deployment\<newline>''
            ''ordinary synchronization must leave an already-installed deployment alone'']),
        preinstalls d [''--reinstall''],
        state,
        bindP location (\<lambda>output. marker_is d (file_in output ''files/contract-marker'') ''one:A\<newline>''
          ''explicit reinstallation must restore independent payload bytes'')])"

definition preinstall_option :: "driver \<Rightarrow> string \<Rightarrow> pyval \<Rightarrow> string \<Rightarrow> unit prog" where
  "preinstall_option d url fixture name =
     bindP (case (has fixture ''contracts'', map_of (driver_env d) ''BLACKBOX_PREINSTALL_DIR'') of
         (True, Some configured) \<Rightarrow> ret (fld fixture ''contracts'', configured)
       | _ \<Rightarrow> raiseP PrerequisiteError ''independent refs and isolated vendor definitions required'') (\<lambda>(contracts, configured).
     bindP (if is_absolute (path_of configured) then bindP (lookup_path ''resolve'' configured)
         (\<lambda>p. ret (is_relative_to (path_of p) (path_of (driver_root d)))) else ret False) (\<lambda>inside.
     thenP (check d inside ''vendor definitions must stay inside the isolated case directory'')
    (thenP (make_directory configured)
    (let app = contract_ref contracts ''one'' in
     bindP (contract_source fixture contracts ''A'') (\<lambda>uri.
     thenP (cli d [''remote-add'', ''--user'', ''--no-gpg-verify'', ''fixture'', uri])
    (bindP (liftP (ref_identity app)) (\<lambda>identity.
     let v = \<lparr>vendor_file = file_in configured ''options.preinstall'',
         vendor_text = ''[Flatpak Preinstall '' @ identity @ '']\<newline>Branch=test\<newline>'', vendor_app = app\<rparr> in
     thenP (write_text (vendor_file v) (vendor_text v))
    (if name = ''preinstall-options-includes'' then vendor_includes d contracts v
     else if name = ''preinstall-options-dependencies'' then vendor_dependencies d contracts v
     else if name = ''preinstall-options-confirmation'' then vendor_confirmation d contracts v
     else if name = ''preinstall-options-no-pull'' then vendor_no_pull d contracts v
     else if name = ''preinstall-options-reinstall'' then vendor_reinstall d contracts v
     else raiseP ValueError (''unknown preinstall option scenario: '' @ name)))))))))"

section \<open>The audit trail\<close>

lemma audited_variant [audits]: "keeps audited (observe name (variant_data mode sdk debug))"
  by (rule audited_observe) (simp add: variant_data_def json_like_PObj)

lemma audited_installs [audits]:
  "keeps audited (contract_source fixture contracts version)" "keeps audited (selection_at d uri)" "keeps audited (installs d arguments)"
  "keeps audited (include_variant d fixture contracts mode variant)" "keeps audited (inclusions d fixture contracts mode)"
  "keeps audited (present_payload names np)" "keeps audited (deployed_payloads d queries ref version expected)"
  "keeps audited (update_subset d fixture queries ref chosen)" "keeps audited (subpaths d fixture queries updates)"
  "keeps audited (install_options d url fixture name)"
  unfolding contract_source_def selection_at_def installs_def include_variant_def inclusions_def present_payload_def
    deployed_payloads_def update_subset_def subpaths_def install_options_def
  by (intro audits)+

lemma audited_remote_option [audits]:
  "keeps audited (rejects_source d fixture remote)" "keeps audited (default_branch d fixture)"
  "keeps audited (names_shown d arguments e m)" "keeps audited (added_disabled d url fixture)"
  "keeps audited (added_filter d url fixture)" "keeps audited (added_unverified d url fixture)"
  "keeps audited (imported_key d url fixture adding)" "keeps audited (remote_option d url fixture name)"
  unfolding rejects_source_def default_branch_def names_shown_def added_disabled_def added_filter_def added_unverified_def
    imported_key_def remote_option_def
  by (intro audits)+

lemma audited_related [audits]: "keeps audited (related_option d url fixture name)"
  "keeps audited (confirmed d fixture command option)" "keeps audited (confirmation_option d url fixture name)"
  unfolding related_option_def confirmed_def confirmation_option_def by (intro audits)+

lemma audited_preinstall [audits]:
  "keeps audited (preinstalls d options)" "keeps audited (vendor_state d contracts refs)"
  "keeps audited (vendor_removed d contracts v)" "keeps audited (vendor_includes d contracts v)"
  "keeps audited (vendor_dependencies d contracts v)" "keeps audited (vendor_confirmation d contracts v)"
  "keeps audited (vendor_no_pull d contracts v)" "keeps audited (marker_is d path e m)"
  "keeps audited (vendor_reinstall d contracts v)"
  unfolding preinstalls_def vendor_state_def vendor_removed_def vendor_includes_def vendor_dependencies_def
    vendor_confirmation_def vendor_no_pull_def marker_is_def vendor_reinstall_def
  by (intro audits)+

lemma audited_case_bool [audits]: "keeps audited m \<Longrightarrow> keeps audited n \<Longrightarrow> keeps audited (case b of True \<Rightarrow> m | False \<Rightarrow> n)"
  by (cases b) simp_all

lemma audited_preinstall_option [audits]: "keeps audited (preinstall_option d url fixture name)"
  unfolding preinstall_option_def by (intro audits)

end
