(* ===== verification/Query_Scenarios.thy ===== *)
theory Query_Scenarios
  imports Option_Scenarios
begin

text \<open>
  \<open>query_option_scenarios.py\<close> and the handler of \<open>search_kind_scenarios.py\<close>: what the query commands
  print, compared with the independently exported fixture. The queries of a cache run against a server
  of their own; that program is an argument, given the command.
\<close>

section \<open>Rows\<close>

definition tab_rows :: "string \<Rightarrow> string list list" where
  "tab_rows output = map (split_on tab) (splitlines output)"

definition repr_rows_of :: "string list list \<Rightarrow> string" where
  "repr_rows_of rows = repr_list (map repr_strings rows)"

text \<open>The expected rows form a set; its representation lists them in the order given here.\<close>

definition rows_are :: "driver \<Rightarrow> string \<Rightarrow> string list list \<Rightarrow> string \<Rightarrow> unit prog" where
  "rows_are d output expected reason =
     (let rows = tab_rows output in
      check d (length rows = length (remdups expected) \<and> set rows = set expected)
        (reason @ '': expected {'' @ join '', '' (map repr_arguments expected) @ ''}, got '' @ repr_list (map repr_arguments rows)))"

definition lists :: "driver \<Rightarrow> string list \<Rightarrow> string list \<Rightarrow> string \<Rightarrow> unit prog" where
  "lists d arguments refs reason = bindP (cli_success d arguments) (\<lambda>output. rows_are d output (map (\<lambda>ref. [ref]) refs) reason)"

text \<open>\<open>ref.split("/", 1)[1]\<close> of a ref built from its parts.\<close>

definition short_of :: "string \<Rightarrow> string" where
  "short_of ref = last (split_first (CHR ''/'') ref)"

definition arch_of :: "string \<Rightarrow> string result" where
  "arch_of ref = (case split_on (CHR ''/'') ref of _ # _ # arch # _ \<Rightarrow> Inr arch
     | _ \<Rightarrow> raise IndexError ''list index out of range'')"

text \<open>A printed token identifies a commit by a prefix of eight characters or more.\<close>

definition abbreviates :: "string \<Rightarrow> string \<Rightarrow> bool" where
  "abbreviates commit token \<longleftrightarrow> 8 \<le> length token \<and> startswith commit token"

definition identifies :: "string \<Rightarrow> string \<Rightarrow> string list \<Rightarrow> string list \<Rightarrow> bool" where
  "identifies ref short names line \<longleftrightarrow> ref \<in> set line \<or> short \<in> set line \<or> set names \<subseteq> set line"

definition identified_row :: "driver \<Rightarrow> string list list \<Rightarrow> string \<times> string \<Rightarrow> unit prog" where
  "identified_row d rows rc = (case rc of (ref, commit) \<Rightarrow>
     bindP (short_ref ref) (\<lambda>short. let names = split_on (CHR ''/'') short in
     bindP (liftP (unpack 3 names)) (\<lambda>_.
     let matching = filter (identifies ref short names) rows in
     thenP (check d (length matching = 1) (''detailed row identifies '' @ ref @ '': '' @ repr_rows_of rows))
       (check d (list_ex (abbreviates commit) (hd matching))
         (''detailed row includes independent commit for '' @ ref @ '': '' @ repr_strings (hd matching))))))"

definition details :: "driver \<Rightarrow> string \<Rightarrow> string list \<Rightarrow> string list \<Rightarrow> (string \<times> string) list \<Rightarrow> unit prog" where
  "details d command options trailing expected =
     (let query = (\<lambda>more. cli_success d ([command, ''--user''] @ options @ more @ trailing)) in
      bindP (query []) (\<lambda>plain. bindP (query [''--show-details'']) (\<lambda>detailed. bindP (query [''--columns=all'']) (\<lambda>explicit.
      let rows = tab_rows detailed in steps [
        equal_text d detailed explicit ''show-details is equivalent to all columns'',
        check d (detailed \<noteq> plain) ''show-details adds information to ordinary output'',
        check d (length rows = length expected) (''detailed rows retain exact membership: '' @ repr_rows_of rows),
        forP expected (identified_row d rows)]))))"

section \<open>The scenarios\<close>

definition installs_unrelated :: "driver \<Rightarrow> string \<Rightarrow> unit prog" where
  "installs_unrelated d ref = installs d [''--no-related'', ''queries'', ref]"

definition selection_ref :: "pyval \<Rightarrow> string" where
  "selection_ref fixture = named_ref ''app'' ''org.flatpak.Selection'' (text_at fixture ''arch'') ''test''"

definition locale_ref :: "pyval \<Rightarrow> string" where
  "locale_ref fixture = named_ref ''runtime'' ''org.flatpak.Selection.Locale'' (text_at fixture ''arch'') ''test''"

definition list_all_refs :: "driver \<Rightarrow> pyval \<Rightarrow> pyval \<Rightarrow> unit prog" where
  "list_all_refs d fixture queries =
     (let selected = selection_ref fixture; hidden = locale_ref fixture;
          visible = map short_of [selected, runtime_of fixture] in steps [
        installs_unrelated d selected,
        installs_unrelated d hidden,
        bindP (text_item queries [''selection_commits'', hidden]) (installed_commit d hidden),
        forP [([], visible), ([''--all''], visible @ [short_of hidden]), ([], visible)] (\<lambda>(options, refs).
          lists d ([''list'', ''--user'', ''--columns=ref''] @ options) refs ''all controls extension visibility'')])"

definition remote_ls_all :: "driver \<Rightarrow> pyval \<Rightarrow> pyval \<Rightarrow> unit prog" where
  "remote_ls_all d fixture queries = bindP (liftP (getitem queries ''selection_commits'')) (\<lambda>commits.
     let hidden = locale_ref fixture;
         expected = map fst (entries_of commits) @ [app_of fixture '''', runtime_of fixture];
         visible = filter (\<lambda>ref. ref \<noteq> hidden) expected in
     forP [([], visible), ([''--all''], expected), ([], visible)] (\<lambda>(options, refs).
       lists d ([''remote-ls'', ''--user'', ''--columns=ref'', ''--arch='' @ text_at fixture ''arch''] @ options @ [''queries''])
         refs ''remote all includes hidden locale''))"

definition app_runtime :: "driver \<Rightarrow> pyval \<Rightarrow> unit prog" where
  "app_runtime d fixture =
     (let arch = text_at fixture ''arch''; selected = selection_ref fixture; baseline = app_of fixture '''';
          other = named_ref ''app'' ''org.flatpak.SelectionOther'' arch ''test'';
          query = [''remote-ls'', ''--user'', ''--app'', ''--columns=ref'', ''--arch='' @ arch] in steps [
        lists d (query @ [''queries'']) [baseline, selected, other] ''unfiltered app controls'',
        forP [(short_of (runtime_of fixture), [baseline, selected]),
            (''org.flatpak.SelectionPlatform/'' @ arch @ ''/test'', [other]),
            (''org.flatpak.AbsentPlatform/'' @ arch @ ''/test'', [])] (\<lambda>(used, refs).
          lists d (query @ [''--app-runtime='' @ used, ''queries'']) refs ''remote app-runtime filters consumers'')])"

definition list_details :: "driver \<Rightarrow> pyval \<Rightarrow> string list \<Rightarrow> unit prog" where
  "list_details d queries refs = steps [
     forP refs (installs_unrelated d),
     bindP (mapP (\<lambda>ref. bindP (query_commit queries ''A'' ref) (\<lambda>commit. ret (ref, commit))) refs)
       (details d ''list'' [''--app''] [])]"

definition of_arch :: "string \<Rightarrow> string \<times> pyval \<Rightarrow> bool result" where
  "of_arch arch entry = (if startswith (fst entry) ''app/''
     then bindE (arch_of (fst entry)) (\<lambda>a. Inr (a = arch)) else Inr False)"

definition remote_ls_details :: "driver \<Rightarrow> pyval \<Rightarrow> pyval \<Rightarrow> unit prog" where
  "remote_ls_details d fixture queries =
     (let arch = text_at fixture ''arch'' in
      bindP (liftP (foldE getitem queries [''versions'', ''A'', ''refs''])) (\<lambda>refs.
      bindP (liftP (filterE (of_arch arch) (entries_of refs))) (\<lambda>apps.
      bindP (text_item fixture [''commits'', ''A'']) (\<lambda>a.
      details d ''remote-ls'' [''--app'', ''--arch='' @ arch] [''queries'']
        (AList.update (app_of fixture '''') a (map (\<lambda>(ref, x). (ref, text_at x ''commit'')) apps))))))"

definition remotes_details :: "driver \<Rightarrow> string \<Rightarrow> string \<Rightarrow> unit prog" where
  "remotes_details d uri second_uri = steps [
     cli d [''remote-add'', ''--user'', ''--no-gpg-verify'', ''--title=Second query source'', ''second'', second_uri],
     forP [''First query source'', ''Updated query source''] (\<lambda>title.
       thenP (cli d [''remote-modify'', ''--user'', ''--title='' @ title, ''queries''])
      (bindP (cli_success d [''remotes'', ''--user'']) (\<lambda>plain.
       bindP (cli_success d [''remotes'', ''--user'', ''--show-details'']) (\<lambda>detailed.
       bindP (cli_success d [''remotes'', ''--user'', ''--columns=all'']) (\<lambda>all_columns.
       let rows = tab_rows detailed in steps [
         equal_text d detailed all_columns ''remote details are equivalent to all columns'',
         check d (detailed \<noteq> plain) ''remote details add information'',
         check d (length rows = 2) ''exactly two detailed remotes'',
         forP [(''queries'', title, uri), (''second'', ''Second query source'', second_uri)] (\<lambda>(remote, expected, location).
           let matching = filter (\<lambda>row. remote \<in> set row) rows in
           check d (length matching = 1 \<and> expected \<in> set (hd matching) \<and> location \<in> set (hd matching))
             (''details identify independent remote name, title and URL: '' @ repr_rows_of rows))])))))]"

definition column_value :: "pyval \<Rightarrow> string \<Rightarrow> string \<Rightarrow> string" where
  "column_value queries branch column =
     (if column = ''application'' then text_at queries ''app'' else if column = ''branch'' then branch
      else if column = ''version'' then ''1.2.3'' else ''queries'')"

definition search_columns :: "driver \<Rightarrow> pyval \<Rightarrow> unit prog" where
  "search_columns d queries = steps [
     cli d [''update'', ''--user'', ''--appstream'', ''queries''],
     forP [[''application'', ''branch''], [''branch'', ''application'', ''version'', ''remotes'']] (\<lambda>columns.
       forP [[''--columns='' @ join '','' columns], map (\<lambda>column. ''--columns='' @ column) columns] (\<lambda>flags.
         bindP (cli_success d ([''search'', ''--user''] @ flags @ [''amberquartz''])) (\<lambda>output.
         rows_are d output (map (\<lambda>branch. map (column_value queries branch) columns) [''master'', ''test''])
           ''search honors column selection and order''))),
     prints d [''list'', ''--user'', ''--columns=ref''] '''' ''search and cache refresh deploy no refs'']"

definition installed_size :: "pyval \<Rightarrow> string \<Rightarrow> int prog" where
  "installed_size queries ref = liftP (liftE (\<lambda>v. case v of PInt n \<Rightarrow> n | _ \<Rightarrow> 0)
     (foldE getitem queries [''versions'', ''A'', ''refs'', ref, ''installed'']))"

definition info_size :: "driver \<Rightarrow> pyval \<Rightarrow> string \<Rightarrow> string \<Rightarrow> unit prog" where
  "info_size d queries app other = bindP (mapP (installed_size queries) [app, other]) (\<lambda>sizes.
     thenP (check d (card (set sizes) = 2) ''size controls must have distinct byte counts'')
       (forP [app, other] (\<lambda>ref.
         thenP (installs_unrelated d ref)
        (bindP (installed_size queries ref) (\<lambda>expected.
         prints d [''info'', ''--user'', ''--show-size'', ref] (show_int expected)
           ''installed size equals independent fixture'')))))"

definition info_extensions :: "driver \<Rightarrow> pyval \<Rightarrow> string \<Rightarrow> string \<Rightarrow> string \<Rightarrow> unit prog" where
  "info_extensions d queries app extension unrelated =
     (let shown = cli_success d [''info'', ''--user'', ''--show-extensions'', app] in
      thenP (forP [app, extension, unrelated] (installs_unrelated d))
     (bindP (cli_success d [''info'', ''--user'', app]) (\<lambda>plain.
      bindP shown (\<lambda>output.
      thenP (check d (output \<noteq> plain) ''extension query adds extension information'')
     (thenP (check d (contains (short_of extension) output \<and> \<not> contains (short_of unrelated) output)
        (''only matching extension branch appears: '' @ output))
     (bindP (query_commit queries ''A'' extension) (\<lambda>commit.
      thenP (check d (list_ex (abbreviates commit) (split_ws output)) ''extension query includes its exact commit'')
     (thenP (uninstall_refs d [extension])
     (bindP shown (\<lambda>after.
      thenP (check d (\<not> list_ex (abbreviates commit) (split_ws after)) ''removed extension commit is no longer reported'')
        (bindP (query_commit queries ''A'' unrelated) (installed_commit d unrelated))))))))))))"

definition selection_names :: "string list" where
  "selection_names = [''query-options-list-all'', ''query-options-remote-ls-all'', ''query-options-app-runtime'']"

definition query_scenario :: "driver \<Rightarrow> pyval \<Rightarrow> pyval \<Rightarrow> string \<Rightarrow> string \<Rightarrow> unit prog" where
  "query_scenario d fixture queries uri name =
     (let arch = text_at fixture ''arch''; app = named_ref ''app'' (text_at queries ''app'') arch ''test'';
          extension = (\<lambda>branch. named_ref ''runtime'' (text_at queries ''extension'') arch branch) in
      if name = ''query-options-list-all'' then list_all_refs d fixture queries
      else if name = ''query-options-remote-ls-all'' then remote_ls_all d fixture queries
      else if name = ''query-options-app-runtime'' then app_runtime d fixture
      else if name = ''query-options-list-details'' then
        list_details d queries [app, named_ref ''app'' (text_at queries ''app'') arch ''master'']
      else if name = ''query-options-remote-ls-details'' then remote_ls_details d fixture queries
      else if name = ''query-options-remotes-details'' then
        bindP (query_source fixture queries ''B'') (remotes_details d uri)
      else if name = ''query-options-search-columns'' then search_columns d queries
      else if name = ''query-options-info-size'' then
        info_size d queries app (named_ref ''app'' (text_at queries ''second'') arch ''test'')
      else if name = ''query-options-info-extensions'' then info_extensions d queries app (extension ''test'') (extension ''next'')
      else raiseP ValueError (''unknown query option scenario: '' @ name))"

definition query_option :: "(string \<Rightarrow> unit prog) \<Rightarrow> driver \<Rightarrow> string \<Rightarrow> pyval \<Rightarrow> string \<Rightarrow> unit prog" where
  "query_option cached d url fixture name =
     bindP (required_part fixture ''queries'' ''independent query fixtures required'') (\<lambda>queries.
     if name = ''query-options-remote-info-cached'' then cached ''remote-info''
     else if name = ''query-options-remote-ls-cached'' then cached ''remote-ls''
     else let selection = name \<in> set selection_names in
       thenP (guardP (selection \<longrightarrow> has queries ''selection_repo'') PrerequisiteError
         ''independent selection and locale fixtures required'')
      (bindP (if selection then uri_in_fixture fixture (text_at queries ''selection_repo'') else query_source fixture queries ''A'')
        (\<lambda>uri.
         thenP (cli d [''remote-add'', ''--user'', ''--no-gpg-verify'', ''queries'', uri])
           (query_scenario d fixture queries uri name))))"

section \<open>\<open>search_kind_scenarios.py\<close>\<close>









section \<open>The audit trail\<close>

lemma audited_rows [audits]:
  "keeps audited (rows_are d output expected reason)" "keeps audited (lists d arguments refs reason)"
  "keeps audited (identified_row d rows rc)" "keeps audited (details d command options trailing commits)"
  unfolding rows_are_def lists_def identified_row_def details_def by (intro audits)+

lemma audited_queries [audits]:
  "keeps audited (installs_unrelated d ref)" "keeps audited (list_all_refs d fixture queries)"
  "keeps audited (remote_ls_all d fixture queries)" "keeps audited (app_runtime d fixture)"
  "keeps audited (list_details d queries refs)" "keeps audited (remote_ls_details d fixture queries)"
  "keeps audited (remotes_details d uri second_uri)" "keeps audited (search_columns d queries)"
  "keeps audited (installed_size queries ref)" "keeps audited (info_size d queries app other)"
  "keeps audited (info_extensions d queries app extension unrelated)" "keeps audited (query_scenario d fixture queries uri name)"
  unfolding installs_unrelated_def list_all_refs_def remote_ls_all_def app_runtime_def list_details_def remote_ls_details_def
    remotes_details_def search_columns_def installed_size_def info_size_def info_extensions_def query_scenario_def
  by (intro audits)+

lemma audited_query_option: "(\<And>command. keeps audited (cached command)) \<Longrightarrow> keeps audited (query_option cached d url fixture name)"
  unfolding query_option_def by (intro audits)



end
