(* ===== verification/C_Text.thy ===== *)
theory C_Text
  imports Py_Regex
begin

text \<open>
  The readers of C text in \<open>catalogue.py\<close>: \<open>uncomment\<close>, \<open>split_c\<close>, \<open>array\<close> and
  \<open>string_literal\<close>. Removing comments keeps every position of the text; splitting at
  positions is shown equal to a splitter that works on the sequence of tokens.
\<close>

section \<open>Patterns\<close>

definition any_char :: "char \<Rightarrow> bool" where
  "any_char c \<longleftrightarrow> True"

definition quote_mark :: string where "quote_mark = [CHR 0x22]"
definition apostrophe :: string where "apostrophe = [CHR 0x27]"
definition either_quote :: string where "either_quote = [CHR 0x27, CHR 0x22]"
definition backslash :: string where "backslash = [CHR 0x5C]"

text \<open>\<open>"(?:\\.|[^"\\])*"\<close> for either quotation mark.\<close>

definition quoted :: "string \<Rightarrow> regex" where
  "quoted q = seqs [lit q, Star True (Alt (Seq (lit backslash) (One any_char)) (One (beyond (q @ backslash)))), lit q]"

definition comment_pattern :: regex where
  "comment_pattern = Alt (seqs [lit ''/*'', few any_char, lit ''*/''])
     (Alt (Seq (lit ''//'') (many (beyond ''\<newline>''))) (Alt (quoted quote_mark) (quoted apostrophe)))"

definition blank :: "string \<Rightarrow> string" where
  "blank = re_sub (One (beyond ''\<newline>'')) (\<lambda>_. '' '')"

definition uncomment :: "string \<Rightarrow> string" where
  "uncomment source = re_sub comment_pattern (\<lambda>m. if startswith_any (match_text m) [''/*'', ''//'']
     then blank (match_text m) else match_text m) source"

section \<open>\<open>split_c\<close>\<close>

definition token_pattern :: regex where
  "token_pattern = Alt (quoted quote_mark) (Alt (quoted apostrophe) (One any_char))"

definition bracket_pairs :: "(string \<times> string) list" where
  "bracket_pairs = [(''('', '')''), (''{'', ''}''), (''['', '']'')]"

definition closers :: "string list" where
  "closers = ['')'', ''}'', '']'']"

definition slice :: "string \<Rightarrow> nat \<Rightarrow> nat \<Rightarrow> string" where
  "slice s a b = take (b - a) (drop a s)"

text \<open>The closers brackets still expected, where the current part starts, and the parts so far.\<close>

type_synonym split_state = "string list \<times> nat \<times> string list"

abbreviation unbalanced :: "'a result" where
  "unbalanced \<equiv> raise CatalogueError ''Unbalanced C declaration/table''"

definition split_token :: "string \<Rightarrow> string \<Rightarrow> split_state \<Rightarrow> found \<Rightarrow> split_state result" where
  "split_token source delimiter state m = (case state of (stack, start, ready) \<Rightarrow> let token = match_text m in
     (case map_of bracket_pairs token of Some closer \<Rightarrow> Inr (closer # stack, start, ready)
      | None \<Rightarrow> if token \<in> set closers then
          (case stack of [] \<Rightarrow> unbalanced | awaited # stack' \<Rightarrow> if awaited = token then Inr (stack', start, ready) else unbalanced)
        else if token = delimiter \<and> stack = [] then
          Inr (stack, match_stop m, ready @ [strip (slice source start (match_start m))])
        else Inr state))"

definition split_c :: "string \<Rightarrow> string \<Rightarrow> string list result" where
  "split_c source delimiter =
     bindE (foldE (split_token source delimiter) ([], 0, []) (re_finditer token_pattern source)) (\<lambda>(stack, start, ready).
     if stack \<noteq> [] then unbalanced
     else Inr (filter (\<lambda>part. part \<noteq> []) (ready @ [strip (drop start source)])))"

section \<open>Tables and names\<close>

definition spaces :: regex where "spaces = many isspace"

definition array_pattern :: "string \<Rightarrow> regex" where
  "array_pattern name = seqs [Boundary, lit name, spaces, lit ''['', spaces, lit '']'', spaces, lit ''='', spaces,
     lit ''{'', Group 1 (few any_char), lit ''}'', spaces, lit '';'']"

text \<open>\<open>text[1:-1]\<close>.\<close>

definition inner_text :: "string \<Rightarrow> string" where
  "inner_text s = butlast (drop 1 s)"

definition array_row :: "string \<Rightarrow> string \<Rightarrow> string list result" where
  "array_row name row = bindE (guardE (startswith row ''{'' \<and> endswith row ''}'') CatalogueError
     (''Unrecognized row in '' @ name @ ''[]: '' @ row)) (\<lambda>_. split_c (inner_text row) '','')"

definition array_rows :: "string \<Rightarrow> string \<Rightarrow> string list list result" where
  "array_rows source name = (case re_search (array_pattern name) source of
     None \<Rightarrow> raise CatalogueError (''Missing literal C array '' @ name @ ''[]'')
   | Some m \<Rightarrow> bindE (split_c (group_text m 1) '','') (mapE (array_row name)))"

definition name_char :: "char \<Rightarrow> bool" where
  "name_char c \<longleftrightarrow> alphanumeric c \<or> c \<in> {CHR ''_'', CHR ''-''}"

definition literal_pattern :: regex where
  "literal_pattern = seqs [lit quote_mark, some name_char, lit quote_mark]"

definition string_literal :: "string \<Rightarrow> string result" where
  "string_literal v = bindE (guardE (re_fullmatch literal_pattern v \<noteq> None) CatalogueError
     (''Expected an interface-name string literal: '' @ v)) (\<lambda>_. Inr (inner_text v))"

section \<open>Positions are kept\<close>

text \<open>What may become of a character: itself, or a blank unless it ends a line.\<close>

definition blanked :: "char \<Rightarrow> char \<Rightarrow> bool" where
  "blanked c d \<longleftrightarrow> d = c \<or> c \<noteq> CHR 0x0A \<and> d = CHR '' ''"

lemma blank_related: "list_all2 blanked s (blank s)"
proof -
  let ?r = "One (beyond ''\<newline>'')"
  have one: "\<exists>c. match_text m = [c] \<and> c \<noteq> CHR 0x0A" if "found_by ?r m" for m
  proof -
    from that obtain p q where q: "q \<in> set (one (beyond ''\<newline>'') p)" and m: "m = found_at p q"
      by (auto simp: found_by_def)
    from leads_one [OF q] obtain c where "beyond ''\<newline>'' c" "leads p [c] q" by blast
    with m show ?thesis by (auto simp: found_at_def word_between_leads beyond_def)
  qed
  show ?thesis
    unfolding blank_def
    by (rule sub_related_found) (simp add: blanked_def, drule one, auto simp: blanked_def)
qed

lemma uncomment_related: "list_all2 blanked s (uncomment s)"
  unfolding uncomment_def
  by (rule sub_related_found) (auto simp: blanked_def blank_related intro: list.rel_refl)

lemma uncomment_length [simp]: "length (uncomment s) = length s"
  using list_all2_lengthD [OF uncomment_related [of s]] by simp

section \<open>Splitting by tokens\<close>

definition tokens :: "string \<Rightarrow> string list" where
  "tokens s = map match_text (re_finditer token_pattern s)"

text \<open>The reference splitter: the tokens up to a delimiter outside all brackets make up a part.\<close>

fun cut :: "string \<Rightarrow> string list \<Rightarrow> string list \<Rightarrow> string list \<Rightarrow> string list option" where
  "cut d stack part [] = (if stack = [] then Some [concat part] else None)"
| "cut d stack part (t # ts) = (case map_of bracket_pairs t of
     Some closer \<Rightarrow> cut d (closer # stack) (part @ [t]) ts
   | None \<Rightarrow> if t \<in> set closers then
         (case stack of [] \<Rightarrow> None | awaited # stack' \<Rightarrow> if awaited = t then cut d stack' (part @ [t]) ts else None)
       else if t = d \<and> stack = [] then map_option ((#) (concat part)) (cut d [] [] ts)
       else cut d stack (part @ [t]) ts)"

definition finish_split :: "string \<Rightarrow> split_state \<Rightarrow> string list result" where
  "finish_split source state = (case state of (stack, start, ready) \<Rightarrow> if stack \<noteq> [] then unbalanced
     else Inr (filter (\<lambda>part. part \<noteq> []) (ready @ [strip (drop start source)])))"

lemma split_from:
  assumes "positioned (length (a @ concat part)) ps" "\<forall>p\<in>set ps. \<exists>m. p = Matched m"
    "source = a @ concat part @ concat (map piece_text ps)"
  shows "bindE (foldE (split_token source d) (stack, length a, ready) (matches_of ps)) (finish_split source) =
    (case cut d stack part (map match_text (matches_of ps)) of None \<Rightarrow> unbalanced
     | Some parts \<Rightarrow> Inr (filter (\<lambda>part. part \<noteq> []) (ready @ map strip parts)))"
  using assms
proof (induction ps arbitrary: a part stack ready)
  case Nil
  then show ?case by (simp add: finish_split_def)
next
  case (Cons p ps)
  then obtain m where p: "p = Matched m" by auto
  with Cons.prems have at: "match_start m = length (a @ concat part)"
      "match_stop m = length (a @ concat part @ match_text m)" "positioned (match_stop m) ps"
      "source = a @ concat part @ match_text m @ concat (map piece_text ps)"
    by auto
  then have go: "bindE (foldE (split_token source d) (st, length a, ready) (matches_of ps)) (finish_split source) =
    (case cut d st (part @ [match_text m]) (map match_text (matches_of ps)) of None \<Rightarrow> unbalanced
     | Some parts \<Rightarrow> Inr (filter (\<lambda>part. part \<noteq> []) (ready @ map strip parts)))" for st
    using Cons.prems by (intro Cons.IH) (auto simp: p)
  have here: "bindE (foldE (split_token source d) ([], match_stop m, ready @ [strip (concat part)]) (matches_of ps))
      (finish_split source) = (case cut d [] [] (map match_text (matches_of ps)) of None \<Rightarrow> unbalanced
     | Some parts \<Rightarrow> Inr (filter (\<lambda>part. part \<noteq> []) ((ready @ [strip (concat part)]) @ map strip parts)))"
    using Cons.IH [of "a @ concat part @ [] @ match_text m" "[]"] at Cons.prems by (simp add: p)
  have cutting: "slice source (length a) (match_start m) = concat part"
    using at by (simp add: slice_def)
  show ?case
    using go here cutting split_token_def [of source d "(stack, length a, ready)" m]
    by (cases "map_of bracket_pairs (match_text m)"; cases stack; cases "cut d [] [] (map match_text (matches_of ps))")
      (simp_all add: p Let_def)
qed

lemma scan_tokens: "p \<in> set (scan token_pattern b s) \<Longrightarrow> \<exists>m. p = Matched m"
proof (induction token_pattern b s rule: scan.induct)
  case (1 b s)
  let ?p = "Place b s []"
  have some: "moving ?p (run_regex token_pattern ?p) \<noteq> []" if "s = c # s'" for c s'
  proof -
    have "Place (c # b) s' [] \<in> set (run_regex token_pattern ?p)"
      using that by (simp add: token_pattern_def one_def any_char_def)
    then have "Place (c # b) s' [] \<in> set (moving ?p (run_regex token_pattern ?p))"
      using that by (simp add: moving_def)
    then show ?thesis by force
  qed
  have empty: "p \<in> set (empty_match ?p (run_regex token_pattern ?p)) \<Longrightarrow> \<exists>m. p = Matched m"
    by (auto simp: empty_match_def split: list.splits if_splits)
  show ?case
  proof (cases "moving ?p (run_regex token_pattern ?p)")
    case Nil
    with some have "s = []" by (cases s) auto
    with Nil 1(3) empty show ?thesis by (subst (asm) scan.simps) (auto simp: Let_def)
  next
    case (Cons q qs)
    with 1(2) [OF refl refl Cons] 1(3) empty show ?thesis
      by (subst (asm) (2) scan.simps) (auto simp: Let_def)
  qed
qed

lemma pieces_of_tokens: "\<forall>p\<in>set ps. \<exists>m. p = Matched m \<Longrightarrow> map piece_text ps = map match_text (matches_of ps)"
  by (induction ps rule: matches_of.induct) auto

lemma concat_tokens: "concat (tokens s) = s"
  using scan_text [of token_pattern "[]" s] pieces_of_tokens [of "scan token_pattern [] s"] scan_tokens
  by (simp add: tokens_def re_finditer_def)

lemma split_c_cut: "split_c s d = (case cut d [] [] (tokens s) of None \<Rightarrow> unbalanced
    | Some parts \<Rightarrow> Inr (filter (\<lambda>part. part \<noteq> []) (map strip parts)))"
  using split_from [of "[]" "[]" "scan token_pattern [] s" s d "[]" "[]"] scan_positioned [of "[]" token_pattern s] scan_tokens
  by (simp add: split_c_def tokens_def re_finditer_def scan_text finish_split_def [abs_def] cong: option.case_cong)

lemma cut_length: "cut d stack part ts = Some parts \<Longrightarrow> x \<in> set parts \<Longrightarrow> length x \<le> length (concat part) + length (concat ts)"
proof (induction d stack part ts arbitrary: parts rule: cut.induct)
  case (2 d stack part t ts)
  then show ?case
    by (fastforce split: option.splits if_splits list.splits)
qed (auto split: if_splits)

lemma strip_length: "length (strip s) \<le> length s"
  using le_trans [OF length_dropWhile_le [of isspace "rev (dropWhile isspace s)"]] length_dropWhile_le [of isspace s]
  by (simp add: strip_def strip_by_def)

lemma split_c_length:
  assumes "split_c s d = Inr parts" "x \<in> set parts"
  shows "length x \<le> length s"
proof -
  obtain ps y where "cut d [] [] (tokens s) = Some ps" "y \<in> set ps" "x = strip y"
    using assms by (auto simp: split_c_cut split: option.splits)
  with cut_length [of d "[]" "[]" "tokens s" ps y] strip_length [of y] show ?thesis by (simp add: concat_tokens)
qed

lemma split_c_nonempty: "split_c s d = Inr parts \<Longrightarrow> x \<in> set parts \<Longrightarrow> x \<noteq> []"
  by (auto simp: split_c_cut split: option.splits)

lemma split_c_Inl: "split_c s d = Inl e \<Longrightarrow> exn_class e = CatalogueError"
  by (auto simp: split_c_cut raise_def split: option.splits)

text \<open>C38: Splitting C text at a delimiter by positions in the text is splitting its sequence of tokens:
  the parts are what stands between the delimiters outside all brackets and literals, stripped, the
  empty ones left out; unbalanced brackets are refused. The tokens put together are the text, and
  removing comments beforehand keeps the position of every character and every line break.\<close>

theorem split_c_tokens:
  "split_c s d = (case cut d [] [] (tokens s) of
     None \<Rightarrow> raise CatalogueError ''Unbalanced C declaration/table''
   | Some parts \<Rightarrow> Inr (filter (\<lambda>part. part \<noteq> []) (map strip parts))) \<and>
   concat (tokens s) = s \<and> list_all2 blanked s (uncomment s)"
  using split_c_cut concat_tokens uncomment_related by blast

end
