(* ===== verification/Xml_Documents.thy ===== *)
theory Xml_Documents
  imports C_Text Action_Logic Py_Path
begin

text \<open>
  The sources the catalogue generator reads, and the XML documents it assembles from them:
  \<open>Generator.read\<close>, \<open>local_path\<close> and \<open>xml\<close> of \<open>catalogue.py\<close>. The repository (file contents, path
  resolution, the commit), SHA-256, the XML parser and its element paths are a record of
  functions; a file may have other contents at another read.
\<close>

section \<open>Elements\<close>

text \<open>\<open>self.origins\<close> maps an element, by identity, to the document it was parsed from; here an element
  carries it.\<close>

datatype element = Element (el_tag: string) (el_attributes: "(string \<times> string) list") (el_text: string)
  (el_children: "element list") (el_tail: string) (el_origin: string)

fun iter_elements :: "element \<Rightarrow> element list" where
  "iter_elements (Element g as x cs t d) = Element g as x cs t d # concat (map iter_elements cs)"

fun item_text :: "element \<Rightarrow> string" where
  "item_text (Element g as x cs t d) = x @ concat (map (\<lambda>c. item_text c @ el_tail c) cs)"

fun with_origin :: "string \<Rightarrow> element \<Rightarrow> element" where
  "with_origin d (Element g as x cs t d') = Element g as x (map (with_origin d) cs) t d"

definition attribute :: "element \<Rightarrow> string \<Rightarrow> string option" where
  "attribute e name = map_of (el_attributes e) name"

section \<open>The generator's state\<close>

record source_tree =
  tree_root :: path
  tree_bytes :: "nat \<Rightarrow> string \<Rightarrow> string + string" \<comment> \<open>what a read of the file gives, or an \<open>OSError\<close>\<close>
  tree_resolve :: "path \<Rightarrow> path"
  tree_is_file :: "path \<Rightarrow> bool"
  tree_digest :: "string \<Rightarrow> string"
  utf8_text :: "string \<Rightarrow> string + string" \<comment> \<open>\<open>decode\<close>, or a \<open>UnicodeDecodeError\<close>\<close>
  parse_xml :: "string \<Rightarrow> string + element"
  find_all :: "element \<Rightarrow> string \<Rightarrow> string + element list"
  head_commit :: "string + string" \<comment> \<open>\<open>git rev-parse HEAD\<close>, or a \<open>CalledProcessError\<close>\<close>

type_synonym origin = "string \<times> string" \<comment> \<open>path and anchor\<close>

record surface =
  surface_id :: string
  surface_kind_name :: string
  surface_name :: string
  surface_sources :: "origin list"
  surface_aliases :: "string list option"
  documented_with :: "string list option"
  surface_command :: "string option"
  surface_owner :: "string option"
  surface_deprecated :: "bool option"
  surface_replacement :: "string option"

record generator =
  reads :: nat
  hashes :: "(string \<times> string) list"
  surfaces :: "(string \<times> surface) list"
  exclusions :: "string list" \<comment> \<open>a set\<close>

type_synonym 'a gen = "(generator, 'a) action"

definition new_generator :: generator where
  "new_generator = \<lparr>reads = 0, hashes = [], surfaces = [], exclusions = []\<rparr>"

definition or_raise :: "exn_class \<Rightarrow> string + 'a \<Rightarrow> 'a result" where
  "or_raise c r = (case r of Inl message \<Rightarrow> raise c message | Inr x \<Rightarrow> Inr x)"

section \<open>\<open>read\<close> and \<open>local_path\<close>\<close>

definition source_file :: "source_tree \<Rightarrow> string \<Rightarrow> path" where
  "source_file T path = path_join (tree_root T) (path_of path)"

definition fetch :: "source_tree \<Rightarrow> string \<Rightarrow> string gen" where
  "fetch T path = bindP (readP reads) (\<lambda>n. thenP (modifyP (\<lambda>g. g\<lparr>reads := Suc n\<rparr>))
     (liftP (or_raise OSError (tree_bytes T n (path_str (source_file T path))))))"

definition read_source :: "source_tree \<Rightarrow> string \<Rightarrow> string gen" where
  "read_source T path =
     thenP (guardP (is_relative_to (tree_resolve T (source_file T path)) (tree_root T)) CatalogueError
       (''Source escapes repository: '' @ path))
    (bindP (fetch T path) (\<lambda>bytes.
     bindP (readP (\<lambda>g. map_of (hashes g) path)) (\<lambda>known.
     thenP (guardP (known \<in> {None, Some (tree_digest T bytes)}) CatalogueError (''Source changed during generation: '' @ path))
    (thenP (modifyP (\<lambda>g. g\<lparr>hashes := AList.update path (tree_digest T bytes) (hashes g)\<rparr>))
       (liftP (or_raise ValueError (utf8_text T bytes)))))))"

definition scheme_pattern :: regex where
  "scheme_pattern = Alt (seqs [Text_Start, One (\<lambda>c. is_lower c \<or> is_upper c),
     many (\<lambda>c. alphanumeric c \<or> c \<in> set ''+.-''), lit '':'']) (One (among ''#?''))"

definition local_path :: "source_tree \<Rightarrow> string \<Rightarrow> string \<Rightarrow> string result" where
  "local_path T from href = (if re_search scheme_pattern href \<noteq> None
     then raise CatalogueError (''Non-local XML reference in '' @ from @ '': '' @ href)
     else case relative_to (tree_resolve T (path_join (path_parent (source_file T from)) (path_of href))) (tree_root T) of
       None \<Rightarrow> raise CatalogueError (''XML reference escapes repository: '' @ href)
     | Some p \<Rightarrow> Inr (path_str p))"

section \<open>Inclusion\<close>

definition xml_name_char :: "char \<Rightarrow> bool" where
  "xml_name_char c \<longleftrightarrow> word_char c \<or> c \<in> {CHR ''.'', CHR ''-''}"

definition entity_pattern :: regex where
  "entity_pattern = seqs [lit ''<!ENTITY'', some isspace, Group 1 (some xml_name_char), some isspace, lit ''SYSTEM'',
     some isspace, One (among either_quote), Group 2 (some (beyond either_quote)), One (among either_quote), spaces, lit ''>'']"

definition pointer_pattern :: regex where
  "pointer_pattern = Alt (seqs [lit ''element('', Group 1 (some xml_name_char), lit '')'']) (Group 2 (some xml_name_char))"

text \<open>\<open>str.replace\<close> of a nonempty text.\<close>

function replace_all :: "string \<Rightarrow> string \<Rightarrow> string \<Rightarrow> string" where
  "replace_all old new s = (if s = [] then [] else if old \<noteq> [] \<and> startswith s old
     then new @ replace_all old new (drop (length old) s) else hd s # replace_all old new (tl s))"
  by pat_completeness auto
termination
  by (relation "measure (\<lambda>(_, _, s). length s)") auto

declare replace_all.simps [simp del]

definition local_entity :: string where
  "local_entity = ''catalogue-local-entity''"

definition xinclude :: string where
  "xinclude = ''{http://www.w3.org/2001/XInclude}include''"

definition entity_marker :: "string \<Rightarrow> string" where
  "entity_marker name = ''<'' @ local_entity @ '' name='' @ quote_mark @ name @ quote_mark @ ''/>''"

definition repr_attributes :: "element \<Rightarrow> string" where
  "repr_attributes e = ''{'' @ join '', '' (map (\<lambda>(k, v). repr_str k @ '': '' @ repr_str v) (el_attributes e)) @ ''}''"

definition selected_elements :: "source_tree \<Rightarrow> string \<Rightarrow> element \<Rightarrow> string \<Rightarrow> element list result" where
  "selected_elements T path included pointer =
     (let unsupported = raise CatalogueError (''Unsupported XPointer in '' @ path @ '': '' @ pointer) in
      case re_fullmatch pointer_pattern pointer of
        Some m \<Rightarrow> let identifier = (if group_text m 1 \<noteq> [] then group_text m 1 else group_text m 2) in
          Inr (filter (\<lambda>e. attribute e ''id'' = Some identifier) (iter_elements included))
      | None \<Rightarrow> if startswith pointer ''xpointer(//'' \<and> endswith pointer '')'' then
          (case find_all T included (''.'' @ butlast (drop (length ''xpointer('') pointer)) of
             Inl _ \<Rightarrow> unsupported | Inr es \<Rightarrow> Inr es)
        else unsupported)"

definition included_elements :: "source_tree \<Rightarrow> string \<Rightarrow> element \<Rightarrow> string option \<Rightarrow> element list result" where
  "included_elements T path included pointer = (case pointer of
     None \<Rightarrow> Inr [included]
   | Some q \<Rightarrow> if q = [] then Inr [included] else bindE (selected_elements T path included q) (\<lambda>es.
       bindE (guardE (es \<noteq> []) CatalogueError (''Unresolved XPointer in '' @ path @ '': '' @ q)) (\<lambda>_. Inr es)))"

text \<open>What takes the place of a child, if anything does.\<close>

definition replacement ::
  "source_tree \<Rightarrow> (string \<Rightarrow> element gen) \<Rightarrow> (string \<times> element) list \<Rightarrow> string \<Rightarrow> element \<Rightarrow> element list option gen" where
  "replacement T load entities path child =
     (if el_tag child = local_entity then
        (case attribute child ''name'' of None \<Rightarrow> raiseP KeyError (repr_str ''name'')
         | Some name \<Rightarrow> (case map_of entities name of None \<Rightarrow> raiseP KeyError (repr_str name) | Some e \<Rightarrow> ret (Some [e])))
      else if el_tag child \<noteq> xinclude then ret None
      else case attribute child ''href'' of
        Some href \<Rightarrow>
          thenP (guardP (attribute child ''parse'' \<in> {None, Some ''xml''}) CatalogueError
            (''Unsupported XML include in '' @ path @ '': '' @ repr_attributes child))
         (bindP (liftP (local_path T path href)) (\<lambda>target. bindP (load target) (\<lambda>included.
          bindP (liftP (included_elements T path included (attribute child ''xpointer''))) (\<lambda>es. ret (Some es)))))
      | None \<Rightarrow> raiseP CatalogueError (''Unsupported XML include in '' @ path @ '': '' @ repr_attributes child))"

definition put_in_place :: "element list option list \<Rightarrow> element list \<Rightarrow> element list" where
  "put_in_place rs kept = concat (map2 (\<lambda>r k. case r of None \<Rightarrow> [k] | Some es \<Rightarrow> es) rs kept)"

lemma mapP_cong [fundef_cong]: "xs = ys \<Longrightarrow> (\<And>x. x \<in> set ys \<Longrightarrow> f x = g x) \<Longrightarrow> mapP f xs = mapP g ys"
proof (induction ys arbitrary: xs)
  case (Cons y ys)
  then have "mapP f ys = mapP g ys" by auto
  with Cons.prems show ?case by simp
qed simp

text \<open>The children of an element are replaced from the last to the first; then the elements below
  are visited, those that were replaced too.\<close>

fun expand :: "(element \<Rightarrow> element list option gen) \<Rightarrow> element \<Rightarrow> element gen" where
  "expand r (Element g as x cs t d) = bindP (mapP r (rev cs)) (\<lambda>reps.
     bindP (mapP (expand r) cs) (\<lambda>kept. ret (Element g as x (put_in_place (rev reps) kept) t d)))"

definition entity_step ::
  "source_tree \<Rightarrow> (string \<Rightarrow> element gen) \<Rightarrow> string \<Rightarrow> (string \<times> element) list \<times> string \<Rightarrow> found \<Rightarrow>
     ((string \<times> element) list \<times> string) gen" where
  "entity_step T load path state m = (let name = group_text m 1 in
     bindP (liftP (local_path T path (group_text m 2))) (\<lambda>target. bindP (load target) (\<lambda>e.
     ret (AList.update name e (fst state), replace_all (''&'' @ name @ '';'') (entity_marker name) (snd state)))))"

text \<open>The fuel is the interpreter's limit of nested calls.\<close>

fun xml :: "source_tree \<Rightarrow> nat \<Rightarrow> string \<Rightarrow> string list \<Rightarrow> element gen" where
  "xml T 0 path ancestors = raiseP RuntimeError ''maximum recursion depth exceeded''"
| "xml T (Suc n) path ancestors =
     (let load = (\<lambda>target. xml T n target (ancestors @ [path])) in
      thenP (guardP (path \<notin> set ancestors) CatalogueError
        (''Cyclic XML include/entity: '' @ join '' -> '' (ancestors @ [path])))
     (bindP (read_source T path) (\<lambda>source.
      bindP (foldP (entity_step T load path) ([], source) (re_finditer entity_pattern source)) (\<lambda>(entities, source).
      case parse_xml T (re_sub entity_pattern (\<lambda>_. []) source) of
        Inl message \<Rightarrow> raiseP CatalogueError (''Unresolved or malformed XML in '' @ path @ '': '' @ message)
      | Inr e \<Rightarrow> expand (replacement T load entities path) (with_origin path e)))))"

section \<open>Reading changes only the records of reading\<close>

text \<open>\<open>reading cs m\<close>: the action fails with exceptions of \<open>cs\<close> only, neither adds an interface nor
  an exclusion, and records one digest for a document.\<close>

definition reading :: "exn_class set \<Rightarrow> 'a gen \<Rightarrow> bool" where
  "reading cs m \<longleftrightarrow> (\<forall>g. surfaces (snd (m g)) = surfaces g \<and> exclusions (snd (m g)) = exclusions g \<and>
     (distinct (map fst (hashes g)) \<longrightarrow> distinct (map fst (hashes (snd (m g))))) \<and>
     (\<forall>e. fst (m g) = Inl e \<longrightarrow> exn_class e \<in> cs))"

named_theorems readings \<comment> \<open>what only reads\<close>

lemma reading_ret [readings]: "reading cs (ret x)"
  by (simp add: reading_def ret_def)

lemma reading_lift: "(\<And>e. r = Inl e \<Longrightarrow> exn_class e \<in> cs) \<Longrightarrow> reading cs (liftP r)"
  by (simp add: reading_def liftP_def)

lemma reading_or_raise [readings]: "c \<in> cs \<Longrightarrow> reading cs (liftP (or_raise c r))"
  by (rule reading_lift) (auto simp: or_raise_def raise_def split: sum.splits)

lemma reading_raise [readings]: "c \<in> cs \<Longrightarrow> reading cs (raiseP c message)"
  by (simp add: reading_def raiseP_def liftP_def raise_def)

lemma reading_bind:
  assumes m: "reading cs m" and f: "\<And>x g h. m g = (Inr x, h) \<Longrightarrow> reading cs (f x)"
  shows "reading cs (bindP m f)"
  unfolding reading_def
proof
  fix g
  obtain r h where r: "m g = (r, h)" by force
  have mine: "surfaces h = surfaces g" "exclusions h = exclusions g" "\<And>e. r = Inl e \<Longrightarrow> exn_class e \<in> cs"
      "distinct (map fst (hashes g)) \<longrightarrow> distinct (map fst (hashes h))"
    using m [unfolded reading_def, rule_format, of g] r by auto
  show "surfaces (snd (bindP m f g)) = surfaces g \<and> exclusions (snd (bindP m f g)) = exclusions g \<and>
      (distinct (map fst (hashes g)) \<longrightarrow> distinct (map fst (hashes (snd (bindP m f g))))) \<and>
      (\<forall>e. fst (bindP m f g) = Inl e \<longrightarrow> exn_class e \<in> cs)"
  proof (cases r)
    case (Inl e)
    with r mine show ?thesis by (simp add: bindP_def)
  next
    case (Inr x)
    with f [unfolded reading_def, rule_format, of g x h h] r mine show ?thesis by (simp add: bindP_def)
  qed
qed

lemma reading_bind_any [readings]: "reading cs m \<Longrightarrow> (\<And>x. reading cs (f x)) \<Longrightarrow> reading cs (bindP m f)"
  by (rule reading_bind)

lemma reading_guard [readings]: "c \<in> cs \<Longrightarrow> (ok \<Longrightarrow> reading cs m) \<Longrightarrow> reading cs (thenP (guardP ok c message) m)"
  by (cases ok) (simp_all add: reading_def thenP_def bindP_def guardP_def liftP_def guardE_def raise_def)

lemma reading_then: "reading cs m \<Longrightarrow> reading cs n \<Longrightarrow> reading cs (thenP m n)"
  unfolding thenP_def by (rule reading_bind_any)

lemma reading_get [readings]: "reading cs (readP f)"
  by (simp add: reading_def readP_def)

lemma reading_set [readings]: "(\<And>g. surfaces (f g) = surfaces g) \<Longrightarrow> (\<And>g. exclusions (f g) = exclusions g) \<Longrightarrow>
    (\<And>g. distinct (map fst (hashes g)) \<Longrightarrow> distinct (map fst (hashes (f g)))) \<Longrightarrow> reading cs (modifyP f)"
  by (simp add: reading_def modifyP_def)

lemma reading_map [readings]: "(\<And>x. x \<in> set xs \<Longrightarrow> reading cs (f x)) \<Longrightarrow> reading cs (mapP f xs)"
  by (induction xs) (auto intro!: reading_ret reading_bind_any)

lemma reading_fold [readings]: "(\<And>b x. reading cs (f b x)) \<Longrightarrow> reading cs (foldP f b xs)"
  by (induction xs arbitrary: b) (auto intro!: reading_ret reading_bind_any)

definition source_errors :: "exn_class set" where
  "source_errors = {CatalogueError, OSError, ValueError, KeyError}"

lemma reading_source: "reading source_errors (read_source T path)"
proof -
  have "reading source_errors (fetch T path)"
    unfolding fetch_def by (intro readings reading_then) (auto simp: source_errors_def)
  then show ?thesis
    unfolding read_source_def by (intro readings reading_then) (auto simp: source_errors_def distinct_update)
qed

lemma local_path_Inl: "local_path T from href = Inl e \<Longrightarrow> exn_class e = CatalogueError"
  by (auto simp: local_path_def raise_def split: if_splits option.splits)

lemma included_Inl: "included_elements T path e pointer = Inl x \<Longrightarrow> exn_class x = CatalogueError"
  by (auto simp: included_elements_def selected_elements_def Let_def raise_def guardE_def bindE_def
      split: option.splits if_splits sum.splits)

lemma reading_replacement:
  assumes "\<And>href target. local_path T path href = Inr target \<Longrightarrow> reading cs (load target)" "source_errors \<subseteq> cs"
  shows "reading cs (replacement T load entities path child)"
proof -
  have cs: "CatalogueError \<in> cs" "KeyError \<in> cs" using assms(2) by (auto simp: source_errors_def)
  have included: "reading cs (liftP (included_elements T path e pointer))" for e pointer
    using cs by (intro reading_lift) (auto dest: included_Inl)
  have path: "reading cs (liftP (local_path T path href))" for href
    using cs by (intro reading_lift) (auto dest: local_path_Inl)
  have go: "reading cs (thenP (guardP ok CatalogueError message) (bindP (liftP (local_path T path href)) (\<lambda>target.
      bindP (load target) (\<lambda>e. bindP (liftP (included_elements T path e pointer)) (\<lambda>es. ret (Some es))))))"
    for ok message href pointer
    using cs by (intro reading_guard reading_bind [OF path] reading_bind_any included reading_ret assms(1))
      (auto simp: liftP_def)
  show ?thesis
    unfolding replacement_def using cs go by (auto intro!: reading_raise reading_ret split: option.split)
qed

lemma reading_expand: "(\<And>c. reading cs (r c)) \<Longrightarrow> reading cs (expand r e)"
  by (induction r e rule: expand.induct) (auto intro!: readings)

lemma reading_entity:
  assumes "\<And>href target. local_path T path href = Inr target \<Longrightarrow> reading cs (load target)" "source_errors \<subseteq> cs"
  shows "reading cs (entity_step T load path state m)"
proof -
  have path: "reading cs (liftP (local_path T path href))" for href
    using assms(2) by (intro reading_lift) (auto simp: source_errors_def dest: local_path_Inl)
  show ?thesis
    unfolding entity_step_def Let_def
    by (intro reading_bind [OF path] reading_bind_any reading_ret assms(1)) (auto simp: liftP_def)
qed

text \<open>What a document takes to be read, when reading the documents it names is known to be safe.\<close>

lemma reading_xml_step:
  assumes "\<And>href target. local_path T path href = Inr target \<Longrightarrow> path \<notin> set ancestors \<Longrightarrow>
      (\<exists>n bytes. tree_bytes T n (path_str (source_file T path)) = Inr bytes) \<Longrightarrow>
      reading cs (xml T n target (ancestors @ [path]))"
    and "source_errors \<subseteq> cs"
  shows "reading cs (xml T (Suc n) path ancestors)"
proof -
  let ?load = "\<lambda>target. xml T n target (ancestors @ [path])"
  have cs: "CatalogueError \<in> cs" using assms(2) by (auto simp: source_errors_def)
  have source: "reading cs (read_source T path)"
    using reading_source [of T path] assms(2) unfolding reading_def by blast
  have read: "\<exists>n bytes. tree_bytes T n (path_str (source_file T path)) = Inr bytes"
    if "read_source T path g = (Inr x, h)" for x g h
    using that by (auto simp: read_source_def fetch_def thenP_def bindP_def guardP_def liftP_def guardE_def raise_def
        readP_def modifyP_def or_raise_def split: if_splits sum.splits)
  have safe: "reading cs (?load target)"
    if "local_path T path href = Inr target" "path \<notin> set ancestors" "read_source T path g = (Inr x, h)" for href target x g h
    using assms(1) [OF that(1,2) read [OF that(3)]] .
  have body: "reading cs (case parse_xml T s of
        Inl message \<Rightarrow> raiseP CatalogueError (''Unresolved or malformed XML in '' @ path @ '': '' @ message)
      | Inr e \<Rightarrow> expand (replacement T ?load entities path) (with_origin path e))"
    if "path \<notin> set ancestors" "read_source T path g = (Inr x, h)" for x g h s entities
    using reading_expand [OF reading_replacement [OF safe [OF _ that] assms(2)]] cs
    by (auto intro: reading_raise split: sum.split)
  show ?thesis
    unfolding xml.simps Let_def
  proof (rule reading_guard [OF cs], rule reading_bind [OF source])
    fix x g h
    assume fresh: "path \<notin> set ancestors" and x: "read_source T path g = (Inr x, h)"
    have "reading cs (foldP (entity_step T ?load path) ([], x) ms)" for ms
      by (rule reading_fold, rule reading_entity [OF _ assms(2)]) (rule safe [OF _ fresh x])
    then show "reading cs (bindP (foldP (entity_step T ?load path) ([], x) (re_finditer entity_pattern x))
        (\<lambda>(entities, source). case parse_xml T (re_sub entity_pattern (\<lambda>_. []) source) of
          Inl message \<Rightarrow> raiseP CatalogueError (''Unresolved or malformed XML in '' @ path @ '': '' @ message)
        | Inr e \<Rightarrow> expand (replacement T ?load entities path) (with_origin path e)))"
    proof (rule reading_bind_any)
      fix es :: "(string \<times> element) list \<times> string"
      show "reading cs (case es of (entities, source) \<Rightarrow> case parse_xml T (re_sub entity_pattern (\<lambda>_. []) source) of
          Inl message \<Rightarrow> raiseP CatalogueError (''Unresolved or malformed XML in '' @ path @ '': '' @ message)
        | Inr e \<Rightarrow> expand (replacement T ?load entities path) (with_origin path e))"
        using body [OF fresh x] by (cases es) simp
    qed
  qed
qed

lemma reading_xml: "reading (insert RuntimeError source_errors) (xml T n path ancestors)"
proof (induction n arbitrary: path ancestors)
  case (Suc n)
  show ?case by (rule reading_xml_step [OF Suc]) auto
qed (simp add: readings)

section \<open>Inclusion ends\<close>

text \<open>The documents of the repository that an inclusion can name and read.\<close>

definition documents :: "source_tree \<Rightarrow> string set" where
  "documents T = {path. (\<exists>p r. relative_to (tree_resolve T p) (tree_root T) = Some r \<and> path = path_str r) \<and>
     (\<exists>n bytes. tree_bytes T n (path_str (source_file T path)) = Inr bytes)}"

text \<open>A chain of inclusions: the documents being read, each once; all but the first were named by another.\<close>

definition chain :: "source_tree \<Rightarrow> string list \<Rightarrow> bool" where
  "chain T ancestors \<longleftrightarrow> distinct ancestors \<and> set (tl ancestors) \<subseteq> documents T"

lemma chain_length: "chain T ancestors \<Longrightarrow> finite (documents T) \<Longrightarrow> length ancestors \<le> Suc (card (documents T))"
proof -
  assume a: "chain T ancestors" "finite (documents T)"
  then have "card (set (tl ancestors)) \<le> card (documents T)" by (auto simp: chain_def intro: card_mono)
  moreover have "distinct (tl ancestors)" using a by (simp add: chain_def distinct_tl)
  ultimately show ?thesis by (simp add: distinct_card)
qed

definition named_document :: "source_tree \<Rightarrow> string \<Rightarrow> bool" where
  "named_document T path \<longleftrightarrow> (\<exists>p r. relative_to (tree_resolve T p) (tree_root T) = Some r \<and> path = path_str r)"

lemma local_path_named: "local_path T from href = Inr target \<Longrightarrow> named_document T target"
  by (auto simp: local_path_def named_document_def split: if_splits option.splits)

lemma reading_chain:
  assumes finite: "finite (documents T)"
  shows "chain T ancestors \<Longrightarrow> ancestors = [] \<or> named_document T path \<Longrightarrow>
    card (documents T) + 2 \<le> n + length ancestors \<Longrightarrow> reading source_errors (xml T n path ancestors)"
proof (induction n arbitrary: path ancestors)
  case 0
  with chain_length [OF 0(1) finite] show ?case by simp
next
  case (Suc n)
  show ?case
  proof (rule reading_xml_step)
    fix href target
    assume a: "local_path T path href = Inr target" "path \<notin> set ancestors"
      "\<exists>n bytes. tree_bytes T n (path_str (source_file T path)) = Inr bytes"
    have "set (tl (ancestors @ [path])) \<subseteq> documents T"
      using Suc.prems(1,2) a(3) by (cases ancestors) (auto simp: chain_def documents_def named_document_def)
    with a(2) Suc.prems(1) have "chain T (ancestors @ [path])" by (simp add: chain_def)
    then show "reading source_errors (xml T n target (ancestors @ [path]))"
      by (rule Suc.IH) (use local_path_named [OF a(1)] Suc.prems(3) in auto)
  qed simp
qed

text \<open>Fuel beyond what the chain of inclusions takes does not matter.\<close>

lemma bind_lift_cong: "(\<And>x. r = Inr x \<Longrightarrow> f x = g x) \<Longrightarrow> bindP (liftP r) f = bindP (liftP r) g"
  by (cases r) (auto simp: bindP_def liftP_def fun_eq_iff)

lemma replacement_cong:
  assumes "\<And>href target. local_path T path href = Inr target \<Longrightarrow> load target = load' target"
  shows "replacement T load entities path child = replacement T load' entities path child"
  unfolding replacement_def using assms
  by (auto intro!: arg_cong [where f = "thenP _"] bind_lift_cong split: option.split)

lemma entity_step_cong:
  assumes "\<And>href target. local_path T path href = Inr target \<Longrightarrow> load target = load' target"
  shows "entity_step T load path state m = entity_step T load' path state m"
  unfolding entity_step_def Let_def using assms by (auto intro!: bind_lift_cong)

lemma read_source_readable:
  "read_source T path g = (Inr x, h) \<Longrightarrow> \<exists>n bytes. tree_bytes T n (path_str (source_file T path)) = Inr bytes"
  by (auto simp: read_source_def fetch_def thenP_def bindP_def guardP_def liftP_def guardE_def raise_def
      readP_def modifyP_def or_raise_def split: if_splits sum.splits)

lemma xml_step_cong:
  assumes "\<And>href target. local_path T path href = Inr target \<Longrightarrow> path \<notin> set ancestors \<Longrightarrow>
      (\<exists>n bytes. tree_bytes T n (path_str (source_file T path)) = Inr bytes) \<Longrightarrow>
      xml T n target (ancestors @ [path]) = xml T m target (ancestors @ [path])"
  shows "xml T (Suc n) path ancestors = xml T (Suc m) path ancestors"
proof (cases "path \<in> set ancestors")
  case True
  then show ?thesis by (simp add: Let_def fun_eq_iff thenP_def bindP_def guardP_def liftP_def guardE_def raise_def)
next
  case False
  let ?body = "\<lambda>load source. bindP (foldP (entity_step T load path) ([], source) (re_finditer entity_pattern source))
      (\<lambda>(entities, source). case parse_xml T (re_sub entity_pattern (\<lambda>_. []) source) of
        Inl message \<Rightarrow> raiseP CatalogueError (''Unresolved or malformed XML in '' @ path @ '': '' @ message)
      | Inr e \<Rightarrow> expand (replacement T load entities path) (with_origin path e))"
  have "bindP (read_source T path) (?body (\<lambda>t. xml T n t (ancestors @ [path]))) g =
      bindP (read_source T path) (?body (\<lambda>t. xml T m t (ancestors @ [path]))) g" for g
  proof (cases "read_source T path g")
    case (Pair r h)
    show ?thesis
    proof (cases r)
      case (Inr x)
      note same = assms [OF _ False read_source_readable [OF Pair [unfolded Inr]]]
      have "entity_step T (\<lambda>t. xml T n t (ancestors @ [path])) path = entity_step T (\<lambda>t. xml T m t (ancestors @ [path])) path"
        by (intro ext entity_step_cong same)
      moreover have "replacement T (\<lambda>t. xml T n t (ancestors @ [path])) es path =
          replacement T (\<lambda>t. xml T m t (ancestors @ [path])) es path" for es
        by (intro ext replacement_cong same)
      ultimately show ?thesis by (simp add: case_prod_beta' cong: sum.case_cong)
    qed (simp add: Pair bindP_def)
  qed
  then have "bindP (read_source T path) (?body (\<lambda>t. xml T n t (ancestors @ [path]))) =
      bindP (read_source T path) (?body (\<lambda>t. xml T m t (ancestors @ [path])))" by (rule ext)
  then show ?thesis by (simp only: xml.simps Let_def)
qed

lemma xml_chain_cong:
  assumes finite: "finite (documents T)"
  shows "chain T ancestors \<Longrightarrow> ancestors = [] \<or> named_document T path \<Longrightarrow>
    card (documents T) + 2 \<le> n + length ancestors \<Longrightarrow> card (documents T) + 2 \<le> m + length ancestors \<Longrightarrow>
    xml T n path ancestors = xml T m path ancestors"
proof (induction n arbitrary: m path ancestors)
  case 0
  with chain_length [OF 0(1) finite] show ?case by simp
next
  case (Suc n)
  obtain k where k: "m = Suc k"
    using chain_length [OF Suc.prems(1) finite] Suc.prems(4) by (cases m) auto
  show ?case
    unfolding k
  proof (rule xml_step_cong)
    fix href target
    assume a: "local_path T path href = Inr target" "path \<notin> set ancestors"
      "\<exists>n bytes. tree_bytes T n (path_str (source_file T path)) = Inr bytes"
    then have "chain T (ancestors @ [path])"
      using Suc.prems(1,2) by (cases ancestors) (auto simp: chain_def documents_def named_document_def)
    then show "xml T n target (ancestors @ [path]) = xml T k target (ancestors @ [path])"
      by (rule Suc.IH) (use local_path_named [OF a(1)] Suc.prems(3,4) k in auto)
  qed
qed

text \<open>C35: Assembling an XML document of the manual ends: where the repository holds finitely many
  documents an inclusion can name and read, a limit of nested calls two above their number is never
  reached, whatever files include which and whatever is read; the result is a tree or one of the
  errors the generator reports, and a higher limit gives the same result. An inclusion of a document
  being assembled is refused as a cycle before it is followed.\<close>

theorem xml_ends:
  assumes "finite (documents T)" "card (documents T) + 2 \<le> n"
  shows "xml T n path [] = xml T (card (documents T) + 2) path [] \<and>
    (case fst (xml T n path [] g) of Inr tree \<Rightarrow> True | Inl e \<Rightarrow> exn_class e \<in> {CatalogueError, OSError, ValueError, KeyError})"
proof
  show "xml T n path [] = xml T (card (documents T) + 2) path []"
    by (rule xml_chain_cong [OF assms(1)]) (use assms(2) in \<open>auto simp: chain_def\<close>)
  have "reading source_errors (xml T n path [])"
    by (rule reading_chain [OF assms(1)]) (use assms(2) in \<open>auto simp: chain_def\<close>)
  then show "case fst (xml T n path [] g) of Inr tree \<Rightarrow> True | Inl e \<Rightarrow> exn_class e \<in> {CatalogueError, OSError, ValueError, KeyError}"
    by (auto simp: reading_def source_errors_def split: sum.split)
qed

text \<open>A repository of one document, which includes itself: two calls deep the cycle is refused.\<close>

definition looping_tree :: source_tree where
  "looping_tree = \<lparr>tree_root = path_of ''/r'', tree_bytes = (\<lambda>_ p. if p = ''/r/a'' then Inr ''x'' else Inl ''missing''),
     tree_resolve = (\<lambda>p. path_of ''/r/a''), tree_is_file = (\<lambda>p. p = path_of ''/r/a''), tree_digest = (\<lambda>s. s),
     utf8_text = Inr, parse_xml = (\<lambda>_. Inr (Element ''r'' [] [] [Element xinclude [(''href'', ''a'')] [] [] [] []] [] [])),
     find_all = (\<lambda>_ _. Inr []), head_commit = Inr ''c''\<rparr>"

lemma looping_documents: "documents looping_tree = {''a''}"
proof -
  have "relative_to (path_of ''/r/a'') (path_of ''/r'') = Some (path_of ''a'')" by code_simp
  moreover have "path_str (path_of ''a'') = ''a''" by code_simp
  moreover have "path_str (source_file looping_tree ''a'') = ''/r/a''"
    unfolding source_file_def looping_tree_def by code_simp
  ultimately show ?thesis by (auto simp: documents_def looping_tree_def)
qed

theorem xml_ends_witness:
  "(case fst (xml looping_tree 1000 ''a'' [] new_generator) of Inr tree \<Rightarrow> False
    | Inl e \<Rightarrow> exn_class e = CatalogueError \<and> exn_msg e = ''Cyclic XML include/entity: a -> a'')"
proof -
  have limit: "xml looping_tree 1000 ''a'' [] = xml looping_tree 3 ''a'' []"
    using xml_ends [of looping_tree 1000 "''a''" new_generator] by (simp add: looping_documents numeral_3_eq_3)
  show ?thesis unfolding limit by code_simp
qed

end
