(* ===== verification/Meson_Inputs.thy ===== *)
theory Meson_Inputs
  imports C_Text
begin

text \<open>
  \<open>meson_inputs\<close> of \<open>catalogue.py\<close>: which headers are public and which C files make up the
  library, read from the supported subset of Meson. The set \<open>c_sources\<close> is the list of its
  elements, sorted where the code sorts it.
\<close>

section \<open>Patterns\<close>

definition word_pattern :: regex where "word_pattern = some word_char"

definition rest_pattern :: "nat \<Rightarrow> regex" where "rest_pattern n = Group n (many any_char)"

definition meson_token :: regex where
  "meson_token = Alt (seqs [lit apostrophe, many (beyond apostrophe), lit apostrophe])
     (Alt (seqs [lit quote_mark, many (beyond quote_mark), lit quote_mark]) (Seq (lit ''#'') (many (beyond ''\<newline>''))))"

definition assignment_pattern :: regex where
  "assignment_pattern = seqs [Group 1 word_pattern, spaces, Group 2 (Seq (opt (lit ''+'')) (lit ''='')), spaces, rest_pattern 3]"

definition list_pattern :: regex where
  "list_pattern = seqs [lit ''['', Group 1 (many (beyond '']'')), lit '']'']"

definition quote_class :: regex where "quote_class = One (among either_quote)"

definition header_pattern :: regex where
  "header_pattern = seqs [quote_class, Group 1 (Seq (some (beyond either_quote)) (lit ''.h'')), quote_class]"

definition source_pattern :: regex where
  "source_pattern = seqs [quote_class,
     Group 1 (Seq (some (beyond either_quote)) (Seq (lit ''.'') (Alt (lit ''c'') (lit ''h'')))), quote_class]"

definition indexed_pattern :: regex where
  "indexed_pattern = seqs [Group 1 word_pattern, lit ''['', some isdigit, lit '']'']"

definition call_pattern :: "regex \<Rightarrow> regex" where
  "call_pattern callee = seqs [callee, spaces, lit ''('', rest_pattern 1, lit '')'']"

definition library_name :: regex where
  "library_name = Alt (lit ''static_library'') (lit ''library'')"

definition library_pattern :: regex where
  "library_pattern = Seq (opt (seqs [word_pattern, spaces, lit ''='', spaces])) (call_pattern library_name)"

definition keyword_pattern :: regex where
  "keyword_pattern = seqs [Group 1 word_pattern, spaces, lit '':'', spaces, rest_pattern 2]"

definition label_pattern :: regex where
  "label_pattern = seqs [word_pattern, spaces, lit '':'']"

definition target_pattern :: regex where
  "target_pattern = seqs [quote_class, some (beyond either_quote), quote_class]"

definition use_pattern :: "regex \<Rightarrow> regex" where
  "use_pattern callee = seqs [Boundary, callee, spaces, lit ''('']"

section \<open>Statements and assignments\<close>

definition without_comments :: "string \<Rightarrow> string" where
  "without_comments = re_sub meson_token (\<lambda>m. if startswith (match_text m) ''#'' then [] else match_text m)"

type_synonym assignments = "(string \<times> (string \<times> string) list) list"

definition assigned :: "assignments \<Rightarrow> string \<Rightarrow> (string \<times> string) list" where
  "assigned as name = (case map_of as name of Some ds \<Rightarrow> ds | None \<Rightarrow> [])"

definition add_assignment :: "assignments \<Rightarrow> string \<Rightarrow> assignments" where
  "add_assignment as statement = (case re_fullmatch assignment_pattern statement of None \<Rightarrow> as
     | Some m \<Rightarrow> AList.update (group_text m 1) (assigned as (group_text m 1) @ [(group_text m 2, group_text m 3)]) as)"

section \<open>Public headers\<close>

definition header_name :: "string \<Rightarrow> string result" where
  "header_name v = (case re_fullmatch header_pattern v of
     None \<Rightarrow> raise CatalogueError ''Nonliteral public_headers list member'' | Some m \<Rightarrow> Inr (group_text m 1))"

definition public_headers :: "assignments \<Rightarrow> string list result" where
  "public_headers as = (case assigned as ''public_headers'' of
     [(op, expression)] \<Rightarrow>
       bindE (guardE (op = ''='') CatalogueError ''Expected one explicit literal public_headers assignment'') (\<lambda>_.
       case re_fullmatch list_pattern expression of None \<Rightarrow> raise CatalogueError ''Nonliteral public_headers assignment''
       | Some m \<Rightarrow> bindE (split_c (group_text m 1) '','') (\<lambda>members. bindE (mapE header_name members) (\<lambda>headers.
           bindE (guardE (headers \<noteq> [] \<and> distinct headers) CatalogueError ''Empty or duplicate public_headers list'')
             (\<lambda>_. Inr headers))))
   | _ \<Rightarrow> raise CatalogueError ''Expected one explicit literal public_headers assignment'')"

section \<open>Source expressions\<close>

definition generated_inputs :: "string list" where
  "generated_inputs = [''enums'', ''flatpak_gdbus'', ''flatpak_document_gdbus'', ''flatpak_permission_gdbus'',
     ''systemd_gdbus'', ''flatpak_variant'', ''wl_security_context'']"

definition known_input :: "string list \<Rightarrow> string \<Rightarrow> bool" where
  "known_input references part \<longleftrightarrow> part \<in> set generated_inputs \<or> part \<in> set references \<or>
     (case re_fullmatch indexed_pattern part of None \<Rightarrow> False | Some m \<Rightarrow> group_text m 1 \<in> set generated_inputs)"

lemma foldE_cong [fundef_cong]:
  "xs = ys \<Longrightarrow> s = t \<Longrightarrow> (\<And>a x. x \<in> set ys \<Longrightarrow> f a x = g a x) \<Longrightarrow> foldE f s xs = foldE g t ys"
proof (induction ys arbitrary: xs s t)
  case (Cons y ys)
  from Cons.prems(3) have "f t y = g t y" by simp
  moreover have "foldE f u ys = foldE g u ys" for u by (rule Cons.IH) (use Cons.prems(3) in auto)
  ultimately show ?case using Cons.prems(1,2) by (cases "g t y") simp_all
qed simp

text \<open>The bracketed members of a part are expressions again; each is shorter than the part.\<close>

function source_expression :: "string list \<Rightarrow> string list \<Rightarrow> string \<Rightarrow> string list result" where
  "source_expression references sources expression = bindE (split_c expression ''+'') (\<lambda>ps. foldE (\<lambda>acc part.
     case re_fullmatch source_pattern part of
       Some m \<Rightarrow> Inr (if endswith (group_text m 1) ''.c'' then acc @ [group_text m 1] else acc)
     | None \<Rightarrow>
         if startswith part ''['' \<and> endswith part '']'' then
           bindE (split_c (inner_text part) '','') (\<lambda>members. foldE (source_expression references) acc members)
         else if known_input references part then Inr acc
         else raise CatalogueError (''Unsupported Meson library source expression: '' @ part)) sources ps)"
  by pat_completeness auto
termination
proof (relation "measure (\<lambda>(_, _, e). length e)", simp)
  fix references sources expression ps acc part members and acc' :: "string list" and x
  assume a: "split_c expression ''+'' = Inr ps" "part \<in> set ps" "startswith part ''['' \<and> endswith part '']''"
    "split_c (inner_text part) '','' = Inr members" "x \<in> set members"
  from split_c_length [OF a(4,5)] have "length x \<le> length (inner_text part)" .
  moreover have "part \<noteq> []" using split_c_nonempty [OF a(1,2)] .
  then have "length (inner_text part) < length part" by (cases part) (simp_all add: inner_text_def)
  ultimately show "((references, acc', x), references, sources, expression) \<in> measure (\<lambda>(_, _, e). length e)"
    using split_c_length [OF a(1,2)] by simp
qed

declare source_expression.simps [simp del]

definition source_list :: "assignments \<Rightarrow> string list \<Rightarrow> string \<Rightarrow> string list result" where
  "source_list as sources name = (let definitions = assigned as name in
     bindE (guardE (fst (hd definitions) = ''='' \<and> length (filter (\<lambda>d. fst d = ''='') definitions) = 1) CatalogueError
       (''Unsupported Meson source-list reassignment: '' @ name)) (\<lambda>_.
     foldE (\<lambda>acc d. source_expression [] acc (snd d)) sources definitions))"

section \<open>Calls\<close>

definition install_step :: "nat \<Rightarrow> string \<Rightarrow> nat result" where
  "install_step installed statement = (case re_fullmatch (call_pattern (lit ''install_headers'')) statement of
     None \<Rightarrow> Inr installed
   | Some m \<Rightarrow> bindE (split_c (group_text m 1) '','') (\<lambda>args.
       bindE (guardE (args \<noteq> [] \<and> hd args = ''public_headers'' \<and> (\<forall>arg\<in>set (tl args). re_match label_pattern arg \<noteq> None))
         CatalogueError ''Unsupported install_headers arguments'') (\<lambda>_. Inr (Suc installed))))"

definition library_argument :: "string list \<Rightarrow> string list \<Rightarrow> string \<Rightarrow> string list result" where
  "library_argument references sources arg = (case re_match keyword_pattern arg of
     None \<Rightarrow> source_expression references sources arg
   | Some m \<Rightarrow> if group_text m 1 \<noteq> ''sources'' then Inr sources else source_expression references sources (group_text m 2))"

definition library_step :: "string list \<Rightarrow> nat \<times> string list \<Rightarrow> string \<Rightarrow> (nat \<times> string list) result" where
  "library_step references state statement = (case re_fullmatch library_pattern statement of
     None \<Rightarrow> Inr state
   | Some m \<Rightarrow> bindE (split_c (group_text m 1) '','') (\<lambda>args.
       bindE (guardE (args \<noteq> [] \<and> re_fullmatch target_pattern (hd args) \<noteq> None) CatalogueError
         ''Unsupported Meson library target name'') (\<lambda>_.
       bindE (foldE (library_argument references) (snd state) (tl args)) (\<lambda>sources. Inr (Suc (fst state), sources)))))"

text \<open>Both kinds of calls are looked for in every statement, in the order of the statements.\<close>

definition call_step :: "string list \<Rightarrow> nat \<times> nat \<times> string list \<Rightarrow> string \<Rightarrow> (nat \<times> nat \<times> string list) result" where
  "call_step references state statement =
     bindE (install_step (fst state) statement) (\<lambda>installed.
     bindE (library_step references (snd state) statement) (\<lambda>libraries. Inr (installed, libraries)))"

definition uses :: "regex \<Rightarrow> string \<Rightarrow> nat" where
  "uses callee clean = length (re_finditer (use_pattern callee) clean)"

definition meson_inputs :: "string \<Rightarrow> (string list \<times> string list) result" where
  "meson_inputs source =
     (let clean = without_comments source in
      bindE (split_c clean ''\<newline>'') (\<lambda>statements.
      let as = foldl add_assignment [] statements; names = filter (\<lambda>n. endswith n ''sources'') (map fst as) in
      bindE (public_headers as) (\<lambda>headers.
      bindE (foldE (source_list as) [] (sorted_set names)) (\<lambda>sources.
      bindE (foldE (call_step (names @ [''public_headers''])) (0, 0, sources) statements) (\<lambda>(installed, libraries, sources).
      bindE (guardE (installed = 1 \<and> uses (lit ''install_headers'') clean = installed) CatalogueError
        ''Expected one direct install_headers(public_headers, ...) call'') (\<lambda>_.
      bindE (guardE (libraries \<noteq> 0 \<and> libraries = uses library_name clean) CatalogueError
        ''Unsupported or missing direct Meson library declarations'') (\<lambda>_.
      bindE (guardE (sources \<noteq> []) CatalogueError ''No common C sources found in Meson'') (\<lambda>_.
      Inr (headers, sorted_set sources)))))))))"

section \<open>What is accepted\<close>

lemma header_name_Inr: "header_name v = Inr h \<Longrightarrow> endswith h ''.h'' \<and> h \<noteq> ''.h''"
proof -
  assume "header_name v = Inr h"
  then obtain m where m: "re_fullmatch header_pattern v = Some m" "h = group_text m 1"
    by (auto simp: header_name_def split: option.splits)
  let ?body = "Seq (some (beyond either_quote)) (lit ''.h'')"
  have "consumed_by (bodies 1 header_pattern) h"
    unfolding m(2) by (rule group_consumed [OF re_found_by(2) [OF m(1)]]) (simp add: header_pattern_def)
  then have "consumed_by [?body] h"
    by (rule consumed_mono) (simp add: header_pattern_def quote_class_def some_def many_def)
  then obtain p q i where q: "i \<in> set (run_regex (some (beyond either_quote)) p)" "q \<in> set (run_regex (lit ''.h'') i)" "leads p h q"
    by (auto simp: consumed_by_def)
  from run_leads [OF q(1)] obtain w where w: "leads p w i" by blast
  from run_min_len [OF q(1) w] have "w \<noteq> []" by (auto simp: some_def)
  with w run_lit [OF q(2)] q(3) show ?thesis by (auto simp: leads_def endswith_iff)
qed

lemma foldE_invariant:
  assumes "foldE f s xs = Inr t" "I s" "\<And>a x b. x \<in> set xs \<Longrightarrow> I a \<Longrightarrow> f a x = Inr b \<Longrightarrow> I b"
  shows "I t"
  using assms
proof (induction xs arbitrary: s)
  case (Cons x xs)
  then obtain u where "f s x = Inr u" "foldE f u xs = Inr t" by (auto simp: err_simps)
  with Cons.prems(2,3) Cons.IH [of u] show ?case by auto
qed simp

definition c_files :: "string list \<Rightarrow> bool" where
  "c_files xs \<longleftrightarrow> (\<forall>x\<in>set xs. endswith x ''.c'')"

lemma source_expression_files:
  "source_expression references sources e = Inr found \<Longrightarrow> c_files sources \<Longrightarrow> c_files found"
proof (induction references sources e arbitrary: found rule: source_expression.induct)
  case (1 references sources e)
  from 1(2) obtain ps where ps: "split_c e ''+'' = Inr ps" and all: "foldE (\<lambda>acc part.
     case re_fullmatch source_pattern part of
       Some m \<Rightarrow> Inr (if endswith (group_text m 1) ''.c'' then acc @ [group_text m 1] else acc)
     | None \<Rightarrow>
         if startswith part ''['' \<and> endswith part '']'' then
           bindE (split_c (inner_text part) '','') (\<lambda>members. foldE (source_expression references) acc members)
         else if known_input references part then Inr acc
         else raise CatalogueError (''Unsupported Meson library source expression: '' @ part)) sources ps = Inr found"
    by (subst (asm) source_expression.simps) (auto simp: err_simps)
  show ?case
  proof (rule foldE_invariant [where I = c_files, OF all 1(3)])
    fix acc part next_acc
    assume part: "part \<in> set ps" and acc: "c_files acc"
      and step: "(case re_fullmatch source_pattern part of
       Some m \<Rightarrow> Inr (if endswith (group_text m 1) ''.c'' then acc @ [group_text m 1] else acc)
     | None \<Rightarrow>
         if startswith part ''['' \<and> endswith part '']'' then
           bindE (split_c (inner_text part) '','') (\<lambda>members. foldE (source_expression references) acc members)
         else if known_input references part then Inr acc
         else raise CatalogueError (''Unsupported Meson library source expression: '' @ part)) = Inr next_acc"
    show "c_files next_acc"
    proof (cases "re_fullmatch source_pattern part")
      case (Some m)
      with step acc show ?thesis by (auto simp: c_files_def split: if_splits)
    next
      case None
      show ?thesis
      proof (cases "startswith part ''['' \<and> endswith part '']''")
        case True
        with step None obtain members where members: "split_c (inner_text part) '','' = Inr members"
          "foldE (source_expression references) acc members = Inr next_acc" by (auto simp: err_simps)
        show ?thesis
          by (rule foldE_invariant [where I = c_files, OF members(2) acc]) (rule 1(1) [OF ps part None True members(1)])
      next
        case False
        with step None acc show ?thesis by (auto split: if_splits)
      qed
    qed
  qed
qed

lemma source_list_files: "source_list as sources name = Inr found \<Longrightarrow> c_files sources \<Longrightarrow> c_files found"
  by (auto simp: source_list_def Let_def err_simps elim!: foldE_invariant [where I = c_files] source_expression_files)

lemma library_argument_files: "library_argument refs sources arg = Inr found \<Longrightarrow> c_files sources \<Longrightarrow> c_files found"
  by (auto simp: library_argument_def split: option.splits if_splits elim: source_expression_files)

lemma call_step_files: "call_step refs state statement = Inr found \<Longrightarrow> c_files (snd (snd state)) \<Longrightarrow> c_files (snd (snd found))"
  by (auto simp: call_step_def library_step_def err_simps split: option.splits
      elim!: foldE_invariant [where I = c_files] library_argument_files)

lemma meson_inputs_shape:
  assumes "meson_inputs source = Inr (headers, sources)"
  shows "headers \<noteq> []" "distinct headers" "\<forall>h\<in>set headers. endswith h ''.h''"
    "sources \<noteq> []" "sorted sources" "distinct sources" "c_files sources"
proof -
  let ?clean = "without_comments source"
  from assms obtain statements as names first calls where
    as: "as = foldl add_assignment [] statements" and headers: "public_headers as = Inr headers"
    and first: "foldE (source_list as) [] (sorted_set names) = Inr first"
    and calls: "foldE (call_step (names @ [''public_headers''])) (0, 0, first) statements = Inr calls"
    and sources: "snd (snd calls) \<noteq> []" "sources = sorted_set (snd (snd calls))"
    unfolding meson_inputs_def Let_def by (auto simp: err_simps)
  have "c_files first" by (rule foldE_invariant [OF first]) (auto simp: c_files_def [of "[]"] elim: source_list_files)
  then have "c_files (snd (snd calls))"
    using foldE_invariant [OF calls, of "\<lambda>s. c_files (snd (snd s))"] call_step_files by auto
  with sources show "sources \<noteq> []" "sorted sources" "distinct sources" "c_files sources"
    by (simp_all add: c_files_def, metis set_empty sorted_set_facts(1))
  from headers obtain members where "mapE header_name members = Inr headers" "headers \<noteq> []" "distinct headers"
    by (auto simp: public_headers_def err_simps split: list.splits option.splits)
  then show "headers \<noteq> []" "distinct headers" "\<forall>h\<in>set headers. endswith h ''.h''"
    by (auto dest!: mapE_in header_name_Inr)
qed

section \<open>What is rejected\<close>

definition catalogue_errors :: "'a result \<Rightarrow> bool" where
  "catalogue_errors m \<longleftrightarrow> (\<forall>e. m = Inl e \<longrightarrow> exn_class e = CatalogueError)"

named_theorems rejecting \<comment> \<open>what fails with a \<open>CatalogueError\<close> only\<close>

lemma rejecting_basic [rejecting]:
  "catalogue_errors (Inr x)" "catalogue_errors (raise CatalogueError message)"
  "catalogue_errors (guardE b CatalogueError message)" "catalogue_errors (split_c s d)"
  by (auto simp: catalogue_errors_def raise_def guardE_def dest: split_c_Inl)

lemma rejecting_bind [rejecting]:
  "catalogue_errors m \<Longrightarrow> (\<And>x. m = Inr x \<Longrightarrow> catalogue_errors (f x)) \<Longrightarrow> catalogue_errors (bindE m f)"
  by (cases m) (auto simp: catalogue_errors_def bindE_def)

lemma rejecting_fold [rejecting]:
  "(\<And>a x. x \<in> set xs \<Longrightarrow> catalogue_errors (f a x)) \<Longrightarrow> catalogue_errors (foldE f s xs)"
  by (induction xs arbitrary: s) (auto intro!: rejecting)

lemma rejecting_map [rejecting]: "(\<And>x. x \<in> set xs \<Longrightarrow> catalogue_errors (f x)) \<Longrightarrow> catalogue_errors (mapE f xs)"
  by (induction xs) (auto intro!: rejecting)

lemma rejecting_expression [rejecting]: "catalogue_errors (source_expression references sources e)"
proof (induction references sources e rule: source_expression.induct)
  case (1 references sources e)
  show ?case
    by (subst source_expression.simps) (auto intro!: rejecting 1 split: option.split)
qed

lemma rejecting_meson: "catalogue_errors (meson_inputs source)"
  unfolding meson_inputs_def public_headers_def header_name_def source_list_def call_step_def install_step_def library_step_def
    library_argument_def Let_def
  by (auto intro!: rejecting split: option.split list.split prod.split)

text \<open>C39: Reading the build files either is refused with a \<open>CatalogueError\<close> or lists at least one
  public header, each once and each a \<open>.h\<close> file, and at least one C source, sorted, each once and
  each a \<open>.c\<close> file.\<close>

theorem meson_inputs_boundary:
  "case meson_inputs source of Inl e \<Rightarrow> exn_class e = CatalogueError
   | Inr (headers, sources) \<Rightarrow> headers \<noteq> [] \<and> distinct headers \<and> list_all (\<lambda>h. endswith h ''.h'') headers \<and>
       sources \<noteq> [] \<and> sorted sources \<and> distinct sources \<and> list_all (\<lambda>s. endswith s ''.c'') sources"
  using rejecting_meson [of source] meson_inputs_shape [of source]
  by (auto simp: catalogue_errors_def c_files_def list_all_iff split: sum.split)

end
