(* ===== verification/Catalogue_Generator.thy ===== *)
theory Catalogue_Generator
  imports Xml_Documents Meson_Inputs Py_Value
begin

text \<open>
  The catalogue generator: the command line's interfaces from the command tables and the manuals,
  the library's from its public headers and signal registrations (\<open>Generator\<close> of \<open>catalogue.py\<close>).
  Sets are lists without an order of their own; the dictionary of interfaces keeps its order of insertion.
\<close>

definition repr_texts :: "string list \<Rightarrow> string" where
  "repr_texts xs = repr_list (map repr_str xs)"

section \<open>The collected interfaces\<close>

definition add_surface :: "surface \<Rightarrow> unit gen" where
  "add_surface s = bindP (readP surfaces) (\<lambda>ss.
     thenP (guardP (map_of ss (surface_id s) = None) CatalogueError (''Duplicate interface ID: '' @ surface_id s))
       (modifyP (\<lambda>g. g\<lparr>surfaces := ss @ [(surface_id s, s)]\<rparr>)))"

text \<open>Changing the collected interface of an identifier.\<close>

definition update_surface :: "string \<Rightarrow> (surface \<Rightarrow> surface) \<Rightarrow> unit gen" where
  "update_surface i f = modifyP (\<lambda>g. case map_of (surfaces g) i of None \<Rightarrow> g
     | Some s \<Rightarrow> g\<lparr>surfaces := AList.update i (f s) (surfaces g)\<rparr>)"

definition exclude :: "string \<Rightarrow> unit gen" where
  "exclude message = modifyP (\<lambda>g. g\<lparr>exclusions :=
     (if message \<in> set (exclusions g) then exclusions g else exclusions g @ [message])\<rparr>)"

definition exclude_type :: "string \<Rightarrow> string \<Rightarrow> string \<Rightarrow> unit gen" where
  "exclude_type name path reason = exclude (''Excluded type-registration function '' @ name @ '' ('' @ path @ '': '' @ reason @
     ''); GType plumbing.'')"

definition new_surface :: "string \<Rightarrow> string \<Rightarrow> string \<Rightarrow> origin list \<Rightarrow> surface" where
  "new_surface i k n os = \<lparr>surface_id = i, surface_kind_name = k, surface_name = n, surface_sources = os,
     surface_aliases = None, documented_with = None, surface_command = None, surface_owner = None,
     surface_deprecated = None, surface_replacement = None\<rparr>"

definition some_list :: "string list option \<Rightarrow> string list" where
  "some_list xs = (case xs of None \<Rightarrow> [] | Some ys \<Rightarrow> ys)"

section \<open>\<open>options\<close>\<close>

definition is_long :: "string \<Rightarrow> bool" where
  "is_long name = startswith name ''--''"

definition option_pattern :: regex where
  "option_pattern = Seq (Group 1 (seqs [lit ''-'', opt (lit ''-''), One (\<lambda>c. alphanumeric c \<or> c = CHR ''?''),
       many (\<lambda>c. alphanumeric c \<or> c = CHR ''-'')]))
     (Ahead (Alt Text_End (One (\<lambda>c. c \<in> set ''=['' \<or> isspace c))))"

definition option_name :: "string \<Rightarrow> string list \<Rightarrow> element \<Rightarrow> string list result" where
  "option_name path names option = (let v = strip (item_text option) in
     case re_match option_pattern v of
       None \<Rightarrow> if startswith v ''-'' then raise CatalogueError (''Unparsed option definition in '' @ path @ '': '' @ v) else Inr names
     | Some m \<Rightarrow> Inr (if group_text m 1 \<in> set names then names else names @ [group_text m 1]))"

definition term_names :: "string \<Rightarrow> string list \<Rightarrow> element \<Rightarrow> string list result" where
  "term_names path names t = (let options = filter (\<lambda>e. el_tag e = ''option'') (iter_elements t) in
     bindE (guardE (options \<noteq> [] \<or> \<not> startswith (strip (item_text t)) ''-'') CatalogueError
       (''Option definition without <option> markup in '' @ path)) (\<lambda>_. foldE (option_name path) names options))"

definition entry_names :: "string \<Rightarrow> element \<Rightarrow> string list result" where
  "entry_names path e = foldE (term_names path) [] (filter (\<lambda>t. el_tag t = ''term'') (el_children e))"

text \<open>The long spellings found and how often each was defined in each document.\<close>

record option_count =
  spellings :: "string list"
  occurrences :: "((string \<times> string) \<times> nat) list"

definition occurrences_of :: "option_count \<Rightarrow> string \<times> string \<Rightarrow> nat" where
  "occurrences_of k key = (case map_of (occurrences k) key of Some n \<Rightarrow> n | None \<Rightarrow> 0)"

definition option_sources :: "string \<Rightarrow> string \<Rightarrow> string \<Rightarrow> nat \<Rightarrow> origin list" where
  "option_sources path from name n =
     (from, ''varlistentry/term/option: '' @ name @ (if 1 < n then '' (definition '' @ show_nat n @ '')'' else [])) #
     (if from \<noteq> path then [(path, ''XML include/entity of '' @ from)] else [])"

definition merged_sources :: "origin list \<Rightarrow> origin list \<Rightarrow> origin list" where
  "merged_sources old new = foldl (\<lambda>acc s. if s \<in> set acc then acc else acc @ [s]) old new"

definition merge_option :: "surface \<Rightarrow> origin list \<Rightarrow> string list \<Rightarrow> string list \<Rightarrow> surface" where
  "merge_option s os aliases others = s\<lparr>surface_sources := merged_sources (surface_sources s) os,
     surface_aliases := Some (sorted_set (some_list (surface_aliases s) @ aliases)),
     documented_with := (if others = [] then documented_with s else Some (sorted_set (some_list (documented_with s) @ others)))\<rparr>"

definition option_id :: "string \<Rightarrow> string \<Rightarrow> string" where
  "option_id command name = ''cli.option.'' @ command @ ''.'' @ name"

definition collapsed :: "string \<Rightarrow> string \<Rightarrow> string \<Rightarrow> string" where
  "collapsed command name path = ''Collapsed duplicate option definition '' @ command @ '' '' @ name @ '' ('' @ path @
     ''); identical long spellings count once, with merged source references.''"

definition define_option ::
  "string \<Rightarrow> string \<Rightarrow> string \<Rightarrow> string list \<Rightarrow> option_count \<Rightarrow> string \<Rightarrow> option_count gen" where
  "define_option command path from names k name =
     (let longs = filter is_long names; n = Suc (occurrences_of k (from, name));
          os = option_sources path from name n;
          aliases = (if length longs = 1 then sort (filter (\<lambda>s. \<not> is_long s) names) else []);
          others = sort (filter (\<lambda>l. l \<noteq> name) longs); i = option_id command name;
          k' = k\<lparr>occurrences := AList.update (from, name) n (occurrences k)\<rparr> in
      bindP (readP surfaces) (\<lambda>ss. case map_of ss i of
        Some _ \<Rightarrow>
          thenP (update_surface i (\<lambda>s. merge_option s os aliases others))
         (thenP (exclude (collapsed command name path)) (ret k'))
      | None \<Rightarrow>
          thenP (add_surface ((new_surface i ''cli-option'' name os)\<lparr>surface_command := Some command,
            surface_aliases := Some aliases, documented_with := (if others = [] then None else Some others)\<rparr>))
           (ret (k'\<lparr>spellings := spellings k @ [name]\<rparr>))))"

definition entry_options :: "string \<Rightarrow> string \<Rightarrow> option_count \<Rightarrow> element \<Rightarrow> option_count gen" where
  "entry_options command path k e =
     bindP (liftP (entry_names path e)) (\<lambda>names.
     if filter is_long names = [] then
       thenP (whenP (names \<noteq> []) (exclude (''Excluded short-only option group '' @ command @ '' '' @ join ''/'' names @
         '' ('' @ path @ '').''))) (ret k)
     else foldP (define_option command path (el_origin e) names) k (filter is_long names))"

definition options :: "source_tree \<Rightarrow> nat \<Rightarrow> string \<Rightarrow> string \<Rightarrow> string list gen" where
  "options T fuel command path =
     bindP (xml T fuel path []) (\<lambda>tree.
     bindP (foldP (entry_options command path) \<lparr>spellings = [], occurrences = []\<rparr>
       (filter (\<lambda>e. el_tag e = ''varlistentry'') (iter_elements tree))) (\<lambda>k.
     thenP (guardP (spellings k \<noteq> []) CatalogueError (''No long-option definitions in '' @ path)) (ret (spellings k))))"

section \<open>\<open>cli\<close>\<close>

type_synonym commands = "(string \<times> (string \<times> bool)) list" \<comment> \<open>name, handler, deprecated\<close>

definition builtin_pattern :: regex where
  "builtin_pattern = Seq (lit ''flatpak_builtin_'') word_pattern"

definition register_command :: "commands \<Rightarrow> string list \<Rightarrow> commands result" where
  "register_command cs fs =
     (if fs = [''NULL''] \<or> length fs = 1 \<and> startswith (hd fs) ''N_('' then Inr cs
      else bindE (guardE (length fs \<in> {4, 5} \<and> re_fullmatch builtin_pattern (fs ! 2) \<noteq> None) CatalogueError
        (''Unrecognized command registration: '' @ repr_texts fs)) (\<lambda>_.
      bindE (string_literal (fs ! 0)) (\<lambda>name.
      bindE (guardE (\<not> (name \<in> fst ` set cs \<or> length fs = 5 \<and> fs ! 4 \<notin> {''TRUE'', ''FALSE''})) CatalogueError
        (''Invalid/duplicate command registration: '' @ repr_texts fs)) (\<lambda>_.
      Inr (cs @ [(name, (fs ! 2, length fs = 5 \<and> fs ! 4 = ''TRUE''))])))))"

definition main_source :: string where
  "main_source = ''app/flatpak-main.c''"

definition active_commands :: "commands \<Rightarrow> (string \<times> string) list" where
  "active_commands cs = map (\<lambda>(name, f, _). (name, f)) (filter (\<lambda>(_, _, deprecated). \<not> deprecated) cs)"

definition deprecated_commands :: "commands \<Rightarrow> (string \<times> string) list" where
  "deprecated_commands cs = sort_key fst (map (\<lambda>(name, f, _). (name, f)) (filter (\<lambda>(_, _, deprecated). deprecated) cs))"

definition exclude_alias :: "commands \<Rightarrow> string \<times> string \<Rightarrow> unit gen" where
  "exclude_alias cs alias = (case map fst (filter (\<lambda>(_, f). f = snd alias) (active_commands cs)) of
     [canonical] \<Rightarrow> exclude (''Excluded deprecated command alias '' @ fst alias @ '' -> '' @ canonical @ '' ('' @ main_source @
       '': commands[]); same handler, not a separate canonical command.'')
   | _ \<Rightarrow> raiseP CatalogueError (''Cannot resolve deprecated command alias '' @ fst alias))"

definition manual_path :: "string \<Rightarrow> string" where
  "manual_path name = ''doc/flatpak-'' @ name @ ''.xml''"

definition command_manual :: "source_tree \<Rightarrow> commands \<Rightarrow> string \<times> string \<Rightarrow> string result" where
  "command_manual T cs nf = (let candidates = fst nf # map fst (filter (\<lambda>(_, f). f = snd nf) (deprecated_commands cs));
       documents = filter (\<lambda>p. tree_is_file T (source_file T p)) (map manual_path candidates) in
     case documents of
       [] \<Rightarrow> raise CatalogueError (''Missing command manual for '' @ fst nf @ ''; tried '' @ repr_texts candidates)
     | [doc] \<Rightarrow> Inr doc
     | _ \<Rightarrow> raise CatalogueError (''Ambiguous command manuals for '' @ fst nf @ '': '' @ repr_texts documents))"

definition command_surface :: "string \<Rightarrow> string \<Rightarrow> surface" where
  "command_surface name doc = new_surface (''cli.command.'' @ name) ''cli-command'' name
     [(main_source, ''commands[]: '' @ quote_mark @ name @ quote_mark), (doc, ''refentry'')]"

definition add_command :: "source_tree \<Rightarrow> nat \<Rightarrow> commands \<Rightarrow> string \<times> string \<Rightarrow> unit gen" where
  "add_command T fuel cs nf = bindP (liftP (command_manual T cs nf)) (\<lambda>doc.
     thenP (add_surface (command_surface (fst nf) doc)) (bindP (options T fuel (fst nf) doc) (\<lambda>_. ret ())))"

definition short_pattern :: regex where
  "short_pattern = seqs [lit apostrophe, Group 1 (One (\<lambda>c. alphanumeric c \<or> c = CHR ''?'')), lit apostrophe]"

definition short_alias :: "string \<Rightarrow> string \<Rightarrow> string list result" where
  "short_alias table field = (if field = ''0'' then Inr [] else
     case re_fullmatch short_pattern field of
       None \<Rightarrow> raise CatalogueError (''Unrecognized short option in '' @ table @ '': '' @ field)
     | Some m \<Rightarrow> Inr [''-'' @ group_text m 1])"

definition register_source :: "string \<Rightarrow> string \<Rightarrow> surface \<Rightarrow> surface" where
  "register_source table literal s = s\<lparr>surface_sources :=
     surface_sources s @ [(main_source, table @ ''[]: '' @ quote_mark @ literal @ quote_mark)]\<rparr>"

definition register_shorts :: "string list \<Rightarrow> surface \<Rightarrow> surface" where
  "register_shorts shorts s = s\<lparr>surface_aliases :=
     (if shorts = [] then surface_aliases s else Some (sorted_set (some_list (surface_aliases s) @ shorts)))\<rparr>"

definition register_option :: "string \<Rightarrow> string list \<Rightarrow> string list \<Rightarrow> string list gen" where
  "register_option table registered fs = (if fs = [''NULL''] then ret registered else
     thenP (guardP (length fs = 7) CatalogueError (''Unrecognized option registration in '' @ table @ '': '' @ repr_texts fs))
    (bindP (liftP (string_literal (fs ! 0))) (\<lambda>literal.
     let name = ''--'' @ literal; i = option_id ''global'' name in
     bindP (readP surfaces) (\<lambda>ss. case map_of ss i of
       None \<Rightarrow> ret (registered @ [name])
     | Some _ \<Rightarrow> thenP (update_surface i (register_source table literal))
        (bindP (liftP (short_alias table (fs ! 1))) (\<lambda>shorts.
         thenP (update_surface i (register_shorts shorts)) (ret (registered @ [name]))))))))"

definition register_table :: "string \<Rightarrow> string list \<Rightarrow> string \<Rightarrow> string list gen" where
  "register_table source registered table =
     bindP (liftP (array_rows source table)) (\<lambda>rows. foldP (register_option table) registered rows)"

definition missing_from :: "string list \<Rightarrow> string list \<Rightarrow> string" where
  "missing_from xs ys = repr_texts (sorted_set (filter (\<lambda>x. x \<notin> set ys) xs))"

definition cli_surfaces :: "source_tree \<Rightarrow> nat \<Rightarrow> unit gen" where
  "cli_surfaces T fuel =
     bindP (read_source T main_source) (\<lambda>text. let source = uncomment text in
     bindP (liftP (bindE (array_rows source ''commands'') (foldE register_command []))) (\<lambda>cs.
     thenP (guardP (active_commands cs \<noteq> []) CatalogueError ''No active commands found'')
    (thenP (forP (deprecated_commands cs) (exclude_alias cs))
    (thenP (forP (sort_key fst (active_commands cs)) (add_command T fuel cs))
    (bindP (options T fuel ''global'' ''doc/flatpak.xml'') (\<lambda>documented.
     bindP (foldP (register_table source) [] [''global_entries'', ''empty_entries'']) (\<lambda>registered.
     guardP (set registered = set documented) CatalogueError
       (''Global option mismatch: undocumented='' @ missing_from registered documented @
        '', unregistered='' @ missing_from documented registered))))))))"

section \<open>\<open>library\<close>\<close>

definition flatpak_type :: regex where "flatpak_type = Seq (lit ''Flatpak'') word_pattern"
definition flatpak_function :: regex where "flatpak_function = Seq (lit ''flatpak_'') word_pattern"
definition gap :: regex where "gap = some isspace"

definition directive_pattern :: regex where
  "directive_pattern = seqs [Line_Start, spaces, lit ''#'',
     Star True (Alt (One (beyond (''\<newline>'' @ backslash))) (lit (backslash @ ''\<newline>'')))]"

definition typedef_pattern :: regex where
  "typedef_pattern = seqs [lit ''typedef'', gap, lit ''struct'', gap, opt (lit ''_''), Group 1 flatpak_type, gap, Backref 1, spaces, lit '';'']"

definition enum_pattern :: regex where
  "enum_pattern = seqs [lit ''typedef'', gap, lit ''enum'', spaces, opt (Seq word_pattern spaces), lit ''{'', many (beyond ''}''),
     lit ''}'', spaces, Group 1 flatpak_type, spaces, lit '';'']"

definition decls_pattern :: regex where
  "decls_pattern = Alt (seqs [Boundary, lit ''G_BEGIN_DECLS'', Boundary]) (seqs [Boundary, lit ''G_END_DECLS'', Boundary])"

definition declare_pattern :: regex where
  "declare_pattern = seqs [lit ''G_DECLARE_'', word_pattern, spaces, lit ''('']"

definition declaration_pattern :: regex where
  "declaration_pattern = seqs [Boundary, lit ''FLATPAK_EXTERN'', gap,
     Alt (seqs [declare_pattern, many (beyond '')''), lit '')'']) (Seq (some (beyond '';'')) (lit '';''))]"

definition marker_pattern :: regex where
  "marker_pattern = seqs [Boundary, lit ''FLATPAK_EXTERN'', Boundary]"

definition macro_pattern :: regex where
  "macro_pattern = seqs [lit ''FLATPAK_EXTERN'', gap, lit ''G_DECLARE_'', Alt (lit ''FINAL'') (Alt (lit ''DERIVABLE'') (lit ''INTERFACE'')),
     lit ''_TYPE'', spaces, lit ''('', spaces, Group 1 flatpak_type, spaces, lit '','', spaces, Group 2 flatpak_function, spaces,
     lit '','', many (beyond '')''), lit '')'']"

definition function_pattern :: regex where
  "function_pattern = seqs [Boundary, Group 1 flatpak_function, spaces, lit ''('']"

definition deprecated_pattern :: regex where
  "deprecated_pattern = seqs [lit ''G_GNUC_DEPRECATED'',
     opt (seqs [lit ''_FOR'', spaces, lit ''('', spaces, Group 1 word_pattern, spaces, lit '')'']), spaces, Text_End]"

definition annotation_pattern :: regex where
  "annotation_pattern = seqs [lit ''G_GNUC_DEPRECATED_FOR'', spaces, lit ''('', many (beyond '')''), lit '')'']"

definition candidate_pattern :: regex where
  "candidate_pattern = seqs [Boundary, Group 1 flatpak_function, spaces, lit ''('', many (beyond '';{}''), lit '')'', spaces,
     many (beyond '';{}''), lit '';'']"

definition template_pattern :: regex where
  "template_pattern = seqs [lit ''GType'', gap, lit ''@enum_name@_get_type'', spaces, lit ''(void)'']"

definition groups_found :: "regex \<Rightarrow> string \<Rightarrow> string list" where
  "groups_found r s = map (\<lambda>m. group_text m 1) (re_finditer r s)"

definition removed :: "regex \<Rightarrow> string \<Rightarrow> string" where
  "removed r = re_sub r (\<lambda>_. [])"

text \<open>\<open>r"\1_\2"\<close>, twice, and lower case.\<close>

definition underscored :: "regex \<Rightarrow> regex \<Rightarrow> string \<Rightarrow> string" where
  "underscored r s = re_sub (Seq (Group 1 r) (Group 2 s)) (\<lambda>m. group_text m 1 @ ''_'' @ group_text m 2)"

definition snake_case :: "string \<Rightarrow> string" where
  "snake_case name = lower (underscored (One (\<lambda>c. is_lower c \<or> isdigit c)) (One is_upper)
     (underscored (some is_upper) (Seq (One is_upper) (One is_lower)) name))"

text \<open>What the scan of one header has found so far.\<close>

record header_scan =
  header_types :: "string list" \<comment> \<open>the public types, a set\<close>
  header_functions :: "string list" \<comment> \<open>the functions declared, a set\<close>
  header_macros :: nat

definition function_surface :: "string \<Rightarrow> string \<Rightarrow> found option \<Rightarrow> string \<Rightarrow> surface" where
  "function_surface path name annotation unit = (new_surface (''library.function.'' @ name) ''library-function'' name [(path, name)])
     \<lparr>surface_deprecated := Some (annotation \<noteq> None \<or> contains ''DEPRECATED'' unit),
      surface_replacement := (case annotation of None \<Rightarrow> None
        | Some m \<Rightarrow> if group_text m 1 \<noteq> [] then Some (group_text m 1) else None)\<rparr>"

definition add_function :: "string \<Rightarrow> string \<Rightarrow> found \<Rightarrow> header_scan \<Rightarrow> header_scan gen" where
  "add_function path source declaration h = (let unit = match_text declaration;
       message = ''Unrecognized public declaration in '' @ path @ '': '' @ unit in
     case re_search function_pattern unit of None \<Rightarrow> raiseP CatalogueError message
     | Some m \<Rightarrow> let name = group_text m 1 in
       bindP (liftP (split_c unit '';'')) (\<lambda>ps.
       thenP (guardP (length ps = 1 \<and> \<not> contains ''G_DECLARE_'' unit) CatalogueError message)
      (thenP (if endswith name ''_get_type'' then exclude_type name path ''explicit declaration''
         else add_surface (function_surface path name
           (re_search deprecated_pattern (take (match_start declaration) source)) unit))
         (ret (h\<lparr>header_functions := header_functions h @ [name]\<rparr>)))))"

definition add_declaration :: "string \<Rightarrow> string \<Rightarrow> header_scan \<Rightarrow> found \<Rightarrow> header_scan gen" where
  "add_declaration path source h declaration = (case re_fullmatch macro_pattern (match_text declaration) of
     Some m \<Rightarrow> thenP (exclude_type (group_text m 2 @ ''_get_type'') path ''G_DECLARE_* implicit declaration'')
       (ret (h\<lparr>header_types := header_types h @ [group_text m 1], header_macros := Suc (header_macros h)\<rparr>))
   | None \<Rightarrow> add_function path source declaration h)"

definition header_source :: "string \<Rightarrow> string" where
  "header_source text = removed directive_pattern (uncomment text)"

text \<open>The public types and the enumerations with their headers, as found in the headers before.\<close>

type_synonym library_types = "string list \<times> (string \<times> string) list"

definition scan_header :: "source_tree \<Rightarrow> library_types \<Rightarrow> string \<Rightarrow> library_types gen" where
  "scan_header T types header =
     (let path = ''common/'' @ header in
      thenP (guardP (\<not> contains ''private'' header) CatalogueError (''Private header in public_headers: '' @ header))
     (bindP (read_source T path) (\<lambda>text.
      let plain = header_source text; source = removed decls_pattern plain;
          declarations = re_finditer declaration_pattern source;
          start = \<lparr>header_types = fst types @ groups_found typedef_pattern plain, header_functions = [], header_macros = 0\<rparr> in
      thenP (guardP (length declarations = length (re_finditer marker_pattern source)) CatalogueError
        (''Unparsed public export marker in '' @ path))
     (bindP (foldP (add_declaration path source) start declarations) (\<lambda>h.
      let candidates = groups_found candidate_pattern (removed annotation_pattern source) in
      thenP (guardP (header_macros h = length (re_finditer (Seq Boundary declare_pattern) source)) CatalogueError
        (''Unaccounted G_DECLARE_* public type in '' @ path))
     (thenP (guardP (set candidates \<subseteq> set (header_functions h)) CatalogueError
        (''Unaccounted public declarations in '' @ path @ '': '' @ missing_from candidates (header_functions h)))
       (ret (header_types h, snd types @ map (\<lambda>e. (e, path)) (groups_found enum_pattern plain)))))))))"

definition enum_template :: string where
  "enum_template = ''common/flatpak-enum-types.h.template''"

definition exclude_enum :: "string \<times> string \<Rightarrow> unit gen" where
  "exclude_enum ep = exclude_type (snake_case (fst ep) @ ''_get_type'') (snd ep)
     (''generated enum '' @ fst ep @ ''; '' @ enum_template)"

definition exclude_enums :: "source_tree \<Rightarrow> (string \<times> string) list \<Rightarrow> unit gen" where
  "exclude_enums T enums = whenP (enums \<noteq> []) (bindP (read_source T enum_template) (\<lambda>template.
     thenP (guardP (re_search template_pattern template \<noteq> None) CatalogueError ''Unrecognized generated enum declaration template'')
       (forP (sort_key fst (sort_key snd (remdups enums))) exclude_enum)))"

section \<open>\<open>signals\<close>\<close>

definition class_pattern :: regex where
  "class_pattern = seqs [Boundary, word_pattern, lit ''_class_init'', spaces, lit ''('', spaces, Group 1 word_pattern, lit ''Class'',
     spaces, lit ''*'', spaces, word_pattern, spaces, lit '')'', spaces, lit ''{'']"

definition block_pattern :: regex where
  "block_pattern = seqs [lit ''/**'', few any_char, lit ''*/'']"

definition signal_char :: "char \<Rightarrow> bool" where
  "signal_char c \<longleftrightarrow> word_char c \<or> c = CHR ''-''"

definition documented_pattern :: regex where
  "documented_pattern = seqs [Line_Start, spaces, lit ''*'', spaces, Group 1 word_pattern, lit ''::'', Group 2 (some signal_char),
     lit '':'', spaces, Line_End]"

definition registration_pattern :: regex where
  "registration_pattern = seqs [Boundary, Group 1 (Seq (lit ''g_signal_new'') (many word_char)), spaces, lit ''('']"

definition signal_name_pattern :: regex where
  "signal_name_pattern = seqs [spaces, lit quote_mark, Group 1 (some signal_char), lit quote_mark, spaces, lit '','']"

text \<open>Where each documentation block of a signal ends, with the owner and the signal it names.\<close>

type_synonym documented = "(nat \<times> (string \<times> string)) list"

definition documented_signals :: "string \<Rightarrow> documented" where
  "documented_signals text = concat (map (\<lambda>block. case re_search documented_pattern (match_text block) of None \<Rightarrow> []
     | Some m \<Rightarrow> [(match_stop block, (group_text m 1, group_text m 2))]) (re_finditer block_pattern text))"

definition outside_class :: "string \<Rightarrow> nat \<Rightarrow> nat \<Rightarrow> bool" where
  "outside_class clean from stop = (let braces = removed (Alt (quoted quote_mark) (quoted apostrophe)) (slice clean (from - 1) stop) in
     length (filter ((=) (CHR ''{'')) braces) \<le> length (filter ((=) (CHR ''}'')) braces))"

definition signal_surface :: "string \<Rightarrow> string \<Rightarrow> string \<Rightarrow> surface" where
  "signal_surface path owner signal = (new_surface (''library.signal.'' @ owner @ ''.'' @ signal) ''library-signal'' signal
     [(path, owner @ ''::'' @ signal), (path, ''g_signal_new ('' @ quote_mark @ signal @ quote_mark)])\<lparr>surface_owner := Some owner\<rparr>"

definition associate_signal ::
  "string \<Rightarrow> string \<Rightarrow> documented \<Rightarrow> nat list \<Rightarrow> found \<Rightarrow> string \<Rightarrow> string \<Rightarrow> nat list gen" where
  "associate_signal path text documented consumed registration owner name =
     (case filter (\<lambda>d. fst d \<le> match_start registration) documented of
        [] \<Rightarrow> raiseP CatalogueError (''Undocumented signal registration in '' @ path @ '': '' @ name)
      | d # ds \<Rightarrow> let stop = Max (set (map fst (d # ds))) in
          (case map_of documented stop of None \<Rightarrow> raiseP KeyError (show_nat stop)
           | Some (documented_owner, signal) \<Rightarrow>
             thenP (guardP (\<not> (signal \<noteq> name \<or> documented_owner \<noteq> owner \<or>
                 contains '';'' (uncomment (slice text stop (match_start registration))) \<or> stop \<in> set consumed))
               CatalogueError (''Cannot associate signal registration in '' @ path @ '': '' @ name))
            (thenP (add_surface (signal_surface path owner signal)) (ret (consumed @ [stop])))))"

definition add_signal ::
  "string \<Rightarrow> string list \<Rightarrow> string \<Rightarrow> string \<Rightarrow> documented \<Rightarrow> nat list \<Rightarrow> found \<Rightarrow> nat list gen" where
  "add_signal path public_types text clean documented consumed registration =
     thenP (guardP (group_text registration 1 = ''g_signal_new'') CatalogueError
       (''Unsupported signal registration form in '' @ path @ '': '' @ match_text registration))
    (case re_match signal_name_pattern (drop (match_stop registration) clean) of
       None \<Rightarrow> raiseP CatalogueError (''Nonliteral signal name in '' @ path)
     | Some m \<Rightarrow> let name = group_text m 1;
           owners = filter (\<lambda>c. match_start c < match_start registration) (re_finditer class_pattern clean) in
         if owners = [] then raiseP CatalogueError (''Signal registration outside recognized class_init in '' @ path @ '': '' @ name)
         else let owner = last owners; registered = group_text owner 1 in
           thenP (guardP (\<not> outside_class clean (match_stop owner) (match_start registration)) CatalogueError
             (''Signal registration outside class_init in '' @ path @ '': '' @ name))
          (if registered \<notin> set public_types then
             thenP (exclude (''Excluded private-class signal '' @ registered @ ''::'' @ name @ '' ('' @ path @
               ''); owner is not a public GType.'')) (ret consumed)
           else associate_signal path text documented consumed registration registered name))"

definition signals :: "source_tree \<Rightarrow> string list \<Rightarrow> string \<Rightarrow> unit gen" where
  "signals T public_types source =
     (let path = ''common/'' @ source in
      bindP (read_source T path) (\<lambda>text. let clean = uncomment text; documented = documented_signals text in
      bindP (foldP (add_signal path public_types text clean documented) [] (re_finditer registration_pattern clean)) (\<lambda>consumed.
      forP documented (\<lambda>(stop, owner, signal). guardP (\<not> (owner \<in> set public_types \<and> stop \<notin> set consumed)) CatalogueError
        (''Public signal has no registration in '' @ path @ '': '' @ owner @ ''::'' @ signal)))))"

definition library_surfaces :: "source_tree \<Rightarrow> unit gen" where
  "library_surfaces T =
     bindP (read_source T ''common/meson.build'') (\<lambda>meson. bindP (liftP (meson_inputs meson)) (\<lambda>(headers, c_sources).
     bindP (foldP (scan_header T) ([], []) headers) (\<lambda>(public_types, enums).
     thenP (exclude_enums T enums) (forP c_sources (signals T public_types)))))"

end
