(* ===== verification/Catalogue_Document.thy ===== *)
theory Catalogue_Document
  imports Catalogue_Generator Catalogue_Schema
begin

text \<open>
  The document \<open>catalogue.py\<close> writes: \<open>POLICY\<close>, \<open>Generator.generate\<close> and \<open>main\<close>, whose printed counts are
  left out. The collected interfaces keep an invariant under which the document is always accepted
  by the parser of catalogues the other tools use.
\<close>

section \<open>The catalogue\<close>

text \<open>\<open>POLICY\<close>: what an entry of the catalogue means, and what the parser supports.\<close>

definition policy :: "string list" where
  "policy = [
     ''This is a source interface denominator, not behavior coverage. An entry does not establish that any test '' @
     ''exercises its behavior, arguments, outcomes or errors.'',
     ''CLI commands are active entries in app/flatpak-main.c commands[]. Deprecated command aliases are excluded'' @
     '' individually below. Standalone executables, D-Bus interfaces, environment variables and file formats are'' @
     '' outside this denominator.'',
     ''Command options count every distinct documented long spelling in the command manual's option definitions,'' @
     '' including local XML includes, with value arguments stripped. Sharing a documentation group does not '' @
     ''imply semantic equivalence. Short spellings are aliases metadata only for groups with exactly one long '' @
     ''spelling; multi-long groups record other long spellings as documented_with. Duplicate definitions of the '' @
     ''same long spelling merge their source references. Repeated options such as --user count separately for '' @
     ''each command. Synopsis placeholders, prose references, option values and short-only groups do not count. '' @
     ''Undocumented command switches and GLib-generated help switches are outside this denominator.'',
     ''Global options come from flatpak.xml and are checked against global_entries[] and empty_entries[]. '' @
     ''user_entries[] is command-specific, not an additional global option group.'',
     ''Library functions are explicit flatpak_* callable declarations in the literal public_headers list in '' @
     ''common/meson.build, including deprecated functions. Macros, callbacks, class vfunc slots, private headers'' @
     '' and generated plumbing are excluded. All type-registration get_type functions are excluded individually '' @
     ''below, consistently for explicit declarations, G_DECLARE_* and generated enums.'',
     ''Library signals require a gtk-doc Owner::signal block and a matching g_signal_new registration for a '' @
     ''public GType. Inherited GLib signals and private-class signals are excluded. Common library C sources '' @
     ''listed in Meson are scanned without a built tree or preprocessing; conditional public declarations are '' @
     ''counted regardless of the local build configuration.'',
     ''Meson discovery supports one literal public_headers assignment installed by one direct '' @
     ''install_headers(public_headers, ...) call. Header reassignment, augmentation and alternative installer '' @
     ''arguments are rejected. Library source discovery supports literal file lists assigned to names ending in '' @
     ''sources, literal-list augmentation, and direct library/static_library source arguments. Source-list '' @
     ''reassignment and indirect or computed source expressions are rejected.'',
     ''Meson parsing is a static subset, not a guarantee that future build structures are understood. It does '' @
     ''not evaluate conditions, follow subdir/include calls, or resolve dependency-provided sources. The known '' @
     ''generated inputs enums, flatpak_gdbus, flatpak_document_gdbus, flatpak_permission_gdbus, systemd_gdbus, '' @
     ''flatpak_variant and wl_security_context are excluded from signal discovery without interpreting their '' @
     ''generator definitions. New build indirection or generated public APIs require a catalogue-parser review.'',
     ''XML is parsed offline with the standard library. Internal entities and local SYSTEM XML entities/includes'' @
     '' with one root element are supported and hashed. External DTDs are not fetched; unresolved entities, '' @
     ''includes and unsupported XPointer syntax are errors.'']"

definition optional_field :: "string \<Rightarrow> ('a \<Rightarrow> pyval) \<Rightarrow> 'a option \<Rightarrow> dict" where
  "optional_field k f x = (case x of None \<Rightarrow> [] | Some y \<Rightarrow> [(k, f y)])"

definition text_list :: "string list \<Rightarrow> pyval" where
  "text_list xs = PList (map PStr xs)"

definition origin_value :: "origin \<Rightarrow> pyval" where
  "origin_value pa = PObj [(''path'', PStr (fst pa)), (''anchor'', PStr (snd pa))]"

definition surface_value :: "surface \<Rightarrow> pyval" where
  "surface_value s = PObj ([(''id'', PStr (surface_id s)), (''kind'', PStr (surface_kind_name s)),
       (''name'', PStr (surface_name s)), (''sources'', PList (map origin_value (surface_sources s)))] @
     optional_field ''aliases'' text_list (surface_aliases s) @
     optional_field ''documented_with'' text_list (documented_with s) @
     optional_field ''command'' PStr (surface_command s) @ optional_field ''owner'' PStr (surface_owner s) @
     optional_field ''deprecated'' PBool (surface_deprecated s) @ optional_field ''replacement'' PStr (surface_replacement s))"

definition catalogue_value :: "string \<Rightarrow> generator \<Rightarrow> pyval" where
  "catalogue_value commit g = PObj [(''schema'', PInt 1),
     (''reference'', PObj [(''commit'', PStr commit),
       (''sources'', PObj (map (\<lambda>(path, hash). (path, PStr hash)) (sort_key fst (hashes g))))]),
     (''limitations'', text_list (policy @ sort (exclusions g))),
     (''surfaces'', PList (map (\<lambda>ks. surface_value (snd ks)) (sort_key fst (surfaces g))))]"

definition generate :: "source_tree \<Rightarrow> nat \<Rightarrow> pyval gen" where
  "generate T fuel = thenP (cli_surfaces T fuel) (thenP (library_surfaces T)
     (bindP (liftP (or_raise SubprocessError (head_commit T))) (\<lambda>commit. readP (catalogue_value (strip commit)))))"

section \<open>\<open>main\<close>\<close>

text \<open>Python's \<open>==\<close> on documents: numbers are compared by value, dictionaries as finite maps.\<close>

fun by_value :: "pyval \<Rightarrow> pyval" where
  "by_value (PBool b) = PFloat (Fin (if b then 1 else 0))"
| "by_value (PInt i) = PFloat (Fin (of_int i))"
| "by_value (PList xs) = PList (map by_value xs)"
| "by_value (PTuple xs) = PTuple (map by_value xs)"
| "by_value (PDict kvs) = PDict (map (\<lambda>(k, v). (k, by_value v)) kvs)"
| "by_value v = v"

definition same_document :: "pyval \<Rightarrow> pyval \<Rightarrow> bool" where
  "same_document v w = pyeq (by_value v) (by_value w)"

definition entry_at :: "pyval \<Rightarrow> string \<Rightarrow> pyval option" where
  "entry_at v k = (case v of PDict kvs \<Rightarrow> map_of kvs (KStr k) | _ \<Rightarrow> None)"

definition with_entry :: "pyval \<Rightarrow> string \<Rightarrow> pyval \<Rightarrow> pyval" where
  "with_entry v k x = (case v of PDict kvs \<Rightarrow> PDict (AList.update (KStr k) x kvs) | _ \<Rightarrow> v)"

text \<open>The existing catalogue is compared with the generated one but for its commit.\<close>

definition check_drift :: "string \<Rightarrow> pyval \<Rightarrow> pyval \<Rightarrow> unit result" where
  "check_drift output existing catalogue = (case entry_at existing ''reference'' of
     Some (PDict r) \<Rightarrow>
       (case (map_of r (KStr ''commit''), bindE (getitem catalogue ''reference'') (\<lambda>mine. getitem mine ''commit'')) of
          (Some (PStr _), Inr commit) \<Rightarrow>
            guardE (same_document (with_entry existing ''reference'' (with_entry (PDict r) ''commit'' commit)) catalogue)
              CatalogueError (''Catalogue drift detected: regenerate '' @ output)
        | _ \<Rightarrow> raise CatalogueError ''Missing or invalid existing reference.commit'')
   | _ \<Rightarrow> raise CatalogueError ''Invalid existing catalogue schema'')"

text \<open>\<open>existing\<close> is what reading and decoding the output gives, \<open>store\<close> writes it.\<close>

definition catalogue_main ::
  "source_tree \<Rightarrow> nat \<Rightarrow> bool \<Rightarrow> string \<Rightarrow> pyval result \<Rightarrow> (pyval \<Rightarrow> unit result) \<Rightarrow> int result" where
  "catalogue_main T fuel checking output existing store =
     (case bindE (fst (generate T fuel new_generator)) (\<lambda>c.
         if checking then bindE existing (\<lambda>e. check_drift output e c) else store c) of
       Inr _ \<Rightarrow> Inr 0
     | Inl e \<Rightarrow> if instance_of_any e [OSError, ValueError, SubprocessError] then Inr 1 else Inl e)"

section \<open>The invariant of the collected interfaces\<close>

definition kinds_of_surface :: "string set" where
  "kinds_of_surface = {''cli-command'', ''cli-option'', ''library-function'', ''library-signal''}"

definition known :: "string \<Rightarrow> (string \<times> surface) list \<Rightarrow> bool" where
  "known c ss \<longleftrightarrow> c = ''global'' \<or> (\<exists>s\<in>snd ` set ss. surface_kind_name s = ''cli-command'' \<and> surface_name s = c)"

definition plain_text :: "string \<Rightarrow> bool" where
  "plain_text s \<longleftrightarrow> s \<noteq> [] \<and> CHR 0x00 \<notin> set s"

definition proper :: "string \<times> surface \<Rightarrow> bool" where
  "proper ks \<longleftrightarrow> surface_id (snd ks) = fst ks \<and> plain_text (fst ks) \<and> plain_text (surface_name (snd ks)) \<and>
     surface_kind_name (snd ks) \<in> kinds_of_surface"

definition good :: "generator \<Rightarrow> bool" where
  "good g \<longleftrightarrow> distinct (map fst (hashes g)) \<and> distinct (map fst (surfaces g)) \<and> (\<forall>ks\<in>set (surfaces g). proper ks) \<and>
     (\<forall>ks\<in>set (surfaces g). \<forall>c. surface_command (snd ks) = Some c \<longrightarrow> known c (surfaces g))"

text \<open>From a good state in which the commands of \<open>C\<close> are known a step leads to a good one, and no
  command is ever forgotten.\<close>

definition grown :: "string set \<Rightarrow> generator \<Rightarrow> generator \<Rightarrow> bool" where
  "grown C g h \<longleftrightarrow> (good g \<and> (\<forall>c\<in>C. known c (surfaces g)) \<longrightarrow> good h) \<and>
     (\<forall>c. known c (surfaces g) \<longrightarrow> known c (surfaces h))"

interpretation growing: run_relation "grown C" for C
  by unfold_locales (auto simp: grown_def)

named_theorems grows \<comment> \<open>steps of the generator that keep the invariant\<close>

declare growing.combinators [grows]

lemma grown_same:
  "surfaces h = surfaces g \<Longrightarrow> (distinct (map fst (hashes g)) \<Longrightarrow> distinct (map fst (hashes h))) \<Longrightarrow> grown C g h"
  by (simp add: grown_def good_def)

lemma grows_reading: "reading cs m \<Longrightarrow> keeps (grown C) m"
  by (simp add: keeps_def reading_def grown_same)

lemma grows_source [grows]: "keeps (grown C) (read_source T path)"
  by (rule grows_reading [OF reading_source])

lemma grows_xml [grows]: "keeps (grown C) (xml T n path ancestors)"
  by (rule grows_reading [OF reading_xml])

lemma grows_exclude [grows]: "keeps (grown C) (exclude message)"
  by (simp add: keeps_def exclude_def modifyP_def grown_same)

lemma grows_exclude_type [grows]: "keeps (grown C) (exclude_type name path reason)"
  by (simp add: exclude_type_def grows_exclude)

lemma known_append: "known c ss \<Longrightarrow> known c (ss @ ts)"
  by (auto simp: known_def)

lemma grows_add:
  assumes "proper (surface_id s, s)" "\<And>c. surface_command s = Some c \<Longrightarrow> c = ''global'' \<or> c \<in> C"
  shows "keeps (grown C) (add_surface s)"
proof -
  have "grown C g (g\<lparr>surfaces := surfaces g @ [(surface_id s, s)]\<rparr>)" if "map_of (surfaces g) (surface_id s) = None" for g
    using that assms by (auto simp: grown_def good_def map_of_eq_None_iff known_append known_def [of "''global''"])
  then show ?thesis
    by (auto simp: keeps_def add_surface_def bindP_def readP_def thenP_def guardP_def liftP_def modifyP_def guardE_def raise_def
        growing.refl)
qed

lemma added_known:
  assumes "add_surface s g = (Inr u, h)" "surface_kind_name s = ''cli-command''"
  shows "known (surface_name s) (surfaces h)"
  using assms
  by (auto simp: add_surface_def bindP_def readP_def thenP_def guardP_def liftP_def modifyP_def guardE_def raise_def known_def
      split: if_splits)

text \<open>An interface already collected may change in all but what identifies it.\<close>

definition outline :: "(string \<times> surface) list \<Rightarrow> (string \<times> string \<times> string \<times> string \<times> string option) list" where
  "outline = map (\<lambda>(k, s). (k, surface_id s, surface_kind_name s, surface_name s, surface_command s))"

lemma outline_known: "known c ss \<longleftrightarrow> c = ''global'' \<or> (\<exists>k i d. (k, i, ''cli-command'', c, d) \<in> set (outline ss))"
  unfolding known_def outline_def by (force simp: image_iff)

lemma outline_good: "good g \<longleftrightarrow> distinct (map fst (hashes g)) \<and> distinct (map fst (outline (surfaces g))) \<and>
    (\<forall>(k, i, kind, n, d)\<in>set (outline (surfaces g)). i = k \<and> plain_text k \<and> plain_text n \<and> kind \<in> kinds_of_surface \<and>
      (\<forall>c. d = Some c \<longrightarrow> known c (surfaces g)))"
  unfolding good_def proper_def outline_def
  by (auto simp: case_prod_beta comp_def)

text \<open>Texts taken from groups of the patterns, and texts put together.\<close>

lemma plain_group:
  "found_by r m \<Longrightarrow> binds n r \<Longrightarrow> \<forall>b\<in>set (bodies n r). 0 < min_len b \<and> avoids (CHR 0x00) b \<Longrightarrow> plain_text (group_text m n)"
  unfolding plain_text_def using group_nonempty group_avoids by blast

lemma plain_Cons [simp]: "plain_text (c # s) \<longleftrightarrow> c \<noteq> CHR 0x00 \<and> CHR 0x00 \<notin> set s"
  by (auto simp: plain_text_def)

lemma code_zero [simp]: "code (CHR 0x00) = 0"
  by (simp add: code_def)

lemma plain_set: "plain_text s \<Longrightarrow> CHR 0x00 \<notin> set s"
  by (simp add: plain_text_def)

lemma outline_update:
  "map_of ss i = Some s \<Longrightarrow> surface_id t = surface_id s \<Longrightarrow> surface_name t = surface_name s \<Longrightarrow>
     surface_kind_name t = surface_kind_name s \<Longrightarrow> surface_command t = surface_command s \<Longrightarrow>
     outline (AList.update i t ss) = outline ss"
  by (induction ss) (auto simp: outline_def split: if_splits)

lemma outline_known_same: "outline ss = outline ts \<Longrightarrow> known c ss = known c ts"
  by (simp only: outline_known)

lemma grown_outline:
  assumes "outline (surfaces h) = outline (surfaces g)" "hashes h = hashes g"
  shows "grown C g h"
  unfolding grown_def outline_good using outline_known_same [OF assms(1)] assms by simp

lemma grows_update [grows]:
  assumes "\<And>s. surface_id (f s) = surface_id s \<and> surface_name (f s) = surface_name s \<and>
    surface_kind_name (f s) = surface_kind_name s \<and> surface_command (f s) = surface_command s"
  shows "keeps (grown C) (update_surface i f)"
  unfolding keeps_def update_surface_def modifyP_def
  using assms by (auto split: option.split intro!: grown_outline outline_update)

section \<open>Each step keeps the invariant\<close>

lemma entry_names_plain: "entry_names path e = Inr names \<Longrightarrow> \<forall>n\<in>set names. plain_text n"
proof -
  have "plain_text (group_text m 1)" if "re_match option_pattern s = Some m" for s m
    by (rule plain_group [OF re_found_by(1) [OF that]])
      (auto simp: option_pattern_def opt_def many_def alphanumeric_def is_lower_def is_upper_def isdigit_def)
  then have "\<forall>n\<in>set ms. plain_text n" if "option_name path ns x = Inr ms" "\<forall>n\<in>set ns. plain_text n" for ns ms x
    using that by (auto simp: option_name_def Let_def raise_def split: option.splits if_splits)
  then have "\<forall>n\<in>set ms. plain_text n" if "term_names path ns t = Inr ms" "\<forall>n\<in>set ns. plain_text n" for ns ms t
    using that foldE_invariant [of "option_name path" ns _ ms "\<lambda>ns. \<forall>n\<in>set ns. plain_text n"]
    by (auto simp: term_names_def Let_def err_simps)
  then have terms: "\<And>ns t ms. (\<forall>n\<in>set ns. plain_text n) \<Longrightarrow> term_names path ns t = Inr ms \<Longrightarrow> \<forall>n\<in>set ms. plain_text n"
    by blast
  assume "entry_names path e = Inr names"
  then show "\<forall>n\<in>set names. plain_text n"
    unfolding entry_names_def
    by (rule foldE_invariant [where I = "\<lambda>ns. \<forall>n\<in>set ns. plain_text n"]) (simp, rule terms)
qed

lemma grows_define_option:
  assumes "plain_text name" "plain_text command" "command = ''global'' \<or> command \<in> C"
  shows "keeps (grown C) (define_option command path from names k name)"
proof -
  have "keeps (grown C) (add_surface ((new_surface (option_id command name) ''cli-option'' name os)\<lparr>surface_command := Some command,
      surface_aliases := as, documented_with := ds\<rparr>))" for os as ds
    by (rule grows_add) (use assms in \<open>auto simp: proper_def new_surface_def option_id_def kinds_of_surface_def plain_set\<close>)
  then show ?thesis
    unfolding define_option_def Let_def by (intro grows) (auto simp: merge_option_def)
qed

lemma keeps_lift_bind:
  "(\<And>x. r = Inr x \<Longrightarrow> keeps (grown C) (f x)) \<Longrightarrow> keeps (grown C) (bindP (liftP r) f)"
  by (cases r) (simp_all add: keeps_def bindP_def liftP_def growing.refl)

lemma keeps_fold_in: "(\<And>b x. x \<in> set xs \<Longrightarrow> keeps (grown C) (f b x)) \<Longrightarrow> keeps (grown C) (foldP f b xs)"
  by (induction xs arbitrary: b) (auto intro!: growing.keeps_ret growing.keeps_bind)

lemma grows_options:
  assumes "plain_text command" "command = ''global'' \<or> command \<in> C"
  shows "keeps (grown C) (options T fuel command path)"
proof -
  have "keeps (grown C) (entry_options command path k e)" for k e
    unfolding entry_options_def
    by (intro grows keeps_lift_bind keeps_fold_in grows_define_option assms) (auto dest: entry_names_plain)
  then show ?thesis unfolding options_def by (intro grows)
qed

lemma string_literal_plain: "string_literal v = Inr n \<Longrightarrow> plain_text n"
proof -
  assume "string_literal v = Inr n"
  then obtain m where m: "re_fullmatch literal_pattern v = Some m" "n = inner_text v"
    by (auto simp: string_literal_def err_simps)
  obtain q where q: "q \<in> set (run_regex literal_pattern (Place [] v []))" "rest q = []"
    using re_fullmatch_by [OF m(1)] by metis
  obtain w where w: "leads (Place [] v []) w q" using run_leads [OF q(1)] by blast
  then have "w = v" using q(2) by (simp add: leads_def)
  moreover have "min_len literal_pattern = 3" "avoids (CHR 0x00) literal_pattern"
    by (simp_all add: literal_pattern_def some_def many_def quote_mark_def name_char_def alphanumeric_def
        is_lower_def is_upper_def isdigit_def)
  ultimately have "3 \<le> length v" "CHR 0x00 \<notin> set v" using run_min_len [OF q(1) w] run_avoids [OF q(1) w] by simp_all
  then show ?thesis unfolding m(2) inner_text_def plain_text_def
    by (cases v) (auto simp: butlast_conv_take dest: in_set_takeD)
qed

definition named_commands :: "commands \<Rightarrow> bool" where
  "named_commands cs \<longleftrightarrow> (\<forall>c\<in>set cs. plain_text (fst c))"

lemma named_commands_snoc [simp]: "named_commands (cs @ [(name, x)]) \<longleftrightarrow> plain_text name \<and> named_commands cs"
  by (auto simp: named_commands_def)

lemma register_command_named: "register_command cs fs = Inr ds \<Longrightarrow> named_commands cs \<Longrightarrow> named_commands ds"
  by (auto simp: register_command_def err_simps split: if_splits dest: string_literal_plain)

lemma grows_command:
  assumes "plain_text (fst nf)"
  shows "keeps (grown C) (add_command T fuel cs nf)"
  unfolding keeps_def
proof
  fix g
  show "grown C g (snd (add_command T fuel cs nf g))"
  proof (cases "command_manual T cs nf")
    case (Inr doc)
    let ?s = "command_surface (fst nf) doc"
    have s: "surface_kind_name ?s = ''cli-command''" "surface_name ?s = fst nf" by (simp_all add: command_surface_def new_surface_def)
    have add: "grown C g (snd (add_surface ?s g))"
      using grows_add [of ?s C] assms unfolding keeps_def
      by (auto simp: proper_def command_surface_def new_surface_def kinds_of_surface_def plain_set)
    obtain r h where r: "add_surface ?s g = (r, h)" by force
    show ?thesis
    proof (cases r)
      case (Inl e)
      with r add \<open>command_manual T cs nf = Inr doc\<close> show ?thesis by (simp add: add_command_def bindP_def thenP_def liftP_def)
    next
      case (Inr u)
      have "known (fst nf) (surfaces h)" using added_known [of ?s g u h] r Inr s by simp
      moreover have "grown (insert (fst nf) C) h (snd (options T fuel (fst nf) doc h))"
        using grows_options [of "fst nf" "insert (fst nf) C" T fuel doc] assms by (simp add: keeps_def)
      ultimately have "grown C h (snd (options T fuel (fst nf) doc h))" by (auto simp: grown_def)
      with add r have "grown C g (snd (options T fuel (fst nf) doc h))" using growing.trans by simp
      with r Inr \<open>command_manual T cs nf = Inr doc\<close> show ?thesis
        by (auto simp: add_command_def bindP_def thenP_def liftP_def ret_def split: prod.split sum.split)
    qed
  qed (simp add: add_command_def bindP_def liftP_def growing.refl)
qed

lemma grows_register_option [grows]: "keeps (grown C) (register_option table registered fs)"
  unfolding register_option_def Let_def by (intro grows) (auto simp: register_source_def register_shorts_def)

lemma grows_register_table [grows]: "keeps (grown C) (register_table source registered table)"
  unfolding register_table_def by (intro grows)

lemma grows_alias [grows]: "keeps (grown C) (exclude_alias cs alias)"
  unfolding exclude_alias_def by (auto intro!: grows split: list.split)

lemma keeps_for_in: "(\<And>x. x \<in> set xs \<Longrightarrow> keeps (grown C) (f x)) \<Longrightarrow> keeps (grown C) (forP xs f)"
  by (induction xs) (auto intro!: growing.keeps_ret growing.keeps_then)


lemma grows_cli [grows]: "keeps (grown C) (cli_surfaces T fuel)"
proof -
  have commands: "keeps (grown C) (forP (sort_key fst (active_commands cs)) (add_command T fuel cs))"
    if "bindE (array_rows source ''commands'') (foldE register_command []) = Inr cs" for source cs
  proof -
    from that obtain rows where "foldE register_command [] rows = Inr cs" by (auto simp: err_simps)
    then have "named_commands cs"
      by (rule foldE_invariant [where I = named_commands]) (auto simp: named_commands_def [of "[]"] intro: register_command_named)
    then show ?thesis by (intro keeps_for_in grows_command) (auto simp: named_commands_def active_commands_def)
  qed
  show ?thesis
    unfolding cli_surfaces_def Let_def
    by (intro growing.keeps_bind grows_source keeps_lift_bind growing.keeps_then growing.keeps_guard growing.keeps_for grows_alias
        commands grows_options growing.keeps_fold grows_register_table) (auto simp: plain_text_def)
qed

lemma not_word [simp]: "\<not> word_char (CHR 0x00)"
  by (simp add: word_char_def ident_start_def is_lower_def is_upper_def isdigit_def)

lemma function_name_plain: "re_search function_pattern unit = Some m \<Longrightarrow> plain_text (group_text m 1)"
  by (rule plain_group [OF re_found_by(3)])
    (auto simp: function_pattern_def flatpak_function_def word_pattern_def some_def many_def spaces_def)

lemma grows_add_function [grows]: "keeps (grown C) (add_function path source declaration h)"
proof -
  have "keeps (grown C) (add_surface (function_surface path name annotation unit))" if "plain_text name" for name annotation unit
    by (rule grows_add) (use that in \<open>auto simp: proper_def function_surface_def new_surface_def kinds_of_surface_def
      plain_set\<close>)
  then show ?thesis
    unfolding add_function_def Let_def
    by (auto intro!: grows dest: function_name_plain split: option.split)
qed

lemma grows_add_declaration [grows]: "keeps (grown C) (add_declaration path source h declaration)"
  unfolding add_declaration_def by (intro grows)

lemma grows_header [grows]: "keeps (grown C) (scan_header T types header)"
  unfolding scan_header_def Let_def by (intro grows)

lemma grows_enums [grows]: "keeps (grown C) (exclude_enums T enums)"
  unfolding exclude_enums_def exclude_enum_def by (intro grows)

lemma signal_name_plain: "re_match signal_name_pattern s = Some m \<Longrightarrow> plain_text (group_text m 1)"
  by (rule plain_group [OF re_found_by(1)])
    (auto simp: signal_name_pattern_def some_def many_def spaces_def quote_mark_def signal_char_def)

lemma owner_plain: "m \<in> set (re_finditer class_pattern s) \<Longrightarrow> plain_text (group_text m 1)"
  by (rule plain_group [OF re_found_by(4)])
    (auto simp: class_pattern_def word_pattern_def some_def many_def spaces_def)

lemma grows_associate [grows]:
  assumes "plain_text name" "plain_text owner"
  shows "keeps (grown C) (associate_signal path source documented consumed registration owner name)"
proof -
  have "keeps (grown C) (add_surface (signal_surface path owner name))"
    by (rule grows_add) (use assms in \<open>auto simp: proper_def signal_surface_def new_surface_def kinds_of_surface_def
      plain_set\<close>)
  moreover have rejected: "keeps (grown C) (thenP (guardP False c message) m)" for c message and m :: "'a gen"
    by (simp add: thenP_def guardP_def guardE_def bindP_def liftP_def keeps_def raise_def growing.refl)
  ultimately have "keeps (grown C) (thenP (guardP b c message)
      (thenP (add_surface (signal_surface path owner signal)) (ret x)))" if "b \<Longrightarrow> signal = name" for signal b c message and x :: "nat list"
    using that by (cases b) (auto intro!: growing.keeps_then growing.keeps_guard growing.keeps_ret simp: rejected)
  then show ?thesis
    unfolding associate_signal_def Let_def by (auto intro: growing.keeps_raise split: list.split option.split)
qed

lemma owner_of:
  "filter P (re_finditer class_pattern s) \<noteq> [] \<Longrightarrow> plain_text (group_text (last (filter P (re_finditer class_pattern s))) 1)"
  using last_in_set [of "filter P (re_finditer class_pattern s)"] owner_plain by auto

lemma grows_signal [grows]: "keeps (grown C) (add_signal path types source clean documented consumed registration)"
  unfolding add_signal_def Let_def
  by (auto intro!: grows dest: signal_name_plain intro: owner_of [simplified] split: option.split)

lemma grows_signals [grows]: "keeps (grown C) (signals T types source)"
  unfolding signals_def Let_def by (intro grows)

lemma grows_generate: "keeps (grown {}) (generate T fuel)"
  unfolding generate_def library_surfaces_def by (intro grows)

lemma generate_good:
  assumes "generate T fuel new_generator = (Inr c, g)"
  shows "good g" "\<exists>commit. c = catalogue_value commit g"
proof -
  have "grown {} new_generator g" using grows_generate [of T fuel] assms by (metis keeps_def snd_conv)
  moreover have "good new_generator" by (simp add: good_def new_generator_def)
  ultimately show "good g" by (simp add: grown_def)
  show "\<exists>commit. c = catalogue_value commit g"
    using assms by (auto simp: generate_def thenP_def bindP_def liftP_def readP_def or_raise_def raise_def
        split: prod.splits sum.splits)
qed

section \<open>The catalogue is accepted\<close>

lemma has_type_texts: "has_type (text_list xs) (AList AStr)"
  unfolding text_list_def by (rule has_type.list) auto

lemma map_of_optional [simp]: "map_of (optional_field k f x) j = (if j = k then map_option f x else None)"
  by (simp add: optional_field_def split: option.split)

lemma has_type_origin: "has_type (origin_value pa) source_class"
  unfolding origin_value_def source_class_def
  by (rule has_type.typed) (auto simp: has_key_def split: if_splits)

definition surface_dict :: "surface \<Rightarrow> dict" where
  "surface_dict s = entries_of (surface_value s)"

lemma surface_value_dict: "surface_value s = PObj (surface_dict s)"
  by (simp add: surface_dict_def surface_value_def)

lemma surface_dict_at [simp]:
  "map_of (surface_dict s) ''id'' = Some (PStr (surface_id s))"
  "map_of (surface_dict s) ''kind'' = Some (PStr (surface_kind_name s))"
  "map_of (surface_dict s) ''name'' = Some (PStr (surface_name s))"
  "map_of (surface_dict s) ''sources'' = Some (PList (map origin_value (surface_sources s)))"
  "map_of (surface_dict s) ''aliases'' = map_option text_list (surface_aliases s)"
  "map_of (surface_dict s) ''documented_with'' = map_option text_list (documented_with s)"
  "map_of (surface_dict s) ''command'' = map_option PStr (surface_command s)"
  "map_of (surface_dict s) ''owner'' = map_option PStr (surface_owner s)"
  "map_of (surface_dict s) ''deprecated'' = map_option PBool (surface_deprecated s)"
  "map_of (surface_dict s) ''replacement'' = map_option PStr (surface_replacement s)"
  by (simp_all add: surface_dict_def surface_value_def map_add_def split: option.split)

lemma surface_typed:
  assumes "surface_kind_name s \<in> kinds_of_surface"
  shows "has_type (surface_value s) surface_class"
  unfolding surface_class_def surface_value_dict
  by (rule has_type.typed)
    (use assms in \<open>auto simp: surface_required_fields_def has_key_def surface_kind_def kinds_of_surface_def
       has_type_texts intro!: has_type.list has_type_origin\<close>)

lemma surface_json: "is_json (surface_value s)"
  by (auto simp: surface_value_def optional_field_def text_list_def origin_value_def split: option.splits)

lemma index_distinct:
  assumes "distinct (map surface_id ss)" "\<forall>s\<in>set ss. plain_text (surface_id s)"
  shows "\<exists>d. indexed (map surface_value ss) label = Inr d"
proof -
  have "\<exists>d'. foldE (index_step label) d (map surface_value ss) = Inr d'"
    if "\<forall>s\<in>set ss. \<not> has_key d (surface_id s)" for d
    using assms that
  proof (induction ss arbitrary: d)
    case (Cons s ss)
    have "index_step label d (surface_value s) = Inr (AList.update (surface_id s) (surface_value s) d)"
      using Cons.prems by (simp add: index_step_def surface_value_dict string_def plain_text_def)
    moreover have "\<forall>t\<in>set ss. \<not> has_key (AList.update (surface_id s) (surface_value s) d) (surface_id t)"
      using Cons.prems by (auto simp: has_key_def update_conv') (metis imageI)
    ultimately show ?case using Cons.IH Cons.prems by simp
  qed simp
  from this [of "[]"] show ?thesis by (simp add: indexed_def has_key_def)
qed

lemma command_names_of:
  "command_names (map surface_value ss) =
     Inr (map surface_name (filter (\<lambda>s. surface_kind_name s = ''cli-command'') ss))"
proof -
  have "mapE (\<lambda>surface. bindE (getitem surface ''kind'') (\<lambda>kind.
     if kind = PStr ''cli-command'' then liftE (\<lambda>v. [text_of v]) (getitem surface ''name'') else Inr [])) (map surface_value ss) =
     Inr (map (\<lambda>s. if surface_kind_name s = ''cli-command'' then [surface_name s] else []) ss)"
    by (induction ss) (auto simp: surface_value_dict)
  moreover have "concat (map (\<lambda>s. if surface_kind_name s = ''cli-command'' then [surface_name s] else []) ss) =
     map surface_name (filter (\<lambda>s. surface_kind_name s = ''cli-command'') ss)"
    by (induction ss) auto
  ultimately show ?thesis by (simp add: command_names_def)
qed

lemma defaults_kept:
  "mapE (surface_default path) (enumerate_list (map surface_value ss)) = Inr (map surface_value ss)"
proof -
  have "surface_default path (i, surface_value s) = Inr (surface_value s)" for i s
    by (simp add: surface_default_def surface_value_dict object_map_Inr setdefault_def has_key_def)
  then show ?thesis by (auto simp: mapE_Inr_iff enumerate_list_def list_all2_conv_all_nth)
qed

lemma surfaces_checked:
  assumes "\<forall>s\<in>set ss. plain_text (surface_name s) \<and> (\<forall>c. surface_command s = Some c \<longrightarrow> c = ''global'' \<or> c \<in> set cs)"
  shows "forE (enumerate_list (map surface_value ss)) (check_surface path cs) = Inr ()"
proof -
  have "check_surface path cs (i, surface_value s) = Inr ()" if "s \<in> set ss" for i s
    using assms that
    by (cases "surface_command s")
      (auto simp: check_surface_def surface_value_dict has_key_def string_def guardE_def plain_text_def)
  then have "check_surface path cs ix = Inr ()" if "ix \<in> set (enumerate_list (map surface_value ss))" for ix
    using that in_enumerate_list [of "fst ix" "snd ix" "map surface_value ss"] by (cases ix) auto
  then show ?thesis by (auto simp: err_simps)
qed

lemma catalogue_typed:
  assumes "\<forall>s\<in>set ss. surface_kind_name s \<in> kinds_of_surface"
  shows "has_type (PObj [(''schema'', PInt 1), (''reference'', PObj [(''commit'', PStr commit),
       (''sources'', PObj (map (\<lambda>(path, hash). (path, PStr hash)) hs))]), (''limitations'', text_list ls),
       (''surfaces'', PList (map surface_value ss))]) catalogue_class"
  unfolding catalogue_class_def
proof (rule has_type.typed)
  have sources: "has_type (PObj (map (\<lambda>(path, hash). (path, PStr hash)) hs)) (ADict AStr AStr)"
    by (rule has_type.dict) auto
  have reference: "has_type (PObj [(''commit'', PStr commit),
      (''sources'', PObj (map (\<lambda>(path, hash). (path, PStr hash)) hs))]) reference_class"
    unfolding reference_class_def by (rule has_type.typed) (auto simp: has_key_def sources split: if_splits)
  have "has_type (PList (map surface_value ss)) (AList surface_class)"
    using assms by (auto intro!: has_type.list surface_typed)
  then show "has_type x a" if "(k, r, a) \<in> set [(''schema'', True, AInt), (''reference'', True, reference_class),
     (''limitations'', True, AList AStr), (''surfaces'', True, AList surface_class)]"
    "map_of [(''schema'', PInt 1), (''reference'', PObj [(''commit'', PStr commit),
       (''sources'', PObj (map (\<lambda>(path, hash). (path, PStr hash)) hs))]), (''limitations'', text_list ls),
       (''surfaces'', PList (map surface_value ss))] k = Some x" for k r a x
    using that reference has_type_texts [of ls] by auto
qed (auto simp: has_key_def)

lemma catalogue_parses:
  assumes "good g"
  shows "parse_catalogue (catalogue_value commit g) path = Inr (catalogue_value commit g)"
proof -
  define ss where "ss = map snd (sort_key fst (surfaces g))"
  let ?d = "[(''schema'', PInt 1), (''reference'', PObj [(''commit'', PStr commit),
       (''sources'', PObj (map (\<lambda>(path, hash). (path, PStr hash)) (sort_key fst (hashes g))))]),
       (''limitations'', text_list (policy @ sort (exclusions g))), (''surfaces'', PList (map surface_value ss))]"
  have v: "catalogue_value commit g = PObj ?d" by (simp add: catalogue_value_def ss_def comp_def)
  have set: "set ss = snd ` set (surfaces g)" by (simp add: ss_def)
  have proper: "\<forall>ks\<in>set (surfaces g). proper ks" using assms by (simp add: good_def)
  have "map surface_id ss = map fst (sort_key fst (surfaces g))"
    using proper by (auto simp: ss_def proper_def)
  moreover have "distinct (map fst (sort_key fst (surfaces g)))"
    using assms distinct_map [of fst "sort_key fst (surfaces g)"] by (auto simp: good_def distinct_map)
  ultimately have ids: "distinct (map surface_id ss)" by simp
  have nonempty: "\<forall>s\<in>set ss. plain_text (surface_id s)" "\<forall>s\<in>set ss. surface_kind_name s \<in> kinds_of_surface"
    using proper by (auto simp: set proper_def)
  let ?cs = "map surface_name (filter (\<lambda>s. surface_kind_name s = ''cli-command'') ss)"
  have commands: "\<forall>s\<in>set ss. plain_text (surface_name s) \<and> (\<forall>c. surface_command s = Some c \<longrightarrow> c = ''global'' \<or> c \<in> set ?cs)"
    using proper assms by (fastforce simp: set proper_def good_def known_def)
  obtain index where index: "indexed (map surface_value ss) ''surface'' = Inr index"
    using index_distinct [OF ids nonempty(1)] by blast
  have json: "is_json (PObj ?d)"
    using surface_json by (auto simp: text_list_def)
  have typed: "parse_typed (PObj ?d) catalogue_class path = Inr (PObj ?d)"
    using parse_typed_json [OF json] catalogue_typed [OF nonempty(2)] by blast
  show ?thesis
    unfolding v parse_catalogue_def
    using index typed
    by (simp add: object_map_Inr required_def array_def defaults_kept command_names_of surfaces_checked [OF commands])
qed

section \<open>The catalogue is current\<close>

lemma by_value_wf: "wf_val v \<Longrightarrow> no_nan v \<Longrightarrow> wf_val (by_value v) \<and> no_nan (by_value v)"
proof (induction v)
  case (PDict kvs)
  have keys: "map (fst \<circ> (\<lambda>(k, v). (k, by_value v))) kvs = map fst kvs" by auto
  have "wf_val (by_value x) \<and> no_nan (by_value x)" if "(k, x) \<in> set kvs" for k x
    using PDict.IH [of "(k, x)" x] PDict.prems that by (auto intro: snds.intros)
  then show ?case using PDict.prems by (auto simp: keys)
next
  case (PFloat x)
  then show ?case by simp
qed auto

lemma same_document_refl: "wf_val v \<Longrightarrow> no_nan v \<Longrightarrow> same_document v v"
  unfolding same_document_def by (intro pyeq_refl) (simp_all add: by_value_wf)

lemma no_nan_PObj [simp]: "no_nan (PObj d) \<longleftrightarrow> (\<forall>(k, x)\<in>set d. no_nan x)"
  by (auto simp: PObj_def)

lemma catalogue_value_wf:
  assumes "good g"
  shows "wf_val (catalogue_value commit g)" "no_nan (catalogue_value commit g)"
proof -
  have surface: "wf_val (surface_value s)" "no_nan (surface_value s)" for s
    by (auto simp: surface_value_def wf_PObj optional_field_def text_list_def origin_value_def split: option.splits)
  have "distinct (map fst (sort_key fst (hashes g)))"
    using assms by (auto simp: good_def distinct_map)
  then have "wf_val (PObj (map (\<lambda>(path, hash). (path, PStr hash)) (sort_key fst (hashes g))))"
    by (auto simp: wf_PObj comp_def case_prod_beta')
  then show "wf_val (catalogue_value commit g)" "no_nan (catalogue_value commit g)"
    using surface by (auto simp: catalogue_value_def wf_PObj text_list_def)
qed

lemma drift_own:
  assumes "good g"
  shows "check_drift output (catalogue_value other g) (catalogue_value commit g) = Inr ()"
proof -
  have "with_entry (catalogue_value other g) ''reference'' (with_entry (PObj [(''commit'', PStr other),
       (''sources'', PObj (map (\<lambda>(path, hash). (path, PStr hash)) (sort_key fst (hashes g))))]) ''commit'' (PStr commit)) =
    catalogue_value commit g"
    by (simp add: catalogue_value_def with_entry_def PObj_def)
  then show ?thesis
    using same_document_refl [OF catalogue_value_wf [OF assms]]
    by (simp add: check_drift_def entry_at_def catalogue_value_def PObj_def getitem_def guardE_def)
qed

end
