(* ===== verification/Catalogue_Contract.thy ===== *)
theory Catalogue_Contract
  imports Catalogue_Document
begin

text \<open>
  What the catalogue generator promises the tools that read its catalogue, with a small repository
  (one command, one library function) whose catalogue is made by evaluating the model.
\<close>

section \<open>A small repository\<close>

definition small_main :: string where
  "small_main = ''commands[]={{'' @ quote_mark @ ''a'' @ quote_mark @ '',0,flatpak_builtin_a,0}};global_entries[]={{'' @
     quote_mark @ ''v'' @ quote_mark @ '',0,0,0,0,0,0}};empty_entries[]={};''"

definition small_meson :: string where
  "small_meson = ''public_headers=['' @ apostrophe @ ''a.h'' @ apostrophe @ '']\<newline>install_headers(public_headers)\<newline>library('' @
     apostrophe @ ''x'' @ apostrophe @ '','' @ apostrophe @ ''a.c'' @ apostrophe @ '')\<newline>''"

definition small_header :: string where "small_header = ''FLATPAK_EXTERN int flatpak_a();''"

definition small_files :: "(string \<times> string) list" where
  "small_files = [(''/r/app/flatpak-main.c'', small_main), (''/r/common/meson.build'', small_meson),
     (''/r/common/a.h'', small_header), (''/r/common/a.c'', []), (''/r/doc/flatpak-a.xml'', ''a''), (''/r/doc/flatpak.xml'', ''g'')]"

definition small_manual :: "string \<Rightarrow> element" where
  "small_manual name = Element ''refentry'' [] [] [Element ''varlistentry'' [] [] [Element ''term'' [] []
     [Element ''option'' [] (''--'' @ name) [] [] []] [] []] [] []] [] []"

definition small_tree :: source_tree where
  "small_tree = \<lparr>tree_root = path_of ''/r'',
     tree_bytes = (\<lambda>_ p. case map_of small_files p of Some t \<Rightarrow> Inr t | None \<Rightarrow> Inl ''no such file''),
     tree_resolve = (\<lambda>p. p), tree_is_file = (\<lambda>p. p = path_of ''/r/doc/flatpak-a.xml''), tree_digest = (\<lambda>s. show_nat (length s)),
     utf8_text = Inr, parse_xml = (\<lambda>s. if s = ''a'' then Inr (small_manual ''user'') else Inr (small_manual ''v'')),
     find_all = (\<lambda>_ _. Inr []), head_commit = Inr ''c0''\<rparr>"



definition small_commands :: commands where
  "small_commands = [(''a'', (''flatpak_builtin_a'', False))]"

definition option_surface :: "string \<Rightarrow> string \<Rightarrow> string \<Rightarrow> origin list \<Rightarrow> surface" where
  "option_surface command name doc os = (new_surface (option_id command name) ''cli-option'' name
     ((doc, ''varlistentry/term/option: '' @ name) # os))\<lparr>surface_aliases := Some [], surface_command := Some command\<rparr>"

definition small_hashes :: "(string \<times> string) list" where
  "small_hashes = [(''app/flatpak-main.c'', ''97''), (''doc/flatpak-a.xml'', ''1''), (''doc/flatpak.xml'', ''1''),
     (''common/meson.build'', ''74''), (''common/a.h'', ''31''), (''common/a.c'', ''0'')]"

text \<open>The state after some reads, with some interfaces, when the last option is in the option table.\<close>

definition small_state :: "nat \<Rightarrow> nat \<Rightarrow> bool \<Rightarrow> generator" where
  "small_state n k registered = \<lparr>reads = n, hashes = take n small_hashes, surfaces = take k
     [(''cli.command.a'', command_surface ''a'' ''doc/flatpak-a.xml''),
      (''cli.option.a.--user'', option_surface ''a'' ''--user'' ''doc/flatpak-a.xml'' []),
      (''cli.option.global.--v'', option_surface ''global'' ''--v'' ''doc/flatpak.xml''
         (if registered then [(main_source, ''global_entries[]: '' @ quote_mark @ ''v'' @ quote_mark)] else [])),
      (''library.function.flatpak_a'', function_surface ''common/a.h'' ''flatpak_a'' None ''int'')], exclusions = []\<rparr>"

definition command_rows :: "string list list" where
  "command_rows = [[quote_mark @ ''a'' @ quote_mark, ''0'', ''flatpak_builtin_a'', ''0'']]"

definition option_rows :: "string list list" where
  "option_rows = [[quote_mark @ ''v'' @ quote_mark, ''0'', ''0'', ''0'', ''0'', ''0'', ''0'']]"

lemma small_cli_steps:
  "read_source small_tree main_source new_generator = (Inr small_main, small_state 1 0 False)"
  "uncomment small_main = small_main"
  "array_rows small_main ''commands'' = Inr command_rows"
  "foldE register_command [] command_rows = Inr small_commands"
  "active_commands small_commands = [(''a'', ''flatpak_builtin_a'')]" "deprecated_commands small_commands = []"
  "add_command small_tree 5 small_commands (''a'', ''flatpak_builtin_a'') (small_state 1 0 False) = (Inr (), small_state 2 2 False)"
  "options small_tree 5 ''global'' ''doc/flatpak.xml'' (small_state 2 2 False) = (Inr [''--v''], small_state 3 3 False)"
  "array_rows small_main ''global_entries'' = Inr option_rows"
  "foldP (register_option ''global_entries'') [] option_rows (small_state 3 3 False) = (Inr [''--v''], small_state 3 3 True)"
  "array_rows small_main ''empty_entries'' = Inr []"
  by code_simp+

lemma small_cli: "cli_surfaces small_tree 5 new_generator = (Inr (), small_state 3 3 True)"
  by (simp add: cli_surfaces_def Let_def register_table_def small_cli_steps prog_defs guardE_def del: One_nat_def)

definition small_declaration :: found where
  "small_declaration = \<lparr>match_start = 0, match_stop = 31, match_text = small_header, match_groups = []\<rparr>"

definition small_scan :: "string list \<Rightarrow> header_scan" where
  "small_scan fs = \<lparr>header_types = [], header_functions = fs, header_macros = 0\<rparr>"

lemma small_library_steps:
  "read_source small_tree ''common/meson.build'' (small_state 3 3 True) = (Inr small_meson, small_state 4 3 True)"
  "meson_inputs small_meson = Inr ([''a.h''], [''a.c''])"
  "contains ''private'' ''a.h'' = False"
  "read_source small_tree ''common/a.h'' (small_state 4 3 True) = (Inr small_header, small_state 5 3 True)"
  "header_source small_header = small_header" "removed decls_pattern small_header = small_header"
  "re_finditer declaration_pattern small_header = [small_declaration]"
  "length (re_finditer marker_pattern small_header) = 1"
  "groups_found typedef_pattern small_header = []" "groups_found enum_pattern small_header = []"
  "groups_found candidate_pattern (removed annotation_pattern small_header) = [''flatpak_a'']"
  "re_finditer (Seq Boundary declare_pattern) small_header = []"
  "add_declaration ''common/a.h'' small_header (small_scan []) small_declaration (small_state 5 3 True) =
     (Inr (small_scan [''flatpak_a'']), small_state 5 4 True)"
  "signals small_tree [] ''a.c'' (small_state 5 4 True) = (Inr (), small_state 6 4 True)"
  by code_simp+

lemma small_library: "library_surfaces small_tree (small_state 3 3 True) = (Inr (), small_state 6 4 True)"
proof -
  have "scan_header small_tree ([], []) ''a.h'' (small_state 4 3 True) = (Inr ([], []), small_state 5 4 True)"
    using small_library_steps(13) unfolding small_scan_def
    by (simp add: scan_header_def Let_def prog_defs guardE_def small_library_steps del: contains.simps)
  then show ?thesis
    by (simp add: library_surfaces_def prog_defs small_library_steps exclude_enums_def)
qed

lemma small_generate:
  "generate small_tree 5 new_generator = (Inr (catalogue_value ''c0'' (small_state 6 4 True)), small_state 6 4 True)"
proof -
  have "head_commit small_tree = Inr ''c0''" "strip ''c0'' = ''c0''" by code_simp+
  then show ?thesis
    by (simp add: generate_def prog_defs small_cli small_library or_raise_def readP_def del: One_nat_def)
qed

section \<open>The contract\<close>

text \<open>C36: Whatever the repository holds, a catalogue the generator makes is one that
  \<open>parse_catalogue\<close>, the boundary of every tool that reads catalogues, accepts and returns as it is:
  its identifiers are unique and its names nonempty, every option belongs to a catalogued command or
  to the global ones, and every value has its declared type.\<close>

theorem catalogue_accepted:
  assumes "generate T fuel new_generator = (Inr c, g)"
  shows "parse_catalogue c path = Inr c"
  using catalogue_parses [OF generate_good(1) [OF assms]] generate_good(2) [OF assms] by auto

theorem catalogue_accepted_witness:
  "parse_catalogue (catalogue_value ''c0'' (small_state 6 4 True)) ''catalogue'' = Inr (catalogue_value ''c0'' (small_state 6 4 True))"
  by (rule catalogue_accepted [OF small_generate])

text \<open>C37: A catalogue is current with respect to the repository it was made from, whatever commit it
  records: \<open>--check\<close> against the unchanged repository succeeds.\<close>

theorem catalogue_current:
  assumes "generate T fuel new_generator = (Inr c, g)"
  shows "catalogue_main T fuel True out (Inr (catalogue_value commit g)) store = Inr 0"
  using drift_own [OF generate_good(1) [OF assms]] generate_good(2) [OF assms] assms
  by (auto simp: catalogue_main_def)

theorem catalogue_current_witness:
  "catalogue_main small_tree 5 True ''out'' (Inr (catalogue_value ''other'' (small_state 6 4 True))) (\<lambda>_. Inr ()) = Inr 0"
  by (rule catalogue_current [OF small_generate])

end
