(* ===== verification/Spec2Isabelle.thy ===== *)
theory Spec2Isabelle
  imports Coverage_Report Target_Config Console_Output Lifecycle_Scenario Target_Setup Run_Outcome
    Management_Scenarios Query_Scenarios Catalogue_Contract
begin

text \<open>Work in progress header.\<close>

end
